(* ===== verification/Prelude.thy ===== *)
theory Prelude
  imports Complex_Main "HOL-Library.List_Lexorder" "HOL-Library.Char_ord"
begin

text \<open>
  Shared vocabulary of the development: the exceptions the modelled Python code raises, the
  result type \<open>exn + 'a\<close> with its sequencing operator, the \<open>if cond: raise\<close> chains that
  every contract validator is made of, time and date arithmetic, and the generic lemmas on
  lists that the components share.
\<close>

section \<open>Exceptions and results\<close>

text \<open>
  One constructor per exception class the modelled code raises. The message is kept, since it is
  how the source distinguishes its branches. Pydantic reports a validator's \<open>ValueError\<close> as a
  \<open>ValidationError\<close>, itself a \<open>ValueError\<close>; both are \<open>ValueError\<close> here.
\<close>

datatype exn =
    ValueError string
  | TypeError string
  | KeyError string
  | AssertionError
  | DecimalSignal string
  | SqlIntegrityError string
  | DuplicateIntentConflictError string
  | DuplicateExecutionConflictError string
  | PaperBrokerReconciliationError string
  | PaperLedgerQuarantinedError string
  | NoExecutableSellQuantityError string
  | StrictJsonError string
  | OverflowError string
  | TradeCalendarGapError string "int list"
  | TradeCalendarConflictError string int int
  | SourceQuotaConflictError string
  | SourceQuotaExhaustedError string

definition rbind :: "exn + 'a \<Rightarrow> ('a \<Rightarrow> exn + 'b) \<Rightarrow> exn + 'b" where
  "rbind m f = (case m of Inl e \<Rightarrow> Inl e | Inr x \<Rightarrow> f x)"

lemma rbind_simps [simp]: "rbind (Inl e) f = Inl e" "rbind (Inr x) f = f x"
  by (simp_all add: rbind_def)

lemma rbind_eq_Inr [simp]: "rbind m f = Inr y \<longleftrightarrow> (\<exists>x. m = Inr x \<and> f x = Inr y)"
  by (cases m) auto

lemma rbind_InrE:
  assumes "rbind m f = Inr y" obtains x where "m = Inr x" "f x = Inr y"
  using assms by auto

lemma rbind_eq_Inl: "rbind m f = Inl e \<longleftrightarrow> m = Inl e \<or> (\<exists>x. m = Inr x \<and> f x = Inl e)"
  by (cases m) auto

lemma rbind_cong [fundef_cong]:
  "m = m' \<Longrightarrow> (\<And>x. m' = Inr x \<Longrightarrow> f x = f' x) \<Longrightarrow> rbind m f = rbind m' f'"
  by (cases m') auto

text \<open>
  A chain of \<open>if condition: raise error\<close> statements, in source order, followed by the value the
  code goes on with.
\<close>

fun raise_first :: "(bool \<times> exn) list \<Rightarrow> 'a \<Rightarrow> exn + 'a" where
  "raise_first [] x = Inr x"
| "raise_first ((bad, e) # cs) x = (if bad then Inl e else raise_first cs x)"

lemma raise_first_eq_Inr [simp]:
  "raise_first cs x = Inr y \<longleftrightarrow> y = x \<and> list_all (\<lambda>(bad, e). \<not> bad) cs"
  by (induction cs x rule: raise_first.induct) (auto simp: raise_first.simps)

lemma if_raise_eq_Inr [simp]: "(if bad then Inl e else m) = Inr y \<longleftrightarrow> \<not> bad \<and> m = Inr y"
  by simp

declare raise_first.simps [simp del]

lemma raise_first_eq_Inl:
  "raise_first cs x = Inl e \<Longrightarrow> (True, e) \<in> set cs"
  by (induction cs x rule: raise_first.induct) (auto simp: raise_first.simps split: if_splits)

fun mapM :: "('a \<Rightarrow> exn + 'b) \<Rightarrow> 'a list \<Rightarrow> exn + 'b list" where
  "mapM f [] = Inr []"
| "mapM f (x # xs) = rbind (f x) (\<lambda>y. rbind (mapM f xs) (\<lambda>ys. Inr (y # ys)))"

lemma mapM_length: "mapM f xs = Inr ys \<Longrightarrow> length ys = length xs"
  by (induction xs arbitrary: ys) auto

lemma mapM_cong [fundef_cong]:
  "xs = ys \<Longrightarrow> (\<And>x. x \<in> set ys \<Longrightarrow> f x = g x) \<Longrightarrow> mapM f xs = mapM g ys"
proof (induction ys arbitrary: xs)
  case (Cons y ys)
  then have "f y = g y" "mapM f ys = mapM g ys" by simp_all
  with Cons.prems(1) show ?case by simp
qed simp

lemma mapM_Inr_list_all2: "mapM f xs = Inr ys \<longleftrightarrow> list_all2 (\<lambda>x y. f x = Inr y) xs ys"
  by (induction xs arbitrary: ys) (auto simp: list_all2_Cons1)

lemma mapM_fixpoint: "(\<And>x. x \<in> set xs \<Longrightarrow> f x = Inr x) \<Longrightarrow> mapM f xs = Inr xs"
  by (induction xs) auto

section \<open>Proof collections\<close>

named_theorems dec_simps \<open>values of decimal operations\<close>
named_theorems ledger_simps \<open>effects of ledger row operations\<close>

section \<open>Time\<close>

text \<open>
  An aware \<open>datetime\<close> is the number of microseconds since the Unix epoch in UTC, a \<open>date\<close>
  the number of days since that epoch. The ISO texts the ledger stores
  (\<open>isoformat(timespec="microseconds")\<close> with a fixed width) sort as these numbers do.
  \<open>Asia/Shanghai\<close> is UTC+8 without daylight saving for every instant after 15 September 1991.
\<close>

type_synonym utc = int
type_synonym day = int

definition microseconds_per_day :: int where
  "microseconds_per_day = 86400000000"

definition shanghai_date :: "utc \<Rightarrow> day" where
  "shanghai_date t = (t + 28800000000) div microseconds_per_day"

lemma shanghai_date_mono: "s \<le> t \<Longrightarrow> shanghai_date s \<le> shanghai_date t"
  by (simp add: shanghai_date_def microseconds_per_day_def zdiv_mono1)

section \<open>Lowercase hexadecimal digests\<close>

definition is_hex_lower :: "string \<Rightarrow> bool" where
  "is_hex_lower s = list_all (\<lambda>c. c \<in> set ''0123456789abcdef'') s"

definition is_sha256 :: "string \<Rightarrow> bool" where
  "is_sha256 s = (length s = 64 \<and> is_hex_lower s)"

definition is_commit_sha :: "string \<Rightarrow> bool" where
  "is_commit_sha s = (length s = 40 \<and> is_hex_lower s)"

section \<open>Lists\<close>

definition sum_by :: "('a \<Rightarrow> int) \<Rightarrow> 'a list \<Rightarrow> int" where
  "sum_by f xs = sum_list (map f xs)"

lemma sum_by_simps [simp]:
  "sum_by f [] = 0" "sum_by f (x # xs) = f x + sum_by f xs"
  "sum_by f (xs @ ys) = sum_by f xs + sum_by f ys"
  by (simp_all add: sum_by_def)

lemma sum_by_nonneg: "(\<And>x. x \<in> set xs \<Longrightarrow> 0 \<le> f x) \<Longrightarrow> 0 \<le> sum_by f xs"
  by (induction xs) auto

lemma sum_by_cong: "(\<And>x. x \<in> set xs \<Longrightarrow> f x = g x) \<Longrightarrow> sum_by f xs = sum_by g xs"
  by (induction xs) auto

text \<open>\<open>fetchone()\<close> on a \<open>SELECT ... WHERE p\<close>: the first matching row, if any.\<close>

definition select_one :: "('a \<Rightarrow> bool) \<Rightarrow> 'a list \<Rightarrow> 'a option" where
  "select_one p xs = find p xs"

lemma select_one_SomeD: "select_one p xs = Some x \<Longrightarrow> p x \<and> x \<in> set xs"
  by (auto simp: select_one_def find_Some_iff)

lemma select_one_None [simp]: "select_one p xs = None \<longleftrightarrow> (\<forall>x \<in> set xs. \<not> p x)"
  by (auto simp: select_one_def find_None_iff)

lemma select_one_append:
  "select_one p (xs @ ys) = (case select_one p xs of Some x \<Rightarrow> Some x | None \<Rightarrow> select_one p ys)"
  by (induction xs) (auto simp: select_one_def)

lemma select_one_simps [simp]:
  "select_one p [] = None" "select_one p (x # xs) = (if p x then Some x else select_one p xs)"
  by (simp_all add: select_one_def)

lemma select_one_map: "(\<And>x. p (f x) = p x) \<Longrightarrow> select_one p (map f xs) = map_option f (select_one p xs)"
  by (induction xs) auto

text \<open>\<open>UPDATE ... WHERE p\<close>: every matching row is rewritten.\<close>

definition update_where :: "('a \<Rightarrow> bool) \<Rightarrow> ('a \<Rightarrow> 'a) \<Rightarrow> 'a list \<Rightarrow> 'a list" where
  "update_where p f xs = map (\<lambda>x. if p x then f x else x) xs"

lemma update_where_simps [simp]:
  "update_where p f [] = []"
  "update_where p f (x # xs) = (if p x then f x else x) # update_where p f xs"
  "length (update_where p f xs) = length xs"
  by (simp_all add: update_where_def)

lemma set_update_where: "set (update_where p f xs) = (\<lambda>x. if p x then f x else x) ` set xs"
  by (simp add: update_where_def)

lemma update_where_append:
  "update_where p f (xs @ ys) = update_where p f xs @ update_where p f ys"
  by (simp add: update_where_def)

lemma map_update_where:
  "(\<And>x. p x \<Longrightarrow> g (f x) = g x) \<Longrightarrow> map g (update_where p f xs) = map g xs"
  by (induction xs) auto

end
