(* ===== verification/Py_Decimal.thy ===== *)
theory Py_Decimal
  imports Prelude
begin

text \<open>
  The part of Python's \<open>decimal\<close> module the ledger and the cost engine use, at the default
  context (28 significant digits, \<open>ROUND_HALF_EVEN\<close>, \<open>InvalidOperation\<close> and
  \<open>DivisionByZero\<close> trapped). A finite \<open>Decimal\<close> is its triple (sign, coefficient,
  exponent): two triples can have the same value (\<open>1.0\<close> and \<open>1.00\<close>), so Python's
  \<open>==\<close> is \<open>deq\<close> and not equality of triples. The exponent limits of the context
  (plus or minus 999999) are out of reach of the amounts modelled and are left out.
\<close>

section \<open>Representation\<close>

datatype decimal = Dec (dsign: bool) (dcoeff: nat) (dexp: int)

definition prec :: nat where
  "prec = 28"

text \<open>\<open>len(str(n))\<close>: zero has one digit.\<close>

fun ndigits :: "nat \<Rightarrow> nat" where
  "ndigits n = (if n < 10 then 1 else Suc (ndigits (n div 10)))"

declare ndigits.simps [simp del]

definition signed :: "bool \<Rightarrow> nat \<Rightarrow> int" where
  "signed s c = (if s then - int c else int c)"

definition dval :: "decimal \<Rightarrow> rat" where
  "dval d = of_int (signed (dsign d) (dcoeff d)) * 10 powi dexp d"

text \<open>The coefficient of \<open>d\<close> written at the (not larger) exponent \<open>e\<close>.\<close>

definition scaled_at :: "int \<Rightarrow> decimal \<Rightarrow> int" where
  "scaled_at e d = signed (dsign d) (dcoeff d) * 10 ^ nat (dexp d - e)"

definition dzero :: decimal where
  "dzero = Dec False 0 0"

definition dof_int :: "int \<Rightarrow> decimal" where
  "dof_int n = Dec (n < 0) (nat \<bar>n\<bar>) 0"

definition is_zero :: "decimal \<Rightarrow> bool" where
  "is_zero d = (dcoeff d = 0)"

section \<open>Comparison\<close>

definition dle :: "decimal \<Rightarrow> decimal \<Rightarrow> bool" where
  "dle a b = (let e = min (dexp a) (dexp b) in scaled_at e a \<le> scaled_at e b)"

definition dlt :: "decimal \<Rightarrow> decimal \<Rightarrow> bool" where
  "dlt a b = (let e = min (dexp a) (dexp b) in scaled_at e a < scaled_at e b)"

definition deq :: "decimal \<Rightarrow> decimal \<Rightarrow> bool" where
  "deq a b = (let e = min (dexp a) (dexp b) in scaled_at e a = scaled_at e b)"

text \<open>The builtin \<open>max(a, b)\<close> keeps its first argument unless the second is greater.\<close>

definition dmax :: "decimal \<Rightarrow> decimal \<Rightarrow> decimal" where
  "dmax a b = (if dlt a b then b else a)"

section \<open>Rounding\<close>

definition round_half_even :: "nat \<Rightarrow> nat \<Rightarrow> nat" where
  "round_half_even c k =
     (let q = c div 10 ^ k; r = c mod 10 ^ k
      in if 10 ^ k < 2 * r \<or> (2 * r = 10 ^ k \<and> odd q) then Suc q else q)"

definition round_half_up :: "nat \<Rightarrow> nat \<Rightarrow> nat" where
  "round_half_up c k =
     (let q = c div 10 ^ k; r = c mod 10 ^ k in if 10 ^ k \<le> 2 * r then Suc q else q)"

text \<open>\<open>Decimal._fix\<close>: round a result to the context's precision.\<close>

definition dfix :: "decimal \<Rightarrow> decimal" where
  "dfix d =
     (if ndigits (dcoeff d) \<le> prec then d
      else let k = ndigits (dcoeff d) - prec; c = round_half_even (dcoeff d) k
           in if ndigits c \<le> prec then Dec (dsign d) c (dexp d + int k)
              else Dec (dsign d) (c div 10) (dexp d + int k + 1))"

section \<open>Arithmetic\<close>

definition dneg :: "decimal \<Rightarrow> decimal" where
  "dneg d = Dec (\<not> dsign d) (dcoeff d) (dexp d)"

text \<open>The sum before rounding: both coefficients at the smaller exponent.\<close>

definition dadd_exact :: "decimal \<Rightarrow> decimal \<Rightarrow> decimal" where
  "dadd_exact a b =
     (let e = min (dexp a) (dexp b); r = scaled_at e a + scaled_at e b
      in Dec (if r = 0 then is_zero a \<and> is_zero b \<and> dsign a \<and> dsign b else r < 0) (nat \<bar>r\<bar>) e)"

definition dadd :: "decimal \<Rightarrow> decimal \<Rightarrow> decimal" where
  "dadd a b = dfix (dadd_exact a b)"

definition dsub :: "decimal \<Rightarrow> decimal \<Rightarrow> decimal" where
  "dsub a b = dadd a (dneg b)"

definition dmul_exact :: "decimal \<Rightarrow> decimal \<Rightarrow> decimal" where
  "dmul_exact a b = Dec (dsign a \<noteq> dsign b) (dcoeff a * dcoeff b) (dexp a + dexp b)"

definition dmul :: "decimal \<Rightarrow> decimal \<Rightarrow> decimal" where
  "dmul a b = dfix (dmul_exact a b)"

definition dabs :: "decimal \<Rightarrow> decimal" where
  "dabs d = dfix (Dec False (dcoeff d) (dexp d))"

text \<open>\<open>sum(items, Decimal("0"))\<close>: a left fold.\<close>

definition dsum :: "decimal list \<Rightarrow> decimal" where
  "dsum xs = foldl dadd dzero xs"

text \<open>
  Division. An exact quotient is brought as close to the ideal exponent as its trailing zeros
  allow; an inexact one is made sticky before it is rounded. \<open>strip_zeros n c e\<close> drops at most
  \<open>n\<close> trailing zeros; \<open>n\<close> is the distance to the ideal exponent, so the fuel is the loop's
  own bound.
\<close>

fun strip_zeros :: "nat \<Rightarrow> nat \<Rightarrow> int \<Rightarrow> nat \<times> int" where
  "strip_zeros 0 c e = (c, e)"
| "strip_zeros (Suc n) c e = (if c mod 10 = 0 then strip_zeros n (c div 10) (e + 1) else (c, e))"

definition ddiv :: "decimal \<Rightarrow> decimal \<Rightarrow> exn + decimal" where
  "ddiv a b =
     (if dcoeff b = 0 then Inl (DecimalSignal ''division by zero'')
      else let s = (dsign a \<noteq> dsign b); ideal = dexp a - dexp b in
        if dcoeff a = 0 then Inr (dfix (Dec s 0 ideal))
        else
          let shift = int (ndigits (dcoeff b)) - int (ndigits (dcoeff a)) + int prec + 1;
              e = ideal - shift;
              num = (if 0 \<le> shift then dcoeff a * 10 ^ nat shift else dcoeff a);
              den = (if 0 \<le> shift then dcoeff b else dcoeff b * 10 ^ nat (- shift));
              q = num div den
          in if num mod den \<noteq> 0
             then Inr (dfix (Dec s (if q mod 5 = 0 then q + 1 else q) e))
             else case strip_zeros (nat (ideal - e)) q e of (c, e') \<Rightarrow> Inr (dfix (Dec s c e')))"

text \<open>
  \<open>value.quantize(quantum, rounding=ROUND_HALF_UP)\<close>: only the exponent of the quantum counts.
  The operation signals when the result does not fit the precision.
\<close>

definition dquantize :: "decimal \<Rightarrow> decimal \<Rightarrow> exn + decimal" where
  "dquantize d quantum =
     (let e = dexp quantum in
      if dcoeff d = 0 then Inr (Dec (dsign d) 0 e)
      else if int prec < int (ndigits (dcoeff d)) + dexp d - e
      then Inl (DecimalSignal ''quantize result has too many digits for current context'')
      else let c = (if e \<le> dexp d then dcoeff d * 10 ^ nat (dexp d - e)
                    else round_half_up (dcoeff d) (nat (e - dexp d)))
           in if prec < ndigits c
              then Inl (DecimalSignal ''quantize result has too many digits for current context'')
              else Inr (Dec (dsign d) c e))"

section \<open>Integers and text\<close>

text \<open>\<open>to_integral_value(ROUND_FLOOR)\<close> followed by \<open>int\<close>, and \<open>int\<close> alone (truncation).\<close>

definition dfloor :: "decimal \<Rightarrow> int" where
  "dfloor d = (if 0 \<le> dexp d then signed (dsign d) (dcoeff d) * 10 ^ nat (dexp d)
               else signed (dsign d) (dcoeff d) div 10 ^ nat (- dexp d))"

definition dtrunc :: "decimal \<Rightarrow> int" where
  "dtrunc d = (if 0 \<le> dexp d then signed (dsign d) (dcoeff d) * 10 ^ nat (dexp d)
               else signed (dsign d) (dcoeff d div 10 ^ nat (- dexp d)))"

text \<open>
  \<open>Decimal(format(value, "f"))\<close>: the fixed-point text has no positive exponent; everything else
  survives the trip. A text column of the ledger is modelled by the triple its text denotes.
\<close>

definition fixed_point :: "decimal \<Rightarrow> decimal" where
  "fixed_point d = (if 0 < dexp d then Dec (dsign d) (dcoeff d * 10 ^ nat (dexp d)) 0 else d)"

text \<open>\<open>Decimal.normalize\<close>: round to the context, then drop every trailing zero.\<close>

definition dnormalize :: "decimal \<Rightarrow> decimal" where
  "dnormalize d =
     (let f = dfix d in
      if dcoeff f = 0 then Dec (dsign f) 0 0
      else case strip_zeros (ndigits (dcoeff f)) (dcoeff f) (dexp f) of (c, e) \<Rightarrow> Dec (dsign f) c e)"

section \<open>Digits\<close>

lemma ndigits_pos [simp]: "0 < ndigits n"
  by (subst ndigits.simps) simp

lemma ndigits_upper: "n < 10 ^ ndigits n"
proof (induction n rule: ndigits.induct)
  case (1 n)
  show ?case
  proof (cases "n < 10")
    case True
    then show ?thesis by (simp add: ndigits.simps [of n])
  next
    case False
    with 1 have "n div 10 < 10 ^ ndigits (n div 10)" by simp
    then have "n < 10 * 10 ^ ndigits (n div 10)" by simp
    with False show ?thesis by (simp add: ndigits.simps [of n])
  qed
qed

lemma ndigits_lower: "0 < n \<Longrightarrow> 10 ^ (ndigits n - 1) \<le> n"
proof (induction n rule: ndigits.induct)
  case (1 n)
  show ?case
  proof (cases "n < 10")
    case True
    with "1.prems" show ?thesis by (simp add: ndigits.simps [of n])
  next
    case False
    then have "10 ^ (ndigits (n div 10) - 1) \<le> n div 10" using 1 by simp
    then have "10 * 10 ^ (ndigits (n div 10) - 1) \<le> n" by linarith
    moreover have "ndigits n - 1 = Suc (ndigits (n div 10) - 1)"
      using False by (simp add: ndigits.simps [of n])
    ultimately show ?thesis by (simp only: power_Suc)
  qed
qed

lemma ndigits_le_iff: "0 < k \<Longrightarrow> ndigits n \<le> k \<longleftrightarrow> n < 10 ^ k"
proof
  assume "ndigits n \<le> k"
  then have "(10::nat) ^ ndigits n \<le> 10 ^ k" by (simp add: power_increasing)
  with ndigits_upper [of n] show "n < 10 ^ k" by (rule less_le_trans)
next
  assume k: "0 < k" and less: "n < 10 ^ k"
  show "ndigits n \<le> k"
  proof (cases "n = 0")
    case True
    with k show ?thesis by (simp add: ndigits.simps)
  next
    case False
    then have "10 ^ (ndigits n - 1) < (10::nat) ^ k" using ndigits_lower less le_less_trans by blast
    then have "ndigits n - 1 < k" by (simp add: power_less_imp_less_exp)
    then show ?thesis by simp
  qed
qed

lemma ndigits_gt_iff: "0 < k \<Longrightarrow> k < ndigits n \<longleftrightarrow> 10 ^ k \<le> n"
  using ndigits_le_iff [of k n] by linarith

section \<open>Values and comparison\<close>

lemma signed_int [simp]: "signed False c = int c" "signed True c = - int c"
  by (simp_all add: signed_def)

lemma signed_abs [simp]: "signed (r < 0) (nat \<bar>r\<bar>) = r"
  by (simp add: signed_def)

lemma signed_zero [simp]: "signed s 0 = 0"
  by (simp add: signed_def)

lemma powi_nat: "0 \<le> x \<Longrightarrow> (10::rat) powi x = 10 ^ nat x"
  by (simp add: power_int_def)

lemma powi_split: "e \<le> x \<Longrightarrow> (10::rat) powi x = 10 ^ nat (x - e) * 10 powi e"
  using power_int_add [of "10::rat" "x - e" e] by (simp add: powi_nat)

lemma powi_pos [simp]: "0 < (10::rat) powi x"
  by (simp add: zero_less_power_int)

lemma powi_not_neg [simp]: "\<not> (10::rat) powi x \<le> 0" "\<not> (10::rat) powi x < 0"
  using powi_pos [of x] by linarith+

lemma dval_scaled: "e \<le> dexp d \<Longrightarrow> dval d = of_int (scaled_at e d) * 10 powi e"
  by (simp add: dval_def scaled_at_def powi_split [of e "dexp d"])

lemma dle_iff [dec_simps]: "dle a b \<longleftrightarrow> dval a \<le> dval b"
  by (simp add: dle_def Let_def dval_scaled [of "min (dexp a) (dexp b)"] mult_le_cancel_right)

lemma dlt_iff [dec_simps]: "dlt a b \<longleftrightarrow> dval a < dval b"
  by (simp add: dlt_def Let_def dval_scaled [of "min (dexp a) (dexp b)"] mult_less_cancel_right)

lemma deq_iff [dec_simps]: "deq a b \<longleftrightarrow> dval a = dval b"
  by (simp add: deq_def Let_def dval_scaled [of "min (dexp a) (dexp b)"])

lemma deq_refl [simp]: "deq d d"
  by (simp add: deq_iff)

lemma dval_of_int [simp]: "dval (dof_int n) = of_int n"
  by (simp add: dval_def dof_int_def)

lemma dval_zero [simp]: "dval dzero = 0"
  by (simp add: dval_def dzero_def)

lemma dval_eq_0_iff [simp]: "dval d = 0 \<longleftrightarrow> dcoeff d = 0"
  by (simp add: dval_def signed_def)

lemma dval_neg [dec_simps]: "dval (dneg d) = - dval d"
  by (simp add: dval_def dneg_def signed_def)

lemma dval_nonneg_iff: "0 \<le> dval d \<longleftrightarrow> \<not> dsign d \<or> dcoeff d = 0"
  by (auto simp: dval_def signed_def zero_le_mult_iff not_le)

section \<open>Rounding\<close>

lemma round_half_even_cases:
  obtains (down) "round_half_even c k = c div 10 ^ k" "2 * (c mod 10 ^ k) \<le> 10 ^ k"
  | (up) "round_half_even c k = Suc (c div 10 ^ k)" "10 ^ k \<le> 2 * (c mod 10 ^ k)"
proof (cases "10 ^ k < 2 * (c mod 10 ^ k) \<or> (2 * (c mod 10 ^ k) = 10 ^ k \<and> odd (c div 10 ^ k))")
  case True
  then show thesis by (intro up) (auto simp: round_half_even_def Let_def)
next
  case False
  then show thesis by (intro down) (auto simp: round_half_even_def Let_def)
qed

lemma round_half_up_cases:
  obtains (down) "round_half_up c k = c div 10 ^ k" "2 * (c mod 10 ^ k) < 10 ^ k"
  | (up) "round_half_up c k = Suc (c div 10 ^ k)" "10 ^ k \<le> 2 * (c mod 10 ^ k)"
proof (cases "10 ^ k \<le> 2 * (c mod 10 ^ k)")
  case True
  then show thesis by (intro up) (auto simp: round_half_up_def Let_def)
next
  case False
  then show thesis by (intro down) (auto simp: round_half_up_def Let_def)
qed

lemma div_mod_int: "int c = int (c div 10 ^ k) * 10 ^ k + int (c mod 10 ^ k)"
proof -
  have "c = c div 10 ^ k * 10 ^ k + c mod 10 ^ k" by (rule div_mult_mod_eq [symmetric])
  then have "int c = int (c div 10 ^ k * 10 ^ k + c mod 10 ^ k)" by (rule arg_cong)
  then show ?thesis by (simp only: of_nat_add of_nat_mult of_nat_power of_nat_numeral)
qed

lemma int_pow10_iff:
  "2 * int r \<le> 10 ^ k \<longleftrightarrow> 2 * r \<le> 10 ^ k" "2 * int r < 10 ^ k \<longleftrightarrow> 2 * r < 10 ^ k"
  "10 ^ k \<le> 2 * int r \<longleftrightarrow> 10 ^ k \<le> 2 * r" "int r < 10 ^ k \<longleftrightarrow> r < 10 ^ k"
  using of_nat_le_iff [of "2 * r" "10 ^ k", where 'a = int] of_nat_less_iff [of "2 * r" "10 ^ k", where 'a = int]
    of_nat_le_iff [of "10 ^ k" "2 * r", where 'a = int] of_nat_less_iff [of r "10 ^ k", where 'a = int]
  by (simp_all only: of_nat_mult of_nat_power of_nat_numeral)

text \<open>The rounded coefficient and the exact one, with the remainder kept abstract.\<close>

lemma round_half_even_error: "2 * \<bar>int (round_half_even c k) * 10 ^ k - int c\<bar> \<le> 10 ^ k"
proof -
  define r where "r = c mod 10 ^ k"
  have c: "int c = int (c div 10 ^ k) * 10 ^ k + int r" unfolding r_def by (rule div_mod_int)
  have r: "int r < 10 ^ k" unfolding int_pow10_iff by (simp add: r_def)
  show ?thesis
  proof (cases rule: round_half_even_cases [of c k])
    case down
    then have "2 * int r \<le> 10 ^ k" unfolding int_pow10_iff by (simp add: r_def)
    with c show ?thesis unfolding down(1) by simp
  next
    case up
    then have "10 ^ k \<le> 2 * int r" unfolding int_pow10_iff by (simp add: r_def)
    moreover have "int (round_half_even c k) * 10 ^ k - int c = 10 ^ k - int r"
      unfolding up(1) c by (simp add: algebra_simps)
    ultimately show ?thesis using r by simp
  qed
qed

lemma round_up_bounds:
  fixes m r x :: int
  assumes "m \<le> 2 * r" and "x = m - r" and "r < m"
  shows "- m < 2 * x \<and> 2 * x \<le> m"
  using assms by auto

lemma half_open_abs: "- m < 2 * x \<and> 2 * x \<le> m \<Longrightarrow> 2 * \<bar>x\<bar> \<le> (m::int)"
  by auto

lemma round_half_up_error:
  "- (10 ^ k) < 2 * (int (round_half_up c k) * 10 ^ k - int c) \<and>
   2 * (int (round_half_up c k) * 10 ^ k - int c) \<le> 10 ^ k"
proof -
  define r where "r = c mod 10 ^ k"
  have c: "int c = int (c div 10 ^ k) * 10 ^ k + int r" unfolding r_def by (rule div_mod_int)
  have r: "int r < 10 ^ k" unfolding int_pow10_iff by (simp add: r_def)
  show ?thesis
  proof (cases rule: round_half_up_cases [of c k])
    case down
    then have "2 * int r < 10 ^ k" unfolding int_pow10_iff by (simp add: r_def)
    with c show ?thesis unfolding down(1) by simp
  next
    case up
    then have "10 ^ k \<le> 2 * int r" unfolding int_pow10_iff by (simp add: r_def)
    moreover have "int (round_half_up c k) * 10 ^ k - int c = 10 ^ k - int r"
      unfolding up(1) c by (simp add: algebra_simps)
    ultimately show ?thesis using r by (rule round_up_bounds)
  qed
qed

lemma round_half_even_le_Suc: "round_half_even c k \<le> Suc (c div 10 ^ k)"
  by (cases rule: round_half_even_cases [of c k]) auto

lemma round_drop_bound:
  assumes "prec < ndigits c"
  shows "round_half_even c (ndigits c - prec) \<le> 10 ^ prec"
proof -
  have "ndigits c - prec + prec = ndigits c" using assms by simp
  then have "c < 10 ^ (ndigits c - prec) * 10 ^ prec"
    using ndigits_upper [of c] by (metis power_add)
  then have "c div 10 ^ (ndigits c - prec) < 10 ^ prec"
    by (simp add: less_mult_imp_div_less mult.commute)
  then show ?thesis using round_half_even_le_Suc [of c "ndigits c - prec"] by linarith
qed

lemma dfix_exact [simp]: "ndigits (dcoeff d) \<le> prec \<Longrightarrow> dfix d = d"
  by (simp add: dfix_def)

lemma dfix_carry:
  assumes "prec < ndigits (dcoeff d)" and "prec < ndigits (round_half_even (dcoeff d) (ndigits (dcoeff d) - prec))"
  shows "round_half_even (dcoeff d) (ndigits (dcoeff d) - prec) = 10 ^ prec"
  using round_drop_bound [OF assms(1)] assms(2) ndigits_gt_iff [of prec] by (simp add: prec_def)

lemma ndigits_power: "ndigits (10 ^ k) = Suc k"
proof -
  have "ndigits (10 ^ k) \<le> Suc k" using ndigits_le_iff [of "Suc k" "10 ^ k"] by simp
  moreover have "k < ndigits (10 ^ k)"
    using ndigits_gt_iff [of k "10 ^ k"] by (cases "k = 0") simp_all
  ultimately show ?thesis by simp
qed

text \<open>A context result never has more digits than the precision.\<close>

lemma ndigits_dfix: "ndigits (dcoeff (dfix d)) \<le> prec"
proof (cases "ndigits (dcoeff d) \<le> prec")
  case True
  then show ?thesis by simp
next
  case False
  then have *: "prec < ndigits (dcoeff d)" by simp
  let ?c = "round_half_even (dcoeff d) (ndigits (dcoeff d) - prec)"
  show ?thesis
  proof (cases "ndigits ?c \<le> prec")
    case True
    with False show ?thesis by (simp add: dfix_def Let_def)
  next
    case carry: False
    then have "?c = 10 ^ prec" using dfix_carry [OF *] by simp
    then have "?c div 10 = 10 ^ (prec - 1)" by (simp add: prec_def)
    with False carry show ?thesis by (simp add: dfix_def Let_def ndigits_power) (simp add: prec_def)
  qed
qed

text \<open>The unit in the last place of the rounded result.\<close>

definition ulp_exp :: "decimal \<Rightarrow> int" where
  "ulp_exp d = dexp d + int (ndigits (dcoeff d) - prec)"

lemma dval_dfix_form:
  assumes "prec < ndigits (dcoeff d)"
  shows "dval (dfix d) =
    of_int (signed (dsign d) (round_half_even (dcoeff d) (ndigits (dcoeff d) - prec))) * 10 powi ulp_exp d"
proof -
  let ?k = "ndigits (dcoeff d) - prec"
  let ?c = "round_half_even (dcoeff d) ?k"
  show ?thesis
  proof (cases "ndigits ?c \<le> prec")
    case True
    with assms show ?thesis by (simp add: dfix_def Let_def dval_def ulp_exp_def)
  next
    case False
    then have c: "?c = 10 ^ prec" using dfix_carry [OF assms] by simp
    have "(10::rat) powi (dexp d + int ?k + 1) = 10 * 10 powi (dexp d + int ?k)"
      by (simp add: power_int_add)
    with assms False c show ?thesis
      by (simp add: dfix_def Let_def dval_def ulp_exp_def signed_def) (simp add: prec_def)
  qed
qed

lemma dfix_error: "2 * \<bar>dval (dfix d) - dval d\<bar> \<le> 10 powi ulp_exp d"
proof (cases "ndigits (dcoeff d) \<le> prec")
  case True
  then show ?thesis by (simp add: less_imp_le)
next
  case False
  then have big: "prec < ndigits (dcoeff d)" by simp
  let ?k = "ndigits (dcoeff d) - prec"
  let ?c = "round_half_even (dcoeff d) ?k"
  have u: "(10::rat) powi ulp_exp d = 10 ^ ?k * 10 powi dexp d"
    by (simp add: ulp_exp_def power_int_add mult.commute)
  have "dval (dfix d) - dval d = of_int (signed (dsign d) ?c * 10 ^ ?k - signed (dsign d) (dcoeff d)) * 10 powi dexp d"
    by (simp add: dval_dfix_form [OF big] u dval_def [of d] algebra_simps)
  also have "signed (dsign d) ?c * 10 ^ ?k - signed (dsign d) (dcoeff d) =
      (if dsign d then - 1 else 1) * (int ?c * 10 ^ ?k - int (dcoeff d))"
    by (simp add: signed_def)
  finally have *: "2 * \<bar>dval (dfix d) - dval d\<bar> = of_int (2 * \<bar>int ?c * 10 ^ ?k - int (dcoeff d)\<bar>) * 10 powi dexp d"
    by (simp add: abs_mult)
  have "of_int (2 * \<bar>int ?c * 10 ^ ?k - int (dcoeff d)\<bar>) \<le> (of_int (10 ^ ?k) :: rat)"
    using round_half_even_error by (simp only: of_int_le_iff)
  then show ?thesis unfolding * u by (simp add: mult_right_mono less_imp_le)
qed


lemma dsign_dfix [simp]: "dsign (dfix d) = dsign d"
  by (simp add: dfix_def Let_def)

lemma dfix_nonneg: "0 \<le> dval d \<Longrightarrow> 0 \<le> dval (dfix d)"
proof (cases "dcoeff d = 0")
  case True
  then have "dfix d = d" by (simp add: ndigits.simps prec_def)
  then show "0 \<le> dval d \<Longrightarrow> 0 \<le> dval (dfix d)" by simp
next
  case False
  then show "0 \<le> dval d \<Longrightarrow> 0 \<le> dval (dfix d)" by (simp add: dval_nonneg_iff)
qed

section \<open>Arithmetic\<close>

lemma dval_dadd_exact: "dval (dadd_exact a b) = dval a + dval b"
proof -
  let ?e = "min (dexp a) (dexp b)"
  have "dval (dadd_exact a b) = of_int (scaled_at ?e a + scaled_at ?e b) * 10 powi ?e"
    by (simp add: dadd_exact_def Let_def dval_def [of "Dec _ _ _"])
  also have "\<dots> = dval a + dval b"
    by (simp add: dval_scaled [of ?e] distrib_right)
  finally show ?thesis .
qed

lemma dval_dmul_exact: "dval (dmul_exact a b) = dval a * dval b"
  by (simp add: dmul_exact_def dval_def signed_def power_int_add)

text \<open>No rounding happens when the exact result fits the 28 digits.\<close>

definition fits :: "decimal \<Rightarrow> bool" where
  "fits d = (ndigits (dcoeff d) \<le> prec)"

lemma dval_dadd [dec_simps]: "fits (dadd_exact a b) \<Longrightarrow> dval (dadd a b) = dval a + dval b"
  by (simp add: dadd_def fits_def dval_dadd_exact)

lemma dval_dmul [dec_simps]: "fits (dmul_exact a b) \<Longrightarrow> dval (dmul a b) = dval a * dval b"
  by (simp add: dmul_def fits_def dval_dmul_exact)

lemma dval_dsub [dec_simps]: "fits (dadd_exact a (dneg b)) \<Longrightarrow> dval (dsub a b) = dval a - dval b"
  by (simp add: dsub_def dval_dadd dval_neg)

lemma dadd_nonneg: "0 \<le> dval a \<Longrightarrow> 0 \<le> dval b \<Longrightarrow> 0 \<le> dval (dadd a b)"
  by (simp add: dadd_def dfix_nonneg dval_dadd_exact)

lemma dmul_nonneg: "0 \<le> dval a \<Longrightarrow> 0 \<le> dval b \<Longrightarrow> 0 \<le> dval (dmul a b)"
  by (simp add: dmul_def dfix_nonneg dval_dmul_exact)

lemma dsub_nonneg: "dval b \<le> dval a \<Longrightarrow> 0 \<le> dval (dsub a b)"
  by (simp add: dsub_def dadd_def dfix_nonneg dval_dadd_exact dval_neg)

lemma dabs_nonneg: "0 \<le> dval (dabs d)"
  by (simp add: dabs_def dfix_nonneg dval_nonneg_iff)

lemma dval_dmax: "dval (dmax a b) = max (dval a) (dval b)"
  by (simp add: dmax_def dlt_iff max_def)

lemma dval_fixed_point [simp]: "dval (fixed_point d) = dval d"
  by (simp add: fixed_point_def dval_def signed_def powi_nat)

lemma fixed_point_idem [simp]: "fixed_point (fixed_point d) = fixed_point d"
  by (simp add: fixed_point_def)

lemma deq_fixed_point [simp]: "deq (fixed_point d) d" "deq d (fixed_point d)"
  by (simp_all add: deq_iff)

section \<open>Quantizing\<close>

lemma dquantize_exp: "dquantize d q = Inr r \<Longrightarrow> dexp r = dexp q \<and> dsign r = dsign d"
  by (auto simp: dquantize_def Let_def split: if_splits)

lemma dquantize_fits: "dquantize d q = Inr r \<Longrightarrow> ndigits (dcoeff r) \<le> prec"
  by (auto simp: dquantize_def Let_def ndigits.simps [of 0] prec_def split: if_splits)

lemma dquantize_nonneg: "dquantize d q = Inr r \<Longrightarrow> 0 \<le> dval d \<Longrightarrow> 0 \<le> dval r"
  using dquantize_exp [of d q r] by (auto simp: dval_nonneg_iff dquantize_def split: if_splits)

lemma dval_round_half_up:
  assumes "dexp d < e"
  shows "2 * \<bar>dval (Dec (dsign d) (round_half_up (dcoeff d) (nat (e - dexp d))) e) - dval d\<bar> \<le> 10 powi e"
proof -
  let ?k = "nat (e - dexp d)"
  let ?c = "round_half_up (dcoeff d) ?k"
  have u: "(10::rat) powi e = 10 ^ ?k * 10 powi dexp d"
    using assms powi_split [of "dexp d" e] by simp
  have "dval (Dec (dsign d) ?c e) - dval d =
      of_int (signed (dsign d) ?c * 10 ^ ?k - signed (dsign d) (dcoeff d)) * 10 powi dexp d"
    by (simp add: dval_def u algebra_simps)
  also have "signed (dsign d) ?c * 10 ^ ?k - signed (dsign d) (dcoeff d) =
      (if dsign d then - 1 else 1) * (int ?c * 10 ^ ?k - int (dcoeff d))"
    by (simp add: signed_def)
  finally have *: "2 * \<bar>dval (Dec (dsign d) ?c e) - dval d\<bar> =
      of_int (2 * \<bar>int ?c * 10 ^ ?k - int (dcoeff d)\<bar>) * 10 powi dexp d"
    by (simp add: abs_mult)
  have "2 * \<bar>int ?c * 10 ^ ?k - int (dcoeff d)\<bar> \<le> 10 ^ ?k"
    by (rule half_open_abs [OF round_half_up_error])
  then have "of_int (2 * \<bar>int ?c * 10 ^ ?k - int (dcoeff d)\<bar>) \<le> (of_int (10 ^ ?k) :: rat)"
    by (simp only: of_int_le_iff)
  then show ?thesis unfolding * u by (simp add: mult_right_mono less_imp_le)
qed

lemma dquantize_error:
  assumes "dquantize d q = Inr r"
  shows "2 * \<bar>dval r - dval d\<bar> \<le> 10 powi dexp q"
proof (cases "dcoeff d = 0 \<or> dexp q \<le> dexp d")
  case True
  have "dval r = dval d"
  proof (cases "dcoeff d = 0")
    case True
    with assms have "dcoeff r = 0" by (auto simp: dquantize_def Let_def)
    with True show ?thesis by (simp add: dval_def)
  next
    case False
    with True have le: "dexp q \<le> dexp d" by simp
    with False assms have "r = Dec (dsign d) (dcoeff d * 10 ^ nat (dexp d - dexp q)) (dexp q)"
      by (auto simp: dquantize_def Let_def split: if_splits)
    then show ?thesis using powi_split [OF le] by (simp add: dval_def signed_def)
  qed
  then show ?thesis by (simp add: less_imp_le)
next
  case False
  with assms have "r = Dec (dsign d) (round_half_up (dcoeff d) (nat (dexp q - dexp d))) (dexp q)"
    by (auto simp: dquantize_def Let_def split: if_splits)
  with False dval_round_half_up [of d "dexp q"] show ?thesis by simp
qed

section \<open>Division\<close>

lemma strip_zeros_exact: "strip_zeros n (m * 10 ^ n) e = (m, e + int n)"
proof (induction n arbitrary: e)
  case (Suc n)
  have "m * 10 ^ Suc n = 10 * (m * 10 ^ n)" by simp
  then have "m * 10 ^ Suc n mod 10 = 0" "m * 10 ^ Suc n div 10 = m * 10 ^ n" by simp_all
  with Suc [of "e + 1"] show ?case by (simp del: power_Suc)
qed simp

text \<open>A quotient that is exact at the ideal exponent is returned there.\<close>

lemma ddiv_exact_quotient:
  assumes a: "dcoeff a = m * dcoeff b" and m: "0 < m" "ndigits m \<le> prec" and b: "0 < dcoeff b"
    and shift: "ndigits (dcoeff a) \<le> ndigits (dcoeff b) + prec + 1"
  shows "ddiv a b = Inr (Dec (dsign a \<noteq> dsign b) m (dexp a - dexp b))"
proof -
  define sh where "sh = int (ndigits (dcoeff b)) - int (ndigits (dcoeff a)) + int prec + 1"
  define ideal where "ideal = dexp a - dexp b"
  have s: "0 \<le> sh" using shift by (simp add: sh_def)
  have num: "dcoeff a * 10 ^ nat sh = m * 10 ^ nat sh * dcoeff b" using a by simp
  have q: "dcoeff a * 10 ^ nat sh div dcoeff b = m * 10 ^ nat sh"
    unfolding num using b by simp
  have r: "dcoeff a * 10 ^ nat sh mod dcoeff b = 0"
    unfolding num by simp
  have strip: "strip_zeros (nat sh) (m * 10 ^ nat sh) (ideal - sh) = (m, ideal)"
    using s by (simp add: strip_zeros_exact)
  have nz: "dcoeff b \<noteq> 0" "dcoeff a \<noteq> 0" using a b m by simp_all
  have "ddiv a b = (case strip_zeros (nat (ideal - (ideal - sh))) (dcoeff a * 10 ^ nat sh div dcoeff b) (ideal - sh)
      of (c, e') \<Rightarrow> Inr (dfix (Dec (dsign a \<noteq> dsign b) c e')))"
    unfolding ddiv_def Let_def sh_def [symmetric] ideal_def [symmetric]
    using s nz r by (simp only: if_True if_False simp_thms)
  also have "\<dots> = Inr (Dec (dsign a \<noteq> dsign b) m ideal)"
    using m by (simp add: q strip)
  finally show ?thesis by (simp add: ideal_def)
qed

lemma ddiv_Inr_iff: "(\<exists>r. ddiv a b = Inr r) \<longleftrightarrow> dcoeff b \<noteq> 0"
  by (auto simp: ddiv_def Let_def split: prod.splits)

lemma ddiv_sign: "ddiv a b = Inr r \<Longrightarrow> dsign r = (dsign a \<noteq> dsign b)"
  by (auto simp: ddiv_def Let_def split: if_splits prod.splits)

section \<open>Rounding is monotone against representable values\<close>

text \<open>A value of at most 28 digits cannot lie strictly between a rounded result and its argument.\<close>

lemma scaled_between:
  fixes r :: int
  assumes a: "dcoeff a < 10 ^ prec" and sgn: "\<not> dsign a"
    and big: "10 ^ (prec - 1) \<le> r" and lower: "of_int r * 10 powi u < dval a"
    and upper: "dval a < of_int (r + 1) * 10 powi u"
  shows False
proof (cases "u \<le> dexp a")
  case True
  define m where "m = scaled_at u a"
  have "dval a = of_int m * 10 powi u" using dval_scaled [OF True] by (simp add: m_def)
  with lower upper have "(of_int r :: rat) < of_int m" "(of_int m :: rat) < of_int (r + 1)"
    by simp_all
  then have "r < m" "m < r + 1" by (simp_all only: of_int_less_iff)
  then show False by simp
next
  case False
  have "dval a = of_nat (dcoeff a) * 10 powi dexp a" using sgn by (simp add: dval_def)
  also have "\<dots> \<le> of_nat (10 ^ prec) * 10 powi dexp a"
    using a by (intro mult_right_mono) (simp_all only: of_nat_le_iff, simp_all)
  also have "\<dots> = 10 ^ (prec - 1) * (10 powi (dexp a + 1))"
    by (simp add: power_int_add prec_def)
  also have "\<dots> \<le> 10 ^ (prec - 1) * 10 powi u"
    using False by (intro mult_left_mono power_int_increasing) auto
  also have "\<dots> \<le> of_int r * 10 powi u"
  proof (intro mult_right_mono)
    have "(of_int (10 ^ (prec - 1)) :: rat) \<le> of_int r" using big by (simp only: of_int_le_iff)
    then show "(10 ^ (prec - 1) :: rat) \<le> of_int r" by simp
  qed simp
  finally show False using lower by simp
qed

lemma round_half_even_big:
  assumes "prec < ndigits c"
  shows "10 ^ (prec - 1) \<le> int (c div 10 ^ (ndigits c - prec))"
proof -
  have "0 < c" using assms by (cases c) (auto simp: ndigits.simps prec_def)
  then have "10 ^ (ndigits c - 1) \<le> c" by (rule ndigits_lower)
  also have "ndigits c - 1 = (prec - 1) + (ndigits c - prec)" using assms by (simp add: prec_def)
  also have "(10::nat) ^ \<dots> = 10 ^ (prec - 1) * 10 ^ (ndigits c - prec)"
    by (simp only: power_add)
  finally have "10 ^ (prec - 1) \<le> c div 10 ^ (ndigits c - prec)"
    by (simp add: less_eq_div_iff_mult_less_eq)
  then have "int (10 ^ (prec - 1)) \<le> int (c div 10 ^ (ndigits c - prec))" by (simp only: of_nat_le_iff)
  then show ?thesis by simp
qed

lemma dval_floor_bounds:
  assumes "prec < ndigits (dcoeff d)" "\<not> dsign d"
  defines "q \<equiv> int (dcoeff d div 10 ^ (ndigits (dcoeff d) - prec))"
  shows "of_int q * 10 powi ulp_exp d \<le> dval d" and "dval d < of_int (q + 1) * 10 powi ulp_exp d"
proof -
  let ?k = "ndigits (dcoeff d) - prec"
  have u: "(10::rat) powi ulp_exp d = 10 ^ ?k * 10 powi dexp d"
    using powi_split [of "dexp d" "ulp_exp d"] by (simp add: ulp_exp_def)
  have v: "dval d = of_int (int (dcoeff d)) * 10 powi dexp d" using assms(2) by (simp add: dval_def)
  have dm: "int (dcoeff d) = q * 10 ^ ?k + int (dcoeff d mod 10 ^ ?k)"
    unfolding q_def by (rule div_mod_int)
  have "int (dcoeff d mod 10 ^ ?k) < 10 ^ ?k" by (simp add: int_pow10_iff)
  with dm have "q * 10 ^ ?k \<le> int (dcoeff d)" "int (dcoeff d) < (q + 1) * 10 ^ ?k"
    by (simp_all add: algebra_simps)
  then have "(of_int (q * 10 ^ ?k) :: rat) \<le> of_int (int (dcoeff d))"
    "(of_int (int (dcoeff d)) :: rat) < of_int ((q + 1) * 10 ^ ?k)" by (simp_all only: of_int_le_iff of_int_less_iff)
  then show "of_int q * 10 powi ulp_exp d \<le> dval d" "dval d < of_int (q + 1) * 10 powi ulp_exp d"
    unfolding u v by (simp_all add: mult.assoc [symmetric])
qed

lemma dfix_ge_pos:
  assumes a: "fits a" "\<not> dsign a" and d: "\<not> dsign d" and le: "dval a \<le> dval d"
  shows "dval a \<le> dval (dfix d)"
proof (cases "ndigits (dcoeff d) \<le> prec")
  case False
  then have n: "prec < ndigits (dcoeff d)" by simp
  let ?k = "ndigits (dcoeff d) - prec"
  define q where "q = int (dcoeff d div 10 ^ ?k)"
  note b = dval_floor_bounds [OF n d, folded q_def]
  have form: "dval (dfix d) = of_int (int (round_half_even (dcoeff d) ?k)) * 10 powi ulp_exp d"
    using dval_dfix_form [OF n] d by simp
  show ?thesis
  proof (cases rule: round_half_even_cases [of "dcoeff d" ?k])
    case down
    then have f: "dval (dfix d) = of_int q * 10 powi ulp_exp d" using form by (simp add: q_def)
    have "\<not> dval (dfix d) < dval a"
    proof
      assume "dval (dfix d) < dval a"
      moreover have "dval a < of_int (q + 1) * 10 powi ulp_exp d" using le b(2) by simp
      moreover have "10 ^ (prec - 1) \<le> q" using round_half_even_big [OF n] by (simp add: q_def)
      moreover have "dcoeff a < 10 ^ prec" using a(1) by (simp add: fits_def ndigits_le_iff prec_def)
      ultimately show False using scaled_between [of a q "ulp_exp d"] a(2) f by simp
    qed
    then show ?thesis by simp
  next
    case up
    then have "int (round_half_even (dcoeff d) ?k) = q + 1" by (simp add: q_def)
    with form b(2) le show ?thesis by simp
  qed
qed (use le in simp)

lemma dfix_le_pos:
  assumes a: "fits a" "\<not> dsign a" and d: "\<not> dsign d" and le: "dval d \<le> dval a"
  shows "dval (dfix d) \<le> dval a"
proof (cases "ndigits (dcoeff d) \<le> prec")
  case False
  then have n: "prec < ndigits (dcoeff d)" by simp
  let ?k = "ndigits (dcoeff d) - prec"
  define q where "q = int (dcoeff d div 10 ^ ?k)"
  note b = dval_floor_bounds [OF n d, folded q_def]
  have form: "dval (dfix d) = of_int (int (round_half_even (dcoeff d) ?k)) * 10 powi ulp_exp d"
    using dval_dfix_form [OF n] d by simp
  show ?thesis
  proof (cases rule: round_half_even_cases [of "dcoeff d" ?k])
    case down
    then have "dval (dfix d) = of_int q * 10 powi ulp_exp d" using form by (simp add: q_def)
    with b(1) le show ?thesis by simp
  next
    case up
    then have "int (round_half_even (dcoeff d) ?k) = q + 1" by (simp add: q_def)
    then have f: "dval (dfix d) = of_int (q + 1) * 10 powi ulp_exp d" using form by simp
    have big: "10 ^ (prec - 1) \<le> q" using round_half_even_big [OF n] by (simp add: q_def)
    have fa: "dcoeff a < 10 ^ prec" using a(1) by (simp add: fits_def ndigits_le_iff prec_def)
    have ne: "dval d \<noteq> of_int q * 10 powi ulp_exp d"
    proof
      assume eq: "dval d = of_int q * 10 powi ulp_exp d"
      have "2 * \<bar>dval (dfix d) - dval d\<bar> \<le> 10 powi ulp_exp d" by (rule dfix_error)
      then show False unfolding f eq by (simp flip: left_diff_distrib)
    qed
    have "\<not> dval a < dval (dfix d)"
    proof
      assume "dval a < dval (dfix d)"
      moreover have "of_int q * 10 powi ulp_exp d < dval a" using le b(1) ne by simp
      ultimately show False using scaled_between [of a q "ulp_exp d"] a(2) f big fa by simp
    qed
    then show ?thesis by simp
  qed
qed (use le in simp)

lemma dfix_neg: "dfix (dneg d) = dneg (dfix d)"
  by (simp add: dfix_def dneg_def Let_def)

lemma dfix_ge:
  assumes "fits a" and "dval a \<le> dval d"
  shows "dval a \<le> dval (dfix d)"
proof (cases "0 \<le> dval a")
  case True
  show ?thesis
  proof (cases "dcoeff a = 0 \<or> dcoeff d = 0")
    case True
    with \<open>0 \<le> dval a\<close> assms show ?thesis
      by (metis dfix_nonneg dval_eq_0_iff order_trans)
  next
    case False
    with True assms have "\<not> dsign a" "\<not> dsign d"
      using dval_nonneg_iff [of a] dval_nonneg_iff [of d] by auto
    with assms show ?thesis by (intro dfix_ge_pos)
  qed
next
  case False
  show ?thesis
  proof (cases "0 \<le> dval d")
    case True
    with False dfix_nonneg [OF True] show ?thesis by simp
  next
    case neg: False
    have "\<not> dsign (dneg a)" "\<not> dsign (dneg d)"
      using False neg dval_nonneg_iff [of a] dval_nonneg_iff [of d] by (auto simp: dneg_def)
    moreover have "fits (dneg a)" using assms(1) by (simp add: fits_def dneg_def)
    ultimately have "dval (dfix (dneg d)) \<le> dval (dneg a)"
      using assms(2) by (intro dfix_le_pos) (simp_all add: dval_neg)
    then show ?thesis by (simp add: dfix_neg dval_neg)
  qed
qed

lemma dfix_le:
  assumes "fits a" and "dval d \<le> dval a"
  shows "dval (dfix d) \<le> dval a"
proof -
  have "fits (dneg a)" using assms(1) by (simp add: fits_def dneg_def)
  then have "dval (dneg a) \<le> dval (dfix (dneg d))"
    using assms(2) by (intro dfix_ge) (simp_all add: dval_neg)
  then show ?thesis by (simp add: dfix_neg dval_neg)
qed

lemma dfix_pos: "0 < dval d \<Longrightarrow> 0 < dval (dfix d)"
proof -
  assume pos: "0 < dval d"
  define a where "a = Dec False 1 (dexp d)"
  have "1 \<le> dcoeff d" using pos dval_eq_0_iff [of d] by linarith
  then have "dval a \<le> dval d" using pos dval_nonneg_iff [of d] by (auto simp: a_def dval_def)
  moreover have "fits a" by (simp add: a_def fits_def ndigits.simps prec_def)
  ultimately have "dval a \<le> dval (dfix d)" by (intro dfix_ge)
  moreover have "0 < dval a" by (simp add: a_def dval_def)
  ultimately show ?thesis by simp
qed

lemma half_absD: "2 * \<bar>x\<bar> \<le> u \<Longrightarrow> 2 * x \<le> u" "2 * \<bar>x\<bar> \<le> u \<Longrightarrow> - (2 * x) \<le> u" for x u :: rat
  by (cases "0 \<le> x"; simp)+

text \<open>Quantizing does not move a value across a point of the target grid.\<close>

lemma dquantize_grid:
  assumes "dquantize d q = Inr r" and "dexp q \<le> dexp a"
  shows "dval a \<le> dval d \<Longrightarrow> dval a \<le> dval r" and "dval d \<le> dval a \<Longrightarrow> dval r \<le> dval a"
proof -
  define u where "u = (10::rat) powi dexp q"
  have upos: "0 < u" by (simp add: u_def)
  have exp: "dexp r = dexp q" using dquantize_exp [OF assms(1)] by simp
  define m n where "m = scaled_at (dexp q) r" and "n = scaled_at (dexp q) a"
  have r: "dval r = of_int m * u" using dval_scaled [of "dexp q" r] exp by (simp add: m_def u_def)
  have a: "dval a = of_int n * u" using dval_scaled [OF assms(2)] by (simp add: n_def u_def)
  have err: "2 * \<bar>dval r - dval d\<bar> \<le> u" unfolding u_def by (rule dquantize_error [OF assms(1)])
  have step: "i \<le> j" if "2 * (of_int i * u) \<le> 2 * (of_int j * u) + u" for i j :: int
  proof -
    have "u * of_int (2 * i) \<le> u * of_int (2 * j + 1)" using that by (simp add: algebra_simps)
    then have "(of_int (2 * i) :: rat) \<le> of_int (2 * j + 1)" by (simp only: mult_le_cancel_left_pos [OF upos])
    then have "2 * i \<le> 2 * j + 1" by (simp only: of_int_le_iff)
    then show ?thesis by simp
  qed
  show "dval a \<le> dval r" if "dval a \<le> dval d"
  proof -
    have "2 * dval a \<le> 2 * dval r + u" using half_absD(2) [OF err] that by (simp add: algebra_simps)
    then have "n \<le> m" unfolding a r by (rule step)
    then show ?thesis unfolding a r using upos by simp
  qed
  show "dval r \<le> dval a" if "dval d \<le> dval a"
  proof -
    have "2 * dval r \<le> 2 * dval a + u" using half_absD(1) [OF err] that by (simp add: algebra_simps)
    then have "m \<le> n" unfolding a r by (rule step)
    then show ?thesis unfolding a r using upos by simp
  qed
qed

lemma ddiv_nonneg:
  assumes "ddiv a b = Inr r" "0 \<le> dval a" "0 < dval b"
  shows "0 \<le> dval r"
proof (cases "dcoeff a = 0")
  case True
  with assms(1) show ?thesis by (auto simp: ddiv_def Let_def ndigits.simps prec_def dval_nonneg_iff split: if_splits)
next
  case False
  then have "\<not> dsign a" "\<not> dsign b"
    using assms(2,3) dval_nonneg_iff [of a] dval_nonneg_iff [of b] by (auto simp: dval_def)
  with ddiv_sign [OF assms(1)] show ?thesis by (simp add: dval_nonneg_iff)
qed


lemma dval_nonpos_iff: "dval d \<le> 0 \<longleftrightarrow> dsign d \<or> dcoeff d = 0"
  using dval_nonneg_iff [of d] dval_eq_0_iff [of d] dval_nonneg_iff [of "dneg d"]
  by (auto simp: dneg_def dval_def signed_def)

lemma ddiv_nonpos:
  assumes "ddiv a b = Inr r" "dval a \<le> 0" "0 < dval b"
  shows "dval r \<le> 0"
proof (cases "dcoeff a = 0")
  case True
  with assms(1) show ?thesis
    by (auto simp: ddiv_def Let_def ndigits.simps prec_def dval_nonpos_iff split: if_splits)
next
  case False
  then have "dsign a" "\<not> dsign b"
    using assms(2,3) dval_nonpos_iff [of a] dval_nonpos_iff [of b] by auto
  with ddiv_sign [OF assms(1)] show ?thesis by (simp add: dval_nonpos_iff)
qed

lemma fits_small [simp]: "fits (dof_int 1)" "fits dzero"
  by (simp_all add: fits_def dof_int_def dzero_def ndigits.simps prec_def)

lemma dsign_dmul [simp]: "dsign (dmul a b) = (dsign a \<noteq> dsign b)"
  by (simp add: dmul_def dmul_exact_def)

lemma dadd_one_mono:
  "0 \<le> dval x \<Longrightarrow> 1 \<le> dval (dadd (dof_int 1) x)"
  "dval x \<le> 0 \<Longrightarrow> dval (dadd (dof_int 1) x) \<le> 1"
  using dfix_ge [of "dof_int 1" "dadd_exact (dof_int 1) x"]
    dfix_le [of "dof_int 1" "dadd_exact (dof_int 1) x"]
  by (simp_all add: dadd_def dval_dadd_exact)

lemma dmul_ge_self:
  assumes "fits p" "0 \<le> dval p" "1 \<le> dval y"
  shows "dval p \<le> dval (dmul p y)"
proof -
  have "dval p * 1 \<le> dval p * dval y" using assms by (intro mult_left_mono) auto
  then show ?thesis unfolding dmul_def using assms(1) by (intro dfix_ge) (simp_all add: dval_dmul_exact)
qed

lemma dmul_le_self:
  assumes "fits p" "0 \<le> dval p" "dval y \<le> 1"
  shows "dval (dmul p y) \<le> dval p"
proof -
  have "dval p * dval y \<le> dval p * 1" using assms by (intro mult_left_mono) auto
  then show ?thesis unfolding dmul_def using assms(1) by (intro dfix_le) (simp_all add: dval_dmul_exact)
qed

section \<open>Evaluation\<close>

text \<open>Rules with which the simplifier computes decimal operations on literals.\<close>

lemma ndigits_numeral:
  "ndigits (numeral k) = (if (numeral k :: nat) < 10 then 1 else Suc (ndigits (numeral k div 10)))"
  by (rule ndigits.simps)

lemma ndigits_small: "ndigits 0 = 1" "ndigits (Suc 0) = 1" "ndigits 1 = 1"
  by (simp_all add: ndigits.simps [of 0] ndigits.simps [of "Suc 0"])

lemma strip_zeros_numeral:
  "strip_zeros (numeral k) c e =
     (if c mod 10 = 0 then strip_zeros (pred_numeral k) (c div 10) (e + 1) else (c, e))"
  by (simp only: numeral_eq_Suc [of k] strip_zeros.simps)

lemma strip_zeros_one: "strip_zeros 1 c e = (if c mod 10 = 0 then (c div 10, e + 1) else (c, e))"
  by simp

lemmas dec_eval = ndigits_numeral ndigits_small strip_zeros_numeral strip_zeros_one prec_def signed_def
  scaled_at_def dzero_def dof_int_def is_zero_def dle_def dlt_def deq_def dmax_def round_half_even_def
  round_half_up_def dfix_def dneg_def dadd_exact_def dadd_def dsub_def dmul_exact_def dmul_def dabs_def
  dsum_def ddiv_def dquantize_def dfloor_def dtrunc_def fixed_point_def

end
