(* ===== verification/Canonical.thy ===== *)
theory Canonical
  imports Py_Decimal
begin

text \<open>
  Canonical encoding of runtime contracts: \<open>runtime_contracts.py\<close> (values to a JSON tree with
  tagged decimals and times, hashed with SHA-256) and the duplicate-key check of
  \<open>strict_json.py\<close>. The JSON tree is modelled; the text \<open>json.dumps\<close> prints for it
  (sorted keys, fixed separators) and the SHA-256 of that text are one argument
  \<open>digest :: json \<Rightarrow> string\<close> of every definition that hashes.
\<close>

section \<open>Python values and JSON trees\<close>

text \<open>
  The values contracts are made of. Enum members stand for their \<open>.value\<close>, models for their
  \<open>model_dump(mode="python")\<close>. A float is its \<open>repr\<close>. Values for which the encoder raises
  (non-finite numbers, naive datetimes, keys that are not strings, other types) are not
  representable here.
\<close>

datatype pyval =
    PNone
  | PBool bool
  | PInt int
  | PStr string
  | PFloat string
  | PDecimal decimal
  | PDatetime utc
  | PDate day
  | PUuid string
  | PDict "(string \<times> pyval) list"
  | PList "pyval list"

datatype json =
    JNull
  | JBool bool
  | JInt int
  | JStr string
  | JObj "(string \<times> json) list"
  | JArr "json list"

type_synonym digest = "json \<Rightarrow> string"

section \<open>Text of numbers and times\<close>

definition digit_char :: "nat \<Rightarrow> char" where
  "digit_char d = char_of (48 + d)"

fun show_nat :: "nat \<Rightarrow> string" where
  "show_nat n = (if n < 10 then [digit_char n] else show_nat (n div 10) @ [digit_char (n mod 10)])"

declare show_nat.simps [simp del]

definition zero_pad :: "nat \<Rightarrow> nat \<Rightarrow> string" where
  "zero_pad w n = (let s = show_nat n in replicate (w - length s) (CHR ''0'') @ s)"

text \<open>\<open>format(value, "f")\<close>.\<close>

definition fixed_text :: "decimal \<Rightarrow> string" where
  "fixed_text d =
     (let digits = show_nat (dcoeff d);
          magnitude =
            (if 0 \<le> dexp d then digits @ replicate (nat (dexp d)) (CHR ''0'')
             else let point = int (length digits) + dexp d in
               if 0 < point then take (nat point) digits @ ''.'' @ drop (nat point) digits
               else ''0.'' @ replicate (nat (- point)) (CHR ''0'') @ digits)
      in (if dsign d then ''-'' else '''') @ magnitude)"

text \<open>The proleptic Gregorian calendar of \<open>datetime.date\<close>, from days since 1970-01-01.\<close>

definition civil_of_day :: "day \<Rightarrow> int \<times> int \<times> int" where
  "civil_of_day z =
     (let z' = z + 719468; era = z' div 146097; doe = z' mod 146097;
          yoe = (doe - doe div 1460 + doe div 36524 - doe div 146096) div 365;
          doy = doe - (365 * yoe + yoe div 4 - yoe div 100);
          mp = (5 * doy + 2) div 153;
          d = doy - (153 * mp + 2) div 5 + 1;
          m = (if mp < 10 then mp + 3 else mp - 9);
          y = yoe + era * 400 + (if m \<le> 2 then 1 else 0)
      in (y, m, d))"

definition iso_date :: "day \<Rightarrow> string" where
  "iso_date z = (case civil_of_day z of (y, m, d) \<Rightarrow>
     zero_pad 4 (nat y) @ ''-'' @ zero_pad 2 (nat m) @ ''-'' @ zero_pad 2 (nat d))"

text \<open>\<open>isoformat(timespec="microseconds")\<close> of a UTC time, before its offset suffix.\<close>

definition iso_time :: "utc \<Rightarrow> string" where
  "iso_time t =
     (let us = t mod microseconds_per_day; secs = us div 1000000 in
      iso_date (t div microseconds_per_day) @ ''T'' @ zero_pad 2 (nat (secs div 3600)) @ '':'' @
      zero_pad 2 (nat (secs div 60 mod 60)) @ '':'' @ zero_pad 2 (nat (secs mod 60)) @ ''.'' @
      zero_pad 6 (nat (us mod 1000000)))"

section \<open>Canonical values\<close>

definition canonical_decimal :: "decimal \<Rightarrow> string" where
  "canonical_decimal d = (if is_zero d then ''0'' else fixed_text (dnormalize d))"

fun canonical_value :: "pyval \<Rightarrow> json" where
  "canonical_value PNone = JNull"
| "canonical_value (PBool b) = JBool b"
| "canonical_value (PInt i) = JInt i"
| "canonical_value (PStr s) = JStr s"
| "canonical_value (PFloat r) = JObj [(''$float'', JStr r)]"
| "canonical_value (PDecimal d) = JObj [(''$decimal'', JStr (canonical_decimal d))]"
| "canonical_value (PDatetime t) = JObj [(''$datetime'', JStr (iso_time t @ ''+00:00''))]"
| "canonical_value (PDate d) = JObj [(''$date'', JStr (iso_date d))]"
| "canonical_value (PUuid u) = JObj [(''$uuid'', JStr u)]"
| "canonical_value (PDict items) =
     JObj (sort_key fst (map (\<lambda>(key, item). (key, canonical_value item)) items))"
| "canonical_value (PList items) = JArr (map canonical_value items)"

definition canonical_sha256 :: "digest \<Rightarrow> pyval \<Rightarrow> string" where
  "canonical_sha256 digest v = digest (canonical_value v)"

definition popt :: "('a \<Rightarrow> pyval) \<Rightarrow> 'a option \<Rightarrow> pyval" where
  "popt f x = (case x of None \<Rightarrow> PNone | Some y \<Rightarrow> f y)"

section \<open>Duplicate keys\<close>

text \<open>\<open>_unique_object\<close>: the object hook that rejects an ambiguous object.\<close>

fun unique_object_from :: "(string \<times> 'a) list \<Rightarrow> (string \<times> 'a) list \<Rightarrow> exn + (string \<times> 'a) list" where
  "unique_object_from result [] = Inr result"
| "unique_object_from result ((key, value) # pairs) =
     (if key \<in> set (map fst result) then Inl (StrictJsonError (''duplicate JSON key: '' @ key))
      else unique_object_from (result @ [(key, value)]) pairs)"

definition unique_object :: "(string \<times> 'a) list \<Rightarrow> exn + (string \<times> 'a) list" where
  "unique_object pairs = unique_object_from [] pairs"

section \<open>Properties\<close>

lemma unique_object_from_eq:
  "distinct (map fst result) \<Longrightarrow>
   unique_object_from result pairs = Inr out \<longleftrightarrow>
     out = result @ pairs \<and> distinct (map fst (result @ pairs))"
  by (induction result pairs arbitrary: out rule: unique_object_from.induct) auto

text \<open>
  The decoder accepts an object exactly when its keys are distinct, and then keeps every pair.
\<close>

lemma unique_object_iff: "unique_object pairs = Inr out \<longleftrightarrow> out = pairs \<and> distinct (map fst pairs)"
  using unique_object_from_eq [of "[]" pairs out] by (simp add: unique_object_def)

lemma sort_key_fst_unique:
  assumes "set xs = set ys" "distinct (map fst xs)" "distinct (map fst ys)"
  shows "sort_key fst xs = sort_key fst ys"
proof (rule map_sorted_distinct_set_unique [where f = fst])
  show "inj_on fst (set (sort_key fst xs) \<union> set (sort_key fst ys))"
    using assms by (simp add: distinct_map)
  show "distinct (map fst (sort_key fst xs))" "distinct (map fst (sort_key fst ys))"
    using assms by (simp_all add: distinct_map)
qed (use assms in simp_all)

text \<open>The encoding of a mapping does not depend on its insertion order.\<close>

lemma canonical_value_dict_order:
  assumes "set xs = set ys" "distinct (map fst xs)" "distinct (map fst ys)"
  shows "canonical_value (PDict xs) = canonical_value (PDict ys)"
proof -
  let ?f = "\<lambda>(key, item). (key, canonical_value item)"
  have keys: "map fst (map ?f zs) = map fst zs" for zs by (induction zs) auto
  have "set (map ?f xs) = set (map ?f ys)" using assms(1) by simp
  then have "sort_key fst (map ?f xs) = sort_key fst (map ?f ys)"
    by (rule sort_key_fst_unique) (simp_all only: keys assms)
  then show ?thesis by simp
qed

text \<open>Looking a key up in the encoding of a mapping.\<close>

lemma map_of_filter: "map_of xs k = (case filter (\<lambda>x. fst x = k) xs of [] \<Rightarrow> None | x # _ \<Rightarrow> Some (snd x))"
  by (induction xs) auto

lemma map_of_sort_key: "map_of (sort_key fst xs) k = map_of xs k"
  using sort_key_stable [of fst k xs] by (simp add: map_of_filter [of _ k])

lemma map_of_canonical:
  "map_of (map (\<lambda>(key, item). (key, canonical_value item)) items) k = map_option canonical_value (map_of items k)"
  by (induction items) auto

lemma strip_zeros_spec:
  "strip_zeros n c e = (c', e') \<Longrightarrow>
   \<exists>j \<le> n. c = c' * 10 ^ j \<and> e' = e + int j \<and> (j = n \<or> c' mod 10 \<noteq> 0)"
proof (induction n arbitrary: c e)
  case 0
  then show ?case by simp
next
  case (Suc n)
  show ?case
  proof (cases "c mod 10 = 0")
    case True
    with Suc.prems have "strip_zeros n (c div 10) (e + 1) = (c', e')" by simp
    from Suc.IH [OF this] obtain j where
      j: "j \<le> n" "c div 10 = c' * 10 ^ j" "e' = e + 1 + int j" "j = n \<or> c' mod 10 \<noteq> 0" by blast
    have "c = 10 * (c div 10)" using True mult_div_mod_eq [of 10 c] by simp
    with j have "c = c' * 10 ^ Suc j" by simp
    with j show ?thesis by (intro exI [of _ "Suc j"]) auto
  next
    case False
    with Suc.prems show ?thesis by (intro exI [of _ 0]) auto
  qed
qed

lemma strip_all_zeros:
  assumes "strip_zeros (ndigits c) c e = (c', e')" and "0 < c"
  shows "c' mod 10 \<noteq> 0" and "dval (Dec s c' e') = dval (Dec s c e)"
proof -
  from strip_zeros_spec [OF assms(1)] obtain j where
    j: "c = c' * 10 ^ j" "e' = e + int j" "j = ndigits c \<or> c' mod 10 \<noteq> 0" by blast
  have "j \<noteq> ndigits c"
  proof
    assume "j = ndigits c"
    with j(1) assms(2) have "10 ^ ndigits c \<le> c" by (cases c') auto
    with ndigits_upper [of c] show False by simp
  qed
  with j show "c' mod 10 \<noteq> 0" by blast
  show "dval (Dec s c' e') = dval (Dec s c e)"
    using j by (simp add: dval_def signed_def power_int_add)
qed

lemma no_trailing_zero_unique:
  assumes "int c1 * 10 ^ n = int c2" and "c2 mod 10 \<noteq> 0"
  shows "n = 0"
proof (rule ccontr)
  assume "n \<noteq> 0"
  then obtain m where "n = Suc m" by (cases n) auto
  with assms(1) have "int c2 = 10 * (int c1 * 10 ^ m)" by simp
  then have "int c2 mod 10 = 0" by simp
  then have "c2 mod 10 = 0" by (metis of_nat_0_eq_iff of_nat_mod of_nat_numeral)
  with assms(2) show False by simp
qed

lemma stripped_unique:
  assumes "dval (Dec s1 c1 e1) = dval (Dec s2 c2 e2)" "c1 mod 10 \<noteq> 0" "c2 mod 10 \<noteq> 0" "e1 \<le> e2"
  shows "s1 = s2 \<and> c1 = c2 \<and> e1 = e2"
proof -
  have "of_int (scaled_at e1 (Dec s1 c1 e1)) = (of_int (scaled_at e1 (Dec s2 c2 e2)) :: rat)"
    using assms(1) dval_scaled [of e1 "Dec s1 c1 e1"] dval_scaled [of e1 "Dec s2 c2 e2"] assms(4)
    by simp
  then have "scaled_at e1 (Dec s1 c1 e1) = scaled_at e1 (Dec s2 c2 e2)" by (simp only: of_int_eq_iff)
  then have eq: "signed s1 c1 = signed s2 c2 * 10 ^ nat (e2 - e1)" by (simp add: scaled_at_def)
  have pos: "c1 \<noteq> 0" "c2 \<noteq> 0" using assms(2,3) by auto
  then have s: "s1 = s2"
    using dval_nonneg_iff [of "Dec s1 c1 e1"] dval_nonneg_iff [of "Dec s2 c2 e2"] assms(1) by simp
  with eq have "int c2 * 10 ^ nat (e2 - e1) = int c1" by (auto simp: signed_def split: if_splits)
  with no_trailing_zero_unique assms(2) have "nat (e2 - e1) = 0" by blast
  with eq s assms(4) show ?thesis by (auto simp: signed_def split: if_splits)
qed

lemma dnormalize_spec:
  assumes "fits d" and "dcoeff d \<noteq> 0"
  shows "dcoeff (dnormalize d) mod 10 \<noteq> 0" and "dval (dnormalize d) = dval d"
proof -
  obtain c e where strip: "strip_zeros (ndigits (dcoeff d)) (dcoeff d) (dexp d) = (c, e)"
    by fastforce
  then have "dnormalize d = Dec (dsign d) c e"
    using assms by (simp add: dnormalize_def fits_def Let_def)
  with strip_all_zeros(1) [OF strip] strip_all_zeros(2) [OF strip, of "dsign d"] assms(2)
  show "dcoeff (dnormalize d) mod 10 \<noteq> 0" "dval (dnormalize d) = dval d" by simp_all
qed

text \<open>Decimals that are equal for Python have one canonical text (when they fit the context).\<close>

lemma canonical_decimal_cong:
  assumes "fits a" "fits b" "deq a b"
  shows "canonical_decimal a = canonical_decimal b"
proof (cases "dcoeff a = 0")
  case True
  with assms(3) have "dcoeff b = 0" by (metis deq_iff dval_eq_0_iff)
  with True show ?thesis by (simp add: canonical_decimal_def is_zero_def)
next
  case False
  with assms(3) have b: "dcoeff b \<noteq> 0" by (metis deq_iff dval_eq_0_iff)
  have eq: "dval (dnormalize a) = dval (dnormalize b)"
    using assms False b by (simp add: dnormalize_spec deq_iff)
  have "dnormalize a = dnormalize b"
  proof (cases "dexp (dnormalize a) \<le> dexp (dnormalize b)")
    case True
    with stripped_unique [of "dsign (dnormalize a)" "dcoeff (dnormalize a)" "dexp (dnormalize a)"
        "dsign (dnormalize b)" "dcoeff (dnormalize b)" "dexp (dnormalize b)"] eq
    show ?thesis using dnormalize_spec(1) [OF assms(1) False] dnormalize_spec(1) [OF assms(2) b]
      by (simp add: decimal.expand)
  next
    case nle: False
    with stripped_unique [of "dsign (dnormalize b)" "dcoeff (dnormalize b)" "dexp (dnormalize b)"
        "dsign (dnormalize a)" "dcoeff (dnormalize a)" "dexp (dnormalize a)"] eq
    show ?thesis using dnormalize_spec(1) [OF assms(1) False] dnormalize_spec(1) [OF assms(2) b]
      by (simp add: decimal.expand)
  qed
  with False b show ?thesis by (simp add: canonical_decimal_def is_zero_def)
qed

end
