(* ===== verification/Cost_Spec.thy ===== *)
theory Cost_Spec
  imports Canonical
begin

text \<open>
  The versioned execution cost contract of \<open>research_run_spec.py\<close>: decimals with bounded digits
  and exponents, instrument selectors and contexts, fee rules, slippage and money rounding, and
  the specification itself with its content identity. Each \<open>validate_*\<close> definition is the
  construction of the Pydantic model from already typed field values: field constraints first,
  then the model validator, in source order.
\<close>

section \<open>Strings\<close>

text \<open>
  A character is a code point below 256. White space is what \<open>str.isspace\<close> accepts there. \<open>str.upper\<close> is modelled
  on ASCII letters, the alphabet of codes, markets and identifiers; it leaves every other character alone.
\<close>

definition is_space :: "char \<Rightarrow> bool" where
  "is_space c = (let n = (of_char c :: nat) in (9 \<le> n \<and> n \<le> 13) \<or> (28 \<le> n \<and> n \<le> 32) \<or> n = 133 \<or> n = 160)"

definition py_strip :: "string \<Rightarrow> string" where
  "py_strip s = rev (dropWhile is_space (rev (dropWhile is_space s)))"

definition upper_char :: "char \<Rightarrow> char" where
  "upper_char c = (let n = (of_char c :: nat) in if 97 \<le> n \<and> n \<le> 122 then char_of (n - 32) else c)"

definition py_upper :: "string \<Rightarrow> string" where
  "py_upper s = map upper_char s"

section \<open>Bounded decimals\<close>

definition decimal_components :: "string \<Rightarrow> decimal \<Rightarrow> exn + (bool \<times> nat \<times> int)" where
  "decimal_components field_name d =
     (if 128 < ndigits (dcoeff d)
      then Inl (ValueError (field_name @ '' coefficient digits cannot exceed 128''))
      else if 384 < \<bar>dexp d\<bar>
      then Inl (ValueError (field_name @ '' exponent magnitude cannot exceed 384''))
      else if is_zero d then Inr (False, 0, 0)
      else case strip_zeros (ndigits (dcoeff d) - 1) (dcoeff d) (dexp d) of (c, e) \<Rightarrow>
        if 384 < \<bar>e\<bar>
        then Inl (ValueError (field_name @ '' normalized exponent magnitude cannot exceed 384''))
        else Inr (dsign d, c, e))"

definition parse_decimal :: "string \<Rightarrow> decimal \<Rightarrow> exn + decimal" where
  "parse_decimal field_name d =
     rbind (decimal_components field_name d) (\<lambda>_. Inr (if is_zero d then dzero else d))"

definition parse_decimal_opt :: "string \<Rightarrow> decimal option \<Rightarrow> exn + decimal option" where
  "parse_decimal_opt field_name x =
     (case x of None \<Rightarrow> Inr None | Some d \<Rightarrow> rbind (parse_decimal field_name d) (\<lambda>p. Inr (Some p)))"

definition spec_canonical_decimal :: "decimal \<Rightarrow> exn + string" where
  "spec_canonical_decimal d =
     rbind (decimal_components ''canonical decimal'' d) (\<lambda>(s, c, e).
       Inr (if c = 0 then ''0'' else fixed_text (Dec s c e)))"

text \<open>
  \<open>_canonical_value\<close> of \<open>research_run_spec.py\<close>, with the key order \<open>json.dumps(sort_keys=True)\<close>
  gives its objects. Floats are refused, and so is a UUID.
\<close>

fun spec_canonical_value :: "pyval \<Rightarrow> exn + json" where
  "spec_canonical_value PNone = Inr JNull"
| "spec_canonical_value (PBool b) = Inr (JBool b)"
| "spec_canonical_value (PInt i) = Inr (JInt i)"
| "spec_canonical_value (PStr s) = Inr (JStr s)"
| "spec_canonical_value (PFloat r) = Inl (TypeError ''raw float values are not canonical; use Decimal'')"
| "spec_canonical_value (PDecimal d) =
     rbind (spec_canonical_decimal d) (\<lambda>t. Inr (JObj [(''$decimal'', JStr t)]))"
| "spec_canonical_value (PDatetime t) = Inr (JObj [(''$datetime'', JStr (iso_time t @ ''Z''))])"
| "spec_canonical_value (PDate d) = Inr (JObj [(''$date'', JStr (iso_date d))])"
| "spec_canonical_value (PUuid u) = Inl (TypeError ''unsupported canonical value: UUID'')"
| "spec_canonical_value (PDict items) =
     rbind (mapM (\<lambda>(key, item). rbind (spec_canonical_value item) (\<lambda>j. Inr (key, j))) items)
       (\<lambda>js. Inr (JObj (sort_key fst js)))"
| "spec_canonical_value (PList items) =
     rbind (mapM spec_canonical_value items) (\<lambda>js. Inr (JArr js))"

section \<open>Sides and instruments\<close>

datatype execution_cost_side = CostBuy | CostSell

datatype execution_cost_applicability = AppliesBuy | AppliesSell | AppliesBoth

definition side_text :: "execution_cost_side \<Rightarrow> string" where
  "side_text s = (case s of CostBuy \<Rightarrow> ''BUY'' | CostSell \<Rightarrow> ''SELL'')"

definition applicability_text :: "execution_cost_applicability \<Rightarrow> string" where
  "applicability_text a = (case a of AppliesBuy \<Rightarrow> ''BUY'' | AppliesSell \<Rightarrow> ''SELL'' | AppliesBoth \<Rightarrow> ''BOTH'')"

record instrument_selector =
  sel_selector_id :: string
  sel_market :: string
  sel_exchange :: string
  sel_instrument_class :: string
  sel_security_class :: string

definition normalize_scope_value :: "string \<Rightarrow> exn + string" where
  "normalize_scope_value v =
     (if py_strip v = [] then Inl (ValueError ''instrument selector scope values must be non-empty strings'')
      else Inr (py_upper (py_strip v)))"

definition validate_instrument_selector :: "instrument_selector \<Rightarrow> exn + instrument_selector" where
  "validate_instrument_selector s =
     (if py_strip (sel_selector_id s) = [] then Inl (ValueError ''selector_id'')
      else rbind (normalize_scope_value (sel_market s)) (\<lambda>m.
           rbind (normalize_scope_value (sel_exchange s)) (\<lambda>x.
           rbind (normalize_scope_value (sel_instrument_class s)) (\<lambda>i.
           rbind (normalize_scope_value (sel_security_class s)) (\<lambda>c.
             Inr \<lparr>sel_selector_id = py_strip (sel_selector_id s), sel_market = m, sel_exchange = x,
                  sel_instrument_class = i, sel_security_class = c\<rparr>)))))"

definition selector_scope_key :: "instrument_selector \<Rightarrow> string \<times> string \<times> string \<times> string" where
  "selector_scope_key s =
     (sel_market s, sel_exchange s, sel_instrument_class s, sel_security_class s)"

record classification_provenance =
  cp_reference_dataset :: string
  cp_reference_record_id :: string
  cp_reference_generation_id :: string

definition validate_classification_provenance ::
  "classification_provenance \<Rightarrow> exn + classification_provenance" where
  "validate_classification_provenance p =
     raise_first
       [(cp_reference_dataset p \<noteq> ''security_listing_status'', ValueError ''reference_dataset''),
        (\<not> is_sha256 (cp_reference_record_id p), ValueError ''reference_record_id''),
        (\<not> is_sha256 (cp_reference_generation_id p), ValueError ''reference_generation_id'')] p"

record instrument_context =
  ctx_ts_code :: string
  ctx_market :: string
  ctx_exchange :: string
  ctx_instrument_class :: string
  ctx_security_class :: string
  ctx_classification_provenance :: "classification_provenance option"

definition normalize_context_value :: "string \<Rightarrow> exn + string" where
  "normalize_context_value v =
     (if py_strip v = [] then Inl (ValueError ''instrument context values must be non-empty strings'')
      else Inr (py_upper (py_strip v)))"

definition validate_instrument_context :: "instrument_context \<Rightarrow> exn + instrument_context" where
  "validate_instrument_context c =
     rbind (normalize_context_value (ctx_ts_code c)) (\<lambda>t.
     rbind (normalize_context_value (ctx_market c)) (\<lambda>m.
     rbind (normalize_context_value (ctx_exchange c)) (\<lambda>x.
     rbind (normalize_context_value (ctx_instrument_class c)) (\<lambda>i.
     rbind (normalize_context_value (ctx_security_class c)) (\<lambda>s.
     rbind (case ctx_classification_provenance c of None \<Rightarrow> Inr None
            | Some p \<Rightarrow> rbind (validate_classification_provenance p) (\<lambda>q. Inr (Some q))) (\<lambda>p.
       Inr \<lparr>ctx_ts_code = t, ctx_market = m, ctx_exchange = x, ctx_instrument_class = i,
            ctx_security_class = s, ctx_classification_provenance = p\<rparr>))))))"

definition context_scope_key :: "instrument_context \<Rightarrow> string \<times> string \<times> string \<times> string" where
  "context_scope_key c =
     (ctx_market c, ctx_exchange c, ctx_instrument_class c, ctx_security_class c)"

section \<open>Rules, slippage, money\<close>

record fee_rule =
  fr_rule_id :: string
  fr_selector_id :: string
  fr_rate_bps :: decimal
  fr_minimum_amount :: decimal
  fr_applies_to :: execution_cost_applicability

definition bps_in_range :: "decimal \<Rightarrow> bool" where
  "bps_in_range d = (dle dzero d \<and> dlt d (dof_int 10000))"

definition validate_fee_rule :: "fee_rule \<Rightarrow> exn + fee_rule" where
  "validate_fee_rule r =
     rbind (parse_decimal ''execution cost rule'' (fr_rate_bps r)) (\<lambda>rate.
     rbind (parse_decimal ''execution cost rule'' (fr_minimum_amount r)) (\<lambda>minimum.
       raise_first
         [(py_strip (fr_rule_id r) = [], ValueError ''rule_id''),
          (py_strip (fr_selector_id r) = [], ValueError ''selector_id''),
          (\<not> bps_in_range rate, ValueError ''rate_bps''),
          (\<not> dle dzero minimum, ValueError ''minimum_amount'')]
         (r\<lparr>fr_rule_id := py_strip (fr_rule_id r), fr_selector_id := py_strip (fr_selector_id r),
            fr_rate_bps := rate, fr_minimum_amount := minimum\<rparr>)))"

definition applies_to_side :: "fee_rule \<Rightarrow> execution_cost_side \<Rightarrow> bool" where
  "applies_to_side r side =
     (fr_applies_to r = AppliesBoth \<or> applicability_text (fr_applies_to r) = side_text side)"

record cost_slippage =
  sl_owner :: string
  sl_buy_bps :: decimal
  sl_sell_bps :: decimal
  sl_price_tick :: decimal
  sl_price_rounding :: string

definition validate_slippage :: "cost_slippage \<Rightarrow> exn + cost_slippage" where
  "validate_slippage s =
     rbind (parse_decimal ''execution cost slippage'' (sl_buy_bps s)) (\<lambda>b.
     rbind (parse_decimal ''execution cost slippage'' (sl_sell_bps s)) (\<lambda>l.
     rbind (parse_decimal ''execution cost slippage'' (sl_price_tick s)) (\<lambda>t.
       raise_first
         [(sl_owner s \<noteq> ''shared_cost_engine'', ValueError ''owner''),
          (\<not> bps_in_range b, ValueError ''buy_bps''),
          (\<not> bps_in_range l, ValueError ''sell_bps''),
          (\<not> dlt dzero t, ValueError ''price_tick''),
          (sl_price_rounding s \<noteq> ''HALF_UP'', ValueError ''price_rounding'')]
         (s\<lparr>sl_buy_bps := b, sl_sell_bps := l, sl_price_tick := t\<rparr>))))"

record cost_money =
  mn_quantum :: decimal
  mn_rounding :: string

definition validate_money :: "cost_money \<Rightarrow> exn + cost_money" where
  "validate_money m =
     rbind (parse_decimal ''execution cost money'' (mn_quantum m)) (\<lambda>q.
       raise_first
         [(\<not> dlt dzero q, ValueError ''quantum''), (mn_rounding m \<noteq> ''HALF_UP'', ValueError ''rounding'')]
         (m\<lparr>mn_quantum := q\<rparr>))"

record cost_order_input =
  oi_side :: execution_cost_side
  oi_reference_price :: decimal
  oi_quantity :: int

definition validate_order_input :: "cost_order_input \<Rightarrow> exn + cost_order_input" where
  "validate_order_input i =
     rbind (parse_decimal ''execution cost reference_price'' (oi_reference_price i)) (\<lambda>p.
       raise_first
         [(\<not> dlt dzero p, ValueError ''reference_price''), (oi_quantity i \<le> 0, ValueError ''quantity'')]
         (i\<lparr>oi_reference_price := p\<rparr>))"

section \<open>The cost specification\<close>

text \<open>
  \<open>es_legacy_fields_set\<close> says whether a legacy scalar field is in Pydantic's
  \<open>model_fields_set\<close>; revalidating an instance keeps that set.
\<close>

record execution_cost_spec =
  es_schema_version :: int
  es_commission_bps :: "decimal option"
  es_stamp_duty_bps :: "decimal option"
  es_transfer_fee_bps :: "decimal option"
  es_slippage_bps :: "decimal option"
  es_minimum_commission :: "decimal option"
  es_legacy_fields_set :: bool
  es_cost_engine_version :: "string option"
  es_instrument_selectors :: "instrument_selector list"
  es_commission_rules :: "fee_rule list"
  es_transfer_fee_rules :: "fee_rule list"
  es_stamp_duty_rules :: "fee_rule list"
  es_fee_notional_basis :: "string option"
  es_assessment_unit :: "string option"
  es_slippage :: "cost_slippage option"
  es_money :: "cost_money option"
  es_cost_spec_id :: "string option"
  es_research_notional_per_trade :: "decimal option"

definition selector_dump :: "instrument_selector \<Rightarrow> pyval" where
  "selector_dump s = PDict
     [(''selector_id'', PStr (sel_selector_id s)), (''market'', PStr (sel_market s)),
      (''exchange'', PStr (sel_exchange s)), (''instrument_class'', PStr (sel_instrument_class s)),
      (''security_class'', PStr (sel_security_class s))]"

definition fee_rule_dump :: "fee_rule \<Rightarrow> pyval" where
  "fee_rule_dump r = PDict
     [(''rule_id'', PStr (fr_rule_id r)), (''selector_id'', PStr (fr_selector_id r)),
      (''rate_bps'', PDecimal (fr_rate_bps r)), (''minimum_amount'', PDecimal (fr_minimum_amount r)),
      (''applies_to'', PStr (applicability_text (fr_applies_to r)))]"

definition slippage_dump :: "cost_slippage \<Rightarrow> pyval" where
  "slippage_dump s = PDict
     [(''owner'', PStr (sl_owner s)), (''buy_bps'', PDecimal (sl_buy_bps s)),
      (''sell_bps'', PDecimal (sl_sell_bps s)), (''price_tick'', PDecimal (sl_price_tick s)),
      (''price_rounding'', PStr (sl_price_rounding s))]"

definition money_dump :: "cost_money \<Rightarrow> pyval" where
  "money_dump m = PDict
     [(''quantum'', PDecimal (mn_quantum m)), (''rounding'', PStr (mn_rounding m))]"

definition v3_identity_payload :: "execution_cost_spec \<Rightarrow> exn + pyval" where
  "v3_identity_payload s =
     (if es_schema_version s \<noteq> 3
      then Inl (ValueError ''only v3 execution costs have a canonical cost identity'')
      else Inr (PDict
        [(''schema_version'', PInt 3),
         (''cost_engine_version'', popt PStr (es_cost_engine_version s)),
         (''instrument_selectors'', PList (map selector_dump (es_instrument_selectors s))),
         (''commission_rules'', PList (map fee_rule_dump (es_commission_rules s))),
         (''transfer_fee_rules'', PList (map fee_rule_dump (es_transfer_fee_rules s))),
         (''stamp_duty_rules'', PList (map fee_rule_dump (es_stamp_duty_rules s))),
         (''fee_notional_basis'', popt PStr (es_fee_notional_basis s)),
         (''assessment_unit'', popt PStr (es_assessment_unit s)),
         (''slippage'', popt slippage_dump (es_slippage s)),
         (''money'', popt money_dump (es_money s))]))"

text \<open>\<open>canonical_json\<close>, up to the text \<open>json.dumps\<close> prints for the tree.\<close>

definition canonical_json :: "execution_cost_spec \<Rightarrow> exn + json" where
  "canonical_json s = rbind (v3_identity_payload s) spec_canonical_value"

text \<open>One rule set against the selectors; the rule ids seen so far are threaded through.\<close>

fun add_rule_ids :: "fee_rule list \<Rightarrow> string set \<Rightarrow> exn + string set" where
  "add_rule_ids [] seen = Inr seen"
| "add_rule_ids (r # rs) seen =
     (if fr_rule_id r \<in> seen
      then Inl (ValueError ''v3 execution cost rule_id values must be globally unique'')
      else add_rule_ids rs (insert (fr_rule_id r) seen))"

definition validate_v3_rule_set ::
  "fee_rule list \<Rightarrow> instrument_selector list \<Rightarrow> string \<Rightarrow> string set \<Rightarrow> exn + string set" where
  "validate_v3_rule_set rules selectors component seen =
     (let selector_ids = set (map sel_selector_id selectors);
          rule_selector_ids = map fr_selector_id rules in
      if length rules \<noteq> length selectors
      then Inl (ValueError (''v3 '' @ component @ '' rules must contain one rule per selector''))
      else if set rule_selector_ids \<noteq> selector_ids
              \<or> length rule_selector_ids \<noteq> card (set rule_selector_ids)
      then Inl (ValueError (''v3 '' @ component @ '' rules must map one-to-one to selectors''))
      else add_rule_ids rules seen)"

definition opt_all :: "('a \<Rightarrow> bool) \<Rightarrow> 'a option \<Rightarrow> bool" where
  "opt_all P x = (case x of None \<Rightarrow> True | Some y \<Rightarrow> P y)"

lemma opt_all_simps [simp]: "opt_all P None" "opt_all P (Some y) \<longleftrightarrow> P y"
  by (simp_all add: opt_all_def)

definition legacy_bps_ok :: "decimal option \<Rightarrow> bool" where
  "legacy_bps_ok x = opt_all (\<lambda>d. dle dzero d \<and> dle d (dof_int 10000)) x"

definition validate_opt :: "('a \<Rightarrow> exn + 'a) \<Rightarrow> 'a option \<Rightarrow> exn + 'a option" where
  "validate_opt f x = (case x of None \<Rightarrow> Inr None | Some y \<Rightarrow> rbind (f y) (\<lambda>z. Inr (Some z)))"

text \<open>Field validation of the specification: decimals and nested models, then the constraints.\<close>

definition parse_spec_fields :: "execution_cost_spec \<Rightarrow> exn + execution_cost_spec" where
  "parse_spec_fields s =
     rbind (parse_decimal_opt ''execution cost'' (es_commission_bps s)) (\<lambda>commission.
     rbind (parse_decimal_opt ''execution cost'' (es_stamp_duty_bps s)) (\<lambda>stamp.
     rbind (parse_decimal_opt ''execution cost'' (es_transfer_fee_bps s)) (\<lambda>transfer.
     rbind (parse_decimal_opt ''execution cost'' (es_slippage_bps s)) (\<lambda>slip.
     rbind (parse_decimal_opt ''execution cost'' (es_minimum_commission s)) (\<lambda>minimum.
     rbind (mapM validate_instrument_selector (es_instrument_selectors s)) (\<lambda>selectors.
     rbind (mapM validate_fee_rule (es_commission_rules s)) (\<lambda>commission_rules.
     rbind (mapM validate_fee_rule (es_transfer_fee_rules s)) (\<lambda>transfer_fee_rules.
     rbind (mapM validate_fee_rule (es_stamp_duty_rules s)) (\<lambda>stamp_duty_rules.
     rbind (validate_opt validate_slippage (es_slippage s)) (\<lambda>slippage.
     rbind (validate_opt validate_money (es_money s)) (\<lambda>money.
     rbind (parse_decimal_opt ''execution cost'' (es_research_notional_per_trade s)) (\<lambda>notional.
       Inr (s\<lparr>es_commission_bps := commission, es_stamp_duty_bps := stamp,
              es_transfer_fee_bps := transfer, es_slippage_bps := slip,
              es_minimum_commission := minimum,
              es_cost_engine_version := map_option py_strip (es_cost_engine_version s),
              es_instrument_selectors := selectors, es_commission_rules := commission_rules,
              es_transfer_fee_rules := transfer_fee_rules,
              es_stamp_duty_rules := stamp_duty_rules, es_slippage := slippage,
              es_money := money, es_research_notional_per_trade := notional\<rparr>)))))))))))))"

definition check_spec_fields :: "execution_cost_spec \<Rightarrow> exn + execution_cost_spec" where
  "check_spec_fields s =
     raise_first
       [(\<not> legacy_bps_ok (es_commission_bps s), ValueError ''commission_bps''),
        (\<not> legacy_bps_ok (es_stamp_duty_bps s), ValueError ''stamp_duty_bps''),
        (\<not> legacy_bps_ok (es_transfer_fee_bps s), ValueError ''transfer_fee_bps''),
        (\<not> legacy_bps_ok (es_slippage_bps s), ValueError ''slippage_bps''),
        (\<not> opt_all (dle dzero) (es_minimum_commission s), ValueError ''minimum_commission''),
        (\<not> opt_all (\<lambda>v. v \<noteq> []) (es_cost_engine_version s), ValueError ''cost_engine_version''),
        (\<not> opt_all (\<lambda>b. b = ''EXECUTED_NOTIONAL'') (es_fee_notional_basis s),
         ValueError ''fee_notional_basis''),
        (\<not> opt_all (\<lambda>u. u = ''FILL'') (es_assessment_unit s), ValueError ''assessment_unit''),
        (\<not> opt_all is_sha256 (es_cost_spec_id s), ValueError ''cost_spec_id''),
        (\<not> opt_all (dlt dzero) (es_research_notional_per_trade s),
         ValueError ''research_notional_per_trade'')] s"

definition validate_spec_fields :: "execution_cost_spec \<Rightarrow> exn + execution_cost_spec" where
  "validate_spec_fields raw =
     (if es_schema_version raw \<notin> {1, 2, 3}
      then Inl (ValueError ''execution cost schema_version must be integer 1, 2, or 3'')
      else rbind (parse_spec_fields raw) check_spec_fields)"

definition validate_legacy_contract :: "execution_cost_spec \<Rightarrow> exn + execution_cost_spec" where
  "validate_legacy_contract s =
     (case (es_commission_bps s, es_stamp_duty_bps s, es_transfer_fee_bps s, es_slippage_bps s,
            es_minimum_commission s) of
        (Some commission, Some stamp, Some transfer, Some slippage, Some minimum) \<Rightarrow>
          let buy_total = dadd (dadd commission transfer) slippage;
              sell_total = dadd buy_total stamp in
          raise_first
            [(es_cost_engine_version s \<noteq> None \<or> es_fee_notional_basis s \<noteq> None
              \<or> es_assessment_unit s \<noteq> None \<or> es_slippage s \<noteq> None \<or> es_money s \<noteq> None
              \<or> es_cost_spec_id s \<noteq> None \<or> es_instrument_selectors s \<noteq> []
              \<or> es_commission_rules s \<noteq> [] \<or> es_transfer_fee_rules s \<noteq> []
              \<or> es_stamp_duty_rules s \<noteq> [],
              ValueError ''v1/v2 execution costs cannot carry v3 alignment fields''),
             (dle (dof_int 10000) buy_total,
              ValueError ''buy-side execution costs must total less than 10000 bps''),
             (dle (dof_int 10000) sell_total,
              ValueError ''sell-side execution costs must total less than 10000 bps''),
             (es_schema_version s = 1
              \<and> (\<not> deq minimum dzero \<or> es_research_notional_per_trade s \<noteq> None),
              ValueError ''v1 execution costs cannot carry notional fee fields''),
             (dlt dzero minimum \<and> es_research_notional_per_trade s = None,
              ValueError ''minimum commission requires research notional per trade'')] s
      | _ \<Rightarrow> Inl (ValueError ''v1/v2 execution costs require all legacy fee fields''))"

definition validate_v3_contract :: "digest \<Rightarrow> execution_cost_spec \<Rightarrow> exn + execution_cost_spec" where
  "validate_v3_contract digest s =
     (let selectors = es_instrument_selectors s in
      rbind (raise_first
        [(es_legacy_fields_set s,
          ValueError ''v3 execution costs cannot carry legacy scalar fee fields''),
         (es_cost_engine_version s = None \<or> es_fee_notional_basis s = None
          \<or> es_assessment_unit s = None \<or> es_slippage s = None \<or> es_money s = None,
          ValueError ''v3 execution costs require complete shared cost configuration''),
         (selectors = [],
          ValueError ''v3 execution costs require at least one instrument selector''),
         (\<not> distinct (map sel_selector_id selectors),
          ValueError ''v3 instrument selector_id values must be unique''),
         (\<not> distinct (map selector_scope_key selectors),
          ValueError ''v3 instrument selectors must be non-overlapping'')] ()) (\<lambda>_.
      rbind (validate_v3_rule_set (es_commission_rules s) selectors ''commission'' {}) (\<lambda>seen.
      rbind (validate_v3_rule_set (es_transfer_fee_rules s) selectors ''transfer fee'' seen) (\<lambda>seen.
      rbind (validate_v3_rule_set (es_stamp_duty_rules s) selectors ''stamp duty'' seen) (\<lambda>_.
      rbind (canonical_json s) (\<lambda>j.
        let expected = digest j in
        case es_cost_spec_id s of
          None \<Rightarrow> Inr (s\<lparr>es_cost_spec_id := Some expected\<rparr>)
        | Some i \<Rightarrow>
            if i \<noteq> expected
            then Inl (ValueError ''cost_spec_id does not match canonical v3 execution cost JSON'')
            else Inr s))))))"

text \<open>\<open>ExecutionCostSpec.model_validate\<close>.\<close>

definition validate_cost_spec :: "digest \<Rightarrow> execution_cost_spec \<Rightarrow> exn + execution_cost_spec" where
  "validate_cost_spec digest raw =
     rbind (validate_spec_fields raw) (\<lambda>s.
       if es_schema_version s \<in> {1, 2} then validate_legacy_contract s
       else validate_v3_contract digest s)"

definition is_alignment_eligible :: "execution_cost_spec \<Rightarrow> bool" where
  "is_alignment_eligible s = (es_schema_version s = 3)"

section \<open>Validation is idempotent\<close>

text \<open>
  Every model is configured with \<open>revalidate_instances="always"\<close>, so each call of the engine
  validates its inputs again. A value that validation returned is a fixed point of it.
\<close>

lemma upper_char_upper [simp]: "upper_char (upper_char c) = upper_char c"
  by (cases "97 \<le> (of_char c :: nat) \<and> (of_char c :: nat) \<le> 122") (auto simp: upper_char_def Let_def)

lemma is_space_upper [simp]: "is_space (upper_char c) = is_space c"
  by (auto simp: upper_char_def is_space_def Let_def)

lemma dropWhile_dropWhile [simp]: "dropWhile P (dropWhile P xs) = dropWhile P xs"
  by (induction xs) auto

lemma dropWhile_rev_dropWhile:
  "dropWhile P (rev (dropWhile P (rev (dropWhile P xs)))) = rev (dropWhile P (rev (dropWhile P xs)))"
proof -
  define ys where "ys = dropWhile P xs"
  have head: "ys = [] \<or> \<not> P (hd ys)" using hd_dropWhile [of P xs] by (auto simp: ys_def)
  have "rev (dropWhile P (rev ys)) = [] \<or> \<not> P (hd (rev (dropWhile P (rev ys))))"
  proof (cases ys)
    case (Cons y zs)
    with head have "\<not> P y" by simp
    then have "dropWhile P (rev zs @ [y]) = dropWhile P (rev zs) @ [y] \<or> dropWhile P (rev zs @ [y]) = [y]"
    proof (cases "\<forall>z \<in> set (rev zs). P z")
      case True
      then have "dropWhile P (rev zs @ [y]) = dropWhile P [y]" by (intro dropWhile_append2) blast
      with \<open>\<not> P y\<close> show ?thesis by simp
    qed (auto simp: dropWhile_append1)
    then show ?thesis using Cons \<open>\<not> P y\<close> by auto
  qed simp
  moreover have "dropWhile P zs = zs" if "zs = [] \<or> \<not> P (hd zs)" for zs using that by (cases zs) auto
  ultimately show ?thesis unfolding ys_def [symmetric] by blast
qed

lemma py_strip_idem [simp]: "py_strip (py_strip s) = py_strip s"
  by (simp add: py_strip_def dropWhile_rev_dropWhile)

lemma py_strip_upper: "py_strip (py_upper s) = py_upper (py_strip s)"
  by (simp add: py_strip_def py_upper_def rev_map dropWhile_map comp_def)

lemma py_upper_idem [simp]: "py_upper (py_upper s) = py_upper s"
  by (simp add: py_upper_def)

lemma py_upper_empty [simp]: "py_upper s = [] \<longleftrightarrow> s = []"
  by (simp add: py_upper_def)

lemma normalize_scope_idem: "normalize_scope_value v = Inr w \<Longrightarrow> normalize_scope_value w = Inr w"
  by (auto simp: normalize_scope_value_def py_strip_upper split: if_splits)

lemma normalize_context_idem: "normalize_context_value v = Inr w \<Longrightarrow> normalize_context_value w = Inr w"
  by (auto simp: normalize_context_value_def py_strip_upper split: if_splits)

lemma validate_instrument_selector_idem:
  "validate_instrument_selector s = Inr t \<Longrightarrow> validate_instrument_selector t = Inr t"
  by (auto simp: validate_instrument_selector_def normalize_scope_idem split: if_splits)

lemma ndigits_zero [simp]: "ndigits 0 = 1"
  by (simp add: ndigits.simps)

lemma parse_decimal_idem: "parse_decimal f d = Inr p \<Longrightarrow> parse_decimal f p = Inr p"
  by (cases "is_zero d") (auto simp: parse_decimal_def decimal_components_def is_zero_def dzero_def)

lemma parse_decimal_opt_idem: "parse_decimal_opt f d = Inr p \<Longrightarrow> parse_decimal_opt f p = Inr p"
  by (auto simp: parse_decimal_opt_def parse_decimal_idem split: option.splits)

lemma validate_fee_rule_idem: "validate_fee_rule r = Inr t \<Longrightarrow> validate_fee_rule t = Inr t"
  by (auto simp: validate_fee_rule_def parse_decimal_idem)

lemma validate_slippage_idem: "validate_slippage r = Inr t \<Longrightarrow> validate_slippage t = Inr t"
  by (auto simp: validate_slippage_def parse_decimal_idem)

lemma validate_money_idem: "validate_money r = Inr t \<Longrightarrow> validate_money t = Inr t"
  by (auto simp: validate_money_def parse_decimal_idem)

lemma validate_order_input_idem: "validate_order_input r = Inr t \<Longrightarrow> validate_order_input t = Inr t"
  by (auto simp: validate_order_input_def parse_decimal_idem)

lemma validate_provenance_idem:
  "validate_classification_provenance p = Inr q \<Longrightarrow> validate_classification_provenance q = Inr q"
  by (simp add: validate_classification_provenance_def)

lemma validate_instrument_context_idem:
  "validate_instrument_context s = Inr t \<Longrightarrow> validate_instrument_context t = Inr t"
  by (auto simp: validate_instrument_context_def normalize_context_idem
      validate_provenance_idem split: option.splits)

lemma mapM_idem:
  assumes "mapM f xs = Inr ys" and "\<And>x y. f x = Inr y \<Longrightarrow> f y = Inr y"
  shows "mapM f ys = Inr ys"
  using assms(1) by (induction xs arbitrary: ys) (auto simp: assms(2))

lemma validate_opt_idem:
  assumes "validate_opt f x = Inr y" and "\<And>x y. f x = Inr y \<Longrightarrow> f y = Inr y"
  shows "validate_opt f y = Inr y"
  using assms(1) by (auto simp: validate_opt_def assms(2) split: option.splits)

lemma map_strip_idem [simp]: "map_option py_strip (map_option py_strip x) = map_option py_strip x"
  by (cases x) simp_all

lemma parse_spec_fields_idem:
  assumes "parse_spec_fields raw = Inr s"
  shows "parse_spec_fields (s\<lparr>es_cost_spec_id := i\<rparr>) = Inr (s\<lparr>es_cost_spec_id := i\<rparr>)"
    and "es_schema_version s = es_schema_version raw"
proof -
  from assms obtain commission stamp transfer slip minimum selectors cr tr sr slippage money notional where
    p: "parse_decimal_opt ''execution cost'' (es_commission_bps raw) = Inr commission"
      "parse_decimal_opt ''execution cost'' (es_stamp_duty_bps raw) = Inr stamp"
      "parse_decimal_opt ''execution cost'' (es_transfer_fee_bps raw) = Inr transfer"
      "parse_decimal_opt ''execution cost'' (es_slippage_bps raw) = Inr slip"
      "parse_decimal_opt ''execution cost'' (es_minimum_commission raw) = Inr minimum"
      "mapM validate_instrument_selector (es_instrument_selectors raw) = Inr selectors"
      "mapM validate_fee_rule (es_commission_rules raw) = Inr cr"
      "mapM validate_fee_rule (es_transfer_fee_rules raw) = Inr tr"
      "mapM validate_fee_rule (es_stamp_duty_rules raw) = Inr sr"
      "validate_opt validate_slippage (es_slippage raw) = Inr slippage"
      "validate_opt validate_money (es_money raw) = Inr money"
      "parse_decimal_opt ''execution cost'' (es_research_notional_per_trade raw) = Inr notional" and
    s: "s = raw\<lparr>es_commission_bps := commission, es_stamp_duty_bps := stamp,
              es_transfer_fee_bps := transfer, es_slippage_bps := slip,
              es_minimum_commission := minimum,
              es_cost_engine_version := map_option py_strip (es_cost_engine_version raw),
              es_instrument_selectors := selectors, es_commission_rules := cr,
              es_transfer_fee_rules := tr, es_stamp_duty_rules := sr, es_slippage := slippage,
              es_money := money, es_research_notional_per_trade := notional\<rparr>"
    unfolding parse_spec_fields_def by (elim rbind_InrE) simp
  note idems = parse_decimal_opt_idem [OF p(1)] parse_decimal_opt_idem [OF p(2)]
    parse_decimal_opt_idem [OF p(3)] parse_decimal_opt_idem [OF p(4)] parse_decimal_opt_idem [OF p(5)]
    mapM_idem [OF p(6) validate_instrument_selector_idem] mapM_idem [OF p(7) validate_fee_rule_idem]
    mapM_idem [OF p(8) validate_fee_rule_idem] mapM_idem [OF p(9) validate_fee_rule_idem]
    validate_opt_idem [OF p(10) validate_slippage_idem] validate_opt_idem [OF p(11) validate_money_idem]
    parse_decimal_opt_idem [OF p(12)]
  show "parse_spec_fields (s\<lparr>es_cost_spec_id := i\<rparr>) = Inr (s\<lparr>es_cost_spec_id := i\<rparr>)"
    unfolding s parse_spec_fields_def by (simp add: idems)
  show "es_schema_version s = es_schema_version raw" by (simp add: s)
qed

lemma check_spec_fields_Inr: "check_spec_fields s = Inr t \<Longrightarrow> t = s"
  by (simp add: check_spec_fields_def)

lemma check_spec_fields_set_id:
  "check_spec_fields s = Inr t \<Longrightarrow> is_sha256 i \<Longrightarrow>
   check_spec_fields (s\<lparr>es_cost_spec_id := Some i\<rparr>) = Inr (s\<lparr>es_cost_spec_id := Some i\<rparr>)"
  by (simp add: check_spec_fields_def)

lemma validate_spec_fields_fix:
  assumes "validate_spec_fields raw = Inr s"
  shows "validate_spec_fields s = Inr s"
    and "is_sha256 i \<Longrightarrow> validate_spec_fields (s\<lparr>es_cost_spec_id := Some i\<rparr>) =
      Inr (s\<lparr>es_cost_spec_id := Some i\<rparr>)"
proof -
  from assms have v: "es_schema_version raw \<in> {1, 2, 3}"
    and p: "parse_spec_fields raw = Inr s" and c: "check_spec_fields s = Inr s"
    unfolding validate_spec_fields_def by (auto dest: check_spec_fields_Inr)
  show "validate_spec_fields s = Inr s"
    using v parse_spec_fields_idem(1) [OF p, of "es_cost_spec_id s"]
      parse_spec_fields_idem(2) [OF p] c by (simp add: validate_spec_fields_def)
  show "validate_spec_fields (s\<lparr>es_cost_spec_id := Some i\<rparr>) = Inr (s\<lparr>es_cost_spec_id := Some i\<rparr>)"
    if "is_sha256 i"
    using v parse_spec_fields_idem [OF p] check_spec_fields_set_id [OF c that]
    by (simp add: validate_spec_fields_def)
qed

lemma canonical_json_id [simp]: "canonical_json (s\<lparr>es_cost_spec_id := i\<rparr>) = canonical_json s"
  by (simp add: canonical_json_def v3_identity_payload_def)

lemma validate_v3_contract_cases:
  assumes "validate_v3_contract digest s = Inr t"
  obtains j where "canonical_json s = Inr j" "t = s\<lparr>es_cost_spec_id := Some (digest j)\<rparr>"
proof -
  from assms obtain j where "canonical_json s = Inr j"
    and "(case es_cost_spec_id s of None \<Rightarrow> Inr (s\<lparr>es_cost_spec_id := Some (digest j)\<rparr>)
        | Some i \<Rightarrow> if i \<noteq> digest j
            then Inl (ValueError ''cost_spec_id does not match canonical v3 execution cost JSON'')
            else Inr s) = Inr t"
    unfolding validate_v3_contract_def Let_def by (elim rbind_InrE) blast
  moreover from this(2) have "t = s\<lparr>es_cost_spec_id := Some (digest j)\<rparr>"
    by (cases "es_cost_spec_id s") simp_all
  ultimately show ?thesis using that by blast
qed

lemma validate_v3_contract_set_id:
  assumes "validate_v3_contract digest s = Inr t"
  shows "validate_v3_contract digest t = Inr t"
proof -
  from assms obtain j where j: "canonical_json s = Inr j"
    and t: "t = s\<lparr>es_cost_spec_id := Some (digest j)\<rparr>" by (rule validate_v3_contract_cases)
  show ?thesis using assms j unfolding t validate_v3_contract_def Let_def
    by (elim rbind_InrE) simp
qed

lemma validate_cost_spec_cases:
  assumes "validate_cost_spec digest raw = Inr t"
  obtains (legacy) "validate_spec_fields raw = Inr t" "es_schema_version t \<in> {1, 2}"
      "validate_legacy_contract t = Inr t"
  | (v3) s j where "validate_spec_fields raw = Inr s" "es_schema_version t = 3"
      "canonical_json t = Inr j" "t = s\<lparr>es_cost_spec_id := Some (digest j)\<rparr>"
      "validate_v3_contract digest t = Inr t"
proof -
  from assms obtain s where s: "validate_spec_fields raw = Inr s"
    and t: "(if es_schema_version s \<in> {1, 2} then validate_legacy_contract s
             else validate_v3_contract digest s) = Inr t"
    unfolding validate_cost_spec_def by (elim rbind_InrE) blast
  show ?thesis
  proof (cases "es_schema_version s \<in> {1, 2}")
    case True
    then have "validate_legacy_contract s = Inr t" using t by simp
    moreover from this have "t = s"
      by (auto simp: validate_legacy_contract_def Let_def split: option.splits)
    ultimately show ?thesis using legacy s True by simp
  next
    case False
    then have v3': "validate_v3_contract digest s = Inr t" using t by simp
    then obtain j where j: "canonical_json s = Inr j" "t = s\<lparr>es_cost_spec_id := Some (digest j)\<rparr>"
      by (rule validate_v3_contract_cases)
    then have "es_schema_version t = 3"
      by (auto simp: canonical_json_def v3_identity_payload_def)
    with j v3 s validate_v3_contract_set_id [OF v3'] show ?thesis by simp
  qed
qed

lemma validate_cost_spec_idem:
  assumes sha: "\<And>j. is_sha256 (digest j)" and "validate_cost_spec digest raw = Inr t"
  shows "validate_cost_spec digest t = Inr t"
  using assms(2)
proof (cases rule: validate_cost_spec_cases)
  case legacy
  with validate_spec_fields_fix(1) [OF legacy(1)] show ?thesis by (auto simp: validate_cost_spec_def)
next
  case (v3 s j)
  with validate_spec_fields_fix(2) [OF v3(1) sha] show ?thesis
    by (auto simp: validate_cost_spec_def)
qed

section \<open>Rule selection\<close>

lemma filter_unique:
  assumes "distinct (map f xs)" and "v \<in> f ` set xs"
  obtains x where "filter (\<lambda>x. f x = v) xs = [x]" "x \<in> set xs" "f x = v"
proof -
  from assms have "\<exists>x. filter (\<lambda>x. f x = v) xs = [x] \<and> x \<in> set xs \<and> f x = v"
  proof (induction xs)
    case (Cons a xs)
    show ?case
    proof (cases "f a = v")
      case True
      with Cons.prems(1) have "filter (\<lambda>x. f x = v) xs = []" by (auto simp: filter_empty_conv image_iff)
      with True show ?thesis by simp
    next
      case False
      with Cons show ?thesis by auto
    qed
  qed simp
  with that show ?thesis by blast
qed

lemma validate_v3_rule_set_spec:
  assumes "validate_v3_rule_set rules selectors component seen = Inr seen'"
  shows "set (map fr_selector_id rules) = set (map sel_selector_id selectors)"
    and "distinct (map fr_selector_id rules)"
  using assms by (auto simp: validate_v3_rule_set_def Let_def intro: card_distinct [OF sym])

lemma add_rule_ids_spec:
  "add_rule_ids rules seen = Inr seen' \<longleftrightarrow>
   seen' = seen \<union> fr_rule_id ` set rules \<and> distinct (map fr_rule_id rules) \<and>
   seen \<inter> fr_rule_id ` set rules = {}"
  by (induction rules seen rule: add_rule_ids.induct) auto

lemma validate_v3_contract_rules:
  assumes "validate_v3_contract digest s = Inr t"
  shows "distinct (map selector_scope_key (es_instrument_selectors s))"
    and "rules \<in> {es_commission_rules s, es_transfer_fee_rules s, es_stamp_duty_rules s} \<Longrightarrow>
      set (map fr_selector_id rules) = set (map sel_selector_id (es_instrument_selectors s)) \<and>
      distinct (map fr_selector_id rules)"
    and "distinct (map fr_rule_id (es_commission_rules s @ es_transfer_fee_rules s @ es_stamp_duty_rules s))"
proof -
  let ?sel = "es_instrument_selectors s"
  from assms obtain a b c where
      ids: "distinct (map selector_scope_key ?sel)" and
      a: "validate_v3_rule_set (es_commission_rules s) ?sel ''commission'' {} = Inr a" and
      b: "validate_v3_rule_set (es_transfer_fee_rules s) ?sel ''transfer fee'' a = Inr b" and
      c: "validate_v3_rule_set (es_stamp_duty_rules s) ?sel ''stamp duty'' b = Inr c"
    unfolding validate_v3_contract_def Let_def by (elim rbind_InrE) simp
  show "distinct (map selector_scope_key ?sel)" by (rule ids)
  show "set (map fr_selector_id rules) = set (map sel_selector_id ?sel) \<and>
      distinct (map fr_selector_id rules)"
    if "rules \<in> {es_commission_rules s, es_transfer_fee_rules s, es_stamp_duty_rules s}"
    using that by (auto simp only: insert_iff empty_iff validate_v3_rule_set_spec [OF a]
        validate_v3_rule_set_spec [OF b] validate_v3_rule_set_spec [OF c])
  have "add_rule_ids (es_commission_rules s) {} = Inr a" "add_rule_ids (es_transfer_fee_rules s) a = Inr b"
    "add_rule_ids (es_stamp_duty_rules s) b = Inr c"
    using a b c by (simp_all add: validate_v3_rule_set_def Let_def)
  note ids = this [unfolded add_rule_ids_spec]
  have "a \<inter> fr_rule_id ` set (es_stamp_duty_rules s) = {}" using ids(2,3) by blast
  with ids show "distinct (map fr_rule_id (es_commission_rules s @ es_transfer_fee_rules s @ es_stamp_duty_rules s))"
    by (simp only: map_append distinct_append set_append set_map Un_empty_left) blast
qed

end
