(* ===== verification/Execution_Costs.thy ===== *)
theory Execution_Costs
  imports Cost_Spec
begin

text \<open>
  The execution cost engine, \<open>order_execution_costs.py\<close>: fees, slippage and rounding of one
  fill under a version 3 specification (\<open>calculate_execution_costs\<close>), and the older
  scalar-rate calculation (\<open>calculate_order_execution_costs\<close>), together with the calculation
  record of \<open>research_run_spec.py\<close> that carries the result.
\<close>

section \<open>The calculation record\<close>

record cost_calculation =
  cc_cost_spec_id :: string
  cc_cost_spec_schema_version :: int
  cc_cost_engine_version :: string
  cc_order_input :: cost_order_input
  cc_instrument_context :: instrument_context
  cc_executed_price :: decimal
  cc_reference_notional :: decimal
  cc_executed_notional :: decimal
  cc_commission :: decimal
  cc_transfer_fee :: decimal
  cc_stamp_duty :: decimal
  cc_slippage_amount :: decimal
  cc_total_fees :: decimal
  cc_selected_rule_ids :: "(string \<times> string) list"
  cc_cost_context_fingerprint :: string

definition validate_component_sum :: "cost_calculation \<Rightarrow> exn + cost_calculation" where
  "validate_component_sum c =
     raise_first
       [(\<not> deq (cc_total_fees c) (dadd (dadd (cc_commission c) (cc_transfer_fee c)) (cc_stamp_duty c)),
         ValueError ''execution total_fees must equal the rounded fee components''),
        (set (map fst (cc_selected_rule_ids c))
           \<noteq> {''selector'', ''commission'', ''transfer_fee'', ''stamp_duty''}
         \<or> list_ex (\<lambda>(k, rule_id). rule_id = []) (cc_selected_rule_ids c),
         ValueError ''execution cost calculation requires complete selected rule evidence'')] c"

definition validate_cost_calculation :: "cost_calculation \<Rightarrow> exn + cost_calculation" where
  "validate_cost_calculation c =
     rbind (validate_order_input (cc_order_input c)) (\<lambda>order_input.
     rbind (validate_instrument_context (cc_instrument_context c)) (\<lambda>context.
     rbind (raise_first
       [(\<not> is_sha256 (cc_cost_spec_id c), ValueError ''cost_spec_id''),
        (cc_cost_spec_schema_version c \<noteq> 3, ValueError ''cost_spec_schema_version''),
        (cc_cost_engine_version c = [], ValueError ''cost_engine_version''),
        (\<not> dlt dzero (cc_executed_price c), ValueError ''executed_price''),
        (\<not> dlt dzero (cc_reference_notional c), ValueError ''reference_notional''),
        (\<not> dlt dzero (cc_executed_notional c), ValueError ''executed_notional''),
        (\<not> dle dzero (cc_commission c), ValueError ''commission''),
        (\<not> dle dzero (cc_transfer_fee c), ValueError ''transfer_fee''),
        (\<not> dle dzero (cc_stamp_duty c), ValueError ''stamp_duty''),
        (\<not> dle dzero (cc_slippage_amount c), ValueError ''slippage_amount''),
        (\<not> dle dzero (cc_total_fees c), ValueError ''total_fees''),
        (\<not> is_sha256 (cc_cost_context_fingerprint c), ValueError ''cost_context_fingerprint'')]
       (c\<lparr>cc_order_input := order_input, cc_instrument_context := context\<rparr>))
     validate_component_sum))"

section \<open>Dumps\<close>

definition provenance_dump :: "classification_provenance \<Rightarrow> pyval" where
  "provenance_dump p = PDict
     [(''reference_dataset'', PStr (cp_reference_dataset p)),
      (''reference_record_id'', PStr (cp_reference_record_id p)),
      (''reference_generation_id'', PStr (cp_reference_generation_id p))]"

definition instrument_context_dump :: "instrument_context \<Rightarrow> pyval" where
  "instrument_context_dump c = PDict
     [(''ts_code'', PStr (ctx_ts_code c)), (''market'', PStr (ctx_market c)),
      (''exchange'', PStr (ctx_exchange c)), (''instrument_class'', PStr (ctx_instrument_class c)),
      (''security_class'', PStr (ctx_security_class c)),
      (''classification_provenance'', popt provenance_dump (ctx_classification_provenance c))]"

definition order_input_dump :: "cost_order_input \<Rightarrow> pyval" where
  "order_input_dump i = PDict
     [(''side'', PStr (side_text (oi_side i))), (''reference_price'', PDecimal (oi_reference_price i)),
      (''quantity'', PInt (oi_quantity i))]"

definition rule_ids_dump :: "(string \<times> string) list \<Rightarrow> pyval" where
  "rule_ids_dump ids = PDict (map (\<lambda>(k, v). (k, PStr v)) ids)"

definition cost_calculation_dump :: "cost_calculation \<Rightarrow> pyval" where
  "cost_calculation_dump c = PDict
     [(''cost_spec_id'', PStr (cc_cost_spec_id c)),
      (''cost_spec_schema_version'', PInt (cc_cost_spec_schema_version c)),
      (''cost_engine_version'', PStr (cc_cost_engine_version c)),
      (''order_input'', order_input_dump (cc_order_input c)),
      (''instrument_context'', instrument_context_dump (cc_instrument_context c)),
      (''executed_price'', PDecimal (cc_executed_price c)),
      (''reference_notional'', PDecimal (cc_reference_notional c)),
      (''executed_notional'', PDecimal (cc_executed_notional c)),
      (''commission'', PDecimal (cc_commission c)), (''transfer_fee'', PDecimal (cc_transfer_fee c)),
      (''stamp_duty'', PDecimal (cc_stamp_duty c)),
      (''slippage_amount'', PDecimal (cc_slippage_amount c)),
      (''total_fees'', PDecimal (cc_total_fees c)),
      (''selected_rule_ids'', rule_ids_dump (cc_selected_rule_ids c)),
      (''cost_context_fingerprint'', PStr (cc_cost_context_fingerprint c))]"

definition resolved_calculation_fingerprint :: "digest \<Rightarrow> cost_calculation \<Rightarrow> string" where
  "resolved_calculation_fingerprint digest c = canonical_sha256 digest (cost_calculation_dump c)"

section \<open>Rounding and fees\<close>

definition bps_scale :: decimal where
  "bps_scale = dof_int 10000"

definition default_price_tick :: decimal where
  "default_price_tick = Dec False 1 (- 4)"

definition default_money_quantum :: decimal where
  "default_money_quantum = Dec False 1 (- 2)"

definition quantize :: "decimal \<Rightarrow> decimal option \<Rightarrow> exn + decimal" where
  "quantize v quantum =
     (case quantum of
        None \<Rightarrow> Inr v
      | Some q \<Rightarrow>
          if dle q dzero then Inl (ValueError ''rounding quantum must be finite and positive'')
          else dquantize v q)"

definition v3_fee_amount ::
  "fee_rule \<Rightarrow> execution_cost_side \<Rightarrow> decimal \<Rightarrow> decimal \<Rightarrow> exn + decimal" where
  "v3_fee_amount rule side executed_notional money_quantum =
     (if \<not> applies_to_side rule side then quantize dzero (Some money_quantum)
      else rbind (ddiv (dmul executed_notional (fr_rate_bps rule)) bps_scale) (\<lambda>raw_amount.
        quantize (dmax raw_amount (fr_minimum_amount rule)) (Some money_quantum)))"

text \<open>\<open>order.reference_price * (1 + direction * slippage_bps / 10000)\<close> of the version 3 engine, left to right.\<close>

definition slipped_raw :: "decimal \<Rightarrow> bool \<Rightarrow> decimal \<Rightarrow> exn + decimal" where
  "slipped_raw reference_price is_buy slippage_bps =
     (let direction = (if is_buy then dof_int 1 else dof_int (- 1)) in
      rbind (ddiv (dmul direction slippage_bps) bps_scale) (\<lambda>x.
        Inr (dmul reference_price (dadd (dof_int 1) x))))"

section \<open>The shared version 3 engine\<close>

definition rule_for :: "instrument_selector \<Rightarrow> fee_rule list \<Rightarrow> string \<Rightarrow> exn + fee_rule" where
  "rule_for selector rules component =
     (case filter (\<lambda>rule. fr_selector_id rule = sel_selector_id selector) rules of
        [rule] \<Rightarrow> Inr rule
      | _ \<Rightarrow> Inl (ValueError (''v3 execution costs have ambiguous '' @ component @ '' rule selection'')))"

definition select_selector :: "execution_cost_spec \<Rightarrow> instrument_context \<Rightarrow> exn + instrument_selector" where
  "select_selector spec context =
     (case filter (\<lambda>s. selector_scope_key s = context_scope_key context) (es_instrument_selectors spec) of
        [] \<Rightarrow> Inl (ValueError ''v3 execution costs have no matching instrument selector'')
      | [s] \<Rightarrow> Inr s
      | _ \<Rightarrow> Inl (ValueError ''v3 execution costs have ambiguous instrument selectors''))"

definition executed_price_v3 :: "cost_slippage \<Rightarrow> cost_order_input \<Rightarrow> exn + decimal" where
  "executed_price_v3 slippage order =
     (let slippage_bps = (if oi_side order = CostBuy then sl_buy_bps slippage else sl_sell_bps slippage) in
      rbind (slipped_raw (oi_reference_price order) (oi_side order = CostBuy) slippage_bps) (\<lambda>raw.
      rbind (quantize raw (Some (sl_price_tick slippage))) (\<lambda>executed_price.
        if dle executed_price dzero
        then Inl (ValueError ''slippage-adjusted execution price must be positive'')
        else Inr executed_price)))"

definition cost_context_payload ::
  "execution_cost_spec \<Rightarrow> string \<Rightarrow> string \<Rightarrow> cost_slippage \<Rightarrow> cost_money \<Rightarrow> cost_order_input
   \<Rightarrow> instrument_context \<Rightarrow> (string \<times> string) list \<Rightarrow> pyval" where
  "cost_context_payload spec spec_id engine slippage money order context selected_rule_ids = PDict
     [(''cost_spec_id'', PStr spec_id), (''cost_engine_version'', PStr engine),
      (''side'', PStr (side_text (oi_side order))),
      (''instrument_context'', instrument_context_dump context),
      (''selected_rule_ids'', rule_ids_dump selected_rule_ids),
      (''fee_notional_basis'', popt PStr (es_fee_notional_basis spec)),
      (''assessment_unit'', popt PStr (es_assessment_unit spec)),
      (''slippage'', slippage_dump slippage), (''money'', money_dump money)]"

text \<open>
  The engine after its inputs are validated. The four \<open>assert\<close> statements are the \<open>case\<close>.
\<close>

definition resolve_costs ::
  "digest \<Rightarrow> execution_cost_spec \<Rightarrow> cost_order_input \<Rightarrow> instrument_context \<Rightarrow> exn + cost_calculation" where
  "resolve_costs digest spec order context =
     (case (es_cost_spec_id spec, es_cost_engine_version spec, es_slippage spec, es_money spec) of
        (Some spec_id, Some engine, Some slippage, Some money) \<Rightarrow>
          rbind (select_selector spec context) (\<lambda>selector.
          rbind (rule_for selector (es_commission_rules spec) ''commission'') (\<lambda>commission_rule.
          rbind (rule_for selector (es_transfer_fee_rules spec) ''transfer fee'') (\<lambda>transfer_rule.
          rbind (rule_for selector (es_stamp_duty_rules spec) ''stamp duty'') (\<lambda>stamp_rule.
          rbind (executed_price_v3 slippage order) (\<lambda>executed_price.
          let reference_notional = dmul (oi_reference_price order) (dof_int (oi_quantity order));
              executed_notional = dmul executed_price (dof_int (oi_quantity order)) in
          rbind (v3_fee_amount commission_rule (oi_side order) executed_notional (mn_quantum money)) (\<lambda>commission.
          rbind (v3_fee_amount transfer_rule (oi_side order) executed_notional (mn_quantum money)) (\<lambda>transfer_fee.
          rbind (v3_fee_amount stamp_rule (oi_side order) executed_notional (mn_quantum money)) (\<lambda>stamp_duty.
          let selected_rule_ids =
                [(''selector'', sel_selector_id selector), (''commission'', fr_rule_id commission_rule),
                 (''transfer_fee'', fr_rule_id transfer_rule), (''stamp_duty'', fr_rule_id stamp_rule)] in
          rbind (quantize (dabs (dsub executed_notional reference_notional)) (Some (mn_quantum money)))
            (\<lambda>slippage_amount.
          validate_cost_calculation
            \<lparr>cc_cost_spec_id = spec_id, cc_cost_spec_schema_version = 3,
             cc_cost_engine_version = engine, cc_order_input = order,
             cc_instrument_context = context, cc_executed_price = executed_price,
             cc_reference_notional = reference_notional, cc_executed_notional = executed_notional,
             cc_commission = commission, cc_transfer_fee = transfer_fee,
             cc_stamp_duty = stamp_duty, cc_slippage_amount = slippage_amount,
             cc_total_fees = dadd (dadd commission transfer_fee) stamp_duty,
             cc_selected_rule_ids = selected_rule_ids,
             cc_cost_context_fingerprint =
               canonical_sha256 digest
                 (cost_context_payload spec spec_id engine slippage money order context
                    selected_rule_ids)\<rparr>)))))))))
      | _ \<Rightarrow> Inl AssertionError)"

definition calculate_execution_costs ::
  "digest \<Rightarrow> execution_cost_spec \<Rightarrow> cost_order_input \<Rightarrow> instrument_context \<Rightarrow> exn + cost_calculation" where
  "calculate_execution_costs digest spec order_input instrument_context =
     rbind (validate_cost_spec digest spec) (\<lambda>validated_spec.
       if \<not> is_alignment_eligible validated_spec
       then Inl (ValueError ''only v3 execution costs are eligible for shared alignment'')
       else rbind (validate_order_input order_input) (\<lambda>order.
            rbind (validate_instrument_context instrument_context) (\<lambda>context.
              resolve_costs digest validated_spec order context)))"

section \<open>The scalar-rate engine\<close>

datatype order_side = OrderBuy | OrderSell
datatype fee_notional_basis = BasisReference | BasisExecuted

record order_execution_costs =
  oc_side :: order_side
  oc_quantity :: int
  oc_reference_price :: decimal
  oc_executed_price :: decimal
  oc_reference_notional :: decimal
  oc_executed_notional :: decimal
  oc_commission :: decimal
  oc_transfer_fee :: decimal
  oc_stamp_duty :: decimal
  oc_slippage_amount :: decimal
  oc_fee_amount :: decimal
  oc_total_cost :: decimal

definition require_nonnegative :: "string \<Rightarrow> decimal \<Rightarrow> exn + decimal" where
  "require_nonnegative field_name v =
     (if dlt v dzero then Inl (ValueError (field_name @ '' must be finite and non-negative'')) else Inr v)"

definition calculate_slipped_price ::
  "decimal \<Rightarrow> order_side \<Rightarrow> decimal \<Rightarrow> decimal option \<Rightarrow> exn + decimal" where
  "calculate_slipped_price reference_price side slippage_bps price_tick =
     (if dle reference_price dzero then Inl (ValueError ''reference_price must be finite and positive'')
      else rbind (require_nonnegative ''slippage_bps'' slippage_bps) (\<lambda>_.
        if dle bps_scale slippage_bps then Inl (ValueError ''slippage_bps must be below 10000'')
        else
          let direction = (if side = OrderBuy then dof_int 1 else dof_int (- 1)) in
          rbind (ddiv (dmul direction slippage_bps) bps_scale) (\<lambda>x.
          let executed = dmul reference_price (dadd (dof_int 1) x) in
          if dle executed dzero
          then Inl (ValueError ''slippage-adjusted execution price must be positive'')
          else quantize executed price_tick)))"

definition calculate_order_execution_costs ::
  "order_side \<Rightarrow> decimal \<Rightarrow> int \<Rightarrow> decimal \<Rightarrow> decimal \<Rightarrow> decimal \<Rightarrow> decimal \<Rightarrow> decimal
   \<Rightarrow> fee_notional_basis \<Rightarrow> decimal option \<Rightarrow> decimal option \<Rightarrow> exn + order_execution_costs" where
  "calculate_order_execution_costs side reference_price quantity commission_rate minimum_commission
     transfer_fee_rate sell_stamp_duty_rate slippage_bps basis price_tick money_quantum =
     (if quantity \<le> 0 then Inl (ValueError ''quantity must be a positive integer'')
      else
        rbind (require_nonnegative ''commission_rate'' commission_rate) (\<lambda>_.
        rbind (require_nonnegative ''minimum_commission'' minimum_commission) (\<lambda>_.
        rbind (require_nonnegative ''transfer_fee_rate'' transfer_fee_rate) (\<lambda>_.
        rbind (require_nonnegative ''sell_stamp_duty_rate'' sell_stamp_duty_rate) (\<lambda>_.
        if list_ex (dle (dof_int 1)) [commission_rate, transfer_fee_rate, sell_stamp_duty_rate]
        then Inl (ValueError ''order fee rates must be below one'')
        else
          rbind (calculate_slipped_price reference_price side slippage_bps price_tick) (\<lambda>executed_price.
          let reference_notional = dmul reference_price (dof_int quantity);
              executed_notional = dmul executed_price (dof_int quantity);
              fee_notional = (if basis = BasisReference then reference_notional else executed_notional) in
          rbind (quantize (dmax (dmul fee_notional commission_rate) minimum_commission) money_quantum)
            (\<lambda>commission.
          rbind (quantize (dmul fee_notional transfer_fee_rate) money_quantum) (\<lambda>transfer_fee.
          rbind (quantize (if side = OrderSell then dmul fee_notional sell_stamp_duty_rate else dzero)
                   money_quantum) (\<lambda>stamp_duty.
          rbind (quantize (dabs (dsub executed_notional reference_notional)) money_quantum)
            (\<lambda>slippage_amount.
          let fee_amount = dadd (dadd commission transfer_fee) stamp_duty in
          Inr \<lparr>oc_side = side, oc_quantity = quantity, oc_reference_price = reference_price,
               oc_executed_price = executed_price, oc_reference_notional = reference_notional,
               oc_executed_notional = executed_notional, oc_commission = commission,
               oc_transfer_fee = transfer_fee, oc_stamp_duty = stamp_duty,
               oc_slippage_amount = slippage_amount, oc_fee_amount = fee_amount,
               oc_total_cost = dadd fee_amount slippage_amount\<rparr>))))))))))"

section \<open>Prices\<close>

text \<open>
  Slippage is never favourable: a buy is priced at or above its reference, a sell at or below.
\<close>

lemma dval_bps_scale [simp]: "dval bps_scale = 10000"
  by (simp add: bps_scale_def)

lemma slipped_raw_buy:
  assumes "slipped_raw p True bps = Inr raw" "fits p" "0 \<le> dval p" "0 \<le> dval bps"
  shows "dval p \<le> dval raw"
proof -
  from assms(1) obtain x where x: "ddiv (dmul (dof_int 1) bps) bps_scale = Inr x"
    and raw: "raw = dmul p (dadd (dof_int 1) x)" by (auto simp: slipped_raw_def)
  have "0 \<le> dval x" using x assms(4) by (intro ddiv_nonneg [OF x] dmul_nonneg) auto
  with dmul_ge_self [OF assms(2,3)] show ?thesis by (simp add: raw dadd_one_mono)
qed

lemma slipped_raw_sell:
  assumes "slipped_raw p False bps = Inr raw" "fits p" "0 \<le> dval p" "0 \<le> dval bps"
  shows "dval raw \<le> dval p"
proof -
  from assms(1) obtain x where x: "ddiv (dmul (dof_int (- 1)) bps) bps_scale = Inr x"
    and raw: "raw = dmul p (dadd (dof_int 1) x)" by (auto simp: slipped_raw_def)
  have "dval (dmul (dof_int (- 1)) bps) \<le> 0"
    using assms(4) dfix_le [of dzero "dmul_exact (dof_int (- 1)) bps"]
    by (simp add: dmul_def dval_dmul_exact)
  then have "dval x \<le> 0" by (intro ddiv_nonpos [OF x]) auto
  with dmul_le_self [OF assms(2,3)] show ?thesis by (simp add: raw dadd_one_mono)
qed

lemma quantize_Some: "quantize v (Some q) = Inr r \<longleftrightarrow> 0 < dval q \<and> dquantize v q = Inr r"
  by (auto simp: quantize_def dle_iff not_le)

lemma quantize_nonneg: "quantize v q = Inr r \<Longrightarrow> 0 \<le> dval v \<Longrightarrow> 0 \<le> dval r"
  by (cases q) (auto simp: quantize_def dest: dquantize_nonneg)


lemma executed_price_v3_cases:
  assumes "executed_price_v3 sl ord = Inr p"
  obtains raw where
    "slipped_raw (oi_reference_price ord) (oi_side ord = CostBuy)
       (if oi_side ord = CostBuy then sl_buy_bps sl else sl_sell_bps sl) = Inr raw"
    "dquantize raw (sl_price_tick sl) = Inr p" "0 < dval p"
  using assms unfolding executed_price_v3_def Let_def
  by (elim rbind_InrE) (auto simp: quantize_Some dle_iff not_le)

lemma validate_slippage_bounds:
  assumes "validate_slippage sl0 = Inr sl"
  shows "0 \<le> dval (sl_buy_bps sl)" "dval (sl_buy_bps sl) < 10000" "0 \<le> dval (sl_sell_bps sl)"
    "dval (sl_sell_bps sl) < 10000" "0 < dval (sl_price_tick sl)"
  using assms unfolding validate_slippage_def
  by (auto simp: bps_in_range_def dle_iff dlt_iff elim!: rbind_InrE)

lemma validate_order_input_bounds:
  assumes "validate_order_input o0 = Inr ord"
  shows "0 < dval (oi_reference_price ord)" "0 < oi_quantity ord"
  using assms unfolding validate_order_input_def by (auto simp: dlt_iff elim!: rbind_InrE)

text \<open>
  C27. Slippage is never favourable. Take a validated slippage policy and a validated order whose reference
  price has at most 28 digits and is quoted with no more decimal places than the price tick. Then the executed
  price, where the engine returns one, is positive and rounded to the decimal places of the tick; a buy is executed at or above its
  reference price, a sell at or below it.
\<close>

theorem executed_price_never_favourable:
  assumes price: "executed_price_v3 sl ord = Inr p"
    and sl: "validate_slippage sl0 = Inr sl" and ord: "validate_order_input o0 = Inr ord"
    and fits: "fits (oi_reference_price ord)" and tick: "dexp (sl_price_tick sl) \<le> dexp (oi_reference_price ord)"
  shows "0 < dval p \<and> dexp p = dexp (sl_price_tick sl) \<and>
    (case oi_side ord of
       CostBuy \<Rightarrow> dval (oi_reference_price ord) \<le> dval p
     | CostSell \<Rightarrow> dval p \<le> dval (oi_reference_price ord))"
proof -
  note b = validate_slippage_bounds [OF sl] validate_order_input_bounds [OF ord]
  from price obtain raw where raw: "slipped_raw (oi_reference_price ord) (oi_side ord = CostBuy)
       (if oi_side ord = CostBuy then sl_buy_bps sl else sl_sell_bps sl) = Inr raw"
    and q: "dquantize raw (sl_price_tick sl) = Inr p" and pos: "0 < dval p"
    by (rule executed_price_v3_cases)
  have "dval (oi_reference_price ord) \<le> dval p" if "oi_side ord = CostBuy"
    using raw fits b that by (intro dquantize_grid(1) [OF q tick] slipped_raw_buy [of _ "sl_buy_bps sl"]) auto
  moreover have "dval p \<le> dval (oi_reference_price ord)" if "oi_side ord = CostSell"
    using raw fits b that by (intro dquantize_grid(2) [OF q tick] slipped_raw_sell [of _ "sl_sell_bps sl"]) auto
  ultimately show ?thesis using pos dquantize_exp [OF q] by (cases "oi_side ord") simp_all
qed

text \<open>
  C28. The version 3 engine and the scalar-rate engine price an order alike: the version 3 price is
  the scalar engine's price, and it exists exactly when that price is positive after rounding.
\<close>

theorem price_engines_agree:
  assumes sl: "validate_slippage sl0 = Inr sl" and ord: "validate_order_input o0 = Inr ord"
  shows "executed_price_v3 sl ord = Inr p \<longleftrightarrow>
    calculate_slipped_price (oi_reference_price ord)
      (if oi_side ord = CostBuy then OrderBuy else OrderSell)
      (if oi_side ord = CostBuy then sl_buy_bps sl else sl_sell_bps sl) (Some (sl_price_tick sl)) = Inr p
    \<and> 0 < dval p"
proof -
  note b = validate_slippage_bounds [OF sl] validate_order_input_bounds [OF ord]
  have pos: "0 < dval raw" if "dquantize raw (sl_price_tick sl) = Inr p" "0 < dval p" for raw
  proof (rule ccontr)
    assume "\<not> 0 < dval raw"
    then have "dval p \<le> dval (Dec False 0 (dexp (sl_price_tick sl)))"
      using that(1) by (intro dquantize_grid(2) [OF that(1)]) (simp_all add: dval_def)
    with that(2) show False by (simp add: dval_def)
  qed
  show ?thesis
    using b pos unfolding executed_price_v3_def slipped_raw_def calculate_slipped_price_def require_nonnegative_def Let_def
    by (cases "oi_side ord") (auto simp: quantize_Some dle_iff dlt_iff not_le not_less)
qed

text \<open>
  C29. A fee of a validated rule is the larger of its rate amount and its minimum, to half a unit of
  the money quantum, is never negative, and is zero on a side the rule does not apply to.
\<close>

theorem v3_fee_amount_bounds:
  assumes fee: "v3_fee_amount rule side n q = Inr f" and r: "validate_fee_rule r0 = Inr rule"
  shows "0 \<le> dval f \<and> dexp f = dexp q \<and>
    (if applies_to_side rule side
     then \<exists>raw. ddiv (dmul n (fr_rate_bps rule)) bps_scale = Inr raw \<and>
       2 * \<bar>dval f - max (dval raw) (dval (fr_minimum_amount rule))\<bar> \<le> 10 powi dexp q
     else dval f = 0)"
proof (cases "applies_to_side rule side")
  case True
  from r have m: "0 \<le> dval (fr_minimum_amount rule)"
    unfolding validate_fee_rule_def by (auto simp: dle_iff elim!: rbind_InrE)
  from True fee obtain raw where raw: "ddiv (dmul n (fr_rate_bps rule)) bps_scale = Inr raw"
    and f: "dquantize (dmax raw (fr_minimum_amount rule)) q = Inr f"
    unfolding v3_fee_amount_def by (auto simp: quantize_Some)
  have "0 \<le> dval (dmax raw (fr_minimum_amount rule))" using m by (simp add: dval_dmax)
  with True raw show ?thesis
    using dquantize_exp [OF f] dquantize_error [OF f] dquantize_nonneg [OF f] by (auto simp: dval_dmax)
next
  case False
  with fee have "dquantize dzero q = Inr f" unfolding v3_fee_amount_def by (simp add: quantize_Some)
  then show ?thesis using False by (auto simp: dquantize_def dzero_def dval_nonneg_iff)
qed

text \<open>
  C30. In a validated version 3 specification an instrument whose scope a selector covers is served
  by that selector and by exactly one rule of each fee component: no selection error is possible.
\<close>

theorem rule_selection_complete:
  assumes spec: "validate_cost_spec digest raw = Inr s" and v3: "es_schema_version s = 3"
    and sel: "sel \<in> set (es_instrument_selectors s)" "selector_scope_key sel = context_scope_key ctx"
  shows "select_selector s ctx = Inr sel \<and>
    (\<forall>rules \<in> {es_commission_rules s, es_transfer_fee_rules s, es_stamp_duty_rules s}.
       \<exists>r \<in> set rules. fr_selector_id r = sel_selector_id sel \<and> rule_for sel rules component = Inr r)"
proof -
  from spec have c: "validate_v3_contract digest s = Inr s"
    by (cases rule: validate_cost_spec_cases) (use v3 in auto)
  let ?p = "\<lambda>t. selector_scope_key t = context_scope_key ctx"
  have "context_scope_key ctx \<in> selector_scope_key ` set (es_instrument_selectors s)"
    unfolding sel(2) [symmetric] using sel(1) by (rule imageI)
  with validate_v3_contract_rules(1) [OF c]
  obtain x where x: "filter ?p (es_instrument_selectors s) = [x]" by (rule filter_unique)
  have "sel \<in> set (filter ?p (es_instrument_selectors s))" using sel by simp
  then have "x = sel" unfolding x by simp
  with x have "select_selector s ctx = Inr sel" by (simp add: select_selector_def)
  moreover have "\<exists>r \<in> set rules. fr_selector_id r = sel_selector_id sel \<and> rule_for sel rules component = Inr r"
    if rules: "rules \<in> {es_commission_rules s, es_transfer_fee_rules s, es_stamp_duty_rules s}" for rules
  proof -
    from validate_v3_contract_rules(2) [OF c rules] sel(1)
    have "distinct (map fr_selector_id rules)" "sel_selector_id sel \<in> fr_selector_id ` set rules" by auto
    then obtain r where "filter (\<lambda>x. fr_selector_id x = sel_selector_id sel) rules = [r]"
      "r \<in> set rules" "fr_selector_id r = sel_selector_id sel" by (rule filter_unique)
    then show ?thesis by (auto simp: rule_for_def)
  qed
  ultimately show ?thesis by blast
qed

end
