(* ===== verification/Market_Example.thy ===== *)
theory Market_Example
  imports Execution_Costs
begin

text \<open>
  A small market on which the operations are evaluated: a digest with the shape of SHA-256 whose
  last character names the object, one version 3 cost specification, one account, and the ledger
  after each step of a round trip (in \<open>Ledger_Example\<close> and \<open>Trade_Example\<close>).
\<close>

section \<open>A digest\<close>

definition ex_sha :: "char \<Rightarrow> string" where
  "ex_sha c = replicate 63 (CHR ''a'') @ [c]"

definition int_at :: "(string \<times> json) list \<Rightarrow> string \<Rightarrow> int option" where
  "int_at xs k = (case map_of xs k of Some (JInt n) \<Rightarrow> Some n | _ \<Rightarrow> None)"

definition text_at :: "(string \<times> json) list \<Rightarrow> string \<Rightarrow> string option" where
  "text_at xs k = (case map_of xs k of Some (JStr s) \<Rightarrow> Some s | _ \<Rightarrow> None)"

definition opt_list :: "('a \<Rightarrow> 'b) \<Rightarrow> 'a option \<Rightarrow> 'b list" where
  "opt_list f x = (case x of None \<Rightarrow> [] | Some y \<Rightarrow> [f y])"

definition hex_digit :: "int \<Rightarrow> char" where
  "hex_digit n = ''0123456789abcdef'' ! nat (n mod 16)"

definition ex_tag :: "(string \<times> json) list \<Rightarrow> char" where
  "ex_tag xs = hd (
     opt_list hex_digit (int_at xs ''revision'')
     @ opt_list last (text_at xs ''execution_id'')
     @ opt_list (\<lambda>s. if s = ''BUY'' then CHR ''b'' else CHR ''c'') (text_at xs ''side'')
     @ opt_list last (text_at xs ''intent_id'') @ ''d'')"

definition ex_digest :: digest where
  "ex_digest j =
     (case j of
        JObj xs \<Rightarrow> ex_sha (if is_hex_lower [ex_tag xs] then ex_tag xs else CHR ''d'')
      | _ \<Rightarrow> ex_sha (CHR ''d''))"

lemma is_sha256_ex_sha [simp]: "is_sha256 (ex_sha c) \<longleftrightarrow> is_hex_lower [c]"
  by (simp add: is_sha256_def is_hex_lower_def ex_sha_def list_all_iff)

lemma ex_sha_inject [simp]: "ex_sha c = ex_sha d \<longleftrightarrow> c = d"
  by (simp add: ex_sha_def)

lemma last_ex_sha [simp]: "last (ex_sha c) = c"
  by (simp add: ex_sha_def)

lemma ex_sha_not_Nil [simp]: "ex_sha c \<noteq> []"
  by (simp add: ex_sha_def)

lemma hex_digits [simp]:
  "is_hex_lower ''0''" "is_hex_lower ''1''" "is_hex_lower ''2''" "is_hex_lower ''3''" "is_hex_lower ''4''"
  "is_hex_lower ''5''" "is_hex_lower ''b''" "is_hex_lower ''c''" "is_hex_lower ''d''" "is_hex_lower ''e''"
  "is_hex_lower ''f''"
  by (simp_all add: is_hex_lower_def)

lemma nth_in_alphabet: "n < length xs \<Longrightarrow> list_all (\<lambda>c. c \<in> set xs) [xs ! n]"
  by simp

lemma is_hex_digit [simp]: "is_hex_lower [hex_digit n]"
  unfolding is_hex_lower_def hex_digit_def by (rule nth_in_alphabet) (simp add: nat_less_iff)

lemma nth_inject: "distinct xs \<Longrightarrow> i < length xs \<Longrightarrow> j < length xs \<Longrightarrow> xs ! i = xs ! j \<longleftrightarrow> i = j"
  by (rule nth_eq_iff_index_eq)

lemma hex_digit_inject:
  "0 \<le> i \<Longrightarrow> i < 16 \<Longrightarrow> 0 \<le> j \<Longrightarrow> j < 16 \<Longrightarrow> hex_digit i = hex_digit j \<longleftrightarrow> i = j"
  unfolding hex_digit_def by (subst nth_inject) auto

lemma ex_digest_sha256: "is_sha256 (ex_digest j)"
  by (cases j) (simp_all add: ex_digest_def)

declare map_of_sort_key [simp] map_of_canonical [simp]

lemma ex_digest_sort [simp]: "ex_digest (JObj (sort_key fst xs)) = ex_digest (JObj xs)"
  by (simp add: ex_digest_def ex_tag_def int_at_def text_at_def)

lemma canonical_sha256_ex:
  "canonical_sha256 ex_digest (PDict items) =
   ex_digest (JObj (map (\<lambda>(key, item). (key, canonical_value item)) items))"
  by (simp add: canonical_sha256_def)

section \<open>A cost specification\<close>

definition ex_selector :: instrument_selector where
  "ex_selector = \<lparr>sel_selector_id = ''cn'', sel_market = ''CN'', sel_exchange = ''SSE'',
     sel_instrument_class = ''EQUITY'', sel_security_class = ''A_SHARE''\<rparr>"

definition ex_rule :: "string \<Rightarrow> decimal \<Rightarrow> decimal \<Rightarrow> execution_cost_applicability \<Rightarrow> fee_rule" where
  "ex_rule i rate minimum applies = \<lparr>fr_rule_id = i, fr_selector_id = ''cn'', fr_rate_bps = rate,
     fr_minimum_amount = minimum, fr_applies_to = applies\<rparr>"

definition ex_commission :: fee_rule where
  "ex_commission = ex_rule ''c'' (Dec False 25 (- 1)) (Dec False 5 0) AppliesBoth"

definition ex_transfer :: fee_rule where
  "ex_transfer = ex_rule ''t'' dzero dzero AppliesBoth"

definition ex_stamp :: fee_rule where
  "ex_stamp = ex_rule ''s'' (Dec False 5 0) dzero AppliesSell"

definition ex_slippage :: cost_slippage where
  "ex_slippage = \<lparr>sl_owner = ''shared_cost_engine'', sl_buy_bps = Dec False 10 0, sl_sell_bps = Dec False 10 0,
     sl_price_tick = Dec False 1 (- 2), sl_price_rounding = ''HALF_UP''\<rparr>"

definition ex_money :: cost_money where
  "ex_money = \<lparr>mn_quantum = Dec False 1 (- 2), mn_rounding = ''HALF_UP''\<rparr>"

definition ex_spec :: execution_cost_spec where
  "ex_spec = \<lparr>es_schema_version = 3, es_commission_bps = None, es_stamp_duty_bps = None,
     es_transfer_fee_bps = None, es_slippage_bps = None, es_minimum_commission = None,
     es_legacy_fields_set = False, es_cost_engine_version = Some ''v3'',
     es_instrument_selectors = [ex_selector], es_commission_rules = [ex_commission],
     es_transfer_fee_rules = [ex_transfer], es_stamp_duty_rules = [ex_stamp],
     es_fee_notional_basis = Some ''EXECUTED_NOTIONAL'', es_assessment_unit = Some ''FILL'',
     es_slippage = Some ex_slippage, es_money = Some ex_money, es_cost_spec_id = Some (ex_sha (CHR ''d'')),
     es_research_notional_per_trade = None\<rparr>"

lemmas ex_spec_defs = ex_spec_def ex_selector_def ex_rule_def ex_commission_def ex_transfer_def ex_stamp_def
  ex_slippage_def ex_money_def

lemmas text_eval = py_strip_def py_upper_def is_space_def upper_char_def Let_def

lemma ex_selector_valid: "validate_instrument_selector ex_selector = Inr ex_selector"
  by (simp add: validate_instrument_selector_def normalize_scope_value_def ex_selector_def text_eval)

lemma ex_rules_valid:
  "validate_fee_rule ex_commission = Inr ex_commission"
  "validate_fee_rule ex_transfer = Inr ex_transfer"
  "validate_fee_rule ex_stamp = Inr ex_stamp"
  by (simp_all add: validate_fee_rule_def parse_decimal_def decimal_components_def bps_in_range_def
      raise_first.simps ex_commission_def ex_transfer_def ex_stamp_def ex_rule_def text_eval dec_eval)

lemma ex_slippage_valid: "validate_slippage ex_slippage = Inr ex_slippage"
  by (simp add: validate_slippage_def parse_decimal_def decimal_components_def bps_in_range_def
      raise_first.simps ex_slippage_def Let_def dec_eval)

lemma ex_money_valid: "validate_money ex_money = Inr ex_money"
  by (simp add: validate_money_def parse_decimal_def decimal_components_def
      raise_first.simps ex_money_def Let_def dec_eval)

lemma ex_canonical_json: "\<exists>j. canonical_json ex_spec = Inr j \<and> ex_digest j = ex_sha (CHR ''d'')"
  by (simp add: canonical_json_def v3_identity_payload_def spec_canonical_decimal_def decimal_components_def
      selector_dump_def fee_rule_dump_def slippage_dump_def money_dump_def popt_def
      ex_spec_defs dec_eval ex_digest_def ex_tag_def int_at_def text_at_def opt_list_def)

definition ex_spec_json :: json where
  "ex_spec_json = (case canonical_json ex_spec of Inr j \<Rightarrow> j | Inl _ \<Rightarrow> JNull)"

lemma ex_spec_json: "canonical_json ex_spec = Inr ex_spec_json" "ex_digest ex_spec_json = ex_sha (CHR ''d'')"
  using ex_canonical_json by (auto simp: ex_spec_json_def)

lemma ex_spec_fields:
  "validate_spec_fields ex_spec = Inr ex_spec"
proof -
  have "parse_spec_fields ex_spec = Inr ex_spec"
    by (simp add: parse_spec_fields_def parse_decimal_opt_def validate_opt_def ex_selector_valid ex_rules_valid
        ex_slippage_valid ex_money_valid ex_spec_def text_eval)
  then show ?thesis
    by (simp add: validate_spec_fields_def check_spec_fields_def raise_first.simps legacy_bps_ok_def)
       (simp add: ex_spec_def)
qed

lemma ex_spec_valid: "validate_cost_spec ex_digest ex_spec = Inr ex_spec"
proof -
  have "validate_v3_contract ex_digest ex_spec = Inr ex_spec"
    by (simp add: validate_v3_contract_def ex_spec_json raise_first.simps validate_v3_rule_set_def Let_def)
       (simp add: ex_spec_defs ex_spec_json)
  then show ?thesis by (simp add: validate_cost_spec_def ex_spec_fields) (simp add: ex_spec_def)
qed

section \<open>Costs of one buy and one sell\<close>

definition ex_provenance :: classification_provenance where
  "ex_provenance = \<lparr>cp_reference_dataset = ''security_listing_status'',
     cp_reference_record_id = ex_sha (CHR ''1''), cp_reference_generation_id = ex_sha (CHR ''2'')\<rparr>"

definition ex_context :: instrument_context where
  "ex_context = \<lparr>ctx_ts_code = ''600000.SH'', ctx_market = ''CN'', ctx_exchange = ''SSE'',
     ctx_instrument_class = ''EQUITY'', ctx_security_class = ''A_SHARE'',
     ctx_classification_provenance = Some ex_provenance\<rparr>"

definition ex_buy_input :: cost_order_input where
  "ex_buy_input = \<lparr>oi_side = CostBuy, oi_reference_price = Dec False 1000 (- 2), oi_quantity = 200\<rparr>"

definition ex_sell_input :: cost_order_input where
  "ex_sell_input = \<lparr>oi_side = CostSell, oi_reference_price = Dec False 1050 (- 2), oi_quantity = 100\<rparr>"

definition ex_rule_ids :: "(string \<times> string) list" where
  "ex_rule_ids = [(''selector'', ''cn''), (''commission'', ''c''), (''transfer_fee'', ''t''), (''stamp_duty'', ''s'')]"

definition ex_costs ::
  "cost_order_input \<Rightarrow> decimal \<Rightarrow> decimal \<Rightarrow> decimal \<Rightarrow> decimal \<Rightarrow> decimal \<Rightarrow> decimal \<Rightarrow> char \<Rightarrow> cost_calculation" where
  "ex_costs i price reference_notional executed_notional stamp slip fees c =
     \<lparr>cc_cost_spec_id = ex_sha (CHR ''d''), cc_cost_spec_schema_version = 3, cc_cost_engine_version = ''v3'',
      cc_order_input = i, cc_instrument_context = ex_context, cc_executed_price = price,
      cc_reference_notional = reference_notional, cc_executed_notional = executed_notional,
      cc_commission = Dec False 500 (- 2), cc_transfer_fee = Dec False 0 (- 2), cc_stamp_duty = stamp,
      cc_slippage_amount = slip, cc_total_fees = fees, cc_selected_rule_ids = ex_rule_ids,
      cc_cost_context_fingerprint = ex_sha c\<rparr>"

definition ex_buy_costs :: cost_calculation where
  "ex_buy_costs = ex_costs ex_buy_input (Dec False 1001 (- 2)) (Dec False 200000 (- 2)) (Dec False 200200 (- 2))
     (Dec False 0 (- 2)) (Dec False 200 (- 2)) (Dec False 500 (- 2)) (CHR ''b'')"

definition ex_sell_costs :: cost_calculation where
  "ex_sell_costs = ex_costs ex_sell_input (Dec False 1049 (- 2)) (Dec False 105000 (- 2)) (Dec False 104900 (- 2))
     (Dec False 52 (- 2)) (Dec False 100 (- 2)) (Dec False 552 (- 2)) (CHR ''c'')"

lemmas ex_costs_defs = ex_costs_def ex_buy_costs_def ex_sell_costs_def ex_buy_input_def ex_sell_input_def

lemma ex_inputs_valid:
  "validate_order_input ex_buy_input = Inr ex_buy_input" "validate_order_input ex_sell_input = Inr ex_sell_input"
  by (simp_all add: validate_order_input_def parse_decimal_def decimal_components_def raise_first.simps
      ex_buy_input_def ex_sell_input_def dec_eval)

lemma ex_context_valid: "validate_instrument_context ex_context = Inr ex_context"
  by (simp add: validate_instrument_context_def validate_classification_provenance_def normalize_context_value_def
      raise_first.simps ex_context_def ex_provenance_def text_eval)

lemma ex_prices:
  "executed_price_v3 ex_slippage ex_buy_input = Inr (Dec False 1001 (- 2))"
  "executed_price_v3 ex_slippage ex_sell_input = Inr (Dec False 1049 (- 2))"
  by (simp_all add: executed_price_v3_def slipped_raw_def quantize_def bps_scale_def ex_slippage_def
      ex_buy_input_def ex_sell_input_def Let_def dec_eval)

lemma ex_fees:
  "v3_fee_amount ex_commission CostBuy (Dec False 200200 (- 2)) (Dec False 1 (- 2)) = Inr (Dec False 500 (- 2))"
  "v3_fee_amount ex_commission CostSell (Dec False 104900 (- 2)) (Dec False 1 (- 2)) = Inr (Dec False 500 (- 2))"
  "v3_fee_amount ex_transfer CostBuy (Dec False 200200 (- 2)) (Dec False 1 (- 2)) = Inr (Dec False 0 (- 2))"
  "v3_fee_amount ex_transfer CostSell (Dec False 104900 (- 2)) (Dec False 1 (- 2)) = Inr (Dec False 0 (- 2))"
  "v3_fee_amount ex_stamp CostBuy (Dec False 200200 (- 2)) (Dec False 1 (- 2)) = Inr (Dec False 0 (- 2))"
  "v3_fee_amount ex_stamp CostSell (Dec False 104900 (- 2)) (Dec False 1 (- 2)) = Inr (Dec False 52 (- 2))"
  by (simp_all add: v3_fee_amount_def quantize_def bps_scale_def applies_to_side_def applicability_text_def
      side_text_def ex_commission_def ex_transfer_def ex_stamp_def ex_rule_def dec_eval)

lemma ex_selection:
  "select_selector ex_spec ex_context = Inr ex_selector"
  "rule_for ex_selector [ex_commission] t = Inr ex_commission"
  "rule_for ex_selector [ex_transfer] t = Inr ex_transfer"
  "rule_for ex_selector [ex_stamp] t = Inr ex_stamp"
  by (simp_all add: select_selector_def rule_for_def selector_scope_key_def context_scope_key_def ex_spec_defs ex_context_def)

lemma ex_costs_valid:
  "validate_cost_calculation ex_buy_costs = Inr ex_buy_costs"
  "validate_cost_calculation ex_sell_costs = Inr ex_sell_costs"
  by (simp_all add: validate_cost_calculation_def validate_component_sum_def ex_costs_def ex_buy_costs_def
      ex_sell_costs_def ex_inputs_valid ex_context_valid raise_first.simps ex_rule_ids_def dec_eval insert_commute)

section \<open>The cost theorems at work\<close>

theorem executed_price_never_favourable_witness:
  "0 < dval (Dec False 1001 (- 2)) \<and> dexp (Dec False 1001 (- 2)) = dexp (sl_price_tick ex_slippage) \<and>
   (case oi_side ex_buy_input of
      CostBuy \<Rightarrow> dval (oi_reference_price ex_buy_input) \<le> dval (Dec False 1001 (- 2))
    | CostSell \<Rightarrow> dval (Dec False 1001 (- 2)) \<le> dval (oi_reference_price ex_buy_input))"
  by (rule executed_price_never_favourable [OF ex_prices(1) ex_slippage_valid ex_inputs_valid(1)])
     (simp_all add: ex_buy_input_def ex_slippage_def fits_def dec_eval)

theorem price_engines_agree_witness:
  "executed_price_v3 ex_slippage ex_sell_input = Inr (Dec False 1049 (- 2)) \<and>
   calculate_slipped_price (oi_reference_price ex_sell_input) OrderSell (sl_sell_bps ex_slippage)
     (Some (sl_price_tick ex_slippage)) = Inr (Dec False 1049 (- 2))"
  using price_engines_agree [OF ex_slippage_valid ex_inputs_valid(2), of "Dec False 1049 (- 2)"] ex_prices(2)
  by (simp add: ex_sell_input_def)

theorem v3_fee_amount_bounds_witness:
  "0 \<le> dval (Dec False 52 (- 2)) \<and> (\<exists>raw. ddiv (dmul (Dec False 104900 (- 2)) (fr_rate_bps ex_stamp)) bps_scale = Inr raw \<and>
     2 * \<bar>dval (Dec False 52 (- 2)) - max (dval raw) (dval (fr_minimum_amount ex_stamp))\<bar> \<le> 10 powi - 2)"
  using v3_fee_amount_bounds [OF ex_fees(6) ex_rules_valid(3)]
  by (simp add: applies_to_side_def ex_stamp_def ex_rule_def applicability_text_def side_text_def)

theorem rule_selection_complete_witness:
  "select_selector ex_spec ex_context = Inr ex_selector \<and>
   (\<exists>r \<in> set (es_stamp_duty_rules ex_spec).
      fr_selector_id r = sel_selector_id ex_selector \<and>
      rule_for ex_selector (es_stamp_duty_rules ex_spec) ''stamp duty'' = Inr r)"
  using rule_selection_complete [OF ex_spec_valid, of ex_selector ex_context "''stamp duty''"]
  by (simp add: ex_spec_def ex_selector_def ex_context_def selector_scope_key_def context_scope_key_def)

end
