(* ===== verification/Paper_Contracts.thy ===== *)
theory Paper_Contracts
  imports Execution_Costs
begin

text \<open>
  The immutable contracts of the paper broker, \<open>paper_contracts.py\<close>. A record is the content of
  a validated model; \<open>make_*\<close> is its constructor: the fields' constraints, the model validators
  in source order, and the content identity. An identity may be supplied (\<open>Some\<close>) or left to
  be computed (\<open>None\<close>); the record carries the identity in both cases. Strings are taken after
  Pydantic's whitespace stripping, datetimes after normalisation to UTC.
\<close>

section \<open>Lots and identities\<close>

definition positive_lot :: "int \<Rightarrow> bool" where
  "positive_lot n = (0 < n \<and> n mod 100 = 0)"

definition non_negative_lot :: "int \<Rightarrow> bool" where
  "non_negative_lot n = (0 \<le> n \<and> n mod 100 = 0)"

text \<open>The tail of every identity validator: fill in a missing identity, refuse a wrong one.\<close>

definition bind_identity :: "string option \<Rightarrow> string \<Rightarrow> string \<Rightarrow> 'a \<Rightarrow> exn + 'a" where
  "bind_identity supplied expected message x =
     (case supplied of
        None \<Rightarrow> Inr x
      | Some i \<Rightarrow> if i \<noteq> expected then Inl (ValueError message) else Inr x)"

lemma bind_identity_Inr [simp]:
  "bind_identity supplied expected message x = Inr y \<longleftrightarrow>
   y = x \<and> (supplied = None \<or> supplied = Some expected)"
  by (auto simp: bind_identity_def split: option.splits)

section \<open>Enumerations\<close>

datatype paper_side = BUY | SELL
datatype paper_order_type = MARKET | LIMIT
datatype paper_order_status =
  PENDING | ACCEPTED | PARTIALLY_FILLED | FILLED | REJECTED | CANCELLED | EXPIRED
datatype paper_reject_reason =
    T_PLUS_ONE | SUSPENDED | LIMIT_LOCKED | INSUFFICIENT_CASH | INSUFFICIENT_POSITION
  | INVALID_LOT | REASON_EXPIRED | RISK_REJECTED
datatype paper_cost_provenance_state = KNOWN_V3 | LEGACY_UNKNOWN
datatype sell_action = REDUCE | S_INTENT

definition paper_side_text :: "paper_side \<Rightarrow> string" where
  "paper_side_text s = (case s of BUY \<Rightarrow> ''BUY'' | SELL \<Rightarrow> ''SELL'')"

definition order_type_text :: "paper_order_type \<Rightarrow> string" where
  "order_type_text t = (case t of MARKET \<Rightarrow> ''MARKET'' | LIMIT \<Rightarrow> ''LIMIT'')"

definition status_text :: "paper_order_status \<Rightarrow> string" where
  "status_text s = (case s of PENDING \<Rightarrow> ''PENDING'' | ACCEPTED \<Rightarrow> ''ACCEPTED''
     | PARTIALLY_FILLED \<Rightarrow> ''PARTIALLY_FILLED'' | FILLED \<Rightarrow> ''FILLED'' | REJECTED \<Rightarrow> ''REJECTED''
     | CANCELLED \<Rightarrow> ''CANCELLED'' | EXPIRED \<Rightarrow> ''EXPIRED'')"

definition reject_reason_text :: "paper_reject_reason \<Rightarrow> string" where
  "reject_reason_text r = (case r of T_PLUS_ONE \<Rightarrow> ''T_PLUS_ONE'' | SUSPENDED \<Rightarrow> ''SUSPENDED''
     | LIMIT_LOCKED \<Rightarrow> ''LIMIT_LOCKED'' | INSUFFICIENT_CASH \<Rightarrow> ''INSUFFICIENT_CASH''
     | INSUFFICIENT_POSITION \<Rightarrow> ''INSUFFICIENT_POSITION'' | INVALID_LOT \<Rightarrow> ''INVALID_LOT''
     | REASON_EXPIRED \<Rightarrow> ''EXPIRED'' | RISK_REJECTED \<Rightarrow> ''RISK_REJECTED'')"

definition provenance_text :: "paper_cost_provenance_state \<Rightarrow> string" where
  "provenance_text p = (case p of KNOWN_V3 \<Rightarrow> ''KNOWN_V3'' | LEGACY_UNKNOWN \<Rightarrow> ''LEGACY_UNKNOWN'')"

definition sell_action_text :: "sell_action \<Rightarrow> string" where
  "sell_action_text a = (case a of REDUCE \<Rightarrow> ''REDUCE'' | S_INTENT \<Rightarrow> ''S_INTENT'')"

section \<open>Sell quantity authority\<close>

record sell_authority =
  a_snapshot_id :: string
  a_exit_signal_id :: string
  a_entry_signal_id :: string
  a_account_id :: string
  a_ts_code :: string
  a_action :: sell_action
  a_decision_cutoff :: utc
  a_remaining_quantity :: int
  a_available_quantity :: int
  a_tranche_fraction :: decimal
  a_requested_quantity :: int
  a_source_lot_fingerprint :: string

definition sell_authority_content :: "sell_authority \<Rightarrow> (string \<times> pyval) list" where
  "sell_authority_content a =
     [(''exit_signal_id'', PStr (a_exit_signal_id a)), (''entry_signal_id'', PStr (a_entry_signal_id a)),
      (''account_id'', PStr (a_account_id a)), (''ts_code'', PStr (a_ts_code a)),
      (''action'', PStr (sell_action_text (a_action a))),
      (''decision_cutoff'', PDatetime (a_decision_cutoff a)),
      (''remaining_quantity'', PInt (a_remaining_quantity a)),
      (''available_quantity'', PInt (a_available_quantity a)),
      (''tranche_fraction'', PDecimal (a_tranche_fraction a)),
      (''requested_quantity'', PInt (a_requested_quantity a)),
      (''source_lot_fingerprint'', PStr (a_source_lot_fingerprint a))]"

definition sell_authority_dump :: "sell_authority \<Rightarrow> pyval" where
  "sell_authority_dump a = PDict ((''snapshot_id'', PStr (a_snapshot_id a)) # sell_authority_content a)"

text \<open>The whole lots in a fraction of the remaining shares, rounded down twice.\<close>

definition tranche_lots :: "int \<Rightarrow> decimal \<Rightarrow> int" where
  "tranche_lots remaining fraction = dfloor (dmul (dof_int remaining) fraction) div 100 * 100"

definition expected_sell_quantity :: "sell_authority \<Rightarrow> exn + int" where
  "expected_sell_quantity a =
     (case a_action a of
        S_INTENT \<Rightarrow>
          if \<not> deq (a_tranche_fraction a) (dof_int 1)
          then Inl (ValueError ''S_INTENT tranche_fraction must equal one'')
          else Inr (a_remaining_quantity a)
      | REDUCE \<Rightarrow>
          if dle (dof_int 1) (a_tranche_fraction a)
          then Inl (ValueError ''REDUCE tranche_fraction must be below one'')
          else let expected = tranche_lots (a_remaining_quantity a) (a_tranche_fraction a) in
            if expected \<le> 0 \<or> a_remaining_quantity a \<le> expected
            then Inl (ValueError ''REDUCE has no legal partial 100-share lot'')
            else Inr expected)"

definition sell_authority_fields :: "sell_authority \<Rightarrow> (bool \<times> exn) list" where
  "sell_authority_fields a =
     [(\<not> is_sha256 (a_exit_signal_id a), ValueError ''exit_signal_id''),
      (\<not> is_sha256 (a_entry_signal_id a), ValueError ''entry_signal_id''),
      (a_account_id a = [], ValueError ''account_id''), (a_ts_code a = [], ValueError ''ts_code''),
      (\<not> positive_lot (a_remaining_quantity a), ValueError ''remaining_quantity''),
      (\<not> non_negative_lot (a_available_quantity a), ValueError ''available_quantity''),
      (\<not> (dlt dzero (a_tranche_fraction a) \<and> dle (a_tranche_fraction a) (dof_int 1)),
       ValueError ''tranche_fraction''),
      (\<not> positive_lot (a_requested_quantity a), ValueError ''requested_quantity''),
      (\<not> is_sha256 (a_source_lot_fingerprint a), ValueError ''source_lot_fingerprint'')]"

definition make_sell_authority :: "digest \<Rightarrow> string option \<Rightarrow> sell_authority \<Rightarrow> exn + sell_authority" where
  "make_sell_authority digest supplied a =
     rbind (raise_first (sell_authority_fields a) ()) (\<lambda>_.
     if a_remaining_quantity a < a_available_quantity a
     then Inl (ValueError ''available_quantity cannot exceed remaining_quantity'')
     else rbind (expected_sell_quantity a) (\<lambda>expected.
       if a_requested_quantity a \<noteq> expected
       then Inl (ValueError ''requested_quantity does not match tranche semantics'')
       else let expected_id = canonical_sha256 digest (PDict (sell_authority_content a)) in
         bind_identity supplied expected_id
           ''sell quantity snapshot_id does not match authority content''
           (a\<lparr>a_snapshot_id := expected_id\<rparr>)))"

text \<open>A nested instance is validated again: its identity must still match its content.\<close>

definition revalidate_sell_authority :: "digest \<Rightarrow> sell_authority \<Rightarrow> exn + sell_authority" where
  "revalidate_sell_authority digest a = make_sell_authority digest (Some (a_snapshot_id a)) a"

section \<open>Order intent\<close>

record order_intent =
  i_intent_id :: string
  i_signal_id :: string
  i_entry_signal_id :: "string option"
  i_sell_quantity_authority :: "sell_authority option"
  i_account_id :: string
  i_ts_code :: string
  i_side :: paper_side
  i_order_type :: paper_order_type
  i_quantity :: int
  i_limit_price :: "decimal option"
  i_event_time :: utc
  i_available_at :: utc
  i_expires_at :: utc
  i_earliest_execution_at :: utc
  i_price_snapshot_id :: string
  i_producer_commit :: string

definition intent_content :: "order_intent \<Rightarrow> (string \<times> pyval) list" where
  "intent_content i =
     [(''signal_id'', PStr (i_signal_id i)), (''entry_signal_id'', popt PStr (i_entry_signal_id i)),
      (''sell_quantity_authority'', popt sell_authority_dump (i_sell_quantity_authority i)),
      (''account_id'', PStr (i_account_id i)), (''ts_code'', PStr (i_ts_code i)),
      (''side'', PStr (paper_side_text (i_side i))),
      (''order_type'', PStr (order_type_text (i_order_type i))),
      (''quantity'', PInt (i_quantity i)), (''limit_price'', popt PDecimal (i_limit_price i)),
      (''event_time'', PDatetime (i_event_time i)), (''available_at'', PDatetime (i_available_at i)),
      (''expires_at'', PDatetime (i_expires_at i)),
      (''earliest_execution_at'', PDatetime (i_earliest_execution_at i)),
      (''price_snapshot_id'', PStr (i_price_snapshot_id i)),
      (''producer_commit'', PStr (i_producer_commit i))]"

definition intent_dump :: "order_intent \<Rightarrow> pyval" where
  "intent_dump i = PDict ((''intent_id'', PStr (i_intent_id i)) # intent_content i)"

definition authority_matches :: "order_intent \<Rightarrow> sell_authority \<Rightarrow> bool" where
  "authority_matches i a =
     (a_exit_signal_id a = i_signal_id i \<and> Some (a_entry_signal_id a) = i_entry_signal_id i
      \<and> a_account_id a = i_account_id i \<and> a_ts_code a = i_ts_code i
      \<and> a_requested_quantity a = i_quantity i)"

definition intent_fields :: "order_intent \<Rightarrow> (bool \<times> exn) list" where
  "intent_fields i =
     [(\<not> is_sha256 (i_signal_id i), ValueError ''signal_id''),
      (\<not> opt_all is_sha256 (i_entry_signal_id i), ValueError ''entry_signal_id''),
      (i_account_id i = [], ValueError ''account_id''), (i_ts_code i = [], ValueError ''ts_code''),
      (\<not> positive_lot (i_quantity i), ValueError ''quantity''),
      (\<not> opt_all (dlt dzero) (i_limit_price i), ValueError ''limit_price''),
      (\<not> is_sha256 (i_price_snapshot_id i), ValueError ''price_snapshot_id''),
      (\<not> is_commit_sha (i_producer_commit i), ValueError ''producer_commit'')]"

definition intent_checks :: "order_intent \<Rightarrow> (bool \<times> exn) list" where
  "intent_checks i =
     [(i_side i = BUY \<and> i_entry_signal_id i \<noteq> None,
       ValueError ''BUY intent entry_signal_id must be absent''),
      (i_side i = BUY \<and> i_sell_quantity_authority i \<noteq> None,
       ValueError ''BUY intent sell_quantity_authority must be absent''),
      (i_side i = SELL \<and> i_entry_signal_id i = None,
       ValueError ''SELL intent entry_signal_id is required''),
      (i_side i = SELL \<and> i_sell_quantity_authority i = None,
       ValueError ''SELL intent sell_quantity_authority is required''),
      (\<not> opt_all (authority_matches i) (i_sell_quantity_authority i),
       ValueError ''SELL intent does not match sell quantity authority''),
      (i_order_type i = LIMIT \<and> i_limit_price i = None,
       ValueError ''limit_price is required for LIMIT orders''),
      (i_order_type i = MARKET \<and> i_limit_price i \<noteq> None,
       ValueError ''limit_price is only valid for LIMIT orders''),
      (i_available_at i < i_event_time i,
       ValueError ''event_time must be before or equal to available_at''),
      (i_expires_at i \<le> i_available_at i, ValueError ''expires_at must be later than available_at''),
      (i_earliest_execution_at i < i_available_at i,
       ValueError ''earliest_execution_at must be after or equal to available_at''),
      (i_expires_at i \<le> i_earliest_execution_at i,
       ValueError ''earliest_execution_at must be earlier than expires_at'')]"

definition make_intent :: "digest \<Rightarrow> string option \<Rightarrow> order_intent \<Rightarrow> exn + order_intent" where
  "make_intent digest supplied i =
     rbind (raise_first (intent_fields i) ()) (\<lambda>_.
     rbind (validate_opt (revalidate_sell_authority digest) (i_sell_quantity_authority i)) (\<lambda>_.
     rbind (raise_first (intent_checks i) ()) (\<lambda>_.
       let expected = canonical_sha256 digest (PDict (intent_content i)) in
       bind_identity supplied expected ''intent_id does not match canonical intent content''
         (i\<lparr>i_intent_id := expected\<rparr>))))"

section \<open>Order\<close>

record paper_order =
  o_order_id :: string
  o_intent_id :: string
  o_account_id :: string
  o_ts_code :: string
  o_side :: paper_side
  o_order_type :: paper_order_type
  o_quantity :: int
  o_filled_quantity :: int
  o_average_fill_price :: "decimal option"
  o_status :: paper_order_status
  o_reject_reason :: "paper_reject_reason option"
  o_created_at :: utc
  o_updated_at :: utc

definition order_identity :: "digest \<Rightarrow> string \<Rightarrow> string \<Rightarrow> string" where
  "order_identity digest account_id intent_id =
     canonical_sha256 digest (PDict [(''account_id'', PStr account_id), (''intent_id'', PStr intent_id)])"

definition order_fields :: "paper_order \<Rightarrow> (bool \<times> exn) list" where
  "order_fields r =
     [(\<not> is_sha256 (o_intent_id r), ValueError ''intent_id''),
      (o_account_id r = [], ValueError ''account_id''), (o_ts_code r = [], ValueError ''ts_code''),
      (\<not> positive_lot (o_quantity r), ValueError ''quantity''),
      (\<not> non_negative_lot (o_filled_quantity r), ValueError ''filled_quantity''),
      (\<not> opt_all (dlt dzero) (o_average_fill_price r), ValueError ''average_fill_price'')]"

definition order_status_checks :: "paper_order \<Rightarrow> (bool \<times> exn) list" where
  "order_status_checks r =
     (case o_status r of
        PENDING \<Rightarrow> [(o_filled_quantity r \<noteq> 0, ValueError ''PENDING order cannot have fills'')]
      | ACCEPTED \<Rightarrow> [(o_filled_quantity r \<noteq> 0, ValueError ''ACCEPTED order cannot have fills'')]
      | PARTIALLY_FILLED \<Rightarrow>
          [(\<not> (0 < o_filled_quantity r \<and> o_filled_quantity r < o_quantity r),
            ValueError ''PARTIALLY_FILLED requires filled_quantity between zero and quantity'')]
      | FILLED \<Rightarrow>
          [(o_filled_quantity r \<noteq> o_quantity r,
            ValueError ''FILLED requires filled_quantity equal to quantity'')]
      | REJECTED \<Rightarrow>
          [(o_filled_quantity r \<noteq> 0, ValueError ''REJECTED order cannot have fills''),
           (o_reject_reason r = None, ValueError ''reject_reason is required for REJECTED orders'')]
      | CANCELLED \<Rightarrow>
          [(o_quantity r \<le> o_filled_quantity r,
            ValueError ''CANCELLED requires unfilled quantity to remain'')]
      | EXPIRED \<Rightarrow>
          [(o_quantity r \<le> o_filled_quantity r,
            ValueError ''EXPIRED requires unfilled quantity to remain'')])"

definition make_order :: "digest \<Rightarrow> string option \<Rightarrow> paper_order \<Rightarrow> exn + paper_order" where
  "make_order digest supplied r =
     rbind (raise_first (order_fields r) ()) (\<lambda>_.
     rbind (raise_first
       [(o_quantity r < o_filled_quantity r, ValueError ''filled_quantity cannot exceed quantity''),
        (o_updated_at r < o_created_at r, ValueError ''updated_at cannot be earlier than created_at''),
        ((0 < o_filled_quantity r) \<noteq> (o_average_fill_price r \<noteq> None),
         ValueError ''average_fill_price must be present iff fills exist'')] ()) (\<lambda>_.
     rbind (raise_first (order_status_checks r) ()) (\<lambda>_.
     if o_status r \<noteq> REJECTED \<and> o_reject_reason r \<noteq> None
     then Inl (ValueError ''reject_reason is only valid for REJECTED orders'')
     else let expected = order_identity digest (o_account_id r) (o_intent_id r) in
       bind_identity supplied expected ''order_id does not match intent_id and account_id''
         (r\<lparr>o_order_id := expected\<rparr>))))"

definition order_dump :: "paper_order \<Rightarrow> pyval" where
  "order_dump r = PDict
     [(''order_id'', PStr (o_order_id r)), (''intent_id'', PStr (o_intent_id r)),
      (''account_id'', PStr (o_account_id r)), (''ts_code'', PStr (o_ts_code r)),
      (''side'', PStr (paper_side_text (o_side r))),
      (''order_type'', PStr (order_type_text (o_order_type r))),
      (''quantity'', PInt (o_quantity r)), (''filled_quantity'', PInt (o_filled_quantity r)),
      (''average_fill_price'', popt PDecimal (o_average_fill_price r)),
      (''status'', PStr (status_text (o_status r))),
      (''reject_reason'', popt (\<lambda>x. PStr (reject_reason_text x)) (o_reject_reason r)),
      (''created_at'', PDatetime (o_created_at r)), (''updated_at'', PDatetime (o_updated_at r))]"

section \<open>Fill\<close>

record paper_fill =
  f_fill_id :: string
  f_execution_id :: string
  f_order_id :: string
  f_sequence :: int
  f_quantity :: int
  f_price :: decimal
  f_commission :: decimal
  f_transfer_fee :: "decimal option"
  f_tax :: decimal
  f_total_fees :: "decimal option"
  f_cost_spec_id :: "string option"
  f_cost_spec_schema_version :: "int option"
  f_cost_context_fingerprint :: "string option"
  f_cost_provenance_state :: paper_cost_provenance_state
  f_executed_at :: utc
  f_price_snapshot_id :: string

definition fill_identity :: "digest \<Rightarrow> string \<Rightarrow> string \<Rightarrow> string" where
  "fill_identity digest order_id execution_id =
     canonical_sha256 digest (PDict [(''order_id'', PStr order_id), (''execution_id'', PStr execution_id)])"

definition fill_fields :: "paper_fill \<Rightarrow> (bool \<times> exn) list" where
  "fill_fields f =
     [(\<not> is_sha256 (f_execution_id f), ValueError ''execution_id''),
      (\<not> is_sha256 (f_order_id f), ValueError ''order_id''),
      (f_sequence f < 1, ValueError ''sequence''),
      (\<not> positive_lot (f_quantity f), ValueError ''quantity''),
      (\<not> dlt dzero (f_price f), ValueError ''price''),
      (\<not> dle dzero (f_commission f), ValueError ''commission''),
      (\<not> opt_all (dle dzero) (f_transfer_fee f), ValueError ''transfer_fee''),
      (\<not> dle dzero (f_tax f), ValueError ''tax''),
      (\<not> opt_all (dle dzero) (f_total_fees f), ValueError ''total_fees''),
      (\<not> opt_all is_sha256 (f_cost_spec_id f), ValueError ''cost_spec_id''),
      (\<not> opt_all (\<lambda>v. v = 3) (f_cost_spec_schema_version f), ValueError ''cost_spec_schema_version''),
      (\<not> opt_all is_sha256 (f_cost_context_fingerprint f), ValueError ''cost_context_fingerprint''),
      (\<not> is_sha256 (f_price_snapshot_id f), ValueError ''price_snapshot_id'')]"

definition validate_cost_provenance :: "paper_fill \<Rightarrow> exn + paper_fill" where
  "validate_cost_provenance f =
     (let absent = [f_transfer_fee f = None, f_total_fees f = None, f_cost_spec_id f = None,
                    f_cost_spec_schema_version f = None, f_cost_context_fingerprint f = None] in
      if f_cost_provenance_state f = LEGACY_UNKNOWN
      then if list_ex Not absent
           then Inl (ValueError ''legacy paper fill must not invent v3 cost provenance'')
           else Inr f
      else if list_ex (\<lambda>b. b) absent
      then Inl (ValueError ''known v3 paper fill requires complete cost provenance'')
      else case (f_transfer_fee f, f_total_fees f) of
             (Some transfer_fee, Some total_fees) \<Rightarrow>
               if \<not> deq total_fees (dadd (dadd (f_commission f) transfer_fee) (f_tax f))
               then Inl (ValueError ''paper fill total_fees must equal its fee components'')
               else Inr f
           | _ \<Rightarrow> Inl AssertionError)"

definition make_fill :: "digest \<Rightarrow> string option \<Rightarrow> paper_fill \<Rightarrow> exn + paper_fill" where
  "make_fill digest supplied f =
     rbind (raise_first (fill_fields f) ()) (\<lambda>_.
     let expected = fill_identity digest (f_order_id f) (f_execution_id f) in
     rbind (bind_identity supplied expected ''fill_id does not match order_id and execution_id''
              (f\<lparr>f_fill_id := expected\<rparr>))
       validate_cost_provenance)"

definition fill_notional :: "paper_fill \<Rightarrow> decimal" where
  "fill_notional f = dmul (f_price f) (dof_int (f_quantity f))"

definition fill_dump :: "paper_fill \<Rightarrow> pyval" where
  "fill_dump f = PDict
     [(''fill_id'', PStr (f_fill_id f)), (''execution_id'', PStr (f_execution_id f)),
      (''order_id'', PStr (f_order_id f)), (''sequence'', PInt (f_sequence f)),
      (''quantity'', PInt (f_quantity f)), (''price'', PDecimal (f_price f)),
      (''commission'', PDecimal (f_commission f)), (''transfer_fee'', popt PDecimal (f_transfer_fee f)),
      (''tax'', PDecimal (f_tax f)), (''total_fees'', popt PDecimal (f_total_fees f)),
      (''cost_spec_id'', popt PStr (f_cost_spec_id f)),
      (''cost_spec_schema_version'', popt PInt (f_cost_spec_schema_version f)),
      (''cost_context_fingerprint'', popt PStr (f_cost_context_fingerprint f)),
      (''cost_provenance_state'', PStr (provenance_text (f_cost_provenance_state f))),
      (''executed_at'', PDatetime (f_executed_at f)),
      (''price_snapshot_id'', PStr (f_price_snapshot_id f))]"

section \<open>Execution receipt\<close>

record execution_receipt =
  r_execution_id :: string
  r_request_fingerprint :: string
  r_intent_id :: string
  r_order :: paper_order
  r_fill :: "paper_fill option"
  r_cost_spec_id :: "string option"
  r_cost_spec_schema_version :: "int option"
  r_cost_context_fingerprint :: "string option"
  r_cost_provenance_state :: paper_cost_provenance_state
  r_cost_calculation :: "cost_calculation option"
  r_persisted_at :: utc

definition receipt_fields :: "execution_receipt \<Rightarrow> (bool \<times> exn) list" where
  "receipt_fields r =
     [(\<not> is_sha256 (r_execution_id r), ValueError ''execution_id''),
      (\<not> is_sha256 (r_request_fingerprint r), ValueError ''request_fingerprint''),
      (\<not> is_sha256 (r_intent_id r), ValueError ''intent_id''),
      (\<not> opt_all is_sha256 (r_cost_spec_id r), ValueError ''cost_spec_id''),
      (\<not> opt_all (\<lambda>v. v = 3) (r_cost_spec_schema_version r), ValueError ''cost_spec_schema_version''),
      (\<not> opt_all is_sha256 (r_cost_context_fingerprint r), ValueError ''cost_context_fingerprint'')]"

text \<open>
  \<open>!=\<close> between an optional decimal of the fill and a decimal of the calculation: \<open>None\<close> differs
  from every number.
\<close>

definition opt_deq :: "decimal option \<Rightarrow> decimal \<Rightarrow> bool" where
  "opt_deq x d = (case x of None \<Rightarrow> False | Some y \<Rightarrow> deq y d)"

definition fill_matches_calculation :: "execution_receipt \<Rightarrow> paper_fill \<Rightarrow> cost_calculation \<Rightarrow> bool" where
  "fill_matches_calculation r f c =
     (f_cost_provenance_state f = KNOWN_V3 \<and> f_cost_spec_id f = r_cost_spec_id r
      \<and> f_cost_spec_schema_version f = r_cost_spec_schema_version r
      \<and> f_cost_context_fingerprint f = r_cost_context_fingerprint r
      \<and> deq (f_price f) (cc_executed_price c) \<and> deq (f_commission f) (cc_commission c)
      \<and> opt_deq (f_transfer_fee f) (cc_transfer_fee c) \<and> deq (f_tax f) (cc_stamp_duty c)
      \<and> opt_deq (f_total_fees f) (cc_total_fees c))"

definition calculation_matches_receipt :: "execution_receipt \<Rightarrow> cost_calculation \<Rightarrow> bool" where
  "calculation_matches_receipt r c =
     (Some (cc_cost_spec_id c) = r_cost_spec_id r
      \<and> Some (cc_cost_spec_schema_version c) = r_cost_spec_schema_version r
      \<and> Some (cc_cost_context_fingerprint c) = r_cost_context_fingerprint r)"

definition validate_known_v3 :: "execution_receipt \<Rightarrow> exn + execution_receipt" where
  "validate_known_v3 r =
     (if r_cost_spec_id r = None \<or> r_cost_spec_schema_version r = None
         \<or> r_cost_context_fingerprint r = None
      then Inl (ValueError ''known v3 execution receipt requires complete cost provenance'')
      else rbind
        (case r_fill r of
           None \<Rightarrow> Inr ()
         | Some f \<Rightarrow>
             (case r_cost_calculation r of
                None \<Rightarrow> Inl (ValueError ''known v3 fill receipt requires resolved cost calculation'')
              | Some c \<Rightarrow>
                  if \<not> fill_matches_calculation r f c
                  then Inl (ValueError ''known v3 execution receipt does not match its fill'')
                  else Inr ())) (\<lambda>_.
        if \<not> opt_all (calculation_matches_receipt r) (r_cost_calculation r)
        then Inl (ValueError ''known v3 execution receipt does not match cost calculation'')
        else Inr r))"

definition validate_execution :: "execution_receipt \<Rightarrow> exn + execution_receipt" where
  "validate_execution r =
     (if o_intent_id (r_order r) \<noteq> r_intent_id r
      then Inl (ValueError ''execution receipt does not bind its intent and order'')
      else if \<not> opt_all (\<lambda>f. f_execution_id f = r_execution_id r
                             \<and> f_order_id f = o_order_id (r_order r)) (r_fill r)
      then Inl (ValueError ''execution receipt does not bind its order and fill'')
      else if r_cost_provenance_state r = LEGACY_UNKNOWN
      then if r_cost_spec_id r \<noteq> None \<or> r_cost_spec_schema_version r \<noteq> None
              \<or> r_cost_context_fingerprint r \<noteq> None \<or> r_cost_calculation r \<noteq> None
           then Inl (ValueError ''legacy execution receipt must not invent v3 cost provenance'')
           else Inr r
      else validate_known_v3 r)"

definition make_receipt :: "digest \<Rightarrow> execution_receipt \<Rightarrow> exn + execution_receipt" where
  "make_receipt digest r =
     rbind (raise_first (receipt_fields r) ()) (\<lambda>_.
     rbind (make_order digest (Some (o_order_id (r_order r))) (r_order r)) (\<lambda>_.
     rbind (validate_opt (\<lambda>f. make_fill digest (Some (f_fill_id f)) f) (r_fill r)) (\<lambda>_.
     rbind (validate_opt validate_cost_calculation (r_cost_calculation r)) (\<lambda>calculation.
       validate_execution (r\<lparr>r_cost_calculation := calculation\<rparr>)))))"

definition receipt_dump :: "execution_receipt \<Rightarrow> pyval" where
  "receipt_dump r = PDict
     [(''execution_id'', PStr (r_execution_id r)),
      (''request_fingerprint'', PStr (r_request_fingerprint r)),
      (''intent_id'', PStr (r_intent_id r)), (''order'', order_dump (r_order r)),
      (''fill'', popt fill_dump (r_fill r)), (''cost_spec_id'', popt PStr (r_cost_spec_id r)),
      (''cost_spec_schema_version'', popt PInt (r_cost_spec_schema_version r)),
      (''cost_context_fingerprint'', popt PStr (r_cost_context_fingerprint r)),
      (''cost_provenance_state'', PStr (provenance_text (r_cost_provenance_state r))),
      (''cost_calculation'', popt cost_calculation_dump (r_cost_calculation r)),
      (''persisted_at'', PDatetime (r_persisted_at r))]"

section \<open>Holdings and account snapshots\<close>

record paper_holding =
  h_code :: string
  h_quantity :: int
  h_available_quantity :: int
  h_frozen_quantity :: int
  h_average_cost :: decimal
  h_market_price :: decimal

definition make_holding :: "paper_holding \<Rightarrow> exn + paper_holding" where
  "make_holding h =
     raise_first
       [(h_code h = [], ValueError ''code''),
        (\<not> non_negative_lot (h_quantity h), ValueError ''quantity''),
        (\<not> non_negative_lot (h_available_quantity h), ValueError ''available_quantity''),
        (\<not> non_negative_lot (h_frozen_quantity h), ValueError ''frozen_quantity''),
        (\<not> dle dzero (h_average_cost h), ValueError ''average_cost''),
        (\<not> dle dzero (h_market_price h), ValueError ''market_price''),
        (h_quantity h \<noteq> h_available_quantity h + h_frozen_quantity h,
         ValueError ''quantity must equal available_quantity plus frozen_quantity''),
        (0 < h_quantity h \<and> dle (h_average_cost h) dzero,
         ValueError ''average_cost must be positive for a non-empty holding''),
        (0 < h_quantity h \<and> dle (h_market_price h) dzero,
         ValueError ''market_price must be positive for a non-empty holding'')] h"

record account_snapshot =
  s_snapshot_id :: string
  s_account_id :: string
  s_as_of_time :: utc
  s_cash :: decimal
  s_available_cash :: decimal
  s_frozen_cash :: decimal
  s_holdings :: "paper_holding list"
  s_realized_pnl :: decimal
  s_unrealized_pnl :: decimal
  s_nav :: decimal

definition holding_dump :: "paper_holding \<Rightarrow> pyval" where
  "holding_dump h = PDict
     [(''code'', PStr (h_code h)), (''quantity'', PInt (h_quantity h)),
      (''available_quantity'', PInt (h_available_quantity h)),
      (''frozen_quantity'', PInt (h_frozen_quantity h)),
      (''average_cost'', PDecimal (h_average_cost h)), (''market_price'', PDecimal (h_market_price h))]"

definition snapshot_content :: "account_snapshot \<Rightarrow> (string \<times> pyval) list" where
  "snapshot_content s =
     [(''account_id'', PStr (s_account_id s)), (''as_of_time'', PDatetime (s_as_of_time s)),
      (''cash'', PDecimal (s_cash s)), (''available_cash'', PDecimal (s_available_cash s)),
      (''frozen_cash'', PDecimal (s_frozen_cash s)),
      (''holdings'', PList (map holding_dump (s_holdings s))),
      (''realized_pnl'', PDecimal (s_realized_pnl s)),
      (''unrealized_pnl'', PDecimal (s_unrealized_pnl s)), (''nav'', PDecimal (s_nav s))]"

definition holdings_unrealized :: "paper_holding list \<Rightarrow> decimal" where
  "holdings_unrealized hs =
     dsum (map (\<lambda>h. dmul (dsub (h_market_price h) (h_average_cost h)) (dof_int (h_quantity h))) hs)"

definition holdings_value :: "paper_holding list \<Rightarrow> decimal" where
  "holdings_value hs = dsum (map (\<lambda>h. dmul (h_market_price h) (dof_int (h_quantity h))) hs)"

definition reconcile_account :: "account_snapshot \<Rightarrow> exn + account_snapshot" where
  "reconcile_account s =
     (if \<not> deq (s_cash s) (dadd (s_available_cash s) (s_frozen_cash s))
      then Inl (ValueError ''cash must equal available_cash plus frozen_cash'')
      else if \<not> distinct (map h_code (s_holdings s))
      then Inl (ValueError ''holdings must contain unique code values'')
      else let t = s\<lparr>s_holdings := sort_key h_code (s_holdings s)\<rparr> in
        if \<not> deq (s_unrealized_pnl t) (holdings_unrealized (s_holdings t))
        then Inl (ValueError ''unrealized_pnl must reconcile to holding market values and costs'')
        else if \<not> deq (s_nav t) (dadd (s_cash t) (holdings_value (s_holdings t)))
        then Inl (ValueError ''nav must equal cash plus holdings market value'')
        else Inr t)"

definition make_account_snapshot ::
  "digest \<Rightarrow> string option \<Rightarrow> account_snapshot \<Rightarrow> exn + account_snapshot" where
  "make_account_snapshot digest supplied s =
     rbind (raise_first
       [(s_account_id s = [], ValueError ''account_id''), (\<not> dle dzero (s_cash s), ValueError ''cash''),
        (\<not> dle dzero (s_available_cash s), ValueError ''available_cash''),
        (\<not> dle dzero (s_frozen_cash s), ValueError ''frozen_cash''),
        (\<not> dle dzero (s_nav s), ValueError ''nav'')] ()) (\<lambda>_.
     rbind (mapM make_holding (s_holdings s)) (\<lambda>_.
     rbind (reconcile_account s) (\<lambda>t.
       let expected_id = canonical_sha256 digest (PDict (snapshot_content t)) in
       bind_identity supplied expected_id ''snapshot_id does not match reconciled account content''
         (t\<lparr>s_snapshot_id := expected_id\<rparr>))))"

end
