(* ===== verification/Paper_Ledger.thy ===== *)
theory Paper_Ledger
  imports Paper_Contracts
begin

text \<open>
  The tables of the paper ledger and the statements \<open>paper_broker.py\<close> runs on them. A table is
  the list of its rows in insertion order; an \<open>INSERT\<close> checks the primary key, \<open>UNIQUE\<close>,
  \<open>CHECK\<close> and foreign key constraints and the \<open>BEFORE INSERT\<close> triggers of the schema and
  raises \<open>sqlite3.IntegrityError\<close> when one fails. Texts are modelled by what they denote: a
  money column by the decimal of its fixed-point text, a timestamp or date column by its number,
  a JSON column by the validated model (or the tree) it encodes, \<open>None\<close> standing for a text
  that does not decode. The operations update neither fills nor receipts nor attestations, as
  the immutability triggers demand.

  What the trust check reads outside these tables is kept as a value in the ledger: the
  fingerprint of \<open>sqlite_master\<close>, whether the version 4 archive validates, and the digest of the
  immutable migration attestation (\<open>paper_ledger_migration.py\<close>).
\<close>

section \<open>Rows\<close>

record account_row =
  ac_account_id :: string
  ac_initial_cash :: decimal
  ac_cash :: decimal
  ac_realized_pnl :: decimal
  ac_cost_policy_fingerprint :: string
  ac_cost_spec_id :: "string option"
  ac_cost_spec_schema_version :: "int option"
  ac_cost_provenance_state :: paper_cost_provenance_state

record cost_spec_row =
  cs_cost_spec_id :: string
  cs_schema_version :: int
  cs_cost_engine_version :: string
  cs_canonical_json :: json
  cs_persisted_at :: utc

record intent_row =
  ir_intent_id :: string
  ir_account_id :: string
  ir_signal_id :: string
  ir_entry_signal_id :: "string option"
  ir_ts_code :: string
  ir_side :: paper_side
  ir_initial_execution_id :: string
  ir_initial_execution_request_fingerprint :: string
  ir_payload_json :: "order_intent option"
  ir_persisted_at :: utc

record order_row =
  or_order :: paper_order
  or_entry_signal_id :: "string option"

record fill_row =
  fl_fill :: paper_fill
  fl_persisted_at :: utc

record lot_row =
  l_lot_id :: string
  l_account_id :: string
  l_ts_code :: string
  l_entry_signal_id :: string
  l_acquisition_trade_date :: day
  l_available_date :: day
  l_original_quantity :: int
  l_remaining_quantity :: int
  l_unit_cost :: decimal
  l_persisted_at :: utc
  l_buy_executed_at :: utc
  l_buy_persisted_at :: utc
  l_buy_fill_sequence :: int

record consumption_row =
  c_fill_id :: string
  c_lot_id :: string
  c_quantity :: int
  c_unit_cost :: decimal
  c_persisted_at :: utc

record receipt_row =
  rr_execution_id :: string
  rr_account_id :: string
  rr_intent_id :: string
  rr_order_id :: string
  rr_request_fingerprint :: string
  rr_request_json :: "pyval option"
  rr_receipt_json :: "execution_receipt option"
  rr_transfer_fee :: "decimal option"
  rr_total_fees :: "decimal option"
  rr_cost_spec_id :: "string option"
  rr_cost_spec_schema_version :: "int option"
  rr_cost_context_fingerprint :: "string option"
  rr_cost_provenance_state :: paper_cost_provenance_state
  rr_persisted_at :: utc

record authority_row =
  au_account_id :: string
  au_revision :: int
  au_state_fingerprint :: string
  au_producer_commit :: string
  au_snapshot_json :: "account_snapshot option"

record ledger_counts =
  n_broker_account :: int
  n_intent :: int
  n_order :: int
  n_fill :: int
  n_lot :: int
  n_consumption :: int
  n_receipt :: int
  n_authority :: int

record attestation_row =
  at_revision :: int
  at_ledger_generation :: string
  at_migration_version :: int
  at_schema_version :: int
  at_schema_fingerprint :: string
  at_previous_attestation_fingerprint :: "string option"
  at_migration_attestation_fingerprint :: string
  at_event_kind :: string
  at_event_fingerprint :: string
  at_counts :: ledger_counts
  at_payload_json :: "json option"
  at_attestation_fingerprint :: string
  at_persisted_at :: utc

record head_row =
  hd_revision :: int
  hd_ledger_generation :: string
  hd_migration_version :: int
  hd_schema_version :: int
  hd_schema_fingerprint :: string
  hd_attestation_fingerprint :: string
  hd_previous_head_marker_fingerprint :: "string option"
  hd_migration_attestation_fingerprint :: string
  hd_counts :: ledger_counts
  hd_payload_json :: "json option"
  hd_head_marker_fingerprint :: string
  hd_persisted_at :: utc

record schema_row =
  sr_schema_version :: int
  sr_internal_migration_version :: int
  sr_unknown :: "(string \<times> int) list"

datatype schema_metadata = SchemaTableMissing | SchemaColumnsMissing | SchemaTable "schema_row option"

record ledger =
  lg_accounts :: "account_row list"
  lg_cost_specs :: "cost_spec_row list"
  lg_intents :: "intent_row list"
  lg_orders :: "order_row list"
  lg_fills :: "fill_row list"
  lg_lots :: "lot_row list"
  lg_consumptions :: "consumption_row list"
  lg_receipts :: "receipt_row list"
  lg_authorities :: "authority_row list"
  lg_attestations :: "attestation_row list"
  lg_heads :: "head_row list"
  lg_tamper_ids :: "int list"
  lg_schema :: schema_metadata
  lg_attestation_table :: bool
  lg_schema_fingerprint :: "string option"
  lg_archive_valid :: bool
  lg_migration_digest :: "string option"

section \<open>Inserts\<close>

definition spec_exists :: "ledger \<Rightarrow> string option \<Rightarrow> bool" where
  "spec_exists L i = list_ex (\<lambda>s. Some (cs_cost_spec_id s) = i) (lg_cost_specs L)"

definition account_exists :: "ledger \<Rightarrow> string \<Rightarrow> bool" where
  "account_exists L a = list_ex (\<lambda>r. ac_account_id r = a) (lg_accounts L)"

definition insert_cost_spec :: "cost_spec_row \<Rightarrow> ledger \<Rightarrow> exn + ledger" where
  "insert_cost_spec r L =
     raise_first
       [(cs_schema_version r \<noteq> 3, SqlIntegrityError ''CHECK paper_cost_spec''),
        (list_ex (\<lambda>s. cs_cost_spec_id s = cs_cost_spec_id r) (lg_cost_specs L),
         SqlIntegrityError ''PRIMARY KEY paper_cost_spec''),
        (list_ex (\<lambda>s. cs_schema_version s = cs_schema_version r
                      \<and> cs_cost_engine_version s = cs_cost_engine_version r
                      \<and> cs_canonical_json s = cs_canonical_json r) (lg_cost_specs L),
         SqlIntegrityError ''UNIQUE paper_cost_spec'')]
       (L\<lparr>lg_cost_specs := lg_cost_specs L @ [r]\<rparr>)"

definition insert_account :: "account_row \<Rightarrow> ledger \<Rightarrow> exn + ledger" where
  "insert_account r L =
     raise_first
       [(ac_cost_provenance_state r \<noteq> KNOWN_V3 \<or> ac_cost_spec_id r = None
         \<or> ac_cost_spec_schema_version r \<noteq> Some 3
         \<or> Some (ac_cost_policy_fingerprint r) \<noteq> ac_cost_spec_id r
         \<or> \<not> spec_exists L (ac_cost_spec_id r),
         SqlIntegrityError ''new paper broker account requires known v3 cost binding''),
        (account_exists L (ac_account_id r), SqlIntegrityError ''PRIMARY KEY broker_account'')]
       (L\<lparr>lg_accounts := lg_accounts L @ [r]\<rparr>)"

definition insert_intent :: "intent_row \<Rightarrow> ledger \<Rightarrow> exn + ledger" where
  "insert_intent r L =
     raise_first
       [(list_ex (\<lambda>s. ir_intent_id s = ir_intent_id r) (lg_intents L),
         SqlIntegrityError ''PRIMARY KEY paper_intent''),
        (list_ex (\<lambda>s. ir_initial_execution_id s = ir_initial_execution_id r) (lg_intents L),
         SqlIntegrityError ''UNIQUE paper_intent.initial_execution_id''),
        (list_ex (\<lambda>s. ir_account_id s = ir_account_id r \<and> ir_signal_id s = ir_signal_id r) (lg_intents L),
         SqlIntegrityError ''UNIQUE paper_intent.account_id, signal_id''),
        (\<not> account_exists L (ir_account_id r), SqlIntegrityError ''FOREIGN KEY paper_intent'')]
       (L\<lparr>lg_intents := lg_intents L @ [r]\<rparr>)"

definition insert_order_row :: "order_row \<Rightarrow> ledger \<Rightarrow> exn + ledger" where
  "insert_order_row r L =
     raise_first
       [(\<not> positive_lot (o_quantity (or_order r)) \<or> o_filled_quantity (or_order r) < 0,
         SqlIntegrityError ''CHECK paper_order''),
        (list_ex (\<lambda>s. o_order_id (or_order s) = o_order_id (or_order r)) (lg_orders L),
         SqlIntegrityError ''PRIMARY KEY paper_order''),
        (list_ex (\<lambda>s. o_intent_id (or_order s) = o_intent_id (or_order r)) (lg_orders L),
         SqlIntegrityError ''UNIQUE paper_order.intent_id''),
        (\<not> list_ex (\<lambda>s. ir_intent_id s = o_intent_id (or_order r)) (lg_intents L)
         \<or> \<not> account_exists L (o_account_id (or_order r)), SqlIntegrityError ''FOREIGN KEY paper_order'')]
       (L\<lparr>lg_orders := lg_orders L @ [r]\<rparr>)"

definition insert_fill :: "fill_row \<Rightarrow> ledger \<Rightarrow> exn + ledger" where
  "insert_fill r L =
     (let f = fl_fill r in
      raise_first
       [(f_cost_provenance_state f \<noteq> KNOWN_V3 \<or> f_transfer_fee f = None \<or> f_total_fees f = None
         \<or> f_cost_spec_id f = None \<or> f_cost_spec_schema_version f \<noteq> Some 3
         \<or> f_cost_context_fingerprint f = None \<or> \<not> spec_exists L (f_cost_spec_id f),
         SqlIntegrityError ''new paper fill requires KNOWN_V3 cost evidence''),
        (f_sequence f < 1 \<or> \<not> positive_lot (f_quantity f), SqlIntegrityError ''CHECK paper_fill''),
        (list_ex (\<lambda>s. f_fill_id (fl_fill s) = f_fill_id f) (lg_fills L),
         SqlIntegrityError ''PRIMARY KEY paper_fill''),
        (list_ex (\<lambda>s. f_execution_id (fl_fill s) = f_execution_id f) (lg_fills L),
         SqlIntegrityError ''UNIQUE paper_fill.execution_id''),
        (list_ex (\<lambda>s. f_order_id (fl_fill s) = f_order_id f \<and> f_sequence (fl_fill s) = f_sequence f)
           (lg_fills L), SqlIntegrityError ''UNIQUE paper_fill.order_id, sequence''),
        (\<not> list_ex (\<lambda>s. o_order_id (or_order s) = f_order_id f) (lg_orders L),
         SqlIntegrityError ''FOREIGN KEY paper_fill'')]
       (L\<lparr>lg_fills := lg_fills L @ [r]\<rparr>))"

definition insert_lot :: "lot_row \<Rightarrow> ledger \<Rightarrow> exn + ledger" where
  "insert_lot r L =
     raise_first
       [(\<not> positive_lot (l_original_quantity r) \<or> \<not> non_negative_lot (l_remaining_quantity r)
         \<or> l_buy_fill_sequence r < 1, SqlIntegrityError ''CHECK paper_lot''),
        (list_ex (\<lambda>s. l_lot_id s = l_lot_id r) (lg_lots L), SqlIntegrityError ''PRIMARY KEY paper_lot''),
        (\<not> list_ex (\<lambda>s. f_fill_id (fl_fill s) = l_lot_id r) (lg_fills L)
         \<or> \<not> account_exists L (l_account_id r), SqlIntegrityError ''FOREIGN KEY paper_lot'')]
       (L\<lparr>lg_lots := lg_lots L @ [r]\<rparr>)"

definition insert_consumption :: "consumption_row \<Rightarrow> ledger \<Rightarrow> exn + ledger" where
  "insert_consumption r L =
     raise_first
       [(\<not> positive_lot (c_quantity r), SqlIntegrityError ''CHECK paper_lot_consumption''),
        (list_ex (\<lambda>s. c_fill_id s = c_fill_id r \<and> c_lot_id s = c_lot_id r) (lg_consumptions L),
         SqlIntegrityError ''PRIMARY KEY paper_lot_consumption''),
        (\<not> list_ex (\<lambda>s. f_fill_id (fl_fill s) = c_fill_id r) (lg_fills L)
         \<or> \<not> list_ex (\<lambda>s. l_lot_id s = c_lot_id r) (lg_lots L),
         SqlIntegrityError ''FOREIGN KEY paper_lot_consumption'')]
       (L\<lparr>lg_consumptions := lg_consumptions L @ [r]\<rparr>)"

definition insert_receipt :: "receipt_row \<Rightarrow> ledger \<Rightarrow> exn + ledger" where
  "insert_receipt r L =
     raise_first
       [(rr_cost_provenance_state r \<noteq> KNOWN_V3 \<or> rr_transfer_fee r = None \<or> rr_total_fees r = None
         \<or> rr_cost_spec_id r = None \<or> rr_cost_spec_schema_version r \<noteq> Some 3
         \<or> rr_cost_context_fingerprint r = None \<or> \<not> spec_exists L (rr_cost_spec_id r),
         SqlIntegrityError ''new paper execution receipt requires KNOWN_V3 cost evidence''),
        (list_ex (\<lambda>s. rr_execution_id s = rr_execution_id r) (lg_receipts L),
         SqlIntegrityError ''PRIMARY KEY paper_execution_receipt''),
        (\<not> account_exists L (rr_account_id r)
         \<or> \<not> list_ex (\<lambda>s. ir_intent_id s = rr_intent_id r) (lg_intents L)
         \<or> \<not> list_ex (\<lambda>s. o_order_id (or_order s) = rr_order_id r) (lg_orders L),
         SqlIntegrityError ''FOREIGN KEY paper_execution_receipt'')]
       (L\<lparr>lg_receipts := lg_receipts L @ [r]\<rparr>)"

section \<open>Updates\<close>

text \<open>\<open>UPDATE broker_account SET cash, realized_pnl\<close>; \<open>_money\<close> stores the fixed-point text.\<close>

definition set_account_values :: "string \<Rightarrow> decimal \<Rightarrow> decimal \<Rightarrow> ledger \<Rightarrow> ledger" where
  "set_account_values a cash realized L =
     L\<lparr>lg_accounts := update_where (\<lambda>r. ac_account_id r = a)
         (\<lambda>r. r\<lparr>ac_cash := fixed_point cash, ac_realized_pnl := fixed_point realized\<rparr>) (lg_accounts L)\<rparr>"

definition set_account_cash :: "string \<Rightarrow> decimal \<Rightarrow> ledger \<Rightarrow> ledger" where
  "set_account_cash a cash L =
     L\<lparr>lg_accounts := update_where (\<lambda>r. ac_account_id r = a)
         (\<lambda>r. r\<lparr>ac_cash := fixed_point cash\<rparr>) (lg_accounts L)\<rparr>"

text \<open>\<open>UPDATE paper_lot SET remaining_quantity = remaining_quantity - ?\<close>, with its \<open>CHECK\<close>.\<close>

definition consume_lot :: "string \<Rightarrow> int \<Rightarrow> ledger \<Rightarrow> exn + ledger" where
  "consume_lot lot_id consumed L =
     (let lots = update_where (\<lambda>l. l_lot_id l = lot_id)
            (\<lambda>l. l\<lparr>l_remaining_quantity := l_remaining_quantity l - consumed\<rparr>) (lg_lots L) in
      if list_ex (\<lambda>l. l_lot_id l = lot_id \<and> \<not> non_negative_lot (l_remaining_quantity l)) lots
      then Inl (SqlIntegrityError ''CHECK paper_lot'')
      else Inr (L\<lparr>lg_lots := lots\<rparr>))"

definition update_order_row :: "string \<Rightarrow> (paper_order \<Rightarrow> paper_order) \<Rightarrow> ledger \<Rightarrow> ledger" where
  "update_order_row order_id f L =
     L\<lparr>lg_orders := update_where (\<lambda>r. o_order_id (or_order r) = order_id)
         (\<lambda>r. r\<lparr>or_order := f (or_order r)\<rparr>) (lg_orders L)\<rparr>"

end
