(* ===== verification/Ledger_Attestation.thy ===== *)
theory Ledger_Attestation
  imports Paper_Ledger
begin

text \<open>
  The append-only chain of ledger attestations and canonical head markers, and the trust status
  derived from it (\<open>paper_broker.py\<close>, \<open>_attestation_payload\<close> to
  \<open>_require_active_cost_spec_authority\<close>). Every mutation of the ledger appends one attestation
  that binds the previous one and the row counts of the tables.
\<close>

definition ledger_migration_version :: int where
  "ledger_migration_version = 4"

definition utc_iso :: "utc \<Rightarrow> string" where
  "utc_iso t = iso_time t @ ''Z''"

text \<open>\<open>ORDER BY revision DESC LIMIT 1\<close>.\<close>

fun latest_by :: "('a \<Rightarrow> int) \<Rightarrow> 'a list \<Rightarrow> 'a option" where
  "latest_by f [] = None"
| "latest_by f (x # xs) =
     (case latest_by f xs of None \<Rightarrow> Some x | Some y \<Rightarrow> if f x < f y then Some y else Some x)"

definition counts_content :: "ledger_counts \<Rightarrow> (string \<times> pyval) list" where
  "counts_content n =
     [(''broker_account_count'', PInt (n_broker_account n)), (''intent_count'', PInt (n_intent n)),
      (''order_count'', PInt (n_order n)), (''fill_count'', PInt (n_fill n)),
      (''lot_count'', PInt (n_lot n)), (''consumption_count'', PInt (n_consumption n)),
      (''receipt_count'', PInt (n_receipt n)), (''authority_count'', PInt (n_authority n))]"

definition add_counts :: "ledger_counts \<Rightarrow> ledger_counts \<Rightarrow> ledger_counts" where
  "add_counts a b =
     \<lparr>n_broker_account = n_broker_account a + n_broker_account b, n_intent = n_intent a + n_intent b,
      n_order = n_order a + n_order b, n_fill = n_fill a + n_fill b, n_lot = n_lot a + n_lot b,
      n_consumption = n_consumption a + n_consumption b, n_receipt = n_receipt a + n_receipt b,
      n_authority = n_authority a + n_authority b\<rparr>"

definition no_counts :: ledger_counts where
  "no_counts = \<lparr>n_broker_account = 0, n_intent = 0, n_order = 0, n_fill = 0, n_lot = 0,
                n_consumption = 0, n_receipt = 0, n_authority = 0\<rparr>"

definition counts_le :: "ledger_counts \<Rightarrow> ledger_counts \<Rightarrow> bool" where
  "counts_le a b \<longleftrightarrow>
     n_broker_account a \<le> n_broker_account b \<and> n_intent a \<le> n_intent b \<and> n_order a \<le> n_order b
     \<and> n_fill a \<le> n_fill b \<and> n_lot a \<le> n_lot b \<and> n_consumption a \<le> n_consumption b
     \<and> n_receipt a \<le> n_receipt b \<and> n_authority a \<le> n_authority b"

section \<open>Rows of the chain\<close>

definition attestation_payload :: "attestation_row \<Rightarrow> pyval" where
  "attestation_payload r = PDict (
     [(''revision'', PInt (at_revision r)), (''ledger_generation'', PStr (at_ledger_generation r)),
      (''migration_version'', PInt (at_migration_version r)),
      (''schema_version'', PInt (at_schema_version r)),
      (''schema_fingerprint'', PStr (at_schema_fingerprint r)),
      (''previous_attestation_fingerprint'', popt PStr (at_previous_attestation_fingerprint r)),
      (''migration_attestation_fingerprint'', PStr (at_migration_attestation_fingerprint r)),
      (''event_kind'', PStr (at_event_kind r)), (''event_fingerprint'', PStr (at_event_fingerprint r))]
     @ counts_content (at_counts r) @ [(''persisted_at'', PStr (utc_iso (at_persisted_at r)))])"

definition head_marker_payload :: "head_row \<Rightarrow> pyval" where
  "head_marker_payload r = PDict (
     [(''revision'', PInt (hd_revision r)), (''ledger_generation'', PStr (hd_ledger_generation r)),
      (''migration_version'', PInt (hd_migration_version r)),
      (''schema_version'', PInt (hd_schema_version r)),
      (''schema_fingerprint'', PStr (hd_schema_fingerprint r)),
      (''attestation_fingerprint'', PStr (hd_attestation_fingerprint r)),
      (''previous_head_marker_fingerprint'', popt PStr (hd_previous_head_marker_fingerprint r)),
      (''migration_attestation_fingerprint'', PStr (hd_migration_attestation_fingerprint r))]
     @ counts_content (hd_counts r) @ [(''persisted_at'', PStr (utc_iso (hd_persisted_at r)))])"

text \<open>Equality of decoded objects does not depend on the order of their keys.\<close>

definition same_object :: "json \<Rightarrow> json \<Rightarrow> bool" where
  "same_object a b =
     (case (a, b) of (JObj xs, JObj ys) \<Rightarrow> sort_key fst xs = sort_key fst ys | _ \<Rightarrow> a = b)"

definition validate_attestation_row :: "digest \<Rightarrow> attestation_row \<Rightarrow> exn + unit" where
  "validate_attestation_row digest r =
     (case at_payload_json r of
        None \<Rightarrow> Inl (PaperBrokerReconciliationError ''paper ledger attestation payload is invalid'')
      | Some persisted \<Rightarrow>
          if \<not> same_object persisted (canonical_value (attestation_payload r))
             \<or> at_attestation_fingerprint r \<noteq> canonical_sha256 digest (attestation_payload r)
          then Inl (PaperBrokerReconciliationError ''paper ledger attestation content binding is invalid'')
          else Inr ())"

definition validate_head_marker_row :: "digest \<Rightarrow> head_row \<Rightarrow> exn + unit" where
  "validate_head_marker_row digest r =
     (case hd_payload_json r of
        None \<Rightarrow> Inl (PaperBrokerReconciliationError ''paper ledger canonical head payload is invalid'')
      | Some persisted \<Rightarrow>
          if \<not> same_object persisted (canonical_value (head_marker_payload r))
             \<or> hd_head_marker_fingerprint r \<noteq> canonical_sha256 digest (head_marker_payload r)
          then Inl (PaperBrokerReconciliationError ''paper ledger canonical head content binding is invalid'')
          else Inr ())"

text \<open>The fields compared between a head marker and its attestation, in the order of the loop.\<close>

definition marker_agreement :: "head_row \<Rightarrow> attestation_row \<Rightarrow> bool list" where
  "marker_agreement m a =
     [hd_ledger_generation m = at_ledger_generation a, hd_migration_version m = at_migration_version a,
      hd_schema_version m = at_schema_version a, hd_schema_fingerprint m = at_schema_fingerprint a,
      hd_migration_attestation_fingerprint m = at_migration_attestation_fingerprint a,
      n_broker_account (hd_counts m) = n_broker_account (at_counts a),
      n_intent (hd_counts m) = n_intent (at_counts a), n_order (hd_counts m) = n_order (at_counts a),
      n_fill (hd_counts m) = n_fill (at_counts a), n_lot (hd_counts m) = n_lot (at_counts a),
      n_consumption (hd_counts m) = n_consumption (at_counts a),
      n_receipt (hd_counts m) = n_receipt (at_counts a),
      n_authority (hd_counts m) = n_authority (at_counts a), hd_persisted_at m = at_persisted_at a]"

definition marker_checks :: "bool list \<Rightarrow> bool list \<Rightarrow> (bool \<times> exn) list" where
  "marker_checks migration latest = concat (map2 (\<lambda>x y.
     [(\<not> x, PaperBrokerReconciliationError ''paper ledger canonical migration marker conflicts with attestation''),
      (\<not> y, PaperBrokerReconciliationError ''paper ledger canonical head content conflicts with attestation'')])
     migration latest)"

definition validate_canonical_head ::
  "digest \<Rightarrow> ledger \<Rightarrow> attestation_row \<Rightarrow> attestation_row \<Rightarrow> exn + unit" where
  "validate_canonical_head digest L migration latest =
     (if lg_tamper_ids L \<noteq> []
      then Inl (PaperBrokerReconciliationError ''paper ledger attestation deletion tamper marker is present'')
      else
        case (select_one (\<lambda>m. hd_revision m = 1) (lg_heads L), latest_by hd_revision (lg_heads L)) of
          (Some migration_marker, Some latest_marker) \<Rightarrow>
            rbind (validate_head_marker_row digest migration_marker) (\<lambda>_.
            rbind (validate_head_marker_row digest latest_marker) (\<lambda>_.
            raise_first (
              [(hd_revision migration_marker \<noteq> 1
                \<or> hd_previous_head_marker_fingerprint migration_marker \<noteq> None
                \<or> hd_attestation_fingerprint migration_marker \<noteq> at_attestation_fingerprint migration
                \<or> hd_revision latest_marker \<noteq> at_revision latest
                \<or> hd_attestation_fingerprint latest_marker \<noteq> at_attestation_fingerprint latest,
                PaperBrokerReconciliationError ''paper ledger canonical head conflicts with attestation head'')]
              @ marker_checks (marker_agreement migration_marker migration)
                  (marker_agreement latest_marker latest)
              @ [(1 < hd_revision latest_marker
                \<and> (case select_one (\<lambda>m. hd_revision m = hd_revision latest_marker - 1) (lg_heads L) of
                      None \<Rightarrow> True
                    | Some p \<Rightarrow> Some (hd_head_marker_fingerprint p)
                                \<noteq> hd_previous_head_marker_fingerprint latest_marker),
                PaperBrokerReconciliationError ''paper ledger canonical head chain is detached'')]) ()))
        | _ \<Rightarrow> Inl (PaperBrokerReconciliationError ''paper ledger canonical head marker is missing''))"

definition attestation_head :: "digest \<Rightarrow> ledger \<Rightarrow> exn + attestation_row \<times> attestation_row" where
  "attestation_head digest L =
     (case (select_one (\<lambda>a. at_revision a = 1) (lg_attestations L),
            latest_by at_revision (lg_attestations L)) of
        (Some migration, Some latest) \<Rightarrow>
          rbind (validate_attestation_row digest migration) (\<lambda>_.
          rbind (validate_attestation_row digest latest) (\<lambda>_.
          rbind (raise_first
            [(at_event_kind migration \<noteq> ''migration_audit''
              \<or> at_previous_attestation_fingerprint migration \<noteq> None
              \<or> at_ledger_generation latest \<noteq> at_ledger_generation migration
              \<or> at_migration_attestation_fingerprint latest
                  \<noteq> at_migration_attestation_fingerprint migration,
              PaperBrokerReconciliationError ''paper ledger migration attestation conflicts with trust head''),
             (1 < at_revision latest
              \<and> (case select_one (\<lambda>a. at_revision a = at_revision latest - 1) (lg_attestations L) of
                    None \<Rightarrow> True
                  | Some p \<Rightarrow> Some (at_attestation_fingerprint p)
                              \<noteq> at_previous_attestation_fingerprint latest),
              PaperBrokerReconciliationError ''paper ledger attestation head was rolled back or detached''),
             (\<not> counts_le (at_counts migration) (at_counts latest),
              PaperBrokerReconciliationError
                ''paper ledger attestation count rolled back below migration baseline'')] ()) (\<lambda>_.
          rbind (validate_canonical_head digest L migration latest) (\<lambda>_.
            Inr (migration, latest)))))
      | _ \<Rightarrow> Inl (PaperBrokerReconciliationError ''paper ledger attestation is missing''))"

section \<open>Appending\<close>

definition counts_nonneg :: "ledger_counts \<Rightarrow> bool" where
  "counts_nonneg n = counts_le no_counts n"

text \<open>
  \<open>INSERT INTO paper_ledger_attestation\<close>, \<open>INSERT INTO paper_ledger_head_marker\<close>. The deferred
  foreign keys are checked with the insert: the rows they name are already there.
\<close>

definition insert_attestation_row :: "attestation_row \<Rightarrow> ledger \<Rightarrow> exn + ledger" where
  "insert_attestation_row r L =
     raise_first
       [(at_revision r < 1 \<or> \<not> counts_nonneg (at_counts r),
         SqlIntegrityError ''CHECK paper_ledger_attestation''),
        (list_ex (\<lambda>a. at_revision a = at_revision r) (lg_attestations L),
         SqlIntegrityError ''PRIMARY KEY paper_ledger_attestation''),
        (list_ex (\<lambda>a. at_attestation_fingerprint a = at_attestation_fingerprint r) (lg_attestations L),
         SqlIntegrityError ''UNIQUE paper_ledger_attestation.attestation_fingerprint''),
        (\<not> opt_all (\<lambda>p. list_ex (\<lambda>a. at_attestation_fingerprint a = p) (lg_attestations L))
             (at_previous_attestation_fingerprint r),
         SqlIntegrityError ''FOREIGN KEY paper_ledger_attestation'')]
       (L\<lparr>lg_attestations := lg_attestations L @ [r]\<rparr>)"

definition insert_head_row :: "head_row \<Rightarrow> ledger \<Rightarrow> exn + ledger" where
  "insert_head_row r L =
     raise_first
       [(hd_revision r < 1 \<or> \<not> counts_nonneg (hd_counts r),
         SqlIntegrityError ''CHECK paper_ledger_head_marker''),
        (list_ex (\<lambda>m. hd_revision m = hd_revision r) (lg_heads L),
         SqlIntegrityError ''PRIMARY KEY paper_ledger_head_marker''),
        (list_ex (\<lambda>m. hd_attestation_fingerprint m = hd_attestation_fingerprint r
                      \<or> hd_head_marker_fingerprint m = hd_head_marker_fingerprint r) (lg_heads L),
         SqlIntegrityError ''UNIQUE paper_ledger_head_marker''),
        (\<not> list_ex (\<lambda>a. at_attestation_fingerprint a = hd_attestation_fingerprint r) (lg_attestations L)
         \<or> \<not> opt_all (\<lambda>p. list_ex (\<lambda>m. hd_head_marker_fingerprint m = p) (lg_heads L))
              (hd_previous_head_marker_fingerprint r),
         SqlIntegrityError ''FOREIGN KEY paper_ledger_head_marker'')]
       (L\<lparr>lg_heads := lg_heads L @ [r]\<rparr>)"

text \<open>The row a payload is stored as: its JSON text and its fingerprint.\<close>

definition seal_attestation :: "digest \<Rightarrow> attestation_row \<Rightarrow> attestation_row" where
  "seal_attestation digest r =
     r\<lparr>at_payload_json := Some (canonical_value (attestation_payload r)),
       at_attestation_fingerprint := canonical_sha256 digest (attestation_payload r)\<rparr>"

definition seal_head :: "digest \<Rightarrow> head_row \<Rightarrow> head_row" where
  "seal_head digest r =
     r\<lparr>hd_payload_json := Some (canonical_value (head_marker_payload r)),
       hd_head_marker_fingerprint := canonical_sha256 digest (head_marker_payload r)\<rparr>"

definition marker_for :: "attestation_row \<Rightarrow> string option \<Rightarrow> head_row" where
  "marker_for a previous =
     \<lparr>hd_revision = at_revision a, hd_ledger_generation = at_ledger_generation a,
      hd_migration_version = at_migration_version a, hd_schema_version = at_schema_version a,
      hd_schema_fingerprint = at_schema_fingerprint a,
      hd_attestation_fingerprint = at_attestation_fingerprint a,
      hd_previous_head_marker_fingerprint = previous,
      hd_migration_attestation_fingerprint = at_migration_attestation_fingerprint a,
      hd_counts = at_counts a, hd_payload_json = None, hd_head_marker_fingerprint = [],
      hd_persisted_at = at_persisted_at a\<rparr>"

definition insert_attestation :: "digest \<Rightarrow> attestation_row \<Rightarrow> ledger \<Rightarrow> exn + ledger" where
  "insert_attestation digest payload L =
     (let a = seal_attestation digest payload in
      rbind (insert_attestation_row a L) (\<lambda>L.
      rbind (if 1 < at_revision a
             then case select_one (\<lambda>m. hd_revision m = at_revision a - 1) (lg_heads L) of
                    None \<Rightarrow> Inl (PaperBrokerReconciliationError
                                   ''paper ledger canonical head predecessor is missing'')
                  | Some m \<Rightarrow> Inr (Some (hd_head_marker_fingerprint m))
             else Inr None) (\<lambda>previous.
        insert_head_row (seal_head digest (marker_for a previous)) L)))"

definition append_ledger_attestation ::
  "digest \<Rightarrow> utc \<Rightarrow> string \<Rightarrow> string \<Rightarrow> ledger_counts \<Rightarrow> ledger \<Rightarrow> exn + ledger" where
  "append_ledger_attestation digest now event_kind event_fingerprint deltas L =
     rbind (attestation_head digest L) (\<lambda>(migration, latest).
       if \<not> counts_nonneg deltas then Inl (ValueError ''ledger attestation count deltas are invalid'')
       else insert_attestation digest
         \<lparr>at_revision = at_revision latest + 1, at_ledger_generation = at_ledger_generation latest,
          at_migration_version = ledger_migration_version, at_schema_version = 5,
          at_schema_fingerprint = at_schema_fingerprint latest,
          at_previous_attestation_fingerprint = Some (at_attestation_fingerprint latest),
          at_migration_attestation_fingerprint = at_migration_attestation_fingerprint migration,
          at_event_kind = event_kind, at_event_fingerprint = event_fingerprint,
          at_counts = add_counts (at_counts latest) deltas, at_payload_json = None,
          at_attestation_fingerprint = [], at_persisted_at = now\<rparr> L)"

section \<open>Trust status\<close>

record trust_status =
  ts_trusted :: bool
  ts_schema_version :: "int option"
  ts_reason :: string
  ts_unknown_evidence :: "(string \<times> int) list"

definition quarantined :: "int option \<Rightarrow> string \<Rightarrow> (string \<times> int) list \<Rightarrow> trust_status" where
  "quarantined version reason unknown =
     \<lparr>ts_trusted = False, ts_schema_version = version, ts_reason = reason,
      ts_unknown_evidence = unknown\<rparr>"

definition ledger_trust_status :: "digest \<Rightarrow> ledger \<Rightarrow> trust_status" where
  "ledger_trust_status digest L =
     (case lg_schema L of
        SchemaTableMissing \<Rightarrow> quarantined None ''schema_metadata_missing'' []
      | SchemaColumnsMissing \<Rightarrow> quarantined None ''schema_metadata_incomplete'' []
      | SchemaTable None \<Rightarrow> quarantined None ''schema_metadata_missing'' []
      | SchemaTable (Some row) \<Rightarrow>
          let version = sr_schema_version row; unknown = filter (\<lambda>(f, n). 0 < n) (sr_unknown row) in
          if version \<noteq> 5 then quarantined (Some version) ''unsupported_schema_version'' unknown
          else if sr_internal_migration_version row \<noteq> ledger_migration_version
          then quarantined (Some version) ''unsupported_internal_migration_version'' unknown
          else if \<not> lg_attestation_table L
          then quarantined (Some version) ''migration_attestation_missing'' []
          else if \<not> lg_archive_valid L
          then quarantined (Some version) ''migration_archive_digest_mismatch'' []
          else case lg_schema_fingerprint L of
            None \<Rightarrow> quarantined (Some version) ''attested_schema_incomplete'' []
          | Some schema_fingerprint \<Rightarrow>
              (case attestation_head digest L of
                 Inl _ \<Rightarrow> quarantined (Some version) ''migration_attestation_conflict'' []
               | Inr (migration, latest) \<Rightarrow>
                   (case lg_migration_digest L of
                      None \<Rightarrow> quarantined (Some version) ''migration_archive_digest_mismatch'' unknown
                    | Some immutable_digest \<Rightarrow>
                        if at_migration_version migration \<noteq> ledger_migration_version
                           \<or> at_migration_version latest \<noteq> ledger_migration_version
                           \<or> at_schema_version migration \<noteq> version
                           \<or> at_schema_version latest \<noteq> version
                           \<or> at_schema_fingerprint migration \<noteq> schema_fingerprint
                           \<or> at_schema_fingerprint latest \<noteq> schema_fingerprint
                           \<or> at_migration_attestation_fingerprint migration \<noteq> immutable_digest
                           \<or> at_migration_attestation_fingerprint latest \<noteq> immutable_digest
                        then quarantined (Some version) ''migration_attestation_schema_conflict'' []
                        else if unknown \<noteq> []
                        then quarantined (Some version) ''unknown_legacy_execution_evidence'' unknown
                        else \<lparr>ts_trusted = True, ts_schema_version = Some version,
                              ts_reason = ''verified_schema_v5'', ts_unknown_evidence = []\<rparr>)))"

fun join_with :: "string \<Rightarrow> string list \<Rightarrow> string" where
  "join_with sep [] = []"
| "join_with sep [x] = x"
| "join_with sep (x # y # ys) = x @ sep @ join_with sep (y # ys)"

definition raise_if_ledger_untrusted :: "trust_status \<Rightarrow> exn + unit" where
  "raise_if_ledger_untrusted status =
     (if ts_trusted status then Inr ()
      else
        let detail = join_with '', ''
              (map (\<lambda>(field, n). field @ ''='' @ show_nat (nat n)) (ts_unknown_evidence status));
            suffix = (if detail = [] then [] else '' ('' @ detail @ '')'') in
        Inl (PaperLedgerQuarantinedError
          (''paper ledger is quarantined/untrusted: '' @ ts_reason status @ suffix
           @ ''; explicit offline repair is required'')))"

definition require_schema_integrity :: "digest \<Rightarrow> ledger \<Rightarrow> exn + unit" where
  "require_schema_integrity digest L =
     (let status = ledger_trust_status digest L in
      if ts_trusted status then Inr ()
      else if ts_schema_version status = Some 5 \<and> ts_reason status = ''unknown_legacy_execution_evidence''
      then Inr ()
      else raise_if_ledger_untrusted status)"

section \<open>The broker's configuration and its readiness\<close>

record cost_policy =
  cp_execution_cost_spec :: execution_cost_spec
  cp_cost_spec_id :: string

definition make_cost_policy :: "digest \<Rightarrow> execution_cost_spec \<Rightarrow> string option \<Rightarrow> exn + cost_policy" where
  "make_cost_policy digest raw supplied =
     rbind (validate_cost_spec digest raw) (\<lambda>spec.
       case (is_alignment_eligible spec, es_cost_spec_id spec) of
         (True, Some i) \<Rightarrow>
           bind_identity supplied i ''paper broker cost_spec_id must match execution_cost_spec''
             \<lparr>cp_execution_cost_spec = spec, cp_cost_spec_id = i\<rparr>
       | _ \<Rightarrow> Inl (ValueError ''paper broker requires an alignment-eligible v3 execution_cost_spec''))"

record broker =
  b_account_id :: string
  b_initial_cash :: decimal
  b_cost_policy :: cost_policy

text \<open>The constructor's checks of the account; the path, the busy timeout and the anchor are not ledger state.\<close>

definition make_broker :: "string \<Rightarrow> decimal \<Rightarrow> cost_policy \<Rightarrow> exn + broker" where
  "make_broker account_id initial_cash cost_policy =
     raise_first
       [(py_strip account_id = [], ValueError ''account_id must not be empty''),
        (\<not> dlt dzero initial_cash, ValueError ''initial_cash must be finite and positive'')]
       \<lparr>b_account_id = py_strip account_id, b_initial_cash = initial_cash, b_cost_policy = cost_policy\<rparr>"

definition require_active_cost_spec_authority :: "broker \<Rightarrow> ledger \<Rightarrow> exn + unit" where
  "require_active_cost_spec_authority b L =
     (let spec = cp_execution_cost_spec (b_cost_policy b) in
      case (es_cost_spec_id spec, es_cost_engine_version spec) of
        (Some spec_id, Some engine) \<Rightarrow>
          rbind (canonical_json spec) (\<lambda>j.
            case select_one (\<lambda>r. cs_cost_spec_id r = spec_id) (lg_cost_specs L) of
              Some r \<Rightarrow>
                if cs_schema_version r \<noteq> 3 \<or> cs_cost_engine_version r \<noteq> engine \<or> cs_canonical_json r \<noteq> j
                then Inl (PaperLedgerQuarantinedError
                  ''paper broker account is quarantined and audit-only because its v3 cost authority does not match the active execution cost spec'')
                else Inr ()
            | None \<Rightarrow> Inl (PaperLedgerQuarantinedError
                ''paper broker account is quarantined and audit-only because its v3 cost authority does not match the active execution cost spec''))
      | _ \<Rightarrow> Inl AssertionError)"

definition find_account :: "broker \<Rightarrow> ledger \<Rightarrow> account_row option" where
  "find_account b L = select_one (\<lambda>r. ac_account_id r = b_account_id b) (lg_accounts L)"

definition require_execution_ready :: "digest \<Rightarrow> broker \<Rightarrow> ledger \<Rightarrow> exn + unit" where
  "require_execution_ready digest b L =
     rbind (require_schema_integrity digest L) (\<lambda>_.
       case find_account b L of
         None \<Rightarrow> Inl (PaperBrokerReconciliationError ''paper broker account is missing'')
       | Some row \<Rightarrow>
           if ac_cost_provenance_state row \<noteq> KNOWN_V3 \<or> ac_cost_spec_schema_version row \<noteq> Some 3
              \<or> ac_cost_spec_id row \<noteq> Some (cp_cost_spec_id (b_cost_policy b))
           then Inl (PaperLedgerQuarantinedError
             ''paper broker account is quarantined and audit-only because its cost provenance is not bound to the active v3 execution cost spec'')
           else require_active_cost_spec_authority b L)"

section \<open>Account bootstrap\<close>

definition ensure_paper_cost_spec_authority :: "utc \<Rightarrow> broker \<Rightarrow> ledger \<Rightarrow> exn + ledger" where
  "ensure_paper_cost_spec_authority now b L =
     (let spec = cp_execution_cost_spec (b_cost_policy b) in
      case (es_cost_spec_id spec, es_cost_engine_version spec) of
        (Some spec_id, Some engine) \<Rightarrow>
          rbind (canonical_json spec) (\<lambda>j.
            case select_one (\<lambda>r. cs_cost_spec_id r = spec_id) (lg_cost_specs L) of
              None \<Rightarrow>
                insert_cost_spec
                  \<lparr>cs_cost_spec_id = spec_id, cs_schema_version = 3, cs_cost_engine_version = engine,
                   cs_canonical_json = j, cs_persisted_at = now\<rparr> L
            | Some r \<Rightarrow>
                if cs_schema_version r \<noteq> 3 \<or> cs_cost_engine_version r \<noteq> engine \<or> cs_canonical_json r \<noteq> j
                then Inl (PaperBrokerReconciliationError
                  ''paper cost spec authority conflicts with the active v3 execution cost spec'')
                else Inr L)
      | _ \<Rightarrow> Inl AssertionError)"

definition bootstrap_account :: "digest \<Rightarrow> utc \<Rightarrow> broker \<Rightarrow> ledger \<Rightarrow> exn + ledger" where
  "bootstrap_account digest now b L =
     (let spec_id = cp_cost_spec_id (b_cost_policy b) in
      rbind (ensure_paper_cost_spec_authority now b L) (\<lambda>L.
      rbind (insert_account
        \<lparr>ac_account_id = b_account_id b, ac_initial_cash = fixed_point (b_initial_cash b),
         ac_cash = fixed_point (b_initial_cash b), ac_realized_pnl = dzero,
         ac_cost_policy_fingerprint = spec_id, ac_cost_spec_id = Some spec_id,
         ac_cost_spec_schema_version = Some 3, ac_cost_provenance_state = KNOWN_V3\<rparr> L) (\<lambda>L.
        append_ledger_attestation digest now ''account_bootstrap''
          (canonical_sha256 digest (PDict
             [(''account_id'', PStr (b_account_id b)), (''initial_cash'', PDecimal (b_initial_cash b)),
              (''cost_spec_id'', PStr spec_id), (''cost_spec_schema_version'', PInt 3)]))
          (no_counts\<lparr>n_broker_account := 1\<rparr>) L)))"

definition initialize_account :: "digest \<Rightarrow> utc \<Rightarrow> broker \<Rightarrow> ledger \<Rightarrow> exn + ledger" where
  "initialize_account digest now b L =
     (case find_account b L of
        Some row \<Rightarrow>
          if \<not> deq (ac_initial_cash row) (b_initial_cash b)
          then Inl (ValueError ''existing account initial_cash does not match'')
          else if ac_cost_provenance_state row = LEGACY_UNKNOWN then Inr L
          else if ac_cost_spec_schema_version row \<noteq> Some 3
                  \<or> ac_cost_spec_id row \<noteq> Some (cp_cost_spec_id (b_cost_policy b))
                  \<or> ac_cost_policy_fingerprint row \<noteq> cp_cost_spec_id (b_cost_policy b)
          then Inl (ValueError ''existing account v3 cost binding does not match'')
          else Inr L
      | None \<Rightarrow>
          rbind (require_schema_integrity digest L) (\<lambda>_. bootstrap_account digest now b L))"

end
