(* ===== verification/Paper_Broker.thy ===== *)
theory Paper_Broker
  imports Ledger_Attestation "HOL-Library.Product_Lexorder"
begin

text \<open>
  The operations of \<open>PaperBrokerStore\<close> (\<open>paper_broker.py\<close>) on the ledger: submitting an intent,
  applying an incremental execution, closing an order, the account authority, and the reads they
  are made of. An operation that runs in a transaction returns \<open>Inl\<close> when it raises, and then
  nothing is committed, or \<open>Inr (result, ledger)\<close>. \<open>datetime.now\<close> is the argument \<open>now\<close>.
  Operations are atomic: the reads some of them do before \<open>BEGIN IMMEDIATE\<close> see the same ledger.
\<close>

section \<open>Requests and their evidence\<close>

record execution_quote =
  q_executable_price :: decimal
  q_instrument_context :: instrument_context
  q_executable_quantity :: "int option"
  q_acquisition_available_date :: "day option"
  q_suspended :: bool
  q_limit_locked :: bool
  q_risk_rejected :: bool

definition make_quote :: "execution_quote \<Rightarrow> exn + execution_quote" where
  "make_quote q =
     rbind (validate_instrument_context (q_instrument_context q)) (\<lambda>c.
       raise_first
         [(\<not> dlt dzero (q_executable_price q), ValueError ''executable_price''),
          (\<not> opt_all non_negative_lot (q_executable_quantity q), ValueError ''executable_quantity'')]
         (q\<lparr>q_instrument_context := c\<rparr>))"

text \<open>\<open>str(Decimal)\<close>, the text a decimal has in a JSON-mode dump.\<close>

definition decimal_str :: "decimal \<Rightarrow> string" where
  "decimal_str d =
     (let digits = show_nat (dcoeff d); n = int (length digits);
          leftdigits = dexp d + n;
          dotplace = (if dexp d \<le> 0 \<and> - 6 < leftdigits then leftdigits else 1);
          mantissa =
            (if dotplace \<le> 0 then ''0.'' @ replicate (nat (- dotplace)) (CHR ''0'') @ digits
             else if n \<le> dotplace then digits @ replicate (nat (dotplace - n)) (CHR ''0'')
             else take (nat dotplace) digits @ ''.'' @ drop (nat dotplace) digits);
          e = leftdigits - dotplace
      in (if dsign d then ''-'' else '''') @ mantissa @
         (if e = 0 then '''' else ''E'' @ (if 0 \<le> e then ''+'' else ''-'') @ show_nat (nat \<bar>e\<bar>)))"

definition pdec_json :: "decimal \<Rightarrow> pyval" where
  "pdec_json d = PStr (decimal_str d)"

definition quote_json :: "execution_quote \<Rightarrow> pyval" where
  "quote_json q = PDict
     [(''executable_price'', pdec_json (q_executable_price q)),
      (''instrument_context'', instrument_context_dump (q_instrument_context q)),
      (''executable_quantity'', popt PInt (q_executable_quantity q)),
      (''acquisition_available_date'', popt (\<lambda>d. PStr (iso_date d)) (q_acquisition_available_date q)),
      (''suspended'', PBool (q_suspended q)), (''limit_locked'', PBool (q_limit_locked q)),
      (''risk_rejected'', PBool (q_risk_rejected q))]"

definition cost_calculation_json :: "cost_calculation \<Rightarrow> pyval" where
  "cost_calculation_json c = PDict
     [(''cost_spec_id'', PStr (cc_cost_spec_id c)),
      (''cost_spec_schema_version'', PInt (cc_cost_spec_schema_version c)),
      (''cost_engine_version'', PStr (cc_cost_engine_version c)),
      (''order_input'', PDict
        [(''side'', PStr (side_text (oi_side (cc_order_input c)))),
         (''reference_price'', pdec_json (oi_reference_price (cc_order_input c))),
         (''quantity'', PInt (oi_quantity (cc_order_input c)))]),
      (''instrument_context'', instrument_context_dump (cc_instrument_context c)),
      (''executed_price'', pdec_json (cc_executed_price c)),
      (''reference_notional'', pdec_json (cc_reference_notional c)),
      (''executed_notional'', pdec_json (cc_executed_notional c)),
      (''commission'', pdec_json (cc_commission c)), (''transfer_fee'', pdec_json (cc_transfer_fee c)),
      (''stamp_duty'', pdec_json (cc_stamp_duty c)),
      (''slippage_amount'', pdec_json (cc_slippage_amount c)),
      (''total_fees'', pdec_json (cc_total_fees c)),
      (''selected_rule_ids'', rule_ids_dump (cc_selected_rule_ids c)),
      (''cost_context_fingerprint'', PStr (cc_cost_context_fingerprint c))]"

definition cost_evidence :: "digest \<Rightarrow> cost_calculation \<Rightarrow> pyval" where
  "cost_evidence digest c = PDict
     [(''cost_spec_id'', PStr (cc_cost_spec_id c)),
      (''cost_spec_schema_version'', PInt (cc_cost_spec_schema_version c)),
      (''cost_engine_version'', PStr (cc_cost_engine_version c)),
      (''cost_context_fingerprint'', PStr (cc_cost_context_fingerprint c)),
      (''resolved_calculation_fingerprint'', PStr (resolved_calculation_fingerprint digest c)),
      (''calculation'', cost_calculation_json c)]"

definition initial_request ::
  "digest \<Rightarrow> string \<Rightarrow> string \<Rightarrow> utc \<Rightarrow> utc \<Rightarrow> day \<Rightarrow> execution_quote \<Rightarrow> cost_calculation \<Rightarrow> pyval" where
  "initial_request digest execution_id intent_id decision_time persisted_at trade_date quote costs = PDict
     [(''kind'', PStr ''INITIAL''), (''execution_id'', PStr execution_id),
      (''intent_id'', PStr intent_id), (''decision_time'', PStr (utc_iso decision_time)),
      (''persisted_at'', PStr (utc_iso persisted_at)), (''trade_date'', PStr (iso_date trade_date)),
      (''quote'', quote_json quote), (''cost_evidence'', cost_evidence digest costs)]"

definition incremental_request ::
  "digest \<Rightarrow> string \<Rightarrow> string \<Rightarrow> utc \<Rightarrow> utc \<Rightarrow> day \<Rightarrow> int \<Rightarrow> execution_quote \<Rightarrow> string
   \<Rightarrow> cost_calculation \<Rightarrow> pyval" where
  "incremental_request digest execution_id order_id executed_at persisted_at trade_date quantity quote
     price_snapshot_id costs = PDict
     [(''kind'', PStr ''INCREMENTAL''), (''execution_id'', PStr execution_id),
      (''order_id'', PStr order_id), (''executed_at'', PStr (utc_iso executed_at)),
      (''persisted_at'', PStr (utc_iso persisted_at)), (''trade_date'', PStr (iso_date trade_date)),
      (''quantity'', PInt quantity), (''quote'', quote_json quote),
      (''price_snapshot_id'', PStr price_snapshot_id),
      (''cost_evidence'', cost_evidence digest costs)]"

definition check_execution_id :: "string \<Rightarrow> exn + string" where
  "check_execution_id s =
     (if \<not> is_sha256 s then Inl (ValueError ''execution_id must be a lowercase SHA-256 digest'')
      else Inr s)"

section \<open>Reading rows back\<close>

definition load_intent :: "digest \<Rightarrow> order_intent option \<Rightarrow> exn + order_intent" where
  "load_intent digest payload =
     (case payload of
        None \<Rightarrow> Inl (ValueError ''payload_json'')
      | Some i \<Rightarrow> make_intent digest (Some (i_intent_id i)) i)"

definition order_from_row :: "digest \<Rightarrow> order_row \<Rightarrow> exn + paper_order" where
  "order_from_row digest r = make_order digest (Some (o_order_id (or_order r))) (or_order r)"

definition fill_from_row :: "digest \<Rightarrow> fill_row \<Rightarrow> exn + paper_fill" where
  "fill_from_row digest r = make_fill digest (Some (f_fill_id (fl_fill r))) (fl_fill r)"

definition find_order :: "broker \<Rightarrow> ledger \<Rightarrow> string \<Rightarrow> order_row option" where
  "find_order b L order_id =
     select_one (\<lambda>r. o_account_id (or_order r) = b_account_id b \<and> o_order_id (or_order r) = order_id)
       (lg_orders L)"

definition order_for_id :: "digest \<Rightarrow> broker \<Rightarrow> ledger \<Rightarrow> string \<Rightarrow> exn + paper_order option" where
  "order_for_id digest b L order_id =
     (case find_order b L order_id of
        None \<Rightarrow> Inr None
      | Some r \<Rightarrow> rbind (order_from_row digest r) (\<lambda>x. Inr (Some x)))"

definition order_for_intent :: "digest \<Rightarrow> broker \<Rightarrow> ledger \<Rightarrow> string \<Rightarrow> exn + paper_order option" where
  "order_for_intent digest b L intent_id =
     (case select_one (\<lambda>r. o_account_id (or_order r) = b_account_id b
                           \<and> o_intent_id (or_order r) = intent_id) (lg_orders L) of
        None \<Rightarrow> Inr None
      | Some r \<Rightarrow> rbind (order_from_row digest r) (\<lambda>x. Inr (Some x)))"

definition account_values :: "broker \<Rightarrow> ledger \<Rightarrow> exn + decimal \<times> decimal" where
  "account_values b L =
     (case find_account b L of
        None \<Rightarrow> Inl (PaperBrokerReconciliationError ''broker account is missing'')
      | Some r \<Rightarrow> Inr (ac_cash r, ac_realized_pnl r))"

text \<open>The \<open>EXISTS\<close> clause that ties a lot to an authoritative \<open>BUY\<close> fill, order and intent.\<close>

definition lot_has_buy :: "ledger \<Rightarrow> lot_row \<Rightarrow> bool" where
  "lot_has_buy L l =
     list_ex (\<lambda>bf. f_fill_id (fl_fill bf) = l_lot_id l \<and>
       list_ex (\<lambda>bo. o_order_id (or_order bo) = f_order_id (fl_fill bf) \<and> o_side (or_order bo) = BUY \<and>
         list_ex (\<lambda>bi. ir_intent_id bi = o_intent_id (or_order bo) \<and> ir_side bi = BUY
             \<and> ir_signal_id bi = l_entry_signal_id l \<and> ir_account_id bi = l_account_id l
             \<and> ir_ts_code bi = l_ts_code l) (lg_intents L)) (lg_orders L)) (lg_fills L)"

definition entry_lots :: "broker \<Rightarrow> ledger \<Rightarrow> string \<Rightarrow> string \<Rightarrow> lot_row list" where
  "entry_lots b L ts_code entry_signal_id =
     filter (\<lambda>l. l_account_id l = b_account_id b \<and> l_ts_code l = ts_code
                 \<and> l_entry_signal_id l = entry_signal_id \<and> lot_has_buy L l) (lg_lots L)"

definition position_quantities :: "broker \<Rightarrow> ledger \<Rightarrow> string \<Rightarrow> string \<Rightarrow> day \<Rightarrow> int \<times> int" where
  "position_quantities b L ts_code entry_signal_id trade_date =
     (let lots = entry_lots b L ts_code entry_signal_id in
      (sum_by l_remaining_quantity lots,
       sum_by (\<lambda>l. if l_available_date l \<le> trade_date then l_remaining_quantity l else 0) lots))"

section \<open>The execution receipt of a ledger row\<close>

definition request_get :: "pyval \<Rightarrow> string \<Rightarrow> pyval option" where
  "request_get v key = (case v of PDict items \<Rightarrow> map_of items key | _ \<Rightarrow> None)"

definition is_dict :: "pyval \<Rightarrow> bool" where
  "is_dict v = (case v of PDict _ \<Rightarrow> True | _ \<Rightarrow> False)"

definition same_value :: "pyval option \<Rightarrow> pyval \<Rightarrow> bool" where
  "same_value x v = (map_option canonical_value x = Some (canonical_value v))"

definition receipt_columns_match :: "digest \<Rightarrow> broker \<Rightarrow> receipt_row \<Rightarrow> pyval \<Rightarrow> execution_receipt \<Rightarrow> bool" where
  "receipt_columns_match digest b row request receipt \<longleftrightarrow>
     canonical_sha256 digest request = rr_request_fingerprint row
     \<and> r_execution_id receipt = rr_execution_id row
     \<and> r_request_fingerprint receipt = rr_request_fingerprint row
     \<and> r_intent_id receipt = rr_intent_id row
     \<and> o_order_id (r_order receipt) = rr_order_id row
     \<and> o_account_id (r_order receipt) = b_account_id b
     \<and> r_persisted_at receipt = rr_persisted_at row"

definition known_v3_row_matches :: "digest \<Rightarrow> receipt_row \<Rightarrow> pyval \<Rightarrow> execution_receipt \<Rightarrow> bool" where
  "known_v3_row_matches digest row request receipt =
     (case r_cost_calculation receipt of
        None \<Rightarrow> False
      | Some c \<Rightarrow>
          r_cost_spec_id receipt = rr_cost_spec_id row
          \<and> r_cost_spec_schema_version receipt = rr_cost_spec_schema_version row
          \<and> r_cost_context_fingerprint receipt = rr_cost_context_fingerprint row
          \<and> r_cost_provenance_state receipt = rr_cost_provenance_state row
          \<and> Some (fixed_point (cc_transfer_fee c)) = rr_transfer_fee row
          \<and> Some (fixed_point (cc_total_fees c)) = rr_total_fees row
          \<and> same_value (request_get request ''cost_evidence'') (cost_evidence digest c))"

definition legacy_row_matches :: "receipt_row \<Rightarrow> bool" where
  "legacy_row_matches row \<longleftrightarrow>
     rr_transfer_fee row = None \<and> rr_total_fees row = None \<and> rr_cost_spec_id row = None
     \<and> rr_cost_spec_schema_version row = None \<and> rr_cost_context_fingerprint row = None
     \<and> rr_cost_provenance_state row = LEGACY_UNKNOWN"

definition request_kind_matches :: "pyval \<Rightarrow> execution_receipt \<Rightarrow> exn + unit" where
  "request_kind_matches request receipt =
     (if request_get request ''kind'' = Some (PStr ''INITIAL'')
      then if request_get request ''intent_id'' \<noteq> Some (PStr (r_intent_id receipt))
              \<or> request_get request ''decision_time''
                  \<noteq> Some (PStr (utc_iso (o_created_at (r_order receipt))))
              \<or> \<not> opt_all (\<lambda>f. f_executed_at f = o_created_at (r_order receipt)) (r_fill receipt)
           then Inl (PaperBrokerReconciliationError ''initial execution request does not match immutable receipt'')
           else Inr ()
      else if request_get request ''kind'' = Some (PStr ''INCREMENTAL'')
      then (case r_fill receipt of
              None \<Rightarrow> Inl (PaperBrokerReconciliationError ''incremental execution request does not match immutable receipt'')
            | Some f \<Rightarrow>
                if request_get request ''order_id'' \<noteq> Some (PStr (o_order_id (r_order receipt)))
                   \<or> request_get request ''executed_at'' \<noteq> Some (PStr (utc_iso (f_executed_at f)))
                   \<or> request_get request ''quantity'' \<noteq> Some (PInt (f_quantity f))
                   \<or> request_get request ''price_snapshot_id'' \<noteq> Some (PStr (f_price_snapshot_id f))
                then Inl (PaperBrokerReconciliationError ''incremental execution request does not match immutable receipt'')
                else Inr ())
      else Inl (PaperBrokerReconciliationError ''execution request kind is unsupported''))"

definition receipt_from_row :: "digest \<Rightarrow> broker \<Rightarrow> receipt_row \<Rightarrow> exn + execution_receipt" where
  "receipt_from_row digest b row =
     (case (rr_request_json row, rr_receipt_json row) of
        (Some request, Some stored) \<Rightarrow>
          (case make_receipt digest stored of
             Inl _ \<Rightarrow> Inl (PaperBrokerReconciliationError ''persisted execution receipt evidence is invalid'')
           | Inr receipt \<Rightarrow>
               rbind (raise_first
                 [(\<not> receipt_columns_match digest b row request receipt,
                   PaperBrokerReconciliationError ''persisted execution receipt columns do not match immutable evidence''),
                  (\<not> is_dict request,
                   PaperBrokerReconciliationError ''execution request evidence must be an object''),
                  (r_cost_provenance_state receipt = KNOWN_V3
                   \<and> \<not> known_v3_row_matches digest row request receipt,
                   PaperBrokerReconciliationError ''persisted execution receipt v3 cost evidence does not reconcile''),
                  (r_cost_provenance_state receipt \<noteq> KNOWN_V3 \<and> \<not> legacy_row_matches row,
                   PaperBrokerReconciliationError ''legacy execution receipt must retain unknown cost provenance''),
                  (request_get request ''execution_id'' \<noteq> Some (PStr (r_execution_id receipt))
                   \<or> request_get request ''persisted_at'' \<noteq> Some (PStr (utc_iso (r_persisted_at receipt))),
                   PaperBrokerReconciliationError ''execution request identity does not match immutable receipt'')]
                 ()) (\<lambda>_.
               rbind (request_kind_matches request receipt) (\<lambda>_. Inr receipt)))
      | _ \<Rightarrow> Inl (PaperBrokerReconciliationError ''persisted execution receipt evidence is invalid''))"

definition find_receipt_row :: "broker \<Rightarrow> ledger \<Rightarrow> string \<Rightarrow> receipt_row option" where
  "find_receipt_row b L execution_id =
     select_one (\<lambda>r. rr_account_id r = b_account_id b \<and> rr_execution_id r = execution_id) (lg_receipts L)"

definition find_execution_receipt ::
  "digest \<Rightarrow> broker \<Rightarrow> ledger \<Rightarrow> string \<Rightarrow> exn + execution_receipt option" where
  "find_execution_receipt digest b L execution_id =
     (case find_receipt_row b L execution_id of
        None \<Rightarrow> Inr None
      | Some row \<Rightarrow> rbind (receipt_from_row digest b row) (\<lambda>r. Inr (Some r)))"

definition execution :: "digest \<Rightarrow> broker \<Rightarrow> ledger \<Rightarrow> string \<Rightarrow> exn + execution_receipt option" where
  "execution digest b L execution_id =
     rbind (check_execution_id execution_id) (find_execution_receipt digest b L)"

definition order_for_execution :: "digest \<Rightarrow> broker \<Rightarrow> ledger \<Rightarrow> string \<Rightarrow> exn + paper_order option" where
  "order_for_execution digest b L execution_id =
     rbind (execution digest b L execution_id) (\<lambda>r. Inr (map_option r_order r))"

section \<open>Fills\<close>

definition require_matching_instrument_context :: "string \<Rightarrow> instrument_context \<Rightarrow> exn + unit" where
  "require_matching_instrument_context ts_code c =
     raise_first
       [(ctx_ts_code c \<noteq> py_upper (py_strip ts_code),
         ValueError ''execution instrument_context ts_code does not match intent ts_code''),
        (case ctx_classification_provenance c of
           None \<Rightarrow> True | Some p \<Rightarrow> cp_reference_dataset p \<noteq> ''security_listing_status'',
         ValueError ''execution instrument_context requires trusted listing classification''),
        (ctx_market c \<noteq> ''CN'' \<or> ctx_instrument_class c \<noteq> ''EQUITY'' \<or> ctx_security_class c \<noteq> ''A_SHARE'',
         ValueError ''execution instrument_context must be an attested CN A_SHARE'')] ()"

definition execution_costs ::
  "digest \<Rightarrow> broker \<Rightarrow> paper_side \<Rightarrow> decimal \<Rightarrow> int \<Rightarrow> instrument_context \<Rightarrow> exn + cost_calculation" where
  "execution_costs digest b side executable_price quantity context =
     rbind (validate_order_input
       \<lparr>oi_side = (if side = BUY then CostBuy else CostSell), oi_reference_price = executable_price,
        oi_quantity = quantity\<rparr>) (\<lambda>order_input.
       calculate_execution_costs digest (cp_execution_cost_spec (b_cost_policy b)) order_input context)"

definition new_order ::
  "digest \<Rightarrow> broker \<Rightarrow> order_intent \<Rightarrow> utc \<Rightarrow> paper_order_status \<Rightarrow> paper_reject_reason option
   \<Rightarrow> int \<Rightarrow> decimal option \<Rightarrow> exn + paper_order" where
  "new_order digest b intent decision_time status reject_reason filled_quantity fill_price =
     make_order digest None
       \<lparr>o_order_id = [], o_intent_id = i_intent_id intent, o_account_id = b_account_id b,
        o_ts_code = i_ts_code intent, o_side = i_side intent, o_order_type = i_order_type intent,
        o_quantity = i_quantity intent, o_filled_quantity = filled_quantity,
        o_average_fill_price = fill_price,
        o_status = (if reject_reason \<noteq> None then REJECTED else status),
        o_reject_reason = reject_reason, o_created_at = decision_time, o_updated_at = decision_time\<rparr>"

definition new_fill ::
  "digest \<Rightarrow> string \<Rightarrow> string \<Rightarrow> int \<Rightarrow> int \<Rightarrow> cost_calculation \<Rightarrow> utc \<Rightarrow> string \<Rightarrow> exn + paper_fill" where
  "new_fill digest order_id execution_id sequence quantity c executed_at price_snapshot_id =
     make_fill digest None
       \<lparr>f_fill_id = [], f_execution_id = execution_id, f_order_id = order_id, f_sequence = sequence,
        f_quantity = quantity, f_price = cc_executed_price c, f_commission = cc_commission c,
        f_transfer_fee = Some (cc_transfer_fee c), f_tax = cc_stamp_duty c,
        f_total_fees = Some (cc_total_fees c), f_cost_spec_id = Some (cc_cost_spec_id c),
        f_cost_spec_schema_version = Some (cc_cost_spec_schema_version c),
        f_cost_context_fingerprint = Some (cc_cost_context_fingerprint c),
        f_cost_provenance_state = KNOWN_V3, f_executed_at = executed_at,
        f_price_snapshot_id = price_snapshot_id\<rparr>"

text \<open>The row a fill is stored as: every money column is its fixed-point text.\<close>

definition stored_fill :: "paper_fill \<Rightarrow> utc \<Rightarrow> fill_row" where
  "stored_fill f persisted_at =
     \<lparr>fl_fill = f\<lparr>f_price := fixed_point (f_price f), f_commission := fixed_point (f_commission f),
        f_transfer_fee := map_option fixed_point (f_transfer_fee f), f_tax := fixed_point (f_tax f),
        f_total_fees := map_option fixed_point (f_total_fees f)\<rparr>,
      fl_persisted_at = persisted_at\<rparr>"

definition misses_limit :: "order_intent \<Rightarrow> decimal \<Rightarrow> exn + bool" where
  "misses_limit intent fill_price =
     (if i_order_type intent = LIMIT
      then (case i_limit_price intent of
              None \<Rightarrow> Inl AssertionError
            | Some limit_price \<Rightarrow>
                Inr ((i_side intent = BUY \<and> dlt limit_price fill_price)
                     \<or> (i_side intent = SELL \<and> dlt fill_price limit_price)))
      else Inr False)"

definition gate_reason :: "execution_quote \<Rightarrow> utc \<Rightarrow> order_intent \<Rightarrow> paper_reject_reason option" where
  "gate_reason quote decision_time intent =
     (if q_suspended quote then Some SUSPENDED
      else if q_limit_locked quote then Some LIMIT_LOCKED
      else if q_risk_rejected quote then Some RISK_REJECTED
      else if i_expires_at intent \<le> decision_time then Some REASON_EXPIRED
      else None)"

text \<open>Cash for a buy, authoritative and available position for a sell.\<close>

definition position_reason ::
  "broker \<Rightarrow> ledger \<Rightarrow> order_intent \<Rightarrow> day \<Rightarrow> execution_quote \<Rightarrow> cost_calculation \<Rightarrow> int
   \<Rightarrow> exn + paper_reject_reason option" where
  "position_reason b L intent trade_date quote costs execution_quantity =
     (if i_side intent = BUY
      then (case q_acquisition_available_date quote of
              None \<Rightarrow> Inl (ValueError ''BUY execution requires acquisition_available_date'')
            | Some available_date \<Rightarrow>
                if available_date \<le> trade_date
                then Inl (ValueError ''BUY available date must be after acquisition trade date'')
                else rbind (account_values b L) (\<lambda>(cash, _).
                  if dlt cash (dadd (cc_executed_notional costs) (cc_total_fees costs))
                  then Inr (Some INSUFFICIENT_CASH) else Inr None))
      else (case i_entry_signal_id intent of
              None \<Rightarrow> Inl (PaperBrokerReconciliationError ''SELL intent is missing entry_signal_id provenance'')
            | Some entry_signal_id \<Rightarrow>
                (case position_quantities b L (i_ts_code intent) entry_signal_id trade_date of
                   (held, available) \<Rightarrow>
                     if held < i_quantity intent then Inr (Some INSUFFICIENT_POSITION)
                     else if available < execution_quantity then Inr (Some T_PLUS_ONE)
                     else Inr None)))"

definition evaluate_intent ::
  "digest \<Rightarrow> broker \<Rightarrow> ledger \<Rightarrow> order_intent \<Rightarrow> string \<Rightarrow> utc \<Rightarrow> day \<Rightarrow> execution_quote
   \<Rightarrow> cost_calculation \<Rightarrow> exn + paper_order \<times> paper_fill option" where
  "evaluate_intent digest b L intent execution_id decision_time trade_date quote costs =
     (let fill_price = cc_executed_price costs;
          open_order = rbind (new_order digest b intent decision_time ACCEPTED None 0 None)
                         (\<lambda>r. Inr (r, None));
          rejected = (\<lambda>reason. rbind (new_order digest b intent decision_time ACCEPTED (Some reason) 0 None)
                         (\<lambda>r. Inr (r, None))) in
      case gate_reason quote decision_time intent of
        Some reason \<Rightarrow> rejected reason
      | None \<Rightarrow>
          if decision_time < i_earliest_execution_at intent then open_order
          else rbind (misses_limit intent fill_price) (\<lambda>missed.
            if missed then open_order
            else
              let execution_quantity =
                    (case q_executable_quantity quote of None \<Rightarrow> i_quantity intent | Some n \<Rightarrow> n) in
              if i_quantity intent < execution_quantity
              then Inl (ValueError ''executable_quantity cannot exceed intent quantity'')
              else if execution_quantity = 0 then open_order
              else if oi_quantity (cc_order_input costs) \<noteq> execution_quantity
              then Inl (PaperBrokerReconciliationError
                ''initial execution cost evidence quantity does not match the resolved fill'')
              else rbind (position_reason b L intent trade_date quote costs execution_quantity) (\<lambda>reason.
                case reason of
                  Some reason \<Rightarrow> rejected reason
                | None \<Rightarrow>
                    rbind (new_order digest b intent decision_time
                        (if execution_quantity = i_quantity intent then FILLED else PARTIALLY_FILLED)
                        None execution_quantity (Some fill_price)) (\<lambda>filled.
                    rbind (new_fill digest (o_order_id filled) execution_id 1 execution_quantity costs
                        decision_time (i_price_snapshot_id intent)) (\<lambda>fill.
                      Inr (filled, Some fill))))))"

section \<open>Applying a fill\<close>

definition fifo_key :: "lot_row \<Rightarrow> day \<times> day \<times> utc \<times> utc \<times> int \<times> string" where
  "fifo_key l = (l_available_date l, l_acquisition_trade_date l, l_buy_executed_at l,
                 l_buy_persisted_at l, l_buy_fill_sequence l, l_lot_id l)"

definition eligible_lots :: "broker \<Rightarrow> ledger \<Rightarrow> string \<Rightarrow> string \<Rightarrow> day \<Rightarrow> lot_row list" where
  "eligible_lots b L ts_code entry_signal_id trade_date =
     sort_key fifo_key (filter (\<lambda>l. 0 < l_remaining_quantity l \<and> l_available_date l \<le> trade_date)
       (entry_lots b L ts_code entry_signal_id))"

text \<open>The allocation loop: returns what is left, the cost basis and the number of consumptions.\<close>

fun allocate_lots ::
  "string \<Rightarrow> utc \<Rightarrow> lot_row list \<Rightarrow> int \<Rightarrow> decimal \<Rightarrow> int \<Rightarrow> ledger
   \<Rightarrow> exn + int \<times> decimal \<times> int \<times> ledger" where
  "allocate_lots fill_id persisted_at [] remaining cost_basis n L = Inr (remaining, cost_basis, n, L)"
| "allocate_lots fill_id persisted_at (lot # lots) remaining cost_basis n L =
     (if remaining = 0 then Inr (remaining, cost_basis, n, L)
      else
        let consumed = min remaining (l_remaining_quantity lot) in
        rbind (consume_lot (l_lot_id lot) consumed L) (\<lambda>L.
        rbind (insert_consumption
          \<lparr>c_fill_id = fill_id, c_lot_id = l_lot_id lot, c_quantity = consumed,
           c_unit_cost = fixed_point (l_unit_cost lot), c_persisted_at = persisted_at\<rparr> L) (\<lambda>L.
          allocate_lots fill_id persisted_at lots (remaining - consumed)
            (dadd cost_basis (dmul (l_unit_cost lot) (dof_int consumed))) (n + 1) L)))"

definition apply_buy ::
  "broker \<Rightarrow> order_intent \<Rightarrow> paper_fill \<Rightarrow> day \<Rightarrow> day option \<Rightarrow> utc \<Rightarrow> decimal \<Rightarrow> ledger
   \<Rightarrow> exn + (int \<times> int) \<times> ledger" where
  "apply_buy b intent fill trade_date available_date persisted_at cash L =
     (case (available_date, f_total_fees fill) of
        (Some available, Some total_fees) \<Rightarrow>
          let total_cost = dadd (fill_notional fill) total_fees;
              L = set_account_cash (b_account_id b) (dsub cash total_cost) L in
          rbind (ddiv total_cost (dof_int (f_quantity fill))) (\<lambda>unit_cost.
          rbind (insert_lot
            \<lparr>l_lot_id = f_fill_id fill, l_account_id = b_account_id b, l_ts_code = i_ts_code intent,
             l_entry_signal_id = i_signal_id intent, l_acquisition_trade_date = trade_date,
             l_available_date = available, l_original_quantity = f_quantity fill,
             l_remaining_quantity = f_quantity fill, l_unit_cost = fixed_point unit_cost,
             l_persisted_at = persisted_at, l_buy_executed_at = f_executed_at fill,
             l_buy_persisted_at = persisted_at, l_buy_fill_sequence = f_sequence fill\<rparr> L) (\<lambda>L.
            Inr ((1, 0), L)))
      | _ \<Rightarrow> Inl AssertionError)"

definition apply_sell ::
  "broker \<Rightarrow> order_intent \<Rightarrow> paper_fill \<Rightarrow> day \<Rightarrow> utc \<Rightarrow> decimal \<Rightarrow> decimal \<Rightarrow> ledger
   \<Rightarrow> exn + (int \<times> int) \<times> ledger" where
  "apply_sell b intent fill trade_date persisted_at cash realized L =
     (let lots = (case i_entry_signal_id intent of
                    None \<Rightarrow> []
                  | Some entry \<Rightarrow> eligible_lots b L (i_ts_code intent) entry trade_date) in
      rbind (allocate_lots (f_fill_id fill) persisted_at lots (f_quantity fill) dzero 0 L)
        (\<lambda>(remaining, cost_basis, n, L).
          if remaining \<noteq> 0
          then Inl (PaperBrokerReconciliationError ''available lot allocation became incomplete'')
          else case f_total_fees fill of
                 None \<Rightarrow> Inl AssertionError
               | Some total_fees \<Rightarrow>
                   let net_proceeds = dsub (fill_notional fill) total_fees in
                   Inr ((0, n), set_account_values (b_account_id b) (dadd cash net_proceeds)
                     (dsub (dadd realized net_proceeds) cost_basis) L)))"

definition apply_fill ::
  "broker \<Rightarrow> order_intent \<Rightarrow> paper_fill \<Rightarrow> day \<Rightarrow> day option \<Rightarrow> utc \<Rightarrow> ledger
   \<Rightarrow> exn + (int \<times> int) \<times> ledger" where
  "apply_fill b intent fill trade_date available_date persisted_at L =
     rbind (insert_fill (stored_fill fill persisted_at) L) (\<lambda>L.
     rbind (account_values b L) (\<lambda>(cash, realized).
       if i_side intent = BUY
       then apply_buy b intent fill trade_date available_date persisted_at cash L
       else apply_sell b intent fill trade_date persisted_at cash realized L))"

section \<open>Persisting an execution\<close>

definition insert_order :: "paper_order \<Rightarrow> order_intent \<Rightarrow> ledger \<Rightarrow> exn + ledger" where
  "insert_order r intent L =
     insert_order_row
       \<lparr>or_order = r\<lparr>o_average_fill_price := map_option fixed_point (o_average_fill_price r)\<rparr>,
        or_entry_signal_id = i_entry_signal_id intent\<rparr> L"

definition execution_receipt_with_cost ::
  "digest \<Rightarrow> string \<Rightarrow> string \<Rightarrow> string \<Rightarrow> paper_order \<Rightarrow> paper_fill option \<Rightarrow> cost_calculation \<Rightarrow> utc
   \<Rightarrow> exn + execution_receipt" where
  "execution_receipt_with_cost digest execution_id request_fingerprint intent_id r fill c persisted_at =
     make_receipt digest
       \<lparr>r_execution_id = execution_id, r_request_fingerprint = request_fingerprint,
        r_intent_id = intent_id, r_order = r, r_fill = fill,
        r_cost_spec_id = Some (cc_cost_spec_id c),
        r_cost_spec_schema_version = Some (cc_cost_spec_schema_version c),
        r_cost_context_fingerprint = Some (cc_cost_context_fingerprint c),
        r_cost_provenance_state = KNOWN_V3, r_cost_calculation = Some c, r_persisted_at = persisted_at\<rparr>"

definition insert_execution_receipt ::
  "digest \<Rightarrow> broker \<Rightarrow> pyval \<Rightarrow> execution_receipt \<Rightarrow> ledger \<Rightarrow> exn + ledger" where
  "insert_execution_receipt digest b request receipt L =
     (if canonical_sha256 digest request \<noteq> r_request_fingerprint receipt
      then Inl (PaperBrokerReconciliationError ''execution request evidence does not match its fingerprint'')
      else case r_cost_calculation receipt of
        None \<Rightarrow> Inl (PaperBrokerReconciliationError ''new paper execution receipt requires complete KNOWN_V3 cost evidence'')
      | Some c \<Rightarrow>
          if r_cost_provenance_state receipt \<noteq> KNOWN_V3 \<or> r_cost_spec_id receipt = None
             \<or> r_cost_spec_schema_version receipt = None \<or> r_cost_context_fingerprint receipt = None
          then Inl (PaperBrokerReconciliationError ''new paper execution receipt requires complete KNOWN_V3 cost evidence'')
          else insert_receipt
            \<lparr>rr_execution_id = r_execution_id receipt, rr_account_id = b_account_id b,
             rr_intent_id = r_intent_id receipt, rr_order_id = o_order_id (r_order receipt),
             rr_request_fingerprint = r_request_fingerprint receipt, rr_request_json = Some request,
             rr_receipt_json = Some receipt, rr_transfer_fee = Some (fixed_point (cc_transfer_fee c)),
             rr_total_fees = Some (fixed_point (cc_total_fees c)),
             rr_cost_spec_id = r_cost_spec_id receipt,
             rr_cost_spec_schema_version = r_cost_spec_schema_version receipt,
             rr_cost_context_fingerprint = r_cost_context_fingerprint receipt,
             rr_cost_provenance_state = r_cost_provenance_state receipt,
             rr_persisted_at = r_persisted_at receipt\<rparr> L)"

section \<open>The entry position a sell is measured against\<close>

type_synonym lot_evidence = "int \<times> int \<times> pyval list"

definition visible_fill ::
  "digest \<Rightarrow> utc \<Rightarrow> fill_row \<Rightarrow> exn + (paper_fill \<times> utc) option" where
  "visible_fill digest cutoff row =
     (if fl_persisted_at row < f_executed_at (fl_fill row)
      then Inl (PaperBrokerReconciliationError ''BUY fill persisted_at cannot precede execution'')
      else if cutoff < fl_persisted_at row then Inr None
      else case fill_from_row digest row of
             Inl _ \<Rightarrow> Inl (PaperBrokerReconciliationError ''entry BUY fill is invalid'')
           | Inr fill \<Rightarrow> Inr (Some (fill, fl_persisted_at row)))"

definition visible_fills ::
  "digest \<Rightarrow> ledger \<Rightarrow> string \<Rightarrow> utc \<Rightarrow> exn + (paper_fill \<times> utc) list" where
  "visible_fills digest L order_id cutoff =
     rbind (mapM (visible_fill digest cutoff)
       (sort_key (\<lambda>r. (f_sequence (fl_fill r), f_fill_id (fl_fill r)))
         (filter (\<lambda>r. f_order_id (fl_fill r) = order_id \<and> f_executed_at (fl_fill r) \<le> cutoff) (lg_fills L))))
       (\<lambda>xs.
         let fills = concat (map (\<lambda>x. case x of None \<Rightarrow> [] | Some f \<Rightarrow> [f]) xs) in
         if fills = []
         then Inl (PaperBrokerReconciliationError ''entry_signal_id has no visible authoritative BUY fill'')
         else if map (\<lambda>(f, _). f_sequence f) fills \<noteq> map int [1..<Suc (length fills)]
         then Inl (PaperBrokerReconciliationError ''entry BUY fill sequence is incomplete'')
         else Inr fills)"

text \<open>The join of a lot's consumptions with the sell fill, order and intent.\<close>

definition lot_consumptions ::
  "ledger \<Rightarrow> string \<Rightarrow> utc \<Rightarrow> (consumption_row \<times> fill_row \<times> order_row \<times> intent_row) list" where
  "lot_consumptions L lot_id cutoff =
     sort_key (\<lambda>(c, sf, so, si). (f_executed_at (fl_fill sf), c_fill_id c))
       (concat (map (\<lambda>c. concat (map (\<lambda>sf. concat (map (\<lambda>so. map (\<lambda>si. (c, sf, so, si))
          (filter (\<lambda>si. ir_intent_id si = o_intent_id (or_order so)) (lg_intents L)))
          (filter (\<lambda>so. o_order_id (or_order so) = f_order_id (fl_fill sf)) (lg_orders L))))
          (filter (\<lambda>sf. f_fill_id (fl_fill sf) = c_fill_id c \<and> f_executed_at (fl_fill sf) \<le> cutoff) (lg_fills L))))
          (filter (\<lambda>c. c_lot_id c = lot_id) (lg_consumptions L))))"

fun consumed_at ::
  "digest \<Rightarrow> broker \<Rightarrow> string \<Rightarrow> string \<Rightarrow> utc
   \<Rightarrow> (consumption_row \<times> fill_row \<times> order_row \<times> intent_row) list \<Rightarrow> exn + int \<times> pyval list" where
  "consumed_at digest b entry_signal_id ts_code cutoff [] = Inr (0, [])"
| "consumed_at digest b entry_signal_id ts_code cutoff ((c, sf, so, si) # items) =
     (if c_persisted_at c \<noteq> fl_persisted_at sf \<or> c_persisted_at c < f_executed_at (fl_fill sf)
      then Inl (PaperBrokerReconciliationError ''SELL fill and consumption availability do not reconcile'')
      else if cutoff < c_persisted_at c
      then consumed_at digest b entry_signal_id ts_code cutoff items
      else case load_intent digest (ir_payload_json si) of
        Inl _ \<Rightarrow> Inl (PaperBrokerReconciliationError ''SELL intent provenance is invalid'')
      | Inr sell_intent \<Rightarrow>
          if o_account_id (or_order so) \<noteq> b_account_id b \<or> o_ts_code (or_order so) \<noteq> ts_code
             \<or> o_side (or_order so) \<noteq> SELL \<or> or_entry_signal_id so \<noteq> Some entry_signal_id
             \<or> i_entry_signal_id sell_intent \<noteq> Some entry_signal_id
          then Inl (PaperBrokerReconciliationError ''SELL consumption does not bind the entry BUY'')
          else rbind (consumed_at digest b entry_signal_id ts_code cutoff items) (\<lambda>(consumed, evidence).
            Inr (c_quantity c + consumed,
              PDict [(''fill_id'', PStr (c_fill_id c)), (''quantity'', PInt (c_quantity c)),
                     (''persisted_at'', PStr (utc_iso (c_persisted_at c)))] # evidence)))"

definition lot_position ::
  "digest \<Rightarrow> broker \<Rightarrow> ledger \<Rightarrow> string \<Rightarrow> string \<Rightarrow> utc \<Rightarrow> day \<Rightarrow> paper_fill \<times> utc
   \<Rightarrow> exn + int \<times> int \<times> pyval" where
  "lot_position digest b L entry_signal_id ts_code cutoff trade_date = (\<lambda>(fill, fill_persisted).
     case select_one (\<lambda>l. l_lot_id l = f_fill_id fill) (lg_lots L) of
       None \<Rightarrow> Inl (PaperBrokerReconciliationError ''entry BUY fill lacks exact lot provenance'')
     | Some lot \<Rightarrow>
         if l_persisted_at lot \<noteq> fill_persisted \<or> l_buy_executed_at lot \<noteq> f_executed_at fill
            \<or> l_buy_persisted_at lot \<noteq> fill_persisted \<or> l_buy_fill_sequence lot \<noteq> f_sequence fill
            \<or> cutoff < l_persisted_at lot \<or> l_entry_signal_id lot \<noteq> entry_signal_id
            \<or> l_account_id lot \<noteq> b_account_id b \<or> l_ts_code lot \<noteq> ts_code
            \<or> l_original_quantity lot \<noteq> f_quantity fill
         then Inl (PaperBrokerReconciliationError ''entry BUY fill and lot provenance do not reconcile'')
         else rbind (consumed_at digest b entry_signal_id ts_code cutoff
                (lot_consumptions L (f_fill_id fill) cutoff)) (\<lambda>(consumed, evidence).
           let lot_remaining = f_quantity fill - consumed in
           if lot_remaining < 0
           then Inl (PaperBrokerReconciliationError ''SELL consumption exceeds entry BUY fill quantity'')
           else Inr (lot_remaining, if l_available_date lot \<le> trade_date then lot_remaining else 0,
             PDict [(''lot_id'', PStr (f_fill_id fill)), (''original_quantity'', PInt (f_quantity fill)),
                    (''fill_persisted_at'', PStr (utc_iso fill_persisted)),
                    (''available_date'', PStr (iso_date (l_available_date lot))),
                    (''consumptions'', PList evidence)])))"

definition entry_rows :: "broker \<Rightarrow> ledger \<Rightarrow> string \<Rightarrow> string \<Rightarrow> (intent_row \<times> order_row) list" where
  "entry_rows b L ts_code entry_signal_id =
     sort_key (\<lambda>(i, r). (ir_persisted_at i, o_order_id (or_order r)))
       (concat (map (\<lambda>i. map (\<lambda>r. (i, r))
          (filter (\<lambda>r. o_intent_id (or_order r) = ir_intent_id i) (lg_orders L)))
          (filter (\<lambda>i. ir_account_id i = b_account_id b \<and> ir_ts_code i = ts_code
                       \<and> ir_signal_id i = entry_signal_id \<and> ir_side i = BUY) (lg_intents L))))"

definition entry_binds ::
  "broker \<Rightarrow> string \<Rightarrow> string \<Rightarrow> intent_row \<Rightarrow> order_row \<Rightarrow> order_intent \<Rightarrow> bool" where
  "entry_binds b entry_signal_id ts_code row r intent \<longleftrightarrow>
     i_side intent = BUY \<and> i_signal_id intent = entry_signal_id \<and> i_account_id intent = b_account_id b
     \<and> i_ts_code intent = ts_code \<and> ir_signal_id row = i_signal_id intent
     \<and> ir_entry_signal_id row = None \<and> ir_ts_code row = i_ts_code intent \<and> ir_side row = BUY
     \<and> o_side (or_order r) = BUY \<and> o_account_id (or_order r) = b_account_id b
     \<and> o_ts_code (or_order r) = ts_code \<and> or_entry_signal_id r = None"

definition entry_position_at ::
  "digest \<Rightarrow> broker \<Rightarrow> ledger \<Rightarrow> string \<Rightarrow> string \<Rightarrow> utc \<Rightarrow> day \<Rightarrow> exn + int \<times> int \<times> string" where
  "entry_position_at digest b L entry_signal_id ts_code cutoff trade_date =
     (case entry_rows b L ts_code entry_signal_id of
        [(row, r)] \<Rightarrow>
          (case load_intent digest (ir_payload_json row) of
             Inl _ \<Rightarrow> Inl (PaperBrokerReconciliationError ''entry BUY intent is invalid'')
           | Inr intent \<Rightarrow>
               if cutoff < ir_persisted_at row
               then Inl (PaperBrokerReconciliationError ''entry BUY intent is not visible at decision cutoff'')
               else if \<not> entry_binds b entry_signal_id ts_code row r intent
               then Inl (PaperBrokerReconciliationError ''entry_signal_id does not bind the requested account/code BUY'')
               else rbind (visible_fills digest L (o_order_id (or_order r)) cutoff) (\<lambda>fills.
                 rbind (mapM (lot_position digest b L entry_signal_id ts_code cutoff trade_date) fills)
                   (\<lambda>lots.
                     Inr (sum_by (\<lambda>(r, a, e). r) lots, sum_by (\<lambda>(r, a, e). a) lots,
                       canonical_sha256 digest (PDict
                         [(''account_id'', PStr (b_account_id b)),
                          (''entry_signal_id'', PStr entry_signal_id), (''ts_code'', PStr ts_code),
                          (''decision_cutoff'', PDatetime cutoff),
                          (''lots'', PList (map (\<lambda>(r, a, e). e) lots))])))))
      | _ \<Rightarrow> Inl (PaperBrokerReconciliationError ''entry_signal_id must resolve to one authoritative BUY order''))"

section \<open>Sell quantity authority\<close>

definition sell_quantity_authority ::
  "digest \<Rightarrow> broker \<Rightarrow> ledger \<Rightarrow> string \<Rightarrow> string \<Rightarrow> string \<Rightarrow> sell_action \<Rightarrow> decimal \<Rightarrow> utc \<Rightarrow> day
   \<Rightarrow> exn + sell_authority" where
  "sell_quantity_authority digest b L exit_signal_id entry_signal_id ts_code action fraction cutoff trade_date =
     rbind (require_execution_ready digest b L) (\<lambda>_.
     if trade_date \<noteq> shanghai_date cutoff
     then Inl (ValueError ''trade_date must match decision_cutoff in Asia/Shanghai'')
     else rbind (entry_position_at digest b L entry_signal_id ts_code cutoff trade_date)
       (\<lambda>(remaining, available, source_fingerprint).
       if remaining \<le> 0 then Inl (NoExecutableSellQuantityError ''entry position is already closed'')
       else rbind
         (case action of
            S_INTENT \<Rightarrow> Inr remaining
          | REDUCE \<Rightarrow>
              let requested = dtrunc (dmul (dof_int remaining) fraction) div 100 * 100 in
              if requested \<le> 0 \<or> remaining \<le> requested
              then Inl (NoExecutableSellQuantityError ''REDUCE has no legal partial 100-share lot'')
              else Inr requested) (\<lambda>requested.
         make_sell_authority digest None
           \<lparr>a_snapshot_id = [], a_exit_signal_id = exit_signal_id, a_entry_signal_id = entry_signal_id,
            a_account_id = b_account_id b, a_ts_code = ts_code, a_action = action,
            a_decision_cutoff = cutoff, a_remaining_quantity = remaining,
            a_available_quantity = available, a_tranche_fraction = fraction,
            a_requested_quantity = requested, a_source_lot_fingerprint = source_fingerprint\<rparr>)))"

text \<open>Model equality compares decimals by value; every other field by identity.\<close>

definition same_authority :: "sell_authority \<Rightarrow> sell_authority \<Rightarrow> bool" where
  "same_authority x y =
     (deq (a_tranche_fraction x) (a_tranche_fraction y)
      \<and> x\<lparr>a_tranche_fraction := dzero\<rparr> = y\<lparr>a_tranche_fraction := dzero\<rparr>)"

definition validate_sell_quantity_authority ::
  "digest \<Rightarrow> broker \<Rightarrow> ledger \<Rightarrow> order_intent \<Rightarrow> utc \<Rightarrow> day \<Rightarrow> exn + unit" where
  "validate_sell_quantity_authority digest b L intent decision_time trade_date =
     (case (i_sell_quantity_authority intent, i_entry_signal_id intent) of
        (Some authority, Some entry_signal_id) \<Rightarrow>
          if a_decision_cutoff authority \<noteq> decision_time
          then Inl (PaperBrokerReconciliationError ''SELL quantity authority cutoff must equal broker decision time'')
          else rbind (entry_position_at digest b L entry_signal_id (i_ts_code intent) decision_time trade_date)
            (\<lambda>(remaining, available, source_fingerprint).
            rbind (make_sell_authority digest None
              \<lparr>a_snapshot_id = [], a_exit_signal_id = i_signal_id intent, a_entry_signal_id = entry_signal_id,
               a_account_id = b_account_id b, a_ts_code = i_ts_code intent, a_action = a_action authority,
               a_decision_cutoff = decision_time, a_remaining_quantity = remaining,
               a_available_quantity = available, a_tranche_fraction = a_tranche_fraction authority,
               a_requested_quantity = i_quantity intent, a_source_lot_fingerprint = source_fingerprint\<rparr>)
              (\<lambda>expected.
                if \<not> same_authority expected authority
                then Inl (PaperBrokerReconciliationError ''SELL quantity authority changed before intent submission'')
                else Inr ()))
      | _ \<Rightarrow> Inl (PaperBrokerReconciliationError ''SELL intent lacks quantity or entry provenance''))"

section \<open>Submitting an intent\<close>

definition resolve_execution_id ::
  "digest \<Rightarrow> order_intent \<Rightarrow> string option \<Rightarrow> utc \<Rightarrow> utc \<Rightarrow> exn + string" where
  "resolve_execution_id digest intent supplied decision_time persisted_at =
     (case supplied of
        Some i \<Rightarrow> check_execution_id i
      | None \<Rightarrow> Inr (canonical_sha256 digest (PDict
          [(''source'', PStr ''paper_intent_initial_execution''), (''intent_id'', PStr (i_intent_id intent)),
           (''decision_time'', PDatetime decision_time), (''persisted_at'', PDatetime persisted_at),
           (''price_snapshot_id'', PStr (i_price_snapshot_id intent))])))"

text \<open>A retry of a known intent: the stored evidence decides, nothing is written.\<close>

definition replay_intent ::
  "digest \<Rightarrow> broker \<Rightarrow> ledger \<Rightarrow> order_intent \<Rightarrow> string \<Rightarrow> string \<Rightarrow> intent_row \<Rightarrow> exn + paper_order" where
  "replay_intent digest b L intent execution_id request_fingerprint existing =
     (if ir_payload_json existing \<noteq> Some intent
      then Inl (DuplicateIntentConflictError (''intent_id '' @ i_intent_id intent @ '' already has different content''))
      else if ir_initial_execution_id existing \<noteq> execution_id
      then Inl (DuplicateExecutionConflictError ''intent is already bound to a different initial execution_id'')
      else if ir_initial_execution_request_fingerprint existing \<noteq> request_fingerprint
      then Inl (DuplicateExecutionConflictError ''initial execution_id is already bound to different immutable content'')
      else rbind (find_execution_receipt digest b L execution_id) (\<lambda>r.
        case r of
          None \<Rightarrow> Inl (PaperBrokerReconciliationError ''persisted initial execution is missing its immutable receipt'')
        | Some receipt \<Rightarrow> Inr (r_order receipt)))"

definition persist_intent ::
  "digest \<Rightarrow> utc \<Rightarrow> broker \<Rightarrow> order_intent \<Rightarrow> string \<Rightarrow> utc \<Rightarrow> utc \<Rightarrow> day \<Rightarrow> execution_quote
   \<Rightarrow> cost_calculation \<Rightarrow> pyval \<Rightarrow> ledger \<Rightarrow> exn + paper_order \<times> ledger" where
  "persist_intent digest now b intent execution_id decision_time persisted_at trade_date quote costs request L =
     (let request_fingerprint = canonical_sha256 digest request in
      rbind (insert_intent
        \<lparr>ir_intent_id = i_intent_id intent, ir_account_id = b_account_id b,
         ir_signal_id = i_signal_id intent, ir_entry_signal_id = i_entry_signal_id intent,
         ir_ts_code = i_ts_code intent, ir_side = i_side intent,
         ir_initial_execution_id = execution_id,
         ir_initial_execution_request_fingerprint = request_fingerprint,
         ir_payload_json = Some intent, ir_persisted_at = persisted_at\<rparr> L) (\<lambda>L1.
      rbind (evaluate_intent digest b L1 intent execution_id decision_time trade_date quote costs)
        (\<lambda>(evaluated, fill).
      let r = (if fill \<noteq> None \<and> o_updated_at evaluated < persisted_at
               then evaluated\<lparr>o_updated_at := persisted_at\<rparr> else evaluated) in
      rbind (insert_order r intent L1) (\<lambda>L2.
      rbind (case fill of
               None \<Rightarrow> Inr ((0, 0), L2)
             | Some f \<Rightarrow> apply_fill b intent f trade_date (q_acquisition_available_date quote) persisted_at L2)
        (\<lambda>((lot_delta, consumption_delta), L3).
      rbind (execution_receipt_with_cost digest execution_id request_fingerprint (i_intent_id intent) r fill
               costs persisted_at) (\<lambda>receipt.
      rbind (insert_execution_receipt digest b request receipt L3) (\<lambda>L4.
      rbind (append_ledger_attestation digest now ''intent_execution''
        (canonical_sha256 digest (PDict [(''intent'', intent_dump intent), (''receipt'', receipt_dump receipt)]))
        (no_counts\<lparr>n_intent := 1, n_order := 1, n_fill := (if fill = None then 0 else 1),
           n_lot := lot_delta, n_consumption := consumption_delta, n_receipt := 1\<rparr>) L4) (\<lambda>L5.
        Inr (r, L5)))))))))"

definition submit_intent ::
  "digest \<Rightarrow> utc \<Rightarrow> broker \<Rightarrow> order_intent \<Rightarrow> string option \<Rightarrow> utc \<Rightarrow> utc option \<Rightarrow> day \<Rightarrow> execution_quote
   \<Rightarrow> ledger \<Rightarrow> exn + paper_order \<times> ledger" where
  "submit_intent digest now b intent supplied_id decision_time persisted trade_date quote L =
     (let persisted_at = (case persisted of None \<Rightarrow> decision_time | Some p \<Rightarrow> p) in
      rbind (raise_first
        [(i_account_id intent \<noteq> b_account_id b, ValueError ''intent account_id does not match broker account''),
         (decision_time < i_available_at intent, ValueError ''decision_time cannot precede intent available_at''),
         (persisted_at < decision_time \<or> persisted_at < i_available_at intent,
          ValueError ''persisted_at cannot precede decision or intent availability''),
         (trade_date \<noteq> shanghai_date decision_time,
          ValueError ''trade_date must match decision_time in Asia/Shanghai'')] ()) (\<lambda>_.
      rbind (resolve_execution_id digest intent supplied_id decision_time persisted_at) (\<lambda>execution_id.
      rbind (require_matching_instrument_context (i_ts_code intent) (q_instrument_context quote)) (\<lambda>_.
      let calculation_quantity =
            (case q_executable_quantity quote of
               None \<Rightarrow> i_quantity intent | Some n \<Rightarrow> if n = 0 then i_quantity intent else n) in
      rbind (execution_costs digest b (i_side intent) (q_executable_price quote) calculation_quantity
               (q_instrument_context quote)) (\<lambda>costs.
      let request = initial_request digest execution_id (i_intent_id intent) decision_time persisted_at
                      trade_date quote costs in
      rbind (require_execution_ready digest b L) (\<lambda>_.
      case select_one (\<lambda>r. ir_intent_id r = i_intent_id intent) (lg_intents L) of
        Some existing \<Rightarrow>
          rbind (replay_intent digest b L intent execution_id (canonical_sha256 digest request) existing)
            (\<lambda>r. Inr (r, L))
      | None \<Rightarrow>
          rbind (find_execution_receipt digest b L execution_id) (\<lambda>known.
          if known \<noteq> None
          then Inl (DuplicateExecutionConflictError ''initial execution_id is already bound to a different intent'')
          else rbind (if i_side intent = SELL
                      then validate_sell_quantity_authority digest b L intent decision_time trade_date
                      else Inr ()) (\<lambda>_.
            persist_intent digest now b intent execution_id decision_time persisted_at trade_date quote
              costs request L))))))))"

section \<open>Incremental executions\<close>

text \<open>
  The loop over an order's fills: the previous execution and availability times, with the
  order's own \<open>updated_at\<close>.
\<close>

fun check_timeline :: "string \<Rightarrow> utc \<Rightarrow> (utc \<times> utc) option \<Rightarrow> fill_row list \<Rightarrow> exn + (utc \<times> utc) option" where
  "check_timeline order_id updated_at previous [] = Inr previous"
| "check_timeline order_id updated_at previous (row # rows) =
     (let executed_at = f_executed_at (fl_fill row); persisted_at = fl_persisted_at row in
      rbind (raise_first
        [(persisted_at < executed_at, PaperBrokerReconciliationError (''order '' @ order_id @ '' fill availability precedes execution'')),
         (\<not> opt_all (\<lambda>(e, p). e \<le> executed_at) previous,
          PaperBrokerReconciliationError (''order '' @ order_id @ '' fill execution sequence is nonmonotonic'')),
         (\<not> opt_all (\<lambda>(e, p). p \<le> persisted_at) previous,
          PaperBrokerReconciliationError (''order '' @ order_id @ '' fill availability sequence is nonmonotonic'')),
         (updated_at < executed_at \<or> updated_at < persisted_at,
          PaperBrokerReconciliationError (''order '' @ order_id @ '' updated_at precedes a fill timestamp''))] ()) (\<lambda>_.
        check_timeline order_id updated_at (Some (executed_at, persisted_at)) rows))"

definition order_fills :: "ledger \<Rightarrow> string \<Rightarrow> fill_row list" where
  "order_fills L order_id =
     sort_key (\<lambda>r. (f_sequence (fl_fill r), f_fill_id (fl_fill r)))
       (filter (\<lambda>r. f_order_id (fl_fill r) = order_id) (lg_fills L))"

definition incremental_fill_timeline :: "ledger \<Rightarrow> paper_order \<Rightarrow> exn + int \<times> (utc \<times> utc) option" where
  "incremental_fill_timeline L r =
     (let rows = order_fills L (o_order_id r) in
      if map (\<lambda>x. f_sequence (fl_fill x)) rows \<noteq> map int [1..<Suc (length rows)]
      then Inl (PaperBrokerReconciliationError (''order '' @ o_order_id r @ '' has a non-contiguous fill sequence''))
      else if sum_by (\<lambda>x. f_quantity (fl_fill x)) rows \<noteq> o_filled_quantity r
      then Inl (PaperBrokerReconciliationError (''order '' @ o_order_id r @ '' fill quantity does not match the ledger''))
      else rbind (check_timeline (o_order_id r) (o_updated_at r) None rows) (\<lambda>previous.
        Inr (int (length rows) + 1, previous)))"

definition is_open :: "paper_order_status \<Rightarrow> bool" where
  "is_open s = (s = ACCEPTED \<or> s = PARTIALLY_FILLED)"

definition check_incremental ::
  "broker \<Rightarrow> ledger \<Rightarrow> paper_order \<Rightarrow> order_intent \<Rightarrow> (utc \<times> utc) option \<Rightarrow> utc \<Rightarrow> utc \<Rightarrow> day \<Rightarrow> int
   \<Rightarrow> execution_quote \<Rightarrow> cost_calculation \<Rightarrow> exn + unit" where
  "check_incremental b L r intent previous execution_time persistence_time trade_date quantity quote costs =
     rbind (raise_first
       [(execution_time < o_created_at r, ValueError ''executed_at cannot precede order creation''),
        (\<not> opt_all (\<lambda>(e, p). e \<le> execution_time) previous,
         ValueError ''executed_at cannot precede the previous fill execution''),
        (\<not> opt_all (\<lambda>(e, p). p \<le> persistence_time) previous,
         ValueError ''persisted_at cannot precede previous fill availability''),
        (i_expires_at intent \<le> execution_time, ValueError ''order expired before execution''),
        (o_quantity r - o_filled_quantity r < quantity,
         ValueError ''execution quantity exceeds unfilled order remainder''),
        (q_suspended quote \<or> q_limit_locked quote \<or> q_risk_rejected quote,
         ValueError ''execution quote is not executable'')] ()) (\<lambda>_.
     rbind (misses_limit intent (cc_executed_price costs)) (\<lambda>missed.
     if missed then Inl (ValueError ''execution quote misses immutable limit price'')
     else if i_side intent = BUY
     then (case q_acquisition_available_date quote of
             None \<Rightarrow> Inl (ValueError ''BUY execution requires acquisition_available_date'')
           | Some available_date \<Rightarrow>
               if available_date \<le> trade_date
               then Inl (ValueError ''BUY available date must be after acquisition trade date'')
               else rbind (account_values b L) (\<lambda>(cash, _).
                 if dlt cash (dadd (cc_executed_notional costs) (cc_total_fees costs))
                 then Inl (ValueError ''insufficient cash for incremental execution'') else Inr ()))
     else (case i_entry_signal_id intent of
             None \<Rightarrow> Inl (PaperBrokerReconciliationError ''SELL order lacks entry_signal_id provenance'')
           | Some entry_signal_id \<Rightarrow>
               (case position_quantities b L (i_ts_code intent) entry_signal_id trade_date of
                  (held, available) \<Rightarrow>
                    if held < quantity \<or> available < quantity
                    then Inl (ValueError ''insufficient authoritative position for incremental SELL'')
                    else Inr ()))))"

text \<open>The volume-weighted average over the order's fills, on the price tick of the policy.\<close>

definition average_fill_price ::
  "broker \<Rightarrow> ledger \<Rightarrow> string \<Rightarrow> decimal \<Rightarrow> int \<Rightarrow> int \<Rightarrow> exn + decimal" where
  "average_fill_price b L order_id fill_price quantity new_filled =
     (let notional = dmul fill_price (dof_int quantity);
          previous_notional = dsub
            (dsum (map (\<lambda>x. dmul (f_price (fl_fill x)) (dof_int (f_quantity (fl_fill x))))
               (filter (\<lambda>x. f_order_id (fl_fill x) = order_id) (lg_fills L)))) notional in
      rbind (ddiv (dadd previous_notional notional) (dof_int new_filled)) (\<lambda>average.
        case es_slippage (cp_execution_cost_spec (b_cost_policy b)) of
          None \<Rightarrow> Inl AssertionError
        | Some slippage \<Rightarrow> dquantize average (sl_price_tick slippage)))"

definition persist_execution ::
  "digest \<Rightarrow> utc \<Rightarrow> broker \<Rightarrow> paper_order \<Rightarrow> order_intent \<Rightarrow> string \<Rightarrow> int \<Rightarrow> utc \<Rightarrow> utc \<Rightarrow> day \<Rightarrow> int
   \<Rightarrow> execution_quote \<Rightarrow> string \<Rightarrow> cost_calculation \<Rightarrow> pyval \<Rightarrow> ledger \<Rightarrow> exn + ledger" where
  "persist_execution digest now b r intent execution_id sequence execution_time persistence_time trade_date
     quantity quote price_snapshot_id costs request L =
     rbind (new_fill digest (o_order_id r) execution_id sequence quantity costs execution_time price_snapshot_id)
       (\<lambda>fill.
     rbind (apply_fill b intent fill trade_date (q_acquisition_available_date quote) persistence_time L)
       (\<lambda>((lot_delta, consumption_delta), L1).
     let new_filled = o_filled_quantity r + quantity in
     rbind (average_fill_price b L1 (o_order_id r) (cc_executed_price costs) quantity new_filled)
       (\<lambda>average_price.
     let status = (if new_filled = o_quantity r then FILLED else PARTIALLY_FILLED);
         updated_at = max (o_updated_at r) persistence_time;
         L2 = update_order_row (o_order_id r)
           (\<lambda>x. x\<lparr>o_filled_quantity := new_filled,
                  o_average_fill_price := Some (fixed_point average_price), o_status := status,
                  o_reject_reason := None, o_updated_at := updated_at\<rparr>) L1;
         receipt_order = r\<lparr>o_filled_quantity := new_filled, o_average_fill_price := Some average_price,
                           o_status := status, o_reject_reason := None, o_updated_at := updated_at\<rparr> in
     rbind (execution_receipt_with_cost digest execution_id (canonical_sha256 digest request)
              (i_intent_id intent) receipt_order (Some fill) costs persistence_time) (\<lambda>receipt.
     rbind (insert_execution_receipt digest b request receipt L2) (\<lambda>L3.
       append_ledger_attestation digest now ''incremental_execution''
         (canonical_sha256 digest (receipt_dump receipt))
         (no_counts\<lparr>n_fill := 1, n_lot := lot_delta, n_consumption := consumption_delta,
            n_receipt := 1\<rparr>) L3)))))"

text \<open>
  The transaction of \<open>apply_execution\<close>: the receipt of a known execution, or the ledger with the
  new one.
\<close>

definition execution_transaction ::
  "digest \<Rightarrow> utc \<Rightarrow> broker \<Rightarrow> string \<Rightarrow> string \<Rightarrow> utc \<Rightarrow> utc \<Rightarrow> day \<Rightarrow> int \<Rightarrow> execution_quote \<Rightarrow> string
   \<Rightarrow> paper_side \<Rightarrow> cost_calculation \<Rightarrow> pyval \<Rightarrow> ledger \<Rightarrow> exn + execution_receipt option \<times> ledger" where
  "execution_transaction digest now b order_id execution_id execution_time persistence_time trade_date
     quantity quote price_snapshot_id preflight_side costs request L =
     rbind (require_execution_ready digest b L) (\<lambda>_.
     rbind (find_execution_receipt digest b L execution_id) (\<lambda>known.
     case known of
       Some receipt \<Rightarrow>
         if o_order_id (r_order receipt) \<noteq> order_id
            \<or> r_request_fingerprint receipt \<noteq> canonical_sha256 digest request
         then Inl (DuplicateExecutionConflictError ''execution_id is already bound to different immutable content'')
         else Inr (Some receipt, L)
     | None \<Rightarrow>
         if list_ex (\<lambda>x. f_execution_id (fl_fill x) = execution_id) (lg_fills L)
         then Inl (PaperBrokerReconciliationError ''execution fill is missing its immutable receipt'')
         else case find_order b L order_id of
           None \<Rightarrow> Inl (KeyError (''unknown paper order: '' @ order_id))
         | Some row \<Rightarrow>
             rbind (order_from_row digest row) (\<lambda>r.
             case select_one (\<lambda>i. ir_intent_id i = o_intent_id r) (lg_intents L) of
               None \<Rightarrow> Inl (PaperBrokerReconciliationError ''paper order is missing its intent'')
             | Some i \<Rightarrow>
                 rbind (load_intent digest (ir_payload_json i)) (\<lambda>intent.
                 if i_side intent \<noteq> preflight_side
                 then Inl (PaperBrokerReconciliationError ''paper order changed while preparing v3 cost evidence'')
                 else if \<not> is_open (o_status r)
                 then Inl (ValueError (''order is not open for execution: '' @ status_text (o_status r)))
                 else rbind (incremental_fill_timeline L r) (\<lambda>(sequence, previous).
                   rbind (check_incremental b L r intent previous execution_time persistence_time trade_date
                            quantity quote costs) (\<lambda>_.
                   rbind (persist_execution digest now b r intent execution_id sequence execution_time
                            persistence_time trade_date quantity quote price_snapshot_id costs request L)
                     (\<lambda>L'. Inr (None, L'))))))))"

text \<open>The join that finds an order's intent before the transaction.\<close>

definition preflight_intent :: "digest \<Rightarrow> broker \<Rightarrow> ledger \<Rightarrow> string \<Rightarrow> exn + order_intent" where
  "preflight_intent digest b L order_id =
     (case find_order b L order_id of
        None \<Rightarrow> Inl (KeyError (''unknown paper order: '' @ order_id))
      | Some row \<Rightarrow>
          (case select_one (\<lambda>i. ir_intent_id i = o_intent_id (or_order row)) (lg_intents L) of
             None \<Rightarrow> Inl (KeyError (''unknown paper order: '' @ order_id))
           | Some i \<Rightarrow> load_intent digest (ir_payload_json i)))"

text \<open>
  \<open>apply_execution\<close>. After the commit the receipt is read back, and what that read returns or
  raises is the first component of the result.
\<close>

definition apply_execution ::
  "digest \<Rightarrow> utc \<Rightarrow> broker \<Rightarrow> string \<Rightarrow> string \<Rightarrow> utc \<Rightarrow> day \<Rightarrow> int \<Rightarrow> execution_quote \<Rightarrow> string
   \<Rightarrow> utc option \<Rightarrow> ledger \<Rightarrow> exn + (exn + execution_receipt) \<times> ledger" where
  "apply_execution digest now b order_id execution_id execution_time trade_date quantity quote
     price_snapshot_id persisted L =
     (let persistence_time = (case persisted of None \<Rightarrow> execution_time | Some p \<Rightarrow> p) in
      rbind (check_execution_id execution_id) (\<lambda>_.
      rbind (raise_first
        [(persistence_time < execution_time, ValueError ''persisted_at cannot precede execution''),
         (trade_date \<noteq> shanghai_date execution_time,
          ValueError ''trade_date must match executed_at in Asia/Shanghai''),
         (\<not> positive_lot quantity, ValueError ''execution quantity must be a positive 100-share lot''),
         (\<not> opt_all (\<lambda>n. n = quantity) (q_executable_quantity quote),
          ValueError ''quote executable_quantity does not match execution quantity''),
         (\<not> is_sha256 price_snapshot_id, ValueError ''price_snapshot_id must be a lowercase SHA-256 digest'')]
        ()) (\<lambda>_.
      rbind (preflight_intent digest b L order_id) (\<lambda>preflight.
      rbind (require_matching_instrument_context (i_ts_code preflight) (q_instrument_context quote)) (\<lambda>_.
      rbind (execution_costs digest b (i_side preflight) (q_executable_price quote) quantity
               (q_instrument_context quote)) (\<lambda>costs.
      rbind (execution_transaction digest now b order_id execution_id execution_time persistence_time trade_date
               quantity quote price_snapshot_id (i_side preflight) costs
               (incremental_request digest execution_id order_id execution_time persistence_time
                  trade_date quantity quote price_snapshot_id costs) L) (\<lambda>(known, L').
        case known of
          Some receipt \<Rightarrow> Inr (Inr receipt, L')
        | None \<Rightarrow> Inr (rbind (execution digest b L' execution_id)
                           (\<lambda>x. case x of None \<Rightarrow> Inl AssertionError | Some receipt \<Rightarrow> Inr receipt), L'))))))))"

section \<open>Closing an order\<close>

definition close_open_order ::
  "digest \<Rightarrow> utc \<Rightarrow> broker \<Rightarrow> string \<Rightarrow> paper_order_status \<Rightarrow> utc \<Rightarrow> utc option \<Rightarrow> ledger
   \<Rightarrow> exn + (exn + paper_order) \<times> ledger" where
  "close_open_order digest now b order_id status decision_time persisted L =
     (let persistence_time = (case persisted of None \<Rightarrow> decision_time | Some p \<Rightarrow> p) in
      rbind (raise_first
        [(status \<noteq> CANCELLED \<and> status \<noteq> EXPIRED, ValueError ''close status must be CANCELLED or EXPIRED''),
         (persistence_time < decision_time, ValueError ''persisted_at cannot precede close decision'')] ()) (\<lambda>_.
      rbind (require_execution_ready digest b L) (\<lambda>_.
      case find_order b L order_id of
        None \<Rightarrow> Inl (KeyError (''unknown paper order: '' @ order_id))
      | Some row \<Rightarrow>
          rbind (order_from_row digest row) (\<lambda>r.
          if \<not> is_open (o_status r)
          then Inl (ValueError (''order is not open for close: '' @ status_text (o_status r)))
          else rbind (incremental_fill_timeline L r) (\<lambda>(_, previous).
            rbind (raise_first
              [(\<not> opt_all (\<lambda>(e, p). e \<le> decision_time) previous,
                ValueError ''close decision cannot precede the latest fill execution''),
               (\<not> opt_all (\<lambda>(e, p). p \<le> persistence_time) previous,
                ValueError ''close persistence cannot precede latest fill availability'')] ()) (\<lambda>_.
            case select_one (\<lambda>i. ir_intent_id i = o_intent_id r) (lg_intents L) of
              None \<Rightarrow> Inl (PaperBrokerReconciliationError ''paper order is missing its intent'')
            | Some i \<Rightarrow>
                rbind (load_intent digest (ir_payload_json i)) (\<lambda>intent.
                if status = EXPIRED \<and> decision_time < i_expires_at intent
                then Inl (ValueError ''order cannot expire before intent expires_at'')
                else
                  let L1 = update_order_row order_id
                             (\<lambda>x. x\<lparr>o_status := status,
                                    o_updated_at := max (o_updated_at r) persistence_time\<rparr>) L in
                  rbind (append_ledger_attestation digest now ''order_close''
                    (canonical_sha256 digest (PDict
                       [(''order_id'', PStr order_id), (''status'', PStr (status_text status)),
                        (''decided_at'', PDatetime decision_time),
                        (''persisted_at'', PDatetime persistence_time)])) no_counts L1) (\<lambda>L2.
                    Inr (rbind (order_for_id digest b L2 order_id)
                           (\<lambda>x. case x of None \<Rightarrow> Inl AssertionError | Some y \<Rightarrow> Inr y), L2)))))))))"

end
