(* ===== verification/Ledger_Chain.thy ===== *)
theory Ledger_Chain
  imports Ledger_Attestation
begin

text \<open>
  The chain of attestations and head markers is append-only and self-certifying. A locale states
  what the two tables share (revision, fingerprint, link to the predecessor, a seal that makes a
  row valid) and proves once what appending a sealed row does; both tables are interpretations.
  On top of it: appending an attestation keeps the head valid and the trust status unchanged.
\<close>

section \<open>Latest row of a table\<close>

lemma latest_by_None [simp]: "latest_by f xs = None \<longleftrightarrow> xs = []"
  by (cases xs) (auto split: option.splits)

lemma latest_by_SomeD: "latest_by f xs = Some x \<Longrightarrow> x \<in> set xs \<and> (\<forall>y \<in> set xs. f y \<le> f x)"
  by (induction xs arbitrary: x) (fastforce split: option.splits if_splits)+

lemma latest_by_append_greater:
  "\<forall>x \<in> set xs. f x < f y \<Longrightarrow> latest_by f (xs @ [y]) = Some y"
  by (induction xs) auto

lemma select_one_append_other: "\<not> p y \<Longrightarrow> select_one p (xs @ [y]) = select_one p xs"
  by (induction xs) auto

lemma select_one_unique:
  "distinct (map f xs) \<Longrightarrow> x \<in> set xs \<Longrightarrow> select_one (\<lambda>y. f y = f x) xs = Some x"
  by (induction xs) (auto simp: rev_image_eqI)

section \<open>Sealed chains\<close>

text \<open>Revisions are distinct and positive, and every row names the fingerprint of its predecessor.\<close>

definition linked :: "('r \<Rightarrow> int) \<Rightarrow> ('r \<Rightarrow> string) \<Rightarrow> ('r \<Rightarrow> string option) \<Rightarrow> 'r list \<Rightarrow> bool" where
  "linked rv fp prev rows \<longleftrightarrow> distinct (map rv rows) \<and> (\<forall>r \<in> set rows. 1 \<le> rv r) \<and>
     (\<forall>r \<in> set rows. 1 < rv r \<longrightarrow> (\<exists>p \<in> set rows. rv p = rv r - 1 \<and> prev r = Some (fp p)))"

locale sealed_chain =
  fixes rv :: "'r \<Rightarrow> int" and fp :: "'r \<Rightarrow> string" and prev :: "'r \<Rightarrow> string option"
    and seal :: "'r \<Rightarrow> 'r" and valid :: "'r \<Rightarrow> bool"
  assumes seal_rev [simp]: "rv (seal r) = rv r"
    and seal_prev [simp]: "prev (seal r) = prev r"
    and seal_valid [simp]: "valid (seal r)"
begin

lemma latest_extend:
  assumes "latest_by rv rows = Some r" "rv (seal n) = rv r + 1"
  shows "latest_by rv (rows @ [seal n]) = Some (seal n)"
  using assms latest_by_SomeD [OF assms(1)] by (intro latest_by_append_greater) force

lemma predecessor_extend:
  assumes "linked rv fp prev rows" "latest_by rv rows = Some r" "rv n = rv r + 1"
  shows "select_one (\<lambda>p. rv p = rv (seal n) - 1) (rows @ [seal n]) = Some r"
proof -
  have "select_one (\<lambda>p. rv p = rv r) rows = Some r"
    using assms latest_by_SomeD [OF assms(2)] by (intro select_one_unique) (simp_all add: linked_def)
  with assms(3) show ?thesis by (simp add: select_one_append_other)
qed

lemma first_extend:
  assumes "latest_by rv rows = Some r" "1 \<le> rv r" "rv n = rv r + 1"
  shows "select_one (\<lambda>p. rv p = 1) (rows @ [seal n]) = select_one (\<lambda>p. rv p = 1) rows"
  using assms by (intro select_one_append_other) simp

lemma linked_extend:
  assumes "linked rv fp prev rows" "latest_by rv rows = Some r" "rv n = rv r + 1" "prev n = Some (fp r)"
  shows "linked rv fp prev (rows @ [seal n])"
proof -
  have r: "r \<in> set rows" "\<forall>y \<in> set rows. rv y \<le> rv r" using latest_by_SomeD [OF assms(2)] by auto
  then have "rv (seal n) \<notin> rv ` set rows" using assms(3) by force
  moreover have "1 \<le> rv r" using assms(1) r by (auto simp: linked_def)
  moreover have "\<exists>p \<in> set rows. rv p = rv (seal n) - 1 \<and> prev (seal n) = Some (fp p)"
    using r assms(3,4) by auto
  ultimately show ?thesis using assms(1,3) unfolding linked_def by auto
qed

end

section \<open>The two chains\<close>

lemma attestation_payload_seal [simp]: "attestation_payload (seal_attestation digest r) = attestation_payload r"
  by (simp add: seal_attestation_def attestation_payload_def)

lemma head_marker_payload_seal [simp]: "head_marker_payload (seal_head digest r) = head_marker_payload r"
  by (simp add: seal_head_def head_marker_payload_def)

lemma same_object_refl [simp]: "same_object j j"
  by (cases j) (simp_all add: same_object_def)

lemma seal_fields [simp]:
  "at_revision (seal_attestation digest r) = at_revision r"
  "at_previous_attestation_fingerprint (seal_attestation digest r) = at_previous_attestation_fingerprint r"
  "at_ledger_generation (seal_attestation digest r) = at_ledger_generation r"
  "at_migration_version (seal_attestation digest r) = at_migration_version r"
  "at_schema_version (seal_attestation digest r) = at_schema_version r"
  "at_schema_fingerprint (seal_attestation digest r) = at_schema_fingerprint r"
  "at_migration_attestation_fingerprint (seal_attestation digest r) = at_migration_attestation_fingerprint r"
  "at_counts (seal_attestation digest r) = at_counts r"
  "at_event_kind (seal_attestation digest r) = at_event_kind r"
  "at_persisted_at (seal_attestation digest r) = at_persisted_at r"
  "at_attestation_fingerprint (seal_attestation digest r) = canonical_sha256 digest (attestation_payload r)"
  "hd_revision (seal_head digest h) = hd_revision h"
  "hd_previous_head_marker_fingerprint (seal_head digest h) = hd_previous_head_marker_fingerprint h"
  "hd_attestation_fingerprint (seal_head digest h) = hd_attestation_fingerprint h"
  "hd_head_marker_fingerprint (seal_head digest h) = canonical_sha256 digest (head_marker_payload h)"
  "at_payload_json (seal_attestation digest r) = Some (canonical_value (attestation_payload r))"
  "hd_payload_json (seal_head digest h) = Some (canonical_value (head_marker_payload h))"
  by (simp_all add: seal_attestation_def seal_head_def)

lemma validate_sealed_attestation [simp]: "validate_attestation_row digest (seal_attestation digest r) = Inr ()"
  by (simp add: validate_attestation_row_def)

lemma validate_sealed_head [simp]: "validate_head_marker_row digest (seal_head digest r) = Inr ()"
  by (simp add: validate_head_marker_row_def)

lemma marker_for_fields [simp]:
  "hd_revision (marker_for a p) = at_revision a" "hd_previous_head_marker_fingerprint (marker_for a p) = p"
  "hd_attestation_fingerprint (marker_for a p) = at_attestation_fingerprint a"
  by (simp_all add: marker_for_def)

lemma marker_agreement_seal [simp]:
  "list_all (\<lambda>x. x) (marker_agreement (seal_head digest (marker_for a p)) a)"
  by (simp add: marker_agreement_def seal_head_def marker_for_def)

interpretation attest_chain: sealed_chain at_revision at_attestation_fingerprint
  at_previous_attestation_fingerprint "seal_attestation digest"
  "\<lambda>r. validate_attestation_row digest r = Inr ()" for digest
  by unfold_locales simp_all

interpretation head_chain: sealed_chain hd_revision hd_head_marker_fingerprint
  hd_previous_head_marker_fingerprint "seal_head digest"
  "\<lambda>r. validate_head_marker_row digest r = Inr ()" for digest
  by unfold_locales simp_all

text \<open>Both tables linked: what the primary keys and the append operation maintain.\<close>

definition chain_ok :: "ledger \<Rightarrow> bool" where
  "chain_ok L \<longleftrightarrow>
     linked at_revision at_attestation_fingerprint at_previous_attestation_fingerprint (lg_attestations L)
     \<and> linked hd_revision hd_head_marker_fingerprint hd_previous_head_marker_fingerprint (lg_heads L)"

section \<open>What a valid head says\<close>

lemma attestation_headD:
  assumes "attestation_head digest L = Inr (m, l)"
  shows "select_one (\<lambda>a. at_revision a = 1) (lg_attestations L) = Some m"
    "latest_by at_revision (lg_attestations L) = Some l"
    "validate_attestation_row digest m = Inr ()" "at_event_kind m = ''migration_audit''"
    "at_previous_attestation_fingerprint m = None" "at_ledger_generation l = at_ledger_generation m"
    "at_migration_attestation_fingerprint l = at_migration_attestation_fingerprint m"
    "counts_le (at_counts m) (at_counts l)" "validate_canonical_head digest L m l = Inr ()"
  using assms unfolding attestation_head_def
  by (auto split: option.splits elim!: rbind_InrE)

lemma marker_checks_ok:
  "list_all (\<lambda>(bad, e). \<not> bad) (marker_checks (marker_agreement a b) (marker_agreement c d)) \<longleftrightarrow>
   list_all (\<lambda>x. x) (marker_agreement a b) \<and> list_all (\<lambda>x. x) (marker_agreement c d)"
  by (auto simp: marker_checks_def marker_agreement_def)

lemma validate_canonical_headD:
  assumes "validate_canonical_head digest L m l = Inr ()"
  obtains mm lm where "lg_tamper_ids L = []" "select_one (\<lambda>h. hd_revision h = 1) (lg_heads L) = Some mm"
    "latest_by hd_revision (lg_heads L) = Some lm" "validate_head_marker_row digest mm = Inr ()"
    "hd_revision mm = 1" "hd_previous_head_marker_fingerprint mm = None"
    "hd_attestation_fingerprint mm = at_attestation_fingerprint m" "hd_revision lm = at_revision l"
    "list_all (\<lambda>x. x) (marker_agreement mm m)"
proof -
  from assms obtain mm lm where t: "lg_tamper_ids L = []"
    and mm: "select_one (\<lambda>h. hd_revision h = 1) (lg_heads L) = Some mm"
    and lm: "latest_by hd_revision (lg_heads L) = Some lm"
    by (auto simp: validate_canonical_head_def split: option.splits if_splits)
  show ?thesis
    using assms marker_checks_ok [of mm m lm l] unfolding validate_canonical_head_def
    by (intro that [OF t mm lm]) (simp_all add: t mm lm)
qed

section \<open>Appending\<close>

definition next_attestation ::
  "utc \<Rightarrow> string \<Rightarrow> string \<Rightarrow> ledger_counts \<Rightarrow> attestation_row \<Rightarrow> attestation_row \<Rightarrow> attestation_row" where
  "next_attestation now event_kind event_fingerprint deltas migration latest =
     \<lparr>at_revision = at_revision latest + 1, at_ledger_generation = at_ledger_generation latest,
      at_migration_version = ledger_migration_version, at_schema_version = 5,
      at_schema_fingerprint = at_schema_fingerprint latest,
      at_previous_attestation_fingerprint = Some (at_attestation_fingerprint latest),
      at_migration_attestation_fingerprint = at_migration_attestation_fingerprint migration,
      at_event_kind = event_kind, at_event_fingerprint = event_fingerprint,
      at_counts = add_counts (at_counts latest) deltas, at_payload_json = None,
      at_attestation_fingerprint = [], at_persisted_at = now\<rparr>"

lemma next_attestation_fields [simp]:
  "at_revision (next_attestation now k e d m l) = at_revision l + 1"
  "at_previous_attestation_fingerprint (next_attestation now k e d m l) = Some (at_attestation_fingerprint l)"
  "at_ledger_generation (next_attestation now k e d m l) = at_ledger_generation l"
  "at_migration_version (next_attestation now k e d m l) = ledger_migration_version"
  "at_schema_version (next_attestation now k e d m l) = 5"
  "at_schema_fingerprint (next_attestation now k e d m l) = at_schema_fingerprint l"
  "at_migration_attestation_fingerprint (next_attestation now k e d m l) = at_migration_attestation_fingerprint m"
  "at_counts (next_attestation now k e d m l) = add_counts (at_counts l) d"
  by (simp_all add: next_attestation_def)

lemma append_effect:
  assumes "append_ledger_attestation digest now k e d L = Inr L'" "chain_ok L"
  obtains m l a lm h where "attestation_head digest L = Inr (m, l)" "counts_nonneg d"
    "a = seal_attestation digest (next_attestation now k e d m l)"
    "latest_by hd_revision (lg_heads L) = Some lm" "hd_revision lm = at_revision l"
    "h = seal_head digest (marker_for a (Some (hd_head_marker_fingerprint lm)))"
    "L' = L\<lparr>lg_attestations := lg_attestations L @ [a], lg_heads := lg_heads L @ [h]\<rparr>"
proof -
  from assms(1) obtain m l where head: "attestation_head digest L = Inr (m, l)" and d: "counts_nonneg d"
    and ins: "insert_attestation digest (next_attestation now k e d m l) L = Inr L'"
    unfolding append_ledger_attestation_def next_attestation_def by (auto elim!: rbind_InrE)
  obtain lm where lm: "latest_by hd_revision (lg_heads L) = Some lm" "hd_revision lm = at_revision l"
    using attestation_headD(9) [OF head] by (rule validate_canonical_headD)
  have l: "1 \<le> at_revision l"
    using assms(2) latest_by_SomeD [OF attestation_headD(2) [OF head]] by (auto simp: chain_ok_def linked_def)
  have sel: "select_one (\<lambda>x. hd_revision x = at_revision l) (lg_heads L) = Some lm"
    using assms(2) latest_by_SomeD [OF lm(1)] unfolding lm(2) [symmetric]
    by (intro select_one_unique) (simp_all add: chain_ok_def linked_def)
  show ?thesis
    using ins l sel
    by (intro that [OF head d refl lm refl])
       (auto simp: insert_attestation_def insert_attestation_row_def insert_head_row_def Let_def)
qed

lemma append_chain_ok:
  assumes "append_ledger_attestation digest now k e d L = Inr L'" "chain_ok L"
  shows "chain_ok L'"
proof -
  from assms obtain m l a lm h where head: "attestation_head digest L = Inr (m, l)"
    and a: "a = seal_attestation digest (next_attestation now k e d m l)"
    and lm: "latest_by hd_revision (lg_heads L) = Some lm" "hd_revision lm = at_revision l"
    and h: "h = seal_head digest (marker_for a (Some (hd_head_marker_fingerprint lm)))"
    and L': "L' = L\<lparr>lg_attestations := lg_attestations L @ [a], lg_heads := lg_heads L @ [h]\<rparr>"
    by (rule append_effect)
  show ?thesis
    using assms(2) attest_chain.linked_extend [OF _ attestation_headD(2) [OF head]]
      head_chain.linked_extend [OF _ lm(1)] lm(2)
    by (simp add: chain_ok_def L' h a)
qed

lemma counts_le_add: "counts_le a b \<Longrightarrow> counts_nonneg d \<Longrightarrow> counts_le a (add_counts b d)"
  by (simp add: counts_le_def counts_nonneg_def add_counts_def no_counts_def)

text \<open>After an append the chain validates again, with the appended row as its head.\<close>

lemma append_attestation_head:
  assumes "append_ledger_attestation digest now k e d L = Inr L'" "chain_ok L"
    and "attestation_head digest L = Inr (m, l)"
  shows "attestation_head digest L' = Inr (m, seal_attestation digest (next_attestation now k e d m l))"
proof -
  from append_effect [OF assms(1,2)] assms(3) obtain a lm h where
    d: "counts_nonneg d" and a: "a = seal_attestation digest (next_attestation now k e d m l)"
    and lm: "latest_by hd_revision (lg_heads L) = Some lm" "hd_revision lm = at_revision l"
    and h: "h = seal_head digest (marker_for a (Some (hd_head_marker_fingerprint lm)))"
    and L': "L' = L\<lparr>lg_attestations := lg_attestations L @ [a], lg_heads := lg_heads L @ [h]\<rparr>"
    by (metis Inr_inject prod.inject)
  note H = attestation_headD [OF assms(3)]
  obtain mm where mm: "lg_tamper_ids L = []" "select_one (\<lambda>h. hd_revision h = 1) (lg_heads L) = Some mm"
    "validate_head_marker_row digest mm = Inr ()" "hd_revision mm = 1"
    "hd_previous_head_marker_fingerprint mm = None"
    "hd_attestation_fingerprint mm = at_attestation_fingerprint m" "list_all (\<lambda>x. x) (marker_agreement mm m)"
    using H(9) by (rule validate_canonical_headD)
  have l: "1 \<le> at_revision l"
    using assms(2) latest_by_SomeD [OF H(2)] by (auto simp: chain_ok_def linked_def)
  have c: "linked at_revision at_attestation_fingerprint at_previous_attestation_fingerprint (lg_attestations L)"
    "linked hd_revision hd_head_marker_fingerprint hd_previous_head_marker_fingerprint (lg_heads L)"
    using assms(2) by (simp_all add: chain_ok_def)
  have "validate_canonical_head digest L' m a = Inr ()"
    unfolding validate_canonical_head_def
    using mm l lm head_chain.latest_extend [OF lm(1)] head_chain.first_extend [OF lm(1)]
      head_chain.predecessor_extend [OF c(2) lm(1)] marker_checks_ok [of mm m h a]
    unfolding L' h by (simp add: a)
  then show ?thesis
    unfolding attestation_head_def
    using H l attest_chain.latest_extend [OF H(2)] attest_chain.first_extend [OF H(2)]
      attest_chain.predecessor_extend [OF c(1) H(2)] counts_le_add [OF H(8) d]
    by (simp add: L' a)
qed

text \<open>
  The ledgers the broker writes to: everything the trust status checks holds, except that
  unknown legacy evidence may remain.
\<close>

definition chain_matches :: "string \<Rightarrow> string \<Rightarrow> attestation_row \<Rightarrow> bool" where
  "chain_matches schema_fingerprint immutable_digest a \<longleftrightarrow>
     at_migration_version a = ledger_migration_version \<and> at_schema_version a = 5
     \<and> at_schema_fingerprint a = schema_fingerprint
     \<and> at_migration_attestation_fingerprint a = immutable_digest"

lemma require_schema_integrityD:
  assumes "require_schema_integrity digest L = Inr ()"
  obtains row sf dg m l where "lg_schema L = SchemaTable (Some row)" "sr_schema_version row = 5"
    "sr_internal_migration_version row = ledger_migration_version" "lg_attestation_table L"
    "lg_archive_valid L" "lg_schema_fingerprint L = Some sf" "lg_migration_digest L = Some dg"
    "attestation_head digest L = Inr (m, l)" "chain_matches sf dg m" "chain_matches sf dg l"
  using assms unfolding require_schema_integrity_def ledger_trust_status_def Let_def chain_matches_def
  by (auto simp: quarantined_def raise_if_ledger_untrusted_def Let_def
      split: schema_metadata.splits option.splits if_splits sum.splits prod.splits) (metis+)

lemma ledger_trust_status_sound:
  assumes "lg_schema L = SchemaTable (Some row)" "sr_schema_version row = 5"
    "sr_internal_migration_version row = ledger_migration_version" "lg_attestation_table L"
    "lg_archive_valid L" "lg_schema_fingerprint L = Some sf" "lg_migration_digest L = Some dg"
    "attestation_head digest L = Inr (m, l)" "chain_matches sf dg m" "chain_matches sf dg l"
  shows "ledger_trust_status digest L =
    (let unknown = filter (\<lambda>(f, n). 0 < n) (sr_unknown row) in
     if unknown \<noteq> [] then quarantined (Some 5) ''unknown_legacy_execution_evidence'' unknown
     else \<lparr>ts_trusted = True, ts_schema_version = Some 5, ts_reason = ''verified_schema_v5'',
           ts_unknown_evidence = []\<rparr>)"
  using assms by (simp add: ledger_trust_status_def chain_matches_def Let_def)

lemma append_ledger_trust_status:
  assumes "append_ledger_attestation digest now k e d L = Inr L'" "chain_ok L"
    and "require_schema_integrity digest L = Inr ()"
  shows "ledger_trust_status digest L' = ledger_trust_status digest L"
proof -
  from assms(3) obtain row sf dg m l where r: "lg_schema L = SchemaTable (Some row)" "sr_schema_version row = 5"
    "sr_internal_migration_version row = ledger_migration_version" "lg_attestation_table L"
    "lg_archive_valid L" "lg_schema_fingerprint L = Some sf" "lg_migration_digest L = Some dg"
    "attestation_head digest L = Inr (m, l)" "chain_matches sf dg m" "chain_matches sf dg l"
    by (rule require_schema_integrityD)
  from append_effect [OF assms(1,2)] obtain as hs where
    L': "L' = L\<lparr>lg_attestations := as, lg_heads := hs\<rparr>" by metis
  have "chain_matches sf dg (seal_attestation digest (next_attestation now k e d m l))"
    using r(9,10) by (simp add: chain_matches_def)
  from ledger_trust_status_sound [OF _ _ _ _ _ _ _ append_attestation_head [OF assms(1,2) r(8)] r(9) this]
    ledger_trust_status_sound [OF r] r
  show ?thesis by (simp add: L')
qed

lemma attestation_head_cong:
  assumes "lg_attestations L' = lg_attestations L" "lg_heads L' = lg_heads L" "lg_tamper_ids L' = lg_tamper_ids L"
  shows "attestation_head digest L' = attestation_head digest L"
  unfolding attestation_head_def validate_canonical_head_def assms ..

text \<open>
  An append succeeds on every validated chain unless one of the two new fingerprints collides with
  a stored one.
\<close>

lemma append_succeeds:
  assumes head: "attestation_head digest L = Inr (m, l)" and chain: "chain_ok L"
    and d: "counts_nonneg d" "counts_nonneg (at_counts l)"
    and lm: "latest_by hd_revision (lg_heads L) = Some lm"
    and a: "a = seal_attestation digest (next_attestation now k e d m l)"
    and h: "h = seal_head digest (marker_for a (Some (hd_head_marker_fingerprint lm)))"
    and fresh: "\<forall>x \<in> set (lg_attestations L). at_attestation_fingerprint x \<noteq> at_attestation_fingerprint a"
      "\<forall>x \<in> set (lg_heads L). hd_attestation_fingerprint x \<noteq> at_attestation_fingerprint a
         \<and> hd_head_marker_fingerprint x \<noteq> hd_head_marker_fingerprint h"
  shows "append_ledger_attestation digest now k e d L =
    Inr (L\<lparr>lg_attestations := lg_attestations L @ [a], lg_heads := lg_heads L @ [h]\<rparr>)"
proof -
  obtain lm' where "latest_by hd_revision (lg_heads L) = Some lm'" "hd_revision lm' = at_revision l"
    using attestation_headD(9) [OF head] by (rule validate_canonical_headD)
  with lm have rev: "hd_revision lm = at_revision l" by simp
  note lD = latest_by_SomeD [OF attestation_headD(2) [OF head]] and hD = latest_by_SomeD [OF lm]
  have l: "1 \<le> at_revision l" using chain lD by (auto simp: chain_ok_def linked_def)
  have sel: "select_one (\<lambda>x. hd_revision x = at_revision l) (lg_heads L) = Some lm"
    using chain hD unfolding rev [symmetric]
    by (intro select_one_unique) (simp_all add: chain_ok_def linked_def)
  have new: "counts_nonneg (at_counts a)" "at_revision a = at_revision l + 1"
    using d by (simp_all add: a counts_nonneg_def counts_le_def add_counts_def no_counts_def)
  have att: "insert_attestation_row a L = Inr (L\<lparr>lg_attestations := lg_attestations L @ [a]\<rparr>)"
    using new l lD fresh(1) a by (force simp: insert_attestation_row_def list_ex_iff)
  have hd: "insert_head_row h (L\<lparr>lg_attestations := lg_attestations L @ [a]\<rparr>) =
      Inr (L\<lparr>lg_attestations := lg_attestations L @ [a], lg_heads := lg_heads L @ [h]\<rparr>)"
    using new l hD rev fresh(2) h
    by (force simp: insert_head_row_def list_ex_iff seal_head_def marker_for_def)
  have "insert_attestation digest (next_attestation now k e d m l) L =
      Inr (L\<lparr>lg_attestations := lg_attestations L @ [a], lg_heads := lg_heads L @ [h]\<rparr>)"
    using l sel att hd new by (simp add: insert_attestation_def Let_def a [symmetric] h [symmetric])
  then show ?thesis using head d by (simp add: append_ledger_attestation_def next_attestation_def)
qed

end
