(* ===== verification/Broker_Effects.thy ===== *)
theory Broker_Effects
  imports Paper_Broker Ledger_Chain
begin

text \<open>
  What each statement and each operation of the paper broker does to the ledger. The tables with a
  primary key share one interface, \<open>keyed_table\<close>; the allocation loop, the fill and the three
  operations are then described by the rows they add and the columns they change.
\<close>

section \<open>Tables with a primary key\<close>

locale keyed_table =
  fixes key :: "'row \<Rightarrow> 'k" and rows :: "ledger \<Rightarrow> 'row list" and ins :: "'row \<Rightarrow> ledger \<Rightarrow> exn + ledger"
  assumes ins_rows: "ins r L = Inr L' \<Longrightarrow> rows L' = rows L @ [r]"
    and ins_fresh: "ins r L = Inr L' \<Longrightarrow> key r \<notin> key ` set (rows L)"
begin

lemma ins_distinct: "ins r L = Inr L' \<Longrightarrow> distinct (map key (rows L)) \<Longrightarrow> distinct (map key (rows L'))"
  using ins_rows ins_fresh by fastforce

lemma ins_lookup: "ins r L = Inr L' \<Longrightarrow> select_one (\<lambda>x. key x = key r) (rows L') = Some r"
  using ins_rows [of r L L'] ins_fresh [of r L L']
  by (simp add: select_one_append) (auto simp: image_iff split: option.splits dest!: select_one_SomeD)

lemma ins_lookup_other:
  "ins r L = Inr L' \<Longrightarrow> k \<noteq> key r \<Longrightarrow> select_one (\<lambda>x. key x = k) (rows L') = select_one (\<lambda>x. key x = k) (rows L)"
  using ins_rows [of r L L'] by (simp add: select_one_append_other)

lemma ins_duplicate: "key r \<in> key ` set (rows L) \<Longrightarrow> \<exists>e. ins r L = Inl e"
  using ins_fresh [of r L] by (cases "ins r L") auto

lemma ins_length: "ins r L = Inr L' \<Longrightarrow> length (rows L') = Suc (length (rows L))"
  using ins_rows by simp

end

section \<open>Effects of the statements\<close>

lemma insert_cost_spec_Inr:
  "insert_cost_spec r L = Inr L' \<Longrightarrow> L' = L\<lparr>lg_cost_specs := lg_cost_specs L @ [r]\<rparr>"
  by (simp add: insert_cost_spec_def)

lemma insert_account_Inr:
  "insert_account r L = Inr L' \<Longrightarrow>
   L' = L\<lparr>lg_accounts := lg_accounts L @ [r]\<rparr> \<and> ac_account_id r \<notin> ac_account_id ` set (lg_accounts L)"
  by (auto simp: insert_account_def account_exists_def list_ex_iff)

lemma insert_intent_Inr:
  "insert_intent r L = Inr L' \<Longrightarrow>
   L' = L\<lparr>lg_intents := lg_intents L @ [r]\<rparr> \<and> ir_intent_id r \<notin> ir_intent_id ` set (lg_intents L)"
  by (auto simp: insert_intent_def list_ex_iff)

lemma insert_order_row_Inr:
  "insert_order_row r L = Inr L' \<Longrightarrow>
   L' = L\<lparr>lg_orders := lg_orders L @ [r]\<rparr> \<and>
   o_order_id (or_order r) \<notin> (\<lambda>x. o_order_id (or_order x)) ` set (lg_orders L)"
  by (auto simp: insert_order_row_def list_ex_iff)

lemma insert_fill_Inr:
  "insert_fill r L = Inr L' \<Longrightarrow>
   L' = L\<lparr>lg_fills := lg_fills L @ [r]\<rparr> \<and>
   f_fill_id (fl_fill r) \<notin> (\<lambda>x. f_fill_id (fl_fill x)) ` set (lg_fills L) \<and>
   f_order_id (fl_fill r) \<in> (\<lambda>x. o_order_id (or_order x)) ` set (lg_orders L) \<and>
   positive_lot (f_quantity (fl_fill r))"
  unfolding insert_fill_def Let_def image_iff by (auto simp: list_ex_iff) metis

lemma insert_lot_Inr:
  "insert_lot r L = Inr L' \<Longrightarrow>
   L' = L\<lparr>lg_lots := lg_lots L @ [r]\<rparr> \<and> l_lot_id r \<notin> l_lot_id ` set (lg_lots L) \<and>
   positive_lot (l_original_quantity r) \<and> non_negative_lot (l_remaining_quantity r)"
  by (auto simp: insert_lot_def list_ex_iff)

lemma insert_consumption_Inr:
  "insert_consumption r L = Inr L' \<Longrightarrow>
   L' = L\<lparr>lg_consumptions := lg_consumptions L @ [r]\<rparr> \<and> positive_lot (c_quantity r) \<and>
   c_lot_id r \<in> l_lot_id ` set (lg_lots L)"
  unfolding insert_consumption_def image_iff by (auto simp: list_ex_iff) metis

lemma insert_receipt_Inr:
  "insert_receipt r L = Inr L' \<Longrightarrow>
   L' = L\<lparr>lg_receipts := lg_receipts L @ [r]\<rparr> \<and>
   rr_execution_id r \<notin> rr_execution_id ` set (lg_receipts L)"
  by (auto simp: insert_receipt_def list_ex_iff)

lemma insert_execution_receipt_Inr:
  assumes "insert_execution_receipt digest b request receipt L = Inr L'"
  obtains row where "L' = L\<lparr>lg_receipts := lg_receipts L @ [row]\<rparr>"
    "rr_execution_id row = r_execution_id receipt" "rr_account_id row = b_account_id b"
    "rr_request_json row = Some request" "rr_receipt_json row = Some receipt"
    "rr_execution_id row \<notin> rr_execution_id ` set (lg_receipts L)"
  using assms unfolding insert_execution_receipt_def
  by (auto split: option.splits dest!: insert_receipt_Inr)

interpretation cost_specs: keyed_table cs_cost_spec_id lg_cost_specs insert_cost_spec
  by unfold_locales (auto simp: insert_cost_spec_def list_ex_iff)

interpretation accounts: keyed_table ac_account_id lg_accounts insert_account
  by unfold_locales (auto dest!: insert_account_Inr)

interpretation intents: keyed_table ir_intent_id lg_intents insert_intent
  by unfold_locales (auto dest!: insert_intent_Inr)

interpretation orders: keyed_table "\<lambda>r. o_order_id (or_order r)" lg_orders insert_order_row
  by unfold_locales (auto dest!: insert_order_row_Inr)

interpretation fills: keyed_table "\<lambda>r. f_fill_id (fl_fill r)" lg_fills insert_fill
  by unfold_locales (auto dest!: insert_fill_Inr)

interpretation lots: keyed_table l_lot_id lg_lots insert_lot
  by unfold_locales (auto dest!: insert_lot_Inr)

interpretation receipts: keyed_table rr_execution_id lg_receipts insert_receipt
  by unfold_locales (auto dest!: insert_receipt_Inr)

text \<open>What a set of consumptions takes out of a lot.\<close>

definition taken_from :: "consumption_row list \<Rightarrow> lot_row \<Rightarrow> int" where
  "taken_from cs l = sum_by c_quantity (filter (\<lambda>c. c_lot_id c = l_lot_id l) cs)"

definition deduct :: "consumption_row list \<Rightarrow> lot_row \<Rightarrow> lot_row" where
  "deduct cs l = l\<lparr>l_remaining_quantity := l_remaining_quantity l - taken_from cs l\<rparr>"

lemma taken_from_simps [simp]:
  "taken_from [] l = 0"
  "taken_from (c # cs) l = (if c_lot_id c = l_lot_id l then c_quantity c else 0) + taken_from cs l"
  "taken_from (cs @ ds) l = taken_from cs l + taken_from ds l"
  by (simp_all add: taken_from_def)

lemma deduct_fields [simp]:
  "l_lot_id (deduct cs l) = l_lot_id l" "l_account_id (deduct cs l) = l_account_id l"
  "l_original_quantity (deduct cs l) = l_original_quantity l"
  "l_available_date (deduct cs l) = l_available_date l"
  "l_acquisition_trade_date (deduct cs l) = l_acquisition_trade_date l"
  "l_ts_code (deduct cs l) = l_ts_code l" "l_entry_signal_id (deduct cs l) = l_entry_signal_id l"
  "l_remaining_quantity (deduct cs l) = l_remaining_quantity l - taken_from cs l"
  "l_buy_executed_at (deduct cs l) = l_buy_executed_at l"
  "taken_from ds (deduct cs l) = taken_from ds l"
  by (simp_all add: deduct_def taken_from_def)

lemma deduct_Nil [simp]: "deduct [] l = l"
  by (simp add: deduct_def)

lemma deduct_deduct: "deduct ds (deduct cs l) = deduct (cs @ ds) l"
  by (simp add: deduct_def taken_from_def)

lemma deduct_other: "c_lot_id c \<noteq> l_lot_id l \<Longrightarrow> deduct [c] l = l"
  by (simp add: deduct_def)

lemma consume_lot_Inr:
  assumes "consume_lot (c_lot_id c) (c_quantity c) L = Inr L'"
  shows "L' = L\<lparr>lg_lots := map (deduct [c]) (lg_lots L)\<rparr> \<and>
    (\<forall>l \<in> set (lg_lots L'). l_lot_id l = c_lot_id c \<longrightarrow> non_negative_lot (l_remaining_quantity l))"
proof -
  let ?u = "update_where (\<lambda>l. l_lot_id l = c_lot_id c)
            (\<lambda>l. l\<lparr>l_remaining_quantity := l_remaining_quantity l - c_quantity c\<rparr>) (lg_lots L)"
  have u: "?u = map (deduct [c]) (lg_lots L)"
    by (auto simp: update_where_def deduct_def)
  from assms show ?thesis unfolding consume_lot_def Let_def u by (auto simp: list_ex_iff)
qed

lemma allocate_lots_effect:
  assumes "allocate_lots fill_id p lots remaining cost n L = Inr (remaining', cost', n', L')"
  shows "\<exists>new. L' = L\<lparr>lg_lots := map (deduct new) (lg_lots L), lg_consumptions := lg_consumptions L @ new\<rparr>
    \<and> n' = n + int (length new) \<and> sum_by c_quantity new = remaining - remaining'
    \<and> (\<forall>c \<in> set new. c_fill_id c = fill_id \<and> c_persisted_at c = p \<and> positive_lot (c_quantity c)
         \<and> (\<exists>l \<in> set lots. c_lot_id c = l_lot_id l) \<and> c_lot_id c \<in> l_lot_id ` set (lg_lots L))
    \<and> (\<forall>l \<in> set (lg_lots L). non_negative_lot (l_remaining_quantity l) \<longrightarrow>
         non_negative_lot (l_remaining_quantity (deduct new l)))"
  using assms
proof (induction fill_id p lots remaining cost n L rule: allocate_lots.induct)
  case (1 fill_id p remaining cost n L)
  then show ?case by (intro exI [of _ "[]"]) simp
next
  case (2 fill_id p lot lots remaining cost n L)
  show ?case
  proof (cases "remaining = 0")
    case True
    with 2 show ?thesis by (intro exI [of _ "[]"]) simp
  next
    case False
    let ?c = "\<lparr>c_fill_id = fill_id, c_lot_id = l_lot_id lot,
      c_quantity = min remaining (l_remaining_quantity lot),
      c_unit_cost = fixed_point (l_unit_cost lot), c_persisted_at = p\<rparr>"
    define k where "k = min remaining (l_remaining_quantity lot)"
    from 2(2) False obtain L1 L2 where
      L1: "consume_lot (l_lot_id lot) k L = Inr L1" and
      L2: "insert_consumption ?c L1 = Inr L2" and
      rest: "allocate_lots fill_id p lots (remaining - k)
        (dadd cost (dmul (l_unit_cost lot) (dof_int k))) (n + 1) L2 = Inr (remaining', cost', n', L')"
      by (auto simp: Let_def k_def)
    have e1: "L1 = L\<lparr>lg_lots := map (deduct [?c]) (lg_lots L)\<rparr>"
      and nn: "\<forall>l \<in> set (lg_lots L1). l_lot_id l = l_lot_id lot \<longrightarrow> non_negative_lot (l_remaining_quantity l)"
      using consume_lot_Inr [of ?c L L1] L1 by (auto simp: k_def)
    have e2: "L2 = L1\<lparr>lg_consumptions := lg_consumptions L1 @ [?c]\<rparr>" "positive_lot (c_quantity ?c)"
        "c_lot_id ?c \<in> l_lot_id ` set (lg_lots L1)"
      using insert_consumption_Inr [OF L2] by auto
    from "2.IH" [OF False k_def _ _ rest] L1 L2 obtain new where
      IH: "L' = L2\<lparr>lg_lots := map (deduct new) (lg_lots L2), lg_consumptions := lg_consumptions L2 @ new\<rparr>"
        "n' = n + 1 + int (length new)" "sum_by c_quantity new = remaining - k - remaining'"
        "\<forall>c \<in> set new. c_fill_id c = fill_id \<and> c_persisted_at c = p \<and> positive_lot (c_quantity c)
         \<and> (\<exists>l \<in> set lots. c_lot_id c = l_lot_id l) \<and> c_lot_id c \<in> l_lot_id ` set (lg_lots L2)"
        "\<forall>l \<in> set (lg_lots L2). non_negative_lot (l_remaining_quantity l) \<longrightarrow>
         non_negative_lot (l_remaining_quantity (deduct new l))"
      by (auto simp: k_def)
    show ?thesis
    proof (intro exI [of _ "?c # new"] conjI ballI impI)
      show "L' = L\<lparr>lg_lots := map (deduct (?c # new)) (lg_lots L), lg_consumptions := lg_consumptions L @ ?c # new\<rparr>"
        using IH(1) e1 e2(1) by (simp add: comp_def deduct_deduct)
      show "n' = n + int (length (?c # new))" using IH(2) by simp
      show "sum_by c_quantity (?c # new) = remaining - remaining'" using IH(3) by (simp add: k_def)
    next
      fix c assume "c \<in> set (?c # new)"
      then show "c_fill_id c = fill_id" "c_persisted_at c = p" "positive_lot (c_quantity c)"
          "\<exists>l \<in> set (lot # lots). c_lot_id c = l_lot_id l" "c_lot_id c \<in> l_lot_id ` set (lg_lots L)"
        using IH(4) e1 e2 by (auto simp: image_image)
    next
      fix l assume l: "l \<in> set (lg_lots L)" "non_negative_lot (l_remaining_quantity l)"
      then have "deduct [?c] l \<in> set (lg_lots L2)" using e1 e2(1) by simp
      moreover have "non_negative_lot (l_remaining_quantity (deduct [?c] l))"
        using nn l e1 by (cases "l_lot_id l = l_lot_id lot") (auto simp: deduct_other)
      ultimately have "non_negative_lot (l_remaining_quantity (deduct new (deduct [?c] l)))"
        using IH(5) by blast
      then show "non_negative_lot (l_remaining_quantity (deduct (?c # new) l))"
        by (simp add: deduct_deduct)
    qed
  qed
qed

section \<open>Effects of a fill\<close>

lemma apply_buy_Inr:
  assumes "apply_buy b intent fill trade_date available_date p cash L = Inr ((ld, cd), L')"
  obtains available fees lot accounts where "available_date = Some available" "f_total_fees fill = Some fees"
    "ld = 1" "cd = 0" "L' = L\<lparr>lg_accounts := accounts, lg_lots := lg_lots L @ [lot]\<rparr>"
    "accounts = lg_accounts (set_account_cash (b_account_id b) (dsub cash (dadd (fill_notional fill) fees)) L)"
    "l_lot_id lot = f_fill_id fill" "l_original_quantity lot = f_quantity fill"
    "l_remaining_quantity lot = f_quantity fill" "l_acquisition_trade_date lot = trade_date"
    "l_available_date lot = available" "l_lot_id lot \<notin> l_lot_id ` set (lg_lots L)"
    "positive_lot (f_quantity fill)" "l_account_id lot = b_account_id b" "l_ts_code lot = i_ts_code intent"
    "l_entry_signal_id lot = i_signal_id intent" "l_persisted_at lot = p" "l_buy_executed_at lot = f_executed_at fill"
    "l_buy_persisted_at lot = p" "l_buy_fill_sequence lot = f_sequence fill"
proof -
  from assms obtain available fees where av: "available_date = Some available" "f_total_fees fill = Some fees"
    by (auto simp: apply_buy_def split: option.splits)
  from assms show ?thesis
    unfolding apply_buy_def Let_def av
    by (auto elim!: rbind_InrE dest!: insert_lot_Inr intro!: that [OF av] simp: set_account_cash_def)
qed

lemma eligible_lots_set:
  "l \<in> set (eligible_lots b L ts_code entry trade_date) \<Longrightarrow>
   l \<in> set (lg_lots L) \<and> l_available_date l \<le> trade_date \<and> l_account_id l = b_account_id b
   \<and> l_ts_code l = ts_code \<and> l_entry_signal_id l = entry \<and> 0 < l_remaining_quantity l"
  by (auto simp: eligible_lots_def entry_lots_def)

lemma apply_sell_Inr:
  assumes "apply_sell b intent fill trade_date p cash realized L = Inr ((ld, cd), L')"
  obtains new accounts fees basis where "ld = 0" "cd = int (length new)"
    "L' = L\<lparr>lg_lots := map (deduct new) (lg_lots L), lg_consumptions := lg_consumptions L @ new,
            lg_accounts := accounts\<rparr>"
    "f_total_fees fill = Some fees"
    "accounts = lg_accounts (set_account_values (b_account_id b) (dadd cash (dsub (fill_notional fill) fees))
       (dsub (dadd realized (dsub (fill_notional fill) fees)) basis) L)"
    "sum_by c_quantity new = f_quantity fill"
    "\<forall>c \<in> set new. c_fill_id c = f_fill_id fill \<and> positive_lot (c_quantity c) \<and>
       (\<exists>l \<in> set (lg_lots L). c_lot_id c = l_lot_id l \<and> l_available_date l \<le> trade_date
          \<and> l_account_id l = b_account_id b \<and> l_ts_code l = i_ts_code intent)"
    "\<forall>l \<in> set (lg_lots L). non_negative_lot (l_remaining_quantity l) \<longrightarrow>
       non_negative_lot (l_remaining_quantity (deduct new l))"
    "\<forall>c \<in> set new. c_persisted_at c = p \<and> (\<exists>l \<in> set (lg_lots L). c_lot_id c = l_lot_id l
       \<and> Some (l_entry_signal_id l) = i_entry_signal_id intent \<and> l_account_id l = b_account_id b
       \<and> l_ts_code l = i_ts_code intent)"
proof -
  define lots where "lots = (case i_entry_signal_id intent of
                    None \<Rightarrow> []
                  | Some entry \<Rightarrow> eligible_lots b L (i_ts_code intent) entry trade_date)"
  from assms obtain basis n L1 fees where
    alloc: "allocate_lots (f_fill_id fill) p lots (f_quantity fill) dzero 0 L = Inr (0, basis, n, L1)"
    and rest: "ld = 0" "cd = n" "f_total_fees fill = Some fees"
      "L' = set_account_values (b_account_id b) (dadd cash (dsub (fill_notional fill) fees))
       (dsub (dadd realized (dsub (fill_notional fill) fees)) basis) L1"
    unfolding apply_sell_def Let_def lots_def [symmetric]
    by (auto elim!: rbind_InrE split: option.splits prod.splits)
  have lots: "l \<in> set (lg_lots L) \<and> l_available_date l \<le> trade_date \<and> l_account_id l = b_account_id b
      \<and> l_ts_code l = i_ts_code intent \<and> Some (l_entry_signal_id l) = i_entry_signal_id intent" if "l \<in> set lots" for l
    using that eligible_lots_set by (auto simp: lots_def split: option.splits)
  from allocate_lots_effect [OF alloc] obtain new where
    new: "L1 = L\<lparr>lg_lots := map (deduct new) (lg_lots L), lg_consumptions := lg_consumptions L @ new\<rparr>"
      "n = int (length new)" "sum_by c_quantity new = f_quantity fill"
      "\<forall>c \<in> set new. c_fill_id c = f_fill_id fill \<and> c_persisted_at c = p \<and> positive_lot (c_quantity c)
         \<and> (\<exists>l \<in> set lots. c_lot_id c = l_lot_id l)"
      "\<forall>l \<in> set (lg_lots L). non_negative_lot (l_remaining_quantity l) \<longrightarrow>
       non_negative_lot (l_remaining_quantity (deduct new l))"
    by auto
  have own: "\<forall>c \<in> set new. c_fill_id c = f_fill_id fill \<and> positive_lot (c_quantity c) \<and>
       (\<exists>l \<in> set (lg_lots L). c_lot_id c = l_lot_id l \<and> l_available_date l \<le> trade_date
          \<and> l_account_id l = b_account_id b \<and> l_ts_code l = i_ts_code intent)"
    using new(4) lots by blast
  have entry: "\<forall>c \<in> set new. c_persisted_at c = p \<and> (\<exists>l \<in> set (lg_lots L). c_lot_id c = l_lot_id l
       \<and> Some (l_entry_signal_id l) = i_entry_signal_id intent \<and> l_account_id l = b_account_id b
       \<and> l_ts_code l = i_ts_code intent)"
    using new(4) lots by blast
  show ?thesis
    using rest new(1,2,3,5) own entry
    by (intro that [of new "lg_accounts L'" fees basis]) (simp_all add: set_account_values_def)
qed

lemma account_values_fills [simp]: "account_values b (L\<lparr>lg_fills := x\<rparr>) = account_values b L"
  by (simp add: account_values_def find_account_def)

text \<open>What an account row is bound to for good: everything but its cash and realized profit.\<close>

definition account_binding :: "account_row \<Rightarrow> account_row" where
  "account_binding a = a\<lparr>ac_cash := dzero, ac_realized_pnl := dzero\<rparr>"

lemma account_binding_fields [simp]:
  "account_binding (a\<lparr>ac_cash := c, ac_realized_pnl := p\<rparr>) = account_binding a"
  "account_binding (a\<lparr>ac_cash := c\<rparr>) = account_binding a"
  "ac_account_id (account_binding a) = ac_account_id a" "ac_initial_cash (account_binding a) = ac_initial_cash a"
  "ac_cost_spec_id (account_binding a) = ac_cost_spec_id a"
  "ac_cost_spec_schema_version (account_binding a) = ac_cost_spec_schema_version a"
  "ac_cost_provenance_state (account_binding a) = ac_cost_provenance_state a"
  by (simp_all add: account_binding_def)

lemma account_binding_ids:
  "map account_binding xs = map account_binding ys \<Longrightarrow> map ac_account_id xs = map ac_account_id ys"
  by (drule arg_cong [of _ _ "map ac_account_id"]) (simp add: comp_def)

lemma apply_fill_cases:
  assumes "apply_fill b intent fill trade_date available_date p L = Inr ((ld, cd), L')"
  obtains (buy) available fees lot accounts cash realized where "i_side intent = BUY"
    "account_values b L = Inr (cash, realized)"
    "available_date = Some available" "f_total_fees fill = Some fees" "ld = 1" "cd = 0"
    "L' = L\<lparr>lg_fills := lg_fills L @ [stored_fill fill p], lg_accounts := accounts, lg_lots := lg_lots L @ [lot]\<rparr>"
    "accounts = lg_accounts (set_account_cash (b_account_id b) (dsub cash (dadd (fill_notional fill) fees)) L)"
    "l_lot_id lot = f_fill_id fill" "l_original_quantity lot = f_quantity fill"
    "l_remaining_quantity lot = f_quantity fill" "l_acquisition_trade_date lot = trade_date"
    "l_available_date lot = available" "l_lot_id lot \<notin> l_lot_id ` set (lg_lots L)"
    "positive_lot (f_quantity fill)" "l_account_id lot = b_account_id b" "l_ts_code lot = i_ts_code intent"
    "l_entry_signal_id lot = i_signal_id intent" "l_persisted_at lot = p" "l_buy_executed_at lot = f_executed_at fill"
    "l_buy_persisted_at lot = p" "l_buy_fill_sequence lot = f_sequence fill"
  | (sell) new accounts where "i_side intent = SELL" "ld = 0" "cd = int (length new)"
    "L' = L\<lparr>lg_fills := lg_fills L @ [stored_fill fill p], lg_lots := map (deduct new) (lg_lots L),
            lg_consumptions := lg_consumptions L @ new, lg_accounts := accounts\<rparr>"
    "sum_by c_quantity new = f_quantity fill"
    "\<forall>c \<in> set new. c_fill_id c = f_fill_id fill \<and> positive_lot (c_quantity c) \<and>
       (\<exists>l \<in> set (lg_lots L). c_lot_id c = l_lot_id l \<and> l_available_date l \<le> trade_date
          \<and> l_account_id l = b_account_id b \<and> l_ts_code l = i_ts_code intent)"
    "\<forall>l \<in> set (lg_lots L). non_negative_lot (l_remaining_quantity l) \<longrightarrow>
       non_negative_lot (l_remaining_quantity (deduct new l))"
    "map account_binding accounts = map account_binding (lg_accounts L)"
    "\<forall>c \<in> set new. c_persisted_at c = p \<and> (\<exists>l \<in> set (lg_lots L). c_lot_id c = l_lot_id l
       \<and> Some (l_entry_signal_id l) = i_entry_signal_id intent \<and> l_account_id l = b_account_id b
       \<and> l_ts_code l = i_ts_code intent)"
proof -
  from assms obtain L1 cash realized where
    ins: "insert_fill (stored_fill fill p) L = Inr L1" and acc: "account_values b L1 = Inr (cash, realized)"
    and rest: "(if i_side intent = BUY then apply_buy b intent fill trade_date available_date p cash L1
       else apply_sell b intent fill trade_date p cash realized L1) = Inr ((ld, cd), L')"
    unfolding apply_fill_def by (elim rbind_InrE) auto
  have L1_def: "L1 = L\<lparr>lg_fills := lg_fills L @ [stored_fill fill p]\<rparr>"
    using insert_fill_Inr [OF ins] by simp
  show ?thesis
  proof (cases "i_side intent")
    case BUY
    with rest have "apply_buy b intent fill trade_date available_date p cash L1 = Inr ((ld, cd), L')" by simp
    then show ?thesis
      by (rule apply_buy_Inr) (use BUY acc in \<open>simp add: L1_def buy set_account_cash_def\<close>)
  next
    case SELL
    with rest have "apply_sell b intent fill trade_date p cash realized L1 = Inr ((ld, cd), L')" by simp
    then show ?thesis
    proof (cases rule: apply_sell_Inr)
      case (1 new accounts fees basis)
      with SELL show ?thesis
        by (intro sell [of new accounts]) (simp_all add: L1_def set_account_values_def map_update_where)
    qed
  qed
qed

lemma apply_fill_fill:
  assumes "apply_fill b intent fill trade_date available_date p L = Inr (d, L')"
  shows "f_fill_id fill \<notin> (\<lambda>x. f_fill_id (fl_fill x)) ` set (lg_fills L)"
    "f_order_id fill \<in> (\<lambda>x. o_order_id (or_order x)) ` set (lg_orders L)" "positive_lot (f_quantity fill)"
  using assms unfolding apply_fill_def
  by (auto elim!: rbind_InrE dest!: insert_fill_Inr simp: stored_fill_def)

lemma stored_fill_fields [simp]:
  "f_fill_id (fl_fill (stored_fill f p)) = f_fill_id f" "f_order_id (fl_fill (stored_fill f p)) = f_order_id f"
  "f_quantity (fl_fill (stored_fill f p)) = f_quantity f" "f_sequence (fl_fill (stored_fill f p)) = f_sequence f"
  "f_executed_at (fl_fill (stored_fill f p)) = f_executed_at f" "fl_persisted_at (stored_fill f p) = p"
  "f_execution_id (fl_fill (stored_fill f p)) = f_execution_id f"
  by (simp_all add: stored_fill_def)

lemma apply_fill_frame:
  assumes "apply_fill b intent fill trade_date available_date p L = Inr ((ld, cd), L')"
  shows "lg_fills L' = lg_fills L @ [stored_fill fill p]" "lg_orders L' = lg_orders L"
    "lg_intents L' = lg_intents L" "lg_receipts L' = lg_receipts L" "lg_attestations L' = lg_attestations L"
    "lg_heads L' = lg_heads L" "lg_cost_specs L' = lg_cost_specs L" "lg_authorities L' = lg_authorities L"
    "map account_binding (lg_accounts L') = map account_binding (lg_accounts L)"
    "lg_tamper_ids L' = lg_tamper_ids L" "lg_schema L' = lg_schema L"
    "int (length (lg_lots L')) = int (length (lg_lots L)) + ld"
    "int (length (lg_consumptions L')) = int (length (lg_consumptions L)) + cd"
  using assms by (cases rule: apply_fill_cases; simp add: set_account_cash_def map_update_where)+

section \<open>Validated orders and fills\<close>

text \<open>
  What the order validator establishes, apart from the shape of the texts and the sign of the
  average price.
\<close>

definition order_ok :: "digest \<Rightarrow> paper_order \<Rightarrow> bool" where
  "order_ok digest r \<longleftrightarrow>
     positive_lot (o_quantity r) \<and> non_negative_lot (o_filled_quantity r)
     \<and> o_filled_quantity r \<le> o_quantity r \<and> o_created_at r \<le> o_updated_at r
     \<and> ((0 < o_filled_quantity r) \<longleftrightarrow> o_average_fill_price r \<noteq> None)
     \<and> list_all (\<lambda>(bad, e). \<not> bad) (order_status_checks r)
     \<and> (o_status r = REJECTED \<or> o_reject_reason r = None)
     \<and> o_order_id r = order_identity digest (o_account_id r) (o_intent_id r)"

lemma order_status_checks_id [simp]: "order_status_checks (r\<lparr>o_order_id := i\<rparr>) = order_status_checks r"
  by (cases "o_status r") (simp_all add: order_status_checks_def)

lemma make_order_Inr:
  assumes "make_order digest supplied r0 = Inr r"
  shows "r = r0\<lparr>o_order_id := order_identity digest (o_account_id r0) (o_intent_id r0)\<rparr>" "order_ok digest r"
    "supplied = None \<or> supplied = Some (o_order_id r)"
  using assms unfolding make_order_def Let_def
  by (auto elim!: rbind_InrE simp: order_ok_def order_fields_def)

lemma order_from_row_Inr:
  assumes "order_from_row digest row = Inr r"
  shows "r = or_order row" "order_ok digest r"
  using make_order_Inr [OF assms [unfolded order_from_row_def]] by auto

lemma new_order_Inr:
  assumes "new_order digest b intent t status reason n price = Inr r"
  shows "order_ok digest r" "o_intent_id r = i_intent_id intent" "o_account_id r = b_account_id b"
    "o_filled_quantity r = n" "o_quantity r = i_quantity intent" "o_side r = i_side intent"
    "o_created_at r = t" "o_updated_at r = t" "o_status r = (if reason \<noteq> None then REJECTED else status)"
    "o_ts_code r = i_ts_code intent" "o_reject_reason r = reason" "o_average_fill_price r = price"
    "o_order_type r = i_order_type intent"
  using make_order_Inr(1,2) [OF assms [unfolded new_order_def]] by simp_all

lemma make_fill_Inr:
  assumes "make_fill digest supplied f0 = Inr f"
  shows "f = f0\<lparr>f_fill_id := fill_identity digest (f_order_id f0) (f_execution_id f0)\<rparr>"
    "supplied = None \<or> supplied = Some (f_fill_id f)"
  using assms unfolding make_fill_def Let_def validate_cost_provenance_def
  by (auto elim!: rbind_InrE split: if_splits option.splits)

lemma new_fill_Inr:
  assumes "new_fill digest order_id execution_id sequence quantity c t snapshot = Inr f"
  shows "f_order_id f = order_id" "f_execution_id f = execution_id" "f_sequence f = sequence"
    "f_quantity f = quantity" "f_price f = cc_executed_price c" "f_total_fees f = Some (cc_total_fees c)"
    "f_executed_at f = t" "f_fill_id f = fill_identity digest order_id execution_id"
    "f_price_snapshot_id f = snapshot"
  using make_fill_Inr(1) [OF assms [unfolded new_fill_def]] by simp_all

section \<open>Evaluating an intent\<close>

text \<open>What lets an intent be filled: the cash of a buy, the available position of a sell.\<close>

definition covered ::
  "broker \<Rightarrow> ledger \<Rightarrow> order_intent \<Rightarrow> day \<Rightarrow> day option \<Rightarrow> cost_calculation \<Rightarrow> int \<Rightarrow> bool" where
  "covered b L intent trade_date available_date costs quantity \<longleftrightarrow>
     (if i_side intent = BUY
      then (\<exists>available cash realized. available_date = Some available \<and> trade_date < available
             \<and> account_values b L = Inr (cash, realized)
             \<and> \<not> dlt cash (dadd (cc_executed_notional costs) (cc_total_fees costs)))
      else (\<exists>entry. i_entry_signal_id intent = Some entry \<and>
             quantity \<le> snd (position_quantities b L (i_ts_code intent) entry trade_date)))"

lemma position_reason_None:
  "position_reason b L intent trade_date quote costs quantity = Inr None \<Longrightarrow>
   covered b L intent trade_date (q_acquisition_available_date quote) costs quantity"
  by (auto simp: position_reason_def covered_def split: option.splits if_splits prod.splits elim!: rbind_InrE)

lemma evaluate_intent_cases:
  assumes "evaluate_intent digest b L intent execution_id t trade_date quote costs = Inr (r, fill)"
  obtains (unfilled) "fill = None" "order_ok digest r" "o_filled_quantity r = 0"
      "o_status r = ACCEPTED \<or> o_status r = REJECTED"
      "o_account_id r = b_account_id b" "o_intent_id r = i_intent_id intent" "o_created_at r = t"
      "o_side r = i_side intent" "o_ts_code r = i_ts_code intent"
      "o_quantity r = i_quantity intent" "o_order_type r = i_order_type intent"
  | (filled) f where "fill = Some f" "order_ok digest r" "f_order_id f = o_order_id r" "f_sequence f = 1"
      "f_quantity f = o_filled_quantity r" "f_executed_at f = t" "o_created_at r = t" "o_updated_at r = t"
      "oi_quantity (cc_order_input costs) = f_quantity f" "f_price f = cc_executed_price costs"
      "f_total_fees f = Some (cc_total_fees costs)" "f_execution_id f = execution_id"
      "covered b L intent trade_date (q_acquisition_available_date quote) costs (f_quantity f)"
      "f_fill_id f = fill_identity digest (o_order_id r) execution_id"
      "o_account_id r = b_account_id b" "o_intent_id r = i_intent_id intent"
      "o_side r = i_side intent" "o_ts_code r = i_ts_code intent"
      "o_quantity r = i_quantity intent" "o_order_type r = i_order_type intent"
proof -
  define n where "n = (case q_executable_quantity quote of None \<Rightarrow> i_quantity intent | Some n \<Rightarrow> n)"
  note E = assms [unfolded evaluate_intent_def Let_def, folded n_def]
  have none: ?thesis if "rbind (new_order digest b intent t ACCEPTED rs 0 None) (\<lambda>r. Inr (r, None)) = Inr (r, fill)" for rs
  proof -
    from that have "new_order digest b intent t ACCEPTED rs 0 None = Inr r" "fill = None"
      by (auto elim: rbind_InrE)
    then show ?thesis by (intro unfilled) (simp_all add: new_order_Inr)
  qed
  have some: ?thesis
    if "oi_quantity (cc_order_input costs) = n"
      "position_reason b L intent trade_date quote costs n = Inr None"
      "rbind (new_order digest b intent t st None n (Some (cc_executed_price costs))) (\<lambda>filled.
        rbind (new_fill digest (o_order_id filled) execution_id 1 n costs t (i_price_snapshot_id intent))
          (\<lambda>fill. Inr (filled, Some fill))) = Inr (r, fill)" for st
  proof -
    from that(3) obtain f where r: "new_order digest b intent t st None n (Some (cc_executed_price costs)) = Inr r"
      and f: "new_fill digest (o_order_id r) execution_id 1 n costs t (i_price_snapshot_id intent) = Inr f"
      and "fill = Some f"
      by (elim rbind_InrE) auto
    with that(1) position_reason_None [OF that(2)] show ?thesis
      by (intro filled [of f]) (simp_all add: new_order_Inr [OF r] new_fill_Inr [OF f])
  qed
  show ?thesis
  proof (cases "gate_reason quote t intent")
    case (Some reason)
    with E show ?thesis by (intro none [of "Some reason"]) simp
  next
    case None
    show ?thesis
    proof (cases "t < i_earliest_execution_at intent")
      case True
      with None E show ?thesis by (intro none [of None]) simp
    next
      case False
      with None E obtain missed where "misses_limit intent (cc_executed_price costs) = Inr missed"
        by (auto elim: rbind_InrE)
      note E' = E [simplified None option.case False if_False this rbind_simps]
      show ?thesis
      proof (cases "missed \<or> n = 0")
        case True
        with E' show ?thesis by (intro none [of None]) (simp split: if_splits)
      next
        case False
        with E' obtain reason where reason: "position_reason b L intent trade_date quote costs n = Inr reason"
          and q: "oi_quantity (cc_order_input costs) = n" by (auto elim: rbind_InrE)
        note E'' = E' [simplified reason rbind_simps]
        show ?thesis
        proof (cases reason)
          case None
          with E'' q False show ?thesis
            by (intro some [OF q reason [unfolded None], of "if n = i_quantity intent then FILLED else PARTIALLY_FILLED"])
               (simp del: rbind_eq_Inr)
        next
          case (Some x)
          with E'' q False show ?thesis by (intro none [of "Some x"]) simp
        qed
      qed
    qed
  qed
qed

section \<open>The three operations\<close>

text \<open>A ledger with the same accounting rows: only the chain of attestations may differ.\<close>

lemma persist_intent_Inr:
  assumes "persist_intent digest now b intent execution_id t p trade_date quote costs request L = Inr (r, L')"
  obtains row evaluated fill L1 L2 L3 L4 ld cd receipt e where
    "insert_intent row L = Inr L1" "ir_intent_id row = i_intent_id intent"
    "ir_payload_json row = Some intent" "ir_initial_execution_id row = execution_id"
    "ir_initial_execution_request_fingerprint row = canonical_sha256 digest request"
    "evaluate_intent digest b L1 intent execution_id t trade_date quote costs = Inr (evaluated, fill)"
    "r = (if fill \<noteq> None \<and> o_updated_at evaluated < p then evaluated\<lparr>o_updated_at := p\<rparr> else evaluated)"
    "insert_order r intent L1 = Inr L2"
    "(case fill of None \<Rightarrow> Inr ((0, 0), L2)
      | Some f \<Rightarrow> apply_fill b intent f trade_date (q_acquisition_available_date quote) p L2) = Inr ((ld, cd), L3)"
    "execution_receipt_with_cost digest execution_id (canonical_sha256 digest request) (i_intent_id intent) r fill
       costs p = Inr receipt"
    "insert_execution_receipt digest b request receipt L3 = Inr L4"
    "append_ledger_attestation digest now ''intent_execution'' e
       (no_counts\<lparr>n_intent := 1, n_order := 1, n_fill := (if fill = None then 0 else 1),
          n_lot := ld, n_consumption := cd, n_receipt := 1\<rparr>) L4 = Inr L'"
    "ir_signal_id row = i_signal_id intent" "ir_entry_signal_id row = i_entry_signal_id intent"
    "ir_ts_code row = i_ts_code intent" "ir_side row = i_side intent"
  using assms unfolding persist_intent_def Let_def
  by (elim rbind_InrE; clarsimp elim!: rbind_InrE simp del: rbind_eq_Inr) 

lemma submit_intent_cases:
  assumes "submit_intent digest now b intent supplied t persisted trade_date quote L = Inr (r, L')"
  obtains execution_id p costs request where "p = (case persisted of None \<Rightarrow> t | Some p \<Rightarrow> p)"
      "t \<le> p" "i_account_id intent = b_account_id b" "trade_date = shanghai_date t"
      "resolve_execution_id digest intent supplied t p = Inr execution_id"
      "execution_costs digest b (i_side intent) (q_executable_price quote)
         (case q_executable_quantity quote of
            None \<Rightarrow> i_quantity intent | Some n \<Rightarrow> if n = 0 then i_quantity intent else n)
         (q_instrument_context quote) = Inr costs"
      "request = initial_request digest execution_id (i_intent_id intent) t p trade_date quote costs"
      "require_execution_ready digest b L = Inr ()"
    "(\<exists>existing. select_one (\<lambda>r. ir_intent_id r = i_intent_id intent) (lg_intents L) = Some existing \<and>
        replay_intent digest b L intent execution_id (canonical_sha256 digest request) existing = Inr r \<and> L' = L)
     \<or> (select_one (\<lambda>r. ir_intent_id r = i_intent_id intent) (lg_intents L) = None \<and>
        find_execution_receipt digest b L execution_id = Inr None \<and>
        persist_intent digest now b intent execution_id t p trade_date quote costs request L = Inr (r, L'))"
  using assms unfolding submit_intent_def Let_def
  by (elim rbind_InrE) (clarsimp elim!: rbind_InrE simp del: rbind_eq_Inr split: option.splits)

lemma persist_execution_Inr:
  assumes "persist_execution digest now b r intent execution_id sequence t p trade_date quantity quote
      snapshot costs request L = Inr L'"
  obtains fill ld cd L1 average L2 updated receipt L3 e where
    "new_fill digest (o_order_id r) execution_id sequence quantity costs t snapshot = Inr fill"
    "apply_fill b intent fill trade_date (q_acquisition_available_date quote) p L = Inr ((ld, cd), L1)"
    "average_fill_price b L1 (o_order_id r) (cc_executed_price costs) quantity (o_filled_quantity r + quantity)
       = Inr average"
    "updated = r\<lparr>o_filled_quantity := o_filled_quantity r + quantity, o_average_fill_price := Some average,
       o_status := (if o_filled_quantity r + quantity = o_quantity r then FILLED else PARTIALLY_FILLED),
       o_reject_reason := None, o_updated_at := max (o_updated_at r) p\<rparr>"
    "L2 = update_order_row (o_order_id r)
       (\<lambda>x. x\<lparr>o_filled_quantity := o_filled_quantity updated,
          o_average_fill_price := Some (fixed_point average), o_status := o_status updated,
          o_reject_reason := None, o_updated_at := o_updated_at updated\<rparr>) L1"
    "execution_receipt_with_cost digest execution_id (canonical_sha256 digest request) (i_intent_id intent)
       updated (Some fill) costs p = Inr receipt"
    "insert_execution_receipt digest b request receipt L2 = Inr L3"
    "append_ledger_attestation digest now ''incremental_execution'' e
       (no_counts\<lparr>n_fill := 1, n_lot := ld, n_consumption := cd, n_receipt := 1\<rparr>) L3 = Inr L'"
  using assms unfolding persist_execution_def Let_def
  by (elim rbind_InrE) (clarsimp elim!: rbind_InrE simp del: rbind_eq_Inr)

lemma execution_transaction_cases:
  assumes "execution_transaction digest now b order_id execution_id t p trade_date quantity quote snapshot
      side costs request L = Inr (known, L')"
  obtains (replay) receipt where "L' = L" "known = Some receipt"
      "find_execution_receipt digest b L execution_id = Inr (Some receipt)" "o_order_id (r_order receipt) = order_id"
      "r_request_fingerprint receipt = canonical_sha256 digest request"
  | (applied) row r i intent sequence previous where
      "known = None" "i_side intent = side"
      "require_execution_ready digest b L = Inr ()" "find_execution_receipt digest b L execution_id = Inr None"
      "find_order b L order_id = Some row" "order_from_row digest row = Inr r"
      "select_one (\<lambda>x. ir_intent_id x = o_intent_id r) (lg_intents L) = Some i"
      "load_intent digest (ir_payload_json i) = Inr intent" "is_open (o_status r)"
      "incremental_fill_timeline L r = Inr (sequence, previous)"
      "check_incremental b L r intent previous t p trade_date quantity quote costs = Inr ()"
      "persist_execution digest now b r intent execution_id sequence t p trade_date quantity quote snapshot
         costs request L = Inr L'"
proof -
  from assms obtain k where known: "find_execution_receipt digest b L execution_id = Inr k"
    and ready: "require_execution_ready digest b L = Inr ()"
    unfolding execution_transaction_def by (auto elim: rbind_InrE)
  note E = assms [unfolded execution_transaction_def ready known rbind_simps]
  show ?thesis
  proof (cases k)
    case None
    with E obtain row where row: "find_order b L order_id = Some row" by (auto split: option.splits)
    from E obtain r where r: "order_from_row digest row = Inr r"
      unfolding None row option.case by (auto elim: rbind_InrE)
    from E obtain i where i: "select_one (\<lambda>x. ir_intent_id x = o_intent_id r) (lg_intents L) = Some i"
      unfolding None row option.case r rbind_simps by (auto split: option.splits)
    from E show ?thesis
      unfolding None row option.case r rbind_simps i
      by (clarsimp simp del: rbind_eq_Inr elim!: rbind_InrE)
         (rule applied [OF _ _ ready known [unfolded None] row r i], simp_all)
  next
    case (Some receipt)
    with E known show ?thesis by (intro replay) auto
  qed
qed

lemma apply_execution_cases:
  assumes "apply_execution digest now b order_id execution_id t trade_date quantity quote snapshot persisted L
      = Inr (result, L')"
  obtains p side costs request known where
      "p = (case persisted of None \<Rightarrow> t | Some p \<Rightarrow> p)" "t \<le> p" "trade_date = shanghai_date t"
      "is_sha256 execution_id" "positive_lot quantity" "is_sha256 snapshot"
      "execution_costs digest b side (q_executable_price quote) quantity (q_instrument_context quote) = Inr costs"
      "request = incremental_request digest execution_id order_id t p trade_date quantity quote snapshot costs"
      "execution_transaction digest now b order_id execution_id t p trade_date quantity quote snapshot side costs
         request L = Inr (known, L')"
      "result = (case known of Some receipt \<Rightarrow> Inr receipt
        | None \<Rightarrow> rbind (execution digest b L' execution_id)
           (\<lambda>x. case x of None \<Rightarrow> Inl AssertionError | Some receipt \<Rightarrow> Inr receipt))"
  using assms unfolding apply_execution_def Let_def
  by (elim rbind_InrE) (clarsimp simp: check_execution_id_def simp del: rbind_eq_Inr split: if_splits option.splits)

lemma close_open_order_cases:
  assumes "close_open_order digest now b order_id status t persisted L = Inr (result, L')"
  obtains p row r i intent previous n L1 e where "p = (case persisted of None \<Rightarrow> t | Some p \<Rightarrow> p)" "t \<le> p"
    "status = CANCELLED \<or> status = EXPIRED" "require_execution_ready digest b L = Inr ()"
    "find_order b L order_id = Some row" "order_from_row digest row = Inr r" "is_open (o_status r)"
    "incremental_fill_timeline L r = Inr (n, previous)"
    "select_one (\<lambda>x. ir_intent_id x = o_intent_id r) (lg_intents L) = Some i"
    "load_intent digest (ir_payload_json i) = Inr intent" "status = EXPIRED \<longrightarrow> i_expires_at intent \<le> t"
    "L1 = update_order_row order_id
       (\<lambda>x. x\<lparr>o_status := status, o_updated_at := max (o_updated_at r) p\<rparr>) L"
    "append_ledger_attestation digest now ''order_close'' e no_counts L1 = Inr L'"
    "result = rbind (order_for_id digest b L' order_id)
       (\<lambda>x. case x of None \<Rightarrow> Inl AssertionError | Some y \<Rightarrow> Inr y)"
proof -
  define p where "p = (case persisted of None \<Rightarrow> t | Some p \<Rightarrow> p)"
  note E = assms [unfolded close_open_order_def Let_def, folded p_def]
  from E obtain row where ready: "t \<le> p" "status = CANCELLED \<or> status = EXPIRED"
      "require_execution_ready digest b L = Inr ()"
    and row: "find_order b L order_id = Some row" by (auto elim!: rbind_InrE split: option.splits)
  from E obtain r n previous where r: "order_from_row digest row = Inr r" "is_open (o_status r)"
      "incremental_fill_timeline L r = Inr (n, previous)"
    unfolding row option.case by (auto elim!: rbind_InrE)
  from E obtain i where i: "select_one (\<lambda>x. ir_intent_id x = o_intent_id r) (lg_intents L) = Some i"
    unfolding row option.case r rbind_simps by (auto elim!: rbind_InrE split: option.splits)
  from E show ?thesis
    unfolding row option.case r rbind_simps i
    by (clarsimp simp del: rbind_eq_Inr elim!: rbind_InrE)
       (rule that [OF p_def ready row r i _ _ refl], assumption, simp_all add: not_less)
qed

end
