(* ===== verification/Broker_Invariants.thy ===== *)
theory Broker_Invariants
  imports Broker_Effects
begin

text \<open>
  The invariants of the paper ledger and that every operation keeps them: shares are neither
  created nor lost by a lot's consumptions, nothing is sold before it settles, every order agrees
  with its fills, and the attested counts are the sizes of the tables. The operations form a step
  relation on ledgers, and the invariants hold in every ledger reachable from one that has them.
\<close>

section \<open>Lots\<close>

definition lots_ok :: "ledger \<Rightarrow> bool" where
  "lots_ok L \<longleftrightarrow>
     distinct (map l_lot_id (lg_lots L))
     \<and> (\<forall>l \<in> set (lg_lots L). positive_lot (l_original_quantity l) \<and> non_negative_lot (l_remaining_quantity l)
          \<and> l_remaining_quantity l + taken_from (lg_consumptions L) l = l_original_quantity l
          \<and> l_acquisition_trade_date l < l_available_date l)
     \<and> (\<forall>c \<in> set (lg_consumptions L). c_lot_id c \<in> l_lot_id ` set (lg_lots L) \<and> positive_lot (c_quantity c))"

definition settled :: "ledger \<Rightarrow> bool" where
  "settled L \<longleftrightarrow> (\<forall>c \<in> set (lg_consumptions L). \<exists>l \<in> set (lg_lots L). \<exists>f \<in> set (lg_fills L).
     l_lot_id l = c_lot_id c \<and> f_fill_id (fl_fill f) = c_fill_id c
     \<and> l_available_date l \<le> shanghai_date (f_executed_at (fl_fill f)))"

lemma lots_ok_cong: "lg_lots L' = lg_lots L \<Longrightarrow> lg_consumptions L' = lg_consumptions L \<Longrightarrow> lots_ok L' = lots_ok L"
  by (simp add: lots_ok_def)

lemma settled_cong:
  "lg_lots L' = lg_lots L \<Longrightarrow> lg_consumptions L' = lg_consumptions L \<Longrightarrow> lg_fills L' = lg_fills L \<Longrightarrow>
   settled L' = settled L"
  by (simp add: settled_def)

lemma taken_from_fresh:
  assumes "\<forall>c \<in> set cs. c_lot_id c \<in> l_lot_id ` set ls" "l_lot_id l \<notin> l_lot_id ` set ls"
  shows "taken_from cs l = 0"
proof -
  have "filter (\<lambda>c. c_lot_id c = l_lot_id l) cs = []" using assms unfolding filter_empty_conv by (metis (no_types, lifting))
  then show ?thesis by (simp add: taken_from_def)
qed

lemma positive_non_negative_lot: "positive_lot n \<Longrightarrow> non_negative_lot n"
  by (simp add: positive_lot_def non_negative_lot_def)

lemma apply_fill_lots_ok:
  assumes "apply_fill b intent fill trade_date available_date p L = Inr ((ld, cd), L')" "lots_ok L"
    and "i_side intent = BUY \<longrightarrow> (\<exists>a. available_date = Some a \<and> trade_date < a)"
  shows "lots_ok L'"
  using assms(1)
proof (cases rule: apply_fill_cases)
  case (buy available fees lot accounts cash realized)
  have "taken_from (lg_consumptions L) lot = 0"
    using assms(2) buy(14) by (intro taken_from_fresh) (auto simp: lots_ok_def)
  then show ?thesis
    using assms(2,3) buy by (auto simp: lots_ok_def positive_non_negative_lot)
next
  case (sell new accounts)
  have "c_lot_id c \<in> l_lot_id ` set (lg_lots L) \<and> positive_lot (c_quantity c)" if "c \<in> set new" for c
    using sell(6) that by fastforce
  then show ?thesis
    using assms(2) sell(4,7) by (auto simp: lots_ok_def image_image comp_def)
qed

lemma apply_fill_settled:
  assumes "apply_fill b intent fill trade_date available_date p L = Inr ((ld, cd), L')" "settled L"
    and "trade_date = shanghai_date (f_executed_at fill)"
  shows "settled L'"
  using assms(1)
proof (cases rule: apply_fill_cases)
  case (buy available fees lot accounts cash realized)
  then show ?thesis using assms(2) unfolding settled_def by fastforce
next
  case (sell new accounts)
  show ?thesis
    unfolding settled_def
  proof
    fix c assume "c \<in> set (lg_consumptions L')"
    then consider "c \<in> set (lg_consumptions L)" | "c \<in> set new" using sell(4) by auto
    then show "\<exists>l \<in> set (lg_lots L'). \<exists>f \<in> set (lg_fills L'). l_lot_id l = c_lot_id c
        \<and> f_fill_id (fl_fill f) = c_fill_id c \<and> l_available_date l \<le> shanghai_date (f_executed_at (fl_fill f))"
    proof cases
      case 1
      then show ?thesis using assms(2) sell(4) unfolding settled_def by fastforce
    next
      case 2
      with sell(6) obtain l where "l \<in> set (lg_lots L)" "c_lot_id c = l_lot_id l" "l_available_date l \<le> trade_date"
        "c_fill_id c = f_fill_id fill" by blast
      then show ?thesis
        using sell(4) assms(3) by (intro bexI [of _ "deduct new l"] bexI [of _ "stored_fill fill p"]) auto
    qed
  qed
qed

section \<open>Orders and their fills\<close>

definition fill_rows :: "fill_row list \<Rightarrow> string \<Rightarrow> fill_row list" where
  "fill_rows fills order_id = filter (\<lambda>x. f_order_id (fl_fill x) = order_id) fills"

definition timeline_ok :: "fill_row list \<Rightarrow> paper_order \<Rightarrow> bool" where
  "timeline_ok rows r \<longleftrightarrow>
     map (\<lambda>x. f_sequence (fl_fill x)) rows = map int [1..<Suc (length rows)]
     \<and> sum_by (\<lambda>x. f_quantity (fl_fill x)) rows = o_filled_quantity r
     \<and> (\<exists>previous. check_timeline (o_order_id r) (o_updated_at r) None rows = Inr previous)"

definition orders_ok :: "digest \<Rightarrow> order_row list \<Rightarrow> fill_row list \<Rightarrow> bool" where
  "orders_ok digest orders fills \<longleftrightarrow>
     distinct (map (\<lambda>r. o_order_id (or_order r)) orders)
     \<and> (\<forall>r \<in> set orders. order_ok digest (or_order r) \<and>
          timeline_ok (fill_rows fills (o_order_id (or_order r))) (or_order r))
     \<and> (\<forall>f \<in> set fills. f_order_id (fl_fill f) \<in> (\<lambda>r. o_order_id (or_order r)) ` set orders)"

lemma fill_rows_append [simp]: "fill_rows (xs @ ys) i = fill_rows xs i @ fill_rows ys i"
  by (simp add: fill_rows_def)

lemma fill_rows_single [simp]: "fill_rows [f] i = (if f_order_id (fl_fill f) = i then [f] else [])"
  by (simp add: fill_rows_def)

lemma rbind_assoc: "rbind (rbind m f) g = rbind m (\<lambda>x. rbind (f x) g)"
  by (cases m) simp_all

lemma check_timeline_append:
  "check_timeline i u previous (xs @ ys) = rbind (check_timeline i u previous xs) (\<lambda>p. check_timeline i u p ys)"
  by (induction xs arbitrary: previous) (simp_all add: Let_def rbind_assoc)

lemma check_timeline_mono:
  "check_timeline i u previous xs = Inr q \<Longrightarrow> u \<le> v \<Longrightarrow> check_timeline i v previous xs = Inr q"
  by (induction xs arbitrary: previous) (auto simp: Let_def)

lemma order_fills_sorted:
  assumes "map (\<lambda>x. f_sequence (fl_fill x)) (fill_rows (lg_fills L) i) = map int [1..<Suc (length (fill_rows (lg_fills L) i))]"
  shows "order_fills L i = fill_rows (lg_fills L) i"
proof -
  let ?rows = "fill_rows (lg_fills L) i"
  have "f_sequence (fl_fill (?rows ! j)) = int (Suc j)" if "j < length ?rows" for j
    using arg_cong [OF assms, of "\<lambda>xs. xs ! j"] that by (simp del: upt_Suc)
  then have "sorted (map (\<lambda>r. (f_sequence (fl_fill r), f_fill_id (fl_fill r))) ?rows)"
    by (simp add: sorted_iff_nth_mono_less less_eq_prod_def)
  then show ?thesis by (simp add: order_fills_def fill_rows_def sorted_sort_id sort_key_id_if_sorted)
qed

lemma timeline_extend:
  assumes "timeline_ok rows r" "check_timeline (o_order_id r) (o_updated_at r) None rows = Inr previous"
    and "f_sequence (fl_fill g) = int (length rows) + 1" "f_executed_at (fl_fill g) \<le> fl_persisted_at g"
    and "opt_all (\<lambda>(e, p). e \<le> f_executed_at (fl_fill g)) previous"
      "opt_all (\<lambda>(e, p). p \<le> fl_persisted_at g) previous"
    and "o_order_id r' = o_order_id r" "o_filled_quantity r' = o_filled_quantity r + f_quantity (fl_fill g)"
      "o_updated_at r \<le> o_updated_at r'" "fl_persisted_at g \<le> o_updated_at r'"
  shows "timeline_ok (rows @ [g]) r'"
proof -
  have "check_timeline (o_order_id r') (o_updated_at r') None (rows @ [g])
      = Inr (Some (f_executed_at (fl_fill g), fl_persisted_at g))"
    unfolding check_timeline_append assms(7) check_timeline_mono [OF assms(2,9)]
    using assms by (simp add: Let_def)
  with assms show ?thesis unfolding timeline_ok_def by simp
qed

lemma timeline_first:
  assumes "f_sequence (fl_fill g) = 1" "f_executed_at (fl_fill g) \<le> fl_persisted_at g"
    and "o_filled_quantity r = f_quantity (fl_fill g)" "fl_persisted_at g \<le> o_updated_at r"
  shows "timeline_ok [g] r"
  using assms by (simp add: timeline_ok_def Let_def opt_all_def)

lemma timeline_update:
  assumes "timeline_ok rows r" "o_order_id r' = o_order_id r" "o_filled_quantity r' = o_filled_quantity r"
    "o_updated_at r \<le> o_updated_at r'"
  shows "timeline_ok rows r'"
  using assms check_timeline_mono unfolding timeline_ok_def by metis

lemma orders_ok_row:
  assumes "orders_ok digest orders fills" "row \<in> set orders" "x \<in> set orders"
    "o_order_id (or_order x) = o_order_id (or_order row)"
  shows "x = row"
  using assms unfolding orders_ok_def by (metis (no_types, lifting) distinct_map inj_on_eq_iff)

lemma orders_ok_insert:
  assumes "orders_ok digest orders fills" "order_ok digest (or_order r)"
    and "o_order_id (or_order r) \<notin> (\<lambda>x. o_order_id (or_order x)) ` set orders"
    and "\<forall>g \<in> set new. f_order_id (fl_fill g) = o_order_id (or_order r)" "timeline_ok new (or_order r)"
  shows "orders_ok digest (orders @ [r]) (fills @ new)"
proof -
  let ?i = "o_order_id (or_order r)"
  have "fill_rows fills ?i = []"
    using assms(1,3) unfolding orders_ok_def fill_rows_def filter_empty_conv by (metis (no_types, lifting))
  moreover have "fill_rows new ?i = new" using assms(4) by (simp add: fill_rows_def)
  moreover have "fill_rows new (o_order_id (or_order x)) = []" if "x \<in> set orders" for x
    using assms(3,4) that by (force simp: fill_rows_def filter_empty_conv)
  ultimately show ?thesis using assms unfolding orders_ok_def by auto
qed

lemma orders_ok_update:
  assumes "orders_ok digest orders fills" "row \<in> set orders" "o_order_id (or_order row) = i"
    and f: "order_ok digest (f (or_order row))" "o_order_id (f (or_order row)) = i"
    and new: "\<forall>g \<in> set new. f_order_id (fl_fill g) = i"
    and t: "timeline_ok (fill_rows fills i @ new) (f (or_order row))"
  shows "orders_ok digest (update_where (\<lambda>r. o_order_id (or_order r) = i)
           (\<lambda>r. r\<lparr>or_order := f (or_order r)\<rparr>) orders) (fills @ new)"
proof -
  define u :: "order_row \<Rightarrow> order_row" where
    "u = (\<lambda>r. if o_order_id (or_order r) = i then r\<lparr>or_order := f (or_order r)\<rparr> else r)"
  have row: "x = row" if "x \<in> set orders" "o_order_id (or_order x) = i" for x
    using orders_ok_row [OF assms(1,2) that(1)] that(2) assms(3) by simp
  have id: "o_order_id (or_order (u x)) = o_order_id (or_order x)" if "x \<in> set orders" for x
    using row [OF that] f(2) by (auto simp: u_def)
  have "fill_rows new i = new" using new by (simp add: fill_rows_def)
  moreover have "fill_rows new k = []" if "k \<noteq> i" for k
    using new that by (auto simp: fill_rows_def filter_empty_conv)
  ultimately have rows: "order_ok digest (or_order (u x)) \<and>
      timeline_ok (fill_rows (fills @ new) (o_order_id (or_order (u x)))) (or_order (u x))"
    if "x \<in> set orders" for x
    using row [OF that] f t that assms(1) by (auto simp: orders_ok_def u_def)
  have "map (\<lambda>r. o_order_id (or_order r)) (map u orders) = map (\<lambda>r. o_order_id (or_order r)) orders"
    using id by simp
  moreover have "(\<lambda>r. o_order_id (or_order r)) ` u ` set orders = (\<lambda>r. o_order_id (or_order r)) ` set orders"
    unfolding image_image by (rule image_cong [OF refl id])
  ultimately have "orders_ok digest (map u orders) (fills @ new)"
    using assms(1,2,3) new rows unfolding orders_ok_def by (simp del: map_map) blast
  then show ?thesis by (simp add: update_where_def u_def)
qed

section \<open>Attested counts\<close>

definition table_counts :: "ledger \<Rightarrow> ledger_counts" where
  "table_counts L =
     \<lparr>n_broker_account = int (length (lg_accounts L)), n_intent = int (length (lg_intents L)),
      n_order = int (length (lg_orders L)), n_fill = int (length (lg_fills L)),
      n_lot = int (length (lg_lots L)), n_consumption = int (length (lg_consumptions L)),
      n_receipt = int (length (lg_receipts L)), n_authority = int (length (lg_authorities L))\<rparr>"

definition attested_counts :: "ledger \<Rightarrow> ledger_counts option" where
  "attested_counts L = map_option at_counts (latest_by at_revision (lg_attestations L))"

lemma append_frame:
  assumes "append_ledger_attestation digest now k e d L = Inr L'" "chain_ok L"
  shows "lg_accounts L' = lg_accounts L" "lg_intents L' = lg_intents L" "lg_orders L' = lg_orders L"
    "lg_fills L' = lg_fills L" "lg_lots L' = lg_lots L" "lg_consumptions L' = lg_consumptions L"
    "lg_receipts L' = lg_receipts L" "lg_authorities L' = lg_authorities L" "lg_cost_specs L' = lg_cost_specs L"
proof -
  from append_effect [OF assms] obtain as hs where
    "L' = L\<lparr>lg_attestations := as, lg_heads := hs\<rparr>" by metis
  then show "lg_accounts L' = lg_accounts L" "lg_intents L' = lg_intents L" "lg_orders L' = lg_orders L"
    "lg_fills L' = lg_fills L" "lg_lots L' = lg_lots L" "lg_consumptions L' = lg_consumptions L"
    "lg_receipts L' = lg_receipts L" "lg_authorities L' = lg_authorities L" "lg_cost_specs L' = lg_cost_specs L"
    by simp_all
qed

lemma append_attested_counts:
  assumes "append_ledger_attestation digest now k e d L = Inr L'" "chain_ok L" "attested_counts L = Some c"
  shows "attested_counts L' = Some (add_counts c d)"
proof -
  from append_effect [OF assms(1,2)] obtain m l a h where
    head: "attestation_head digest L = Inr (m, l)" and a: "a = seal_attestation digest (next_attestation now k e d m l)"
    and L': "L' = L\<lparr>lg_attestations := lg_attestations L @ [a], lg_heads := lg_heads L @ [h]\<rparr>" by metis
  show ?thesis
    using attest_chain.latest_extend [OF attestation_headD(2) [OF head]] attestation_headD(2) [OF head] assms(3)
    by (simp add: attested_counts_def L' a)
qed

section \<open>The ledger invariant\<close>

definition ledger_ok :: "digest \<Rightarrow> ledger \<Rightarrow> bool" where
  "ledger_ok digest L \<longleftrightarrow>
     lots_ok L \<and> settled L \<and> orders_ok digest (lg_orders L) (lg_fills L) \<and> chain_ok L
     \<and> attested_counts L = Some (table_counts L)"

lemma append_ledger_ok:
  assumes "append_ledger_attestation digest now k e d L = Inr L'" "chain_ok L"
    and "lots_ok L" "settled L" "orders_ok digest (lg_orders L) (lg_fills L)"
    and "attested_counts L = Some c" "table_counts L = add_counts c d"
  shows "ledger_ok digest L'"
  using assms append_chain_ok [OF assms(1,2)] append_attested_counts [OF assms(1,2,6)]
    lots_ok_cong [of L' L] settled_cong [of L' L]
  by (simp add: ledger_ok_def append_frame [OF assms(1,2)] table_counts_def)

lemma order_status_checks_upd [simp]:
  "order_status_checks (r\<lparr>o_average_fill_price := a\<rparr>) = order_status_checks r"
  "order_status_checks (r\<lparr>o_updated_at := u\<rparr>) = order_status_checks r"
  by (cases "o_status r"; simp add: order_status_checks_def)+

lemma order_ok_store:
  "order_ok digest r \<Longrightarrow> order_ok digest (r\<lparr>o_average_fill_price := map_option g (o_average_fill_price r)\<rparr>)"
  by (simp add: order_ok_def)

lemma order_ok_touch: "order_ok digest r \<Longrightarrow> o_updated_at r \<le> u \<Longrightarrow> order_ok digest (r\<lparr>o_updated_at := u\<rparr>)"
  by (simp add: order_ok_def)

lemma chain_ok_cong: "lg_attestations L' = lg_attestations L \<Longrightarrow> lg_heads L' = lg_heads L \<Longrightarrow> chain_ok L' = chain_ok L"
  by (simp add: chain_ok_def)

lemma attested_counts_cong: "lg_attestations L' = lg_attestations L \<Longrightarrow> attested_counts L' = attested_counts L"
  by (simp add: attested_counts_def)

lemma covered_buy:
  "covered b L intent trade_date available_date costs quantity \<Longrightarrow>
   i_side intent = BUY \<longrightarrow> (\<exists>a. available_date = Some a \<and> trade_date < a)"
  by (auto simp: covered_def)

lemma persist_intent_ok:
  assumes persist: "persist_intent digest now b intent execution_id t p trade_date quote costs request L = Inr (r, L')"
    and ok: "ledger_ok digest L" and time: "t \<le> p" "trade_date = shanghai_date t"
  shows "ledger_ok digest L'"
proof -
  from persist obtain row evaluated fill L1 L2 L3 L4 ld cd receipt e where
    1: "insert_intent row L = Inr L1"
    and ev: "evaluate_intent digest b L1 intent execution_id t trade_date quote costs = Inr (evaluated, fill)"
    and r: "r = (if fill \<noteq> None \<and> o_updated_at evaluated < p then evaluated\<lparr>o_updated_at := p\<rparr> else evaluated)"
    and 2: "insert_order r intent L1 = Inr L2"
    and 3: "(case fill of None \<Rightarrow> Inr ((0, 0), L2)
      | Some f \<Rightarrow> apply_fill b intent f trade_date (q_acquisition_available_date quote) p L2) = Inr ((ld, cd), L3)"
    and 4: "insert_execution_receipt digest b request receipt L3 = Inr L4"
    and 5: "append_ledger_attestation digest now ''intent_execution'' e
       (no_counts\<lparr>n_intent := 1, n_order := 1, n_fill := (if fill = None then 0 else 1),
          n_lot := ld, n_consumption := cd, n_receipt := 1\<rparr>) L4 = Inr L'"
    by (rule persist_intent_Inr)
  obtain rr where L4: "L4 = L3\<lparr>lg_receipts := lg_receipts L3 @ [rr]\<rparr>"
    using 4 by (rule insert_execution_receipt_Inr)
  have L1: "L1 = L\<lparr>lg_intents := lg_intents L @ [row]\<rparr>" using insert_intent_Inr [OF 1] by simp
  define stored where "stored = \<lparr>or_order = r\<lparr>o_average_fill_price := map_option fixed_point (o_average_fill_price r)\<rparr>,
        or_entry_signal_id = i_entry_signal_id intent\<rparr>"
  have L2: "L2 = L1\<lparr>lg_orders := lg_orders L @ [stored]\<rparr>"
    and fresh: "o_order_id (or_order stored) \<notin> (\<lambda>x. o_order_id (or_order x)) ` set (lg_orders L)"
    using insert_order_row_Inr [of stored L1 L2] 2 by (simp_all add: insert_order_def stored_def L1)
  have ok': "lots_ok L" "settled L" "orders_ok digest (lg_orders L) (lg_fills L)" "chain_ok L"
      "attested_counts L = Some (table_counts L)" using ok by (simp_all add: ledger_ok_def)
  have r_ok: "order_ok digest evaluated \<Longrightarrow> order_ok digest (or_order stored)"
    using order_ok_touch [of digest evaluated p] by (simp add: stored_def r order_ok_store)
  show ?thesis using ev
  proof (cases rule: evaluate_intent_cases)
    case unfilled
    with 3 have L3: "L3 = L2" "ld = 0" "cd = 0" by simp_all
    have "orders_ok digest (lg_orders L @ [stored]) (lg_fills L @ [])"
      using unfilled r fresh r_ok ok'(3)
      by (intro orders_ok_insert) (simp_all add: stored_def timeline_ok_def)
    then show ?thesis
      using ok' lots_ok_cong [of L4 L] settled_cong [of L4 L] chain_ok_cong [of L4 L] attested_counts_cong [of L4 L]
      by (intro append_ledger_ok [OF 5, where c = "table_counts L"])
         (simp_all add: L4 L3 L2 L1 unfilled table_counts_def add_counts_def no_counts_def)
  next
    case (filled f)
    note fr = apply_fill_frame [OF 3 [unfolded filled(1) option.case]]
    have "lots_ok L3" using 3 [unfolded filled(1) option.case]
      by (rule apply_fill_lots_ok) (use ok' covered_buy [OF filled(13)] lots_ok_cong [of L2 L] in \<open>simp_all add: L1 L2\<close>)
    moreover have "settled L3" using 3 [unfolded filled(1) option.case]
      by (rule apply_fill_settled) (use ok' filled(6) time settled_cong [of L2 L] in \<open>simp_all add: L1 L2\<close>)
    moreover have "orders_ok digest (lg_orders L @ [stored]) (lg_fills L @ [stored_fill f p])"
      using filled r fresh r_ok ok'(3) time
      by (intro orders_ok_insert timeline_first) (simp_all add: stored_def)
    moreover have "length (lg_accounts L3) = length (lg_accounts L)"
      using arg_cong [OF fr(9), of length] by (simp add: L1 L2)
    ultimately show ?thesis
      using ok' lots_ok_cong [of L4 L3] settled_cong [of L4 L3] chain_ok_cong [of L4 L] attested_counts_cong [of L4 L]
      by (intro append_ledger_ok [OF 5, where c = "table_counts L"])
         (simp_all add: L4 fr L2 L1 filled(1) table_counts_def add_counts_def no_counts_def)
  qed
qed

lemma check_incremental_Inr:
  assumes "check_incremental b L r intent previous t p trade_date quantity quote costs = Inr ()"
  shows "o_created_at r \<le> t" "opt_all (\<lambda>(e, q). e \<le> t) previous" "opt_all (\<lambda>(e, q). q \<le> p) previous"
    "o_filled_quantity r + quantity \<le> o_quantity r"
    "covered b L intent trade_date (q_acquisition_available_date quote) costs quantity"
  using assms unfolding check_incremental_def covered_def
  by (auto elim!: rbind_InrE split: if_splits option.splits prod.splits)

lemma timeline_value:
  assumes "timeline_ok (fill_rows (lg_fills L) (o_order_id r)) r"
  obtains previous where "check_timeline (o_order_id r) (o_updated_at r) None (fill_rows (lg_fills L) (o_order_id r)) = Inr previous"
    "incremental_fill_timeline L r = Inr (int (length (fill_rows (lg_fills L) (o_order_id r))) + 1, previous)"
  using assms order_fills_sorted [of L "o_order_id r"]
  by (auto simp: timeline_ok_def incremental_fill_timeline_def Let_def simp del: upt_Suc)

definition filled_by :: "int \<Rightarrow> decimal \<Rightarrow> utc \<Rightarrow> paper_order \<Rightarrow> paper_order" where
  "filled_by quantity average p r =
     r\<lparr>o_filled_quantity := o_filled_quantity r + quantity, o_average_fill_price := Some average,
       o_status := (if o_filled_quantity r + quantity = o_quantity r then FILLED else PARTIALLY_FILLED),
       o_reject_reason := None, o_updated_at := max (o_updated_at r) p\<rparr>"

lemma filled_by_ok:
  assumes "order_ok digest r" "positive_lot quantity" "o_filled_quantity r + quantity \<le> o_quantity r"
  shows "order_ok digest (filled_by quantity average p r)"
proof -
  have "0 \<le> o_filled_quantity r" "0 < quantity" "o_filled_quantity r mod 100 = 0" "quantity mod 100 = 0"
    using assms by (auto simp: order_ok_def positive_lot_def non_negative_lot_def)
  moreover from this have "(o_filled_quantity r + quantity) mod 100 = 0" by presburger
  ultimately show ?thesis
    using assms(1,3) by (auto simp: order_ok_def filled_by_def order_status_checks_def non_negative_lot_def)
qed

lemma find_order_row:
  "find_order b L order_id = Some row \<Longrightarrow> row \<in> set (lg_orders L) \<and> o_order_id (or_order row) = order_id"
  by (auto simp: find_order_def dest: select_one_SomeD)

lemma persist_execution_ok:
  assumes persist: "persist_execution digest now b r intent execution_id sequence t p trade_date quantity quote
      snapshot costs request L = Inr L'"
    and ok: "ledger_ok digest L" and time: "t \<le> p" "trade_date = shanghai_date t" and q: "positive_lot quantity"
    and row: "find_order b L order_id = Some row" and r: "order_from_row digest row = Inr r"
    and timeline: "incremental_fill_timeline L r = Inr (sequence, previous)"
    and check: "check_incremental b L r intent previous t p trade_date quantity quote costs = Inr ()"
  shows "ledger_ok digest L'"
proof -
  from persist obtain fill ld cd L1 average L2 updated receipt L3 e where
    f: "new_fill digest (o_order_id r) execution_id sequence quantity costs t snapshot = Inr fill"
    and 1: "apply_fill b intent fill trade_date (q_acquisition_available_date quote) p L = Inr ((ld, cd), L1)"
    and updated: "updated = r\<lparr>o_filled_quantity := o_filled_quantity r + quantity, o_average_fill_price := Some average,
       o_status := (if o_filled_quantity r + quantity = o_quantity r then FILLED else PARTIALLY_FILLED),
       o_reject_reason := None, o_updated_at := max (o_updated_at r) p\<rparr>"
    and 2: "L2 = update_order_row (o_order_id r)
       (\<lambda>x. x\<lparr>o_filled_quantity := o_filled_quantity updated,
          o_average_fill_price := Some (fixed_point average), o_status := o_status updated,
          o_reject_reason := None, o_updated_at := o_updated_at updated\<rparr>) L1"
    and 3: "insert_execution_receipt digest b request receipt L2 = Inr L3"
    and 4: "append_ledger_attestation digest now ''incremental_execution'' e
       (no_counts\<lparr>n_fill := 1, n_lot := ld, n_consumption := cd, n_receipt := 1\<rparr>) L3 = Inr L'"
    by (rule persist_execution_Inr)
  define g :: "paper_order \<Rightarrow> paper_order" where "g = (\<lambda>x. x\<lparr>o_filled_quantity := o_filled_quantity updated,
          o_average_fill_price := Some (fixed_point average), o_status := o_status updated,
          o_reject_reason := None, o_updated_at := o_updated_at updated\<rparr>)"
  have ok': "lots_ok L" "settled L" "orders_ok digest (lg_orders L) (lg_fills L)" "chain_ok L"
      "attested_counts L = Some (table_counts L)" using ok by (simp_all add: ledger_ok_def)
  note rr = order_from_row_Inr [OF r] and fr = apply_fill_frame [OF 1] and c = check_incremental_Inr [OF check]
  have row': "row \<in> set (lg_orders L)" "o_order_id (or_order row) = o_order_id r"
    using find_order_row [OF row] rr(1) by simp_all
  have g: "g (or_order row) = filled_by quantity (fixed_point average) p r"
    by (simp add: g_def filled_by_def updated rr(1))
  let ?rows = "fill_rows (lg_fills L) (o_order_id r)"
  have t_ok: "timeline_ok ?rows r" using ok'(3) row' rr(1) by (auto simp: orders_ok_def)
  have s: "sequence = int (length ?rows) + 1" "check_timeline (o_order_id r) (o_updated_at r) None ?rows = Inr previous"
    using timeline_value [OF t_ok] timeline by force+
  have "orders_ok digest (update_where (\<lambda>x. o_order_id (or_order x) = o_order_id r)
      (\<lambda>x. x\<lparr>or_order := g (or_order x)\<rparr>) (lg_orders L)) (lg_fills L @ [stored_fill fill p])"
    using t_ok s c(2,3) time
    by (intro orders_ok_update [OF ok'(3) row'(1,2)] timeline_extend [of _ r previous])
       (simp_all add: g filled_by_ok [OF rr(2) q c(4)] new_fill_Inr [OF f], simp_all add: filled_by_def)
  moreover obtain rc where L3: "L3 = L2\<lparr>lg_receipts := lg_receipts L2 @ [rc]\<rparr>"
    using 3 by (rule insert_execution_receipt_Inr)
  have L2: "L2 = L1\<lparr>lg_orders := update_where (\<lambda>x. o_order_id (or_order x) = o_order_id r)
      (\<lambda>x. x\<lparr>or_order := g (or_order x)\<rparr>) (lg_orders L)\<rparr>"
    by (simp add: 2 g_def update_order_row_def fr)
  moreover have "lots_ok L1" using 1 ok'(1) covered_buy [OF c(5)] by (rule apply_fill_lots_ok)
  moreover have "settled L1" using 1 ok'(2)
    by (rule apply_fill_settled) (simp add: new_fill_Inr [OF f] time)
  moreover have "length (lg_accounts L1) = length (lg_accounts L)"
    using arg_cong [OF fr(9), of length] by simp
  ultimately show ?thesis
    using ok' lots_ok_cong [of L3 L1] settled_cong [of L3 L1] chain_ok_cong [of L3 L] attested_counts_cong [of L3 L]
    by (intro append_ledger_ok [OF 4, where c = "table_counts L"])
       (simp_all add: L3 fr table_counts_def add_counts_def no_counts_def)
qed

lemma closed_ok:
  assumes "order_ok digest r" "is_open (o_status r)" "status = CANCELLED \<or> status = EXPIRED" "o_updated_at r \<le> u"
  shows "order_ok digest (r\<lparr>o_status := status, o_updated_at := u\<rparr>)"
  using assms by (auto simp: order_ok_def is_open_def order_status_checks_def positive_lot_def)

lemma close_open_order_ok:
  assumes close: "close_open_order digest now b order_id status t persisted L = Inr (result, L')"
    and ok: "ledger_ok digest L"
  shows "ledger_ok digest L'"
proof -
  from close obtain p row r i intent previous n L1 e where
    st: "status = CANCELLED \<or> status = EXPIRED" and row: "find_order b L order_id = Some row"
    and r: "order_from_row digest row = Inr r" and op: "is_open (o_status r)"
    and 1: "L1 = update_order_row order_id
       (\<lambda>x. x\<lparr>o_status := status, o_updated_at := max (o_updated_at r) p\<rparr>) L"
    and 2: "append_ledger_attestation digest now ''order_close'' e no_counts L1 = Inr L'"
    by (rule close_open_order_cases)
  have ok': "lots_ok L" "settled L" "orders_ok digest (lg_orders L) (lg_fills L)" "chain_ok L"
      "attested_counts L = Some (table_counts L)" using ok by (simp_all add: ledger_ok_def)
  note rr = order_from_row_Inr [OF r] and row' = find_order_row [OF row, THEN conjunct1] find_order_row [OF row, THEN conjunct2]
  have t_ok: "timeline_ok (fill_rows (lg_fills L) order_id) r" using ok'(3) row' rr(1) by (auto simp: orders_ok_def)
  have "orders_ok digest (lg_orders L1) (lg_fills L @ [])"
    unfolding 1 update_order_row_def ledger.select_convs ledger.surjective
    using closed_ok [OF rr(2) op st, of "max (o_updated_at r) p"] rr(1) row'(2) t_ok
    by simp (intro orders_ok_update [OF ok'(3) row', where new = "[]", simplified],
        simp_all add: timeline_update [of _ r])
  then show ?thesis
    using ok' lots_ok_cong [of L1 L] settled_cong [of L1 L] chain_ok_cong [of L1 L] attested_counts_cong [of L1 L]
    by (intro append_ledger_ok [OF 2, where c = "table_counts L"])
       (simp_all add: 1 update_order_row_def table_counts_def add_counts_def no_counts_def)
qed

end
