(* ===== verification/Paper_Accounts.thy ===== *)
theory Paper_Accounts
  imports Paper_Broker
begin

text \<open>
  The read side of the broker (\<open>fills\<close>, \<open>account_snapshot\<close>, \<open>latest_execution_prices\<close>) and
  \<open>account_authority_snapshot\<close>, which publishes a revisioned snapshot of the account
  (\<open>paper_broker.py\<close>). A query without \<open>ORDER BY\<close> returns its rows in the order of the index
  it uses.
\<close>

section \<open>Fills of an account\<close>

definition account_fills :: "broker \<Rightarrow> ledger \<Rightarrow> (fill_row \<times> order_row) list" where
  "account_fills b L =
     concat (map (\<lambda>f. map (\<lambda>r. (f, r))
       (filter (\<lambda>r. o_order_id (or_order r) = f_order_id (fl_fill f) \<and> o_account_id (or_order r) = b_account_id b)
         (lg_orders L))) (lg_fills L))"

definition fills_of_order :: "digest \<Rightarrow> broker \<Rightarrow> ledger \<Rightarrow> string option \<Rightarrow> exn + paper_fill list" where
  "fills_of_order digest b L order_id =
     (case order_id of
        None \<Rightarrow>
          rbind (require_execution_ready digest b L) (\<lambda>_.
            mapM (fill_from_row digest)
              (sort_key (\<lambda>f. (f_executed_at (fl_fill f), f_fill_id (fl_fill f))) (map fst (account_fills b L))))
      | Some i \<Rightarrow>
          mapM (fill_from_row digest)
            (sort_key (\<lambda>f. f_sequence (fl_fill f))
              (map fst (filter (\<lambda>(f, r). f_order_id (fl_fill f) = i) (account_fills b L)))))"

section \<open>Account snapshot\<close>

definition latest_update :: "broker \<Rightarrow> ledger \<Rightarrow> utc option" where
  "latest_update b L =
     (case map (\<lambda>r. o_updated_at (or_order r))
             (filter (\<lambda>r. o_account_id (or_order r) = b_account_id b) (lg_orders L)) of
        [] \<Rightarrow> None
      | t # ts \<Rightarrow> Some (foldl max t ts))"

definition held_lots :: "broker \<Rightarrow> ledger \<Rightarrow> lot_row list" where
  "held_lots b L = filter (\<lambda>l. l_account_id l = b_account_id b \<and> 0 < l_remaining_quantity l) (lg_lots L)"

text \<open>The lots of one code come in the order of the index \<open>idx_paper_lot_position_fifo\<close>.\<close>

definition lots_of_code :: "broker \<Rightarrow> ledger \<Rightarrow> string \<Rightarrow> lot_row list" where
  "lots_of_code b L code =
     sort_key (\<lambda>l. (l_entry_signal_id l, fifo_key l)) (filter (\<lambda>l. l_ts_code l = code) (held_lots b L))"

definition holding_of_code ::
  "broker \<Rightarrow> ledger \<Rightarrow> day \<Rightarrow> (string \<times> decimal) list \<Rightarrow> string \<Rightarrow> exn + paper_holding" where
  "holding_of_code b L trade_date market_prices code =
     (case map_of market_prices code of
        None \<Rightarrow> Inl (ValueError (''missing market price for '' @ code))
      | Some market_price \<Rightarrow>
          let lots = lots_of_code b L code;
              quantity = sum_by l_remaining_quantity lots;
              available = sum_by (\<lambda>l. if l_available_date l \<le> trade_date then l_remaining_quantity l else 0) lots;
              cost = dsum (map (\<lambda>l. dmul (l_unit_cost l) (dof_int (l_remaining_quantity l))) lots) in
          rbind (ddiv cost (dof_int quantity)) (\<lambda>average_cost.
            make_holding
              \<lparr>h_code = code, h_quantity = quantity, h_available_quantity = available,
               h_frozen_quantity = quantity - available, h_average_cost = average_cost,
               h_market_price = market_price\<rparr>))"

definition take_account_snapshot ::
  "digest \<Rightarrow> broker \<Rightarrow> ledger \<Rightarrow> utc \<Rightarrow> (string \<times> decimal) list \<Rightarrow> exn + account_snapshot" where
  "take_account_snapshot digest b L as_of market_prices =
     rbind (require_execution_ready digest b L) (\<lambda>_.
     if \<not> opt_all (\<lambda>latest. latest \<le> as_of) (latest_update b L)
     then Inl (ValueError ''as_of cannot precede the latest ledger event'')
     else rbind (account_values b L) (\<lambda>(cash, realized).
       rbind (mapM (holding_of_code b L (shanghai_date as_of) market_prices)
           (sort (remdups (map l_ts_code (held_lots b L))))) (\<lambda>holdings.
         make_account_snapshot digest None
           \<lparr>s_snapshot_id = [], s_account_id = b_account_id b, s_as_of_time = as_of, s_cash = cash,
            s_available_cash = cash, s_frozen_cash = dzero, s_holdings = holdings,
            s_realized_pnl = realized, s_unrealized_pnl = holdings_unrealized holdings,
            s_nav = dadd cash (holdings_value holdings)\<rparr>)))"

section \<open>Latest execution prices\<close>

fun latest_prices ::
  "utc \<Rightarrow> (fill_row \<times> order_row) list \<Rightarrow> (string \<times> decimal) list \<Rightarrow> exn + (string \<times> decimal) list" where
  "latest_prices as_of [] prices = Inr prices"
| "latest_prices as_of ((f, r) # rows) prices =
     (if fl_persisted_at f < f_executed_at (fl_fill f)
      then Inl (PaperBrokerReconciliationError ''fill persisted_at cannot precede executed_at'')
      else if as_of < fl_persisted_at f then latest_prices as_of rows prices
      else if map_of prices (o_ts_code (or_order r)) \<noteq> None then latest_prices as_of rows prices
      else latest_prices as_of rows (prices @ [(o_ts_code (or_order r), f_price (fl_fill f))]))"

definition latest_execution_prices ::
  "digest \<Rightarrow> broker \<Rightarrow> ledger \<Rightarrow> utc \<Rightarrow> exn + (string \<times> decimal) list" where
  "latest_execution_prices digest b L as_of =
     rbind (require_execution_ready digest b L) (\<lambda>_.
       latest_prices as_of
         (rev (sort_key (\<lambda>(f, r). (f_executed_at (fl_fill f), f_sequence (fl_fill f), f_fill_id (fl_fill f)))
           (filter (\<lambda>(f, r). f_executed_at (fl_fill f) \<le> as_of) (account_fills b L)))) [])"

section \<open>Account authority\<close>

definition account_state_fingerprint :: "digest \<Rightarrow> account_snapshot \<Rightarrow> string" where
  "account_state_fingerprint digest s =
     canonical_sha256 digest (PDict (filter (\<lambda>(k, v). k \<noteq> ''as_of_time'') (snapshot_content s)))"

record account_authority =
  aa_revision :: int
  aa_state_fingerprint :: string
  aa_producer_commit :: string
  aa_snapshot :: account_snapshot

definition make_account_authority ::
  "digest \<Rightarrow> int \<Rightarrow> string \<Rightarrow> string \<Rightarrow> account_snapshot \<Rightarrow> exn + account_authority" where
  "make_account_authority digest revision state_fingerprint producer_commit snapshot =
     raise_first
       [(revision < 1, ValueError ''revision''),
        (\<not> is_sha256 state_fingerprint, ValueError ''state_fingerprint''),
        (\<not> is_commit_sha producer_commit, ValueError ''producer_commit''),
        (state_fingerprint \<noteq> account_state_fingerprint digest snapshot,
         ValueError ''paper account state_fingerprint does not match snapshot'')]
       \<lparr>aa_revision = revision, aa_state_fingerprint = state_fingerprint,
        aa_producer_commit = producer_commit, aa_snapshot = snapshot\<rparr>"

definition load_account_authority :: "digest \<Rightarrow> authority_row \<Rightarrow> exn + account_authority" where
  "load_account_authority digest row =
     (case au_snapshot_json row of
        None \<Rightarrow> Inl (ValueError ''snapshot_json'')
      | Some s \<Rightarrow>
          rbind (make_account_snapshot digest (Some (s_snapshot_id s)) s) (\<lambda>snapshot.
            make_account_authority digest (au_revision row) (au_state_fingerprint row)
              (au_producer_commit row) snapshot))"

definition upsert_authority :: "broker \<Rightarrow> account_authority \<Rightarrow> ledger \<Rightarrow> exn + ledger" where
  "upsert_authority b state L =
     (let row = \<lparr>au_account_id = b_account_id b, au_revision = aa_revision state,
                 au_state_fingerprint = aa_state_fingerprint state,
                 au_producer_commit = aa_producer_commit state, au_snapshot_json = Some (aa_snapshot state)\<rparr> in
      if \<not> account_exists L (b_account_id b)
      then Inl (SqlIntegrityError ''FOREIGN KEY paper_account_authority'')
      else if list_ex (\<lambda>r. au_account_id r = b_account_id b) (lg_authorities L)
      then Inr (L\<lparr>lg_authorities := update_where (\<lambda>r. au_account_id r = b_account_id b) (\<lambda>_. row) (lg_authorities L)\<rparr>)
      else Inr (L\<lparr>lg_authorities := lg_authorities L @ [row]\<rparr>))"

text \<open>
  The candidate is computed before the write transaction, on its own connection: \<open>view\<close> is the
  ledger that connection sees, \<open>L\<close> the one the transaction sees.
\<close>

definition account_authority_snapshot ::
  "digest \<Rightarrow> utc \<Rightarrow> broker \<Rightarrow> utc \<Rightarrow> (string \<times> decimal) list \<Rightarrow> string \<Rightarrow> ledger \<Rightarrow> ledger
   \<Rightarrow> exn + account_authority \<times> ledger" where
  "account_authority_snapshot digest now b as_of market_prices producer_commit view L =
     rbind (take_account_snapshot digest b view as_of market_prices) (\<lambda>candidate.
     let state_fingerprint = account_state_fingerprint digest candidate in
     rbind (require_execution_ready digest b L) (\<lambda>_.
     let row = select_one (\<lambda>r. au_account_id r = b_account_id b) (lg_authorities L) in
     rbind (case row of None \<Rightarrow> Inr None | Some r \<Rightarrow> rbind (load_account_authority digest r) (\<lambda>x. Inr (Some x)))
       (\<lambda>persisted.
     case persisted of
       Some x \<Rightarrow>
         if aa_state_fingerprint x = state_fingerprint \<and> aa_producer_commit x = producer_commit
         then Inr (x, L)
         else rbind (make_account_authority digest (aa_revision x + 1) state_fingerprint producer_commit candidate)
           (\<lambda>state. rbind (upsert_authority b state L) (\<lambda>L1.
             rbind (append_ledger_attestation digest now ''account_authority'' (aa_state_fingerprint state)
                      no_counts L1) (\<lambda>L2. Inr (state, L2))))
     | None \<Rightarrow>
         rbind (make_account_authority digest 1 state_fingerprint producer_commit candidate)
           (\<lambda>state. rbind (upsert_authority b state L) (\<lambda>L1.
             rbind (append_ledger_attestation digest now ''account_authority'' (aa_state_fingerprint state)
                      (no_counts\<lparr>n_authority := 1\<rparr>) L1) (\<lambda>L2. Inr (state, L2)))))))"

end
