(* ===== verification/Broker_Machine.thy ===== *)
theory Broker_Machine
  imports Systems Broker_Invariants Paper_Accounts "HOL-Library.Sublist"
begin

text \<open>
  The paper broker as a transition system: the ledgers are the states, the five mutating entry
  points of \<open>PaperBrokerStore\<close> (any number of accounts, any clock, any interleaving of committed
  calls) are the steps. The ledger invariant, the append-only history and the finality of closed
  orders are interpretations of the locales of \<open>Systems\<close>.
\<close>

section \<open>Opening an account and publishing its authority\<close>

lemma ensure_paper_cost_spec_authority_Inr:
  assumes "ensure_paper_cost_spec_authority now b L = Inr L'"
  obtains specs where "L' = L\<lparr>lg_cost_specs := specs\<rparr>" "prefix (lg_cost_specs L) specs"
proof -
  from assms consider "L' = L" | row where "insert_cost_spec row L = Inr L'"
    unfolding ensure_paper_cost_spec_authority_def Let_def
    by (clarsimp simp del: rbind_eq_Inr split: option.splits elim!: rbind_InrE)
  then show ?thesis
  proof cases
    case 1
    then show ?thesis by (intro that [of "lg_cost_specs L"]) simp_all
  next
    case 2
    from insert_cost_spec_Inr [OF 2] show ?thesis by (rule that) simp
  qed
qed

lemma initialize_account_cases:
  assumes "initialize_account digest now b L = Inr L'"
  obtains (known) "L' = L"
  | (opened) specs row e where "require_schema_integrity digest L = Inr ()" "find_account b L = None"
      "prefix (lg_cost_specs L) specs" "ac_account_id row = b_account_id b"
      "ac_cash row = fixed_point (b_initial_cash b)" "ac_realized_pnl row = dzero"
      "append_ledger_attestation digest now ''account_bootstrap'' e (no_counts\<lparr>n_broker_account := 1\<rparr>)
         (L\<lparr>lg_cost_specs := specs, lg_accounts := lg_accounts L @ [row]\<rparr>) = Inr L'"
proof (cases "find_account b L")
  case None
  with assms obtain L1 L2 row e where i: "require_schema_integrity digest L = Inr ()"
    and L1: "ensure_paper_cost_spec_authority now b L = Inr L1" and L2: "insert_account row L1 = Inr L2"
    and row: "ac_account_id row = b_account_id b" "ac_cash row = fixed_point (b_initial_cash b)"
      "ac_realized_pnl row = dzero"
    and a: "append_ledger_attestation digest now ''account_bootstrap'' e (no_counts\<lparr>n_broker_account := 1\<rparr>) L2 = Inr L'"
    unfolding initialize_account_def bootstrap_account_def Let_def by (auto elim!: rbind_InrE)
  from L1 obtain specs where "L1 = L\<lparr>lg_cost_specs := specs\<rparr>" "prefix (lg_cost_specs L) specs"
    by (rule ensure_paper_cost_spec_authority_Inr)
  with i None row a insert_account_Inr [OF L2] show ?thesis by (intro opened) auto
next
  case (Some row)
  with assms show ?thesis by (intro known) (auto simp: initialize_account_def split: if_splits)
qed

definition authority_row_of :: "broker \<Rightarrow> account_authority \<Rightarrow> authority_row" where
  "authority_row_of b state = \<lparr>au_account_id = b_account_id b, au_revision = aa_revision state,
     au_state_fingerprint = aa_state_fingerprint state, au_producer_commit = aa_producer_commit state,
     au_snapshot_json = Some (aa_snapshot state)\<rparr>"

lemma authority_row_of_fields [simp]:
  "au_account_id (authority_row_of b state) = b_account_id b" "au_revision (authority_row_of b state) = aa_revision state"
  by (simp_all add: authority_row_of_def)

lemma upsert_authority_Inr:
  assumes "upsert_authority b state L = Inr L'"
  obtains rows where "L' = L\<lparr>lg_authorities := rows\<rparr>"
    "int (length rows) = int (length (lg_authorities L)) +
       (if select_one (\<lambda>r. au_account_id r = b_account_id b) (lg_authorities L) = None then 1 else 0)"
    "select_one (\<lambda>r. au_account_id r = b_account_id b) rows = Some (authority_row_of b state)"
    "filter (\<lambda>r. au_account_id r \<noteq> b_account_id b) rows = filter (\<lambda>r. au_account_id r \<noteq> b_account_id b) (lg_authorities L)"
proof -
  let ?p = "\<lambda>r. au_account_id r = b_account_id b" and ?row = "authority_row_of b state"
  note E = assms [unfolded upsert_authority_def Let_def, folded authority_row_of_def]
  show ?thesis
  proof (cases "list_ex ?p (lg_authorities L)")
    case True
    then obtain r where r: "select_one ?p (lg_authorities L) = Some r"
      by (cases "select_one ?p (lg_authorities L)") (auto simp: list_ex_iff)
    have "select_one ?p (map (\<lambda>x. if ?p x then ?row else x) (lg_authorities L))
        = map_option (\<lambda>x. if ?p x then ?row else x) (select_one ?p (lg_authorities L))"
      by (rule select_one_map) simp
    moreover have "filter (\<lambda>r. \<not> ?p r) (map (\<lambda>x. if ?p x then ?row else x) xs) = filter (\<lambda>r. \<not> ?p r) xs" for xs
      by (induction xs) simp_all
    ultimately show ?thesis using E True r select_one_SomeD [OF r]
      by (intro that [of "update_where ?p (\<lambda>_. ?row) (lg_authorities L)"]) (simp_all add: update_where_def del: select_one_None)
  next
    case False
    then have "select_one ?p (lg_authorities L) = None" by (simp add: list_ex_iff)
    with E False show ?thesis
      by (intro that [of "lg_authorities L @ [?row]"])
         (simp_all add: select_one_append del: select_one_None split: if_splits)
  qed
qed

lemma account_authority_snapshot_cases:
  assumes "account_authority_snapshot digest now b as_of prices commit view L = Inr (state, L')"
  obtains (replay) row candidate where "L' = L"
      "select_one (\<lambda>r. au_account_id r = b_account_id b) (lg_authorities L) = Some row"
      "load_account_authority digest row = Inr state" "take_account_snapshot digest b view as_of prices = Inr candidate"
      "aa_state_fingerprint state = account_state_fingerprint digest candidate" "aa_producer_commit state = commit"
  | (published) candidate L1 d where
      "take_account_snapshot digest b view as_of prices = Inr candidate" "aa_snapshot state = candidate"
      "require_execution_ready digest b L = Inr ()" "upsert_authority b state L = Inr L1"
      "d = no_counts\<lparr>n_authority :=
         (if select_one (\<lambda>r. au_account_id r = b_account_id b) (lg_authorities L) = None then 1 else 0)\<rparr>"
      "append_ledger_attestation digest now ''account_authority'' (aa_state_fingerprint state) d L1 = Inr L'"
      "aa_revision state = (case select_one (\<lambda>r. au_account_id r = b_account_id b) (lg_authorities L) of
         None \<Rightarrow> 1 | Some r \<Rightarrow> au_revision r + 1)"
      "make_account_authority digest (aa_revision state) (aa_state_fingerprint state) commit candidate = Inr state"
proof -
  let ?row = "select_one (\<lambda>r. au_account_id r = b_account_id b) (lg_authorities L)"
  from assms obtain candidate where c: "take_account_snapshot digest b view as_of prices = Inr candidate"
    and ready: "require_execution_ready digest b L = Inr ()"
    unfolding account_authority_snapshot_def Let_def by (auto elim: rbind_InrE)
  note E = assms [unfolded account_authority_snapshot_def Let_def c ready rbind_simps]
  have made: "aa_revision x = n \<and> aa_snapshot x = candidate \<and> aa_state_fingerprint x = fp"
    if "make_account_authority digest n fp commit candidate = Inr x" for n fp x
    using that by (auto simp: make_account_authority_def)
  have loaded: "aa_revision x = au_revision r" if "load_account_authority digest r = Inr x" for r x
    using that by (auto simp: load_account_authority_def make_account_authority_def split: option.splits elim!: rbind_InrE)
  show ?thesis
  proof (cases ?row)
    case None
    with E obtain L1 where "make_account_authority digest 1 (account_state_fingerprint digest candidate) commit candidate = Inr state"
      "upsert_authority b state L = Inr L1"
      "append_ledger_attestation digest now ''account_authority'' (aa_state_fingerprint state) (no_counts\<lparr>n_authority := 1\<rparr>) L1 = Inr L'"
      by (auto elim!: rbind_InrE)
    with c ready made show ?thesis by (intro published [of candidate L1]) (auto simp: None)
  next
    case (Some r)
    with E obtain x where x: "load_account_authority digest r = Inr x" by (auto elim!: rbind_InrE)
    note E' = E [unfolded Some option.case x rbind_simps]
    show ?thesis
    proof (cases "aa_state_fingerprint x = account_state_fingerprint digest candidate \<and> aa_producer_commit x = commit")
      case True
      with E' x Some c show ?thesis by (intro replay [of r candidate]) auto
    next
      case False
      with E' obtain L1 where
        "make_account_authority digest (aa_revision x + 1) (account_state_fingerprint digest candidate) commit candidate = Inr state"
        "upsert_authority b state L = Inr L1"
        "append_ledger_attestation digest now ''account_authority'' (aa_state_fingerprint state) no_counts L1 = Inr L'"
        by (auto elim!: rbind_InrE)
      with Some c ready made loaded [OF x] show ?thesis
        by (intro published [of candidate L1]) (auto simp: no_counts_def)
    qed
  qed
qed

lemma initialize_account_ok:
  assumes "initialize_account digest now b L = Inr L'" "ledger_ok digest L"
  shows "ledger_ok digest L'"
  using assms(1)
proof (cases rule: initialize_account_cases)
  case (opened specs row e)
  define L1 where "L1 = L\<lparr>lg_cost_specs := specs, lg_accounts := lg_accounts L @ [row]\<rparr>"
  show ?thesis
    using assms(2) lots_ok_cong [of L1 L] settled_cong [of L1 L] chain_ok_cong [of L1 L] attested_counts_cong [of L1 L]
    by (intro append_ledger_ok [OF opened(7), folded L1_def, where c = "table_counts L"])
       (simp_all add: ledger_ok_def L1_def table_counts_def add_counts_def no_counts_def)
qed (use assms(2) in simp)

lemma account_authority_snapshot_ok:
  assumes "account_authority_snapshot digest now b as_of prices commit view L = Inr (state, L')" "ledger_ok digest L"
  shows "ledger_ok digest L'"
  using assms(1)
proof (cases rule: account_authority_snapshot_cases)
  case (published candidate L1 d)
  from published(4) obtain rows where L1: "L1 = L\<lparr>lg_authorities := rows\<rparr>"
    and n: "int (length rows) = int (length (lg_authorities L)) +
       (if select_one (\<lambda>r. au_account_id r = b_account_id b) (lg_authorities L) = None then 1 else 0)"
    by (rule upsert_authority_Inr)
  show ?thesis
    using assms(2) lots_ok_cong [of L1 L] settled_cong [of L1 L] chain_ok_cong [of L1 L] attested_counts_cong [of L1 L]
    by (intro append_ledger_ok [OF published(6), where c = "table_counts L"])
       (simp_all add: ledger_ok_def L1 n published(5) table_counts_def add_counts_def no_counts_def)
qed (use assms(2) in simp)

lemma submit_intent_ok:
  assumes "submit_intent digest now b intent supplied t persisted trade_date quote L = Inr (r, L')" "ledger_ok digest L"
  shows "ledger_ok digest L'"
  using assms(1)
proof (cases rule: submit_intent_cases)
  case (1 execution_id p costs request)
  from 1(9) show ?thesis using assms(2) persist_intent_ok 1(2,4) by blast
qed

lemma apply_execution_ok:
  assumes "apply_execution digest now b order_id execution_id t trade_date quantity quote snapshot persisted L
      = Inr (result, L')" "ledger_ok digest L"
  shows "ledger_ok digest L'"
  using assms(1)
proof (cases rule: apply_execution_cases)
  case (1 p side costs request known)
  from 1(9) show ?thesis
  proof (cases rule: execution_transaction_cases)
    case (applied row r i intent sequence previous)
    then show ?thesis using persist_execution_ok assms(2) 1(2,3,5) by blast
  qed (use assms(2) in simp)
qed

text \<open>An append writes to the two chains only, whatever the ledger holds.\<close>

lemma insert_attestation_tables:
  assumes "insert_attestation digest payload L = Inr L'"
  shows "\<exists>as hs. L' = L\<lparr>lg_attestations := as, lg_heads := hs\<rparr>"
  using assms unfolding insert_attestation_def insert_attestation_row_def insert_head_row_def Let_def
  by (elim rbind_InrE) auto

lemma append_tables:
  assumes "append_ledger_attestation digest now k e d L = Inr L'"
  shows "\<exists>as hs. L' = L\<lparr>lg_attestations := as, lg_heads := hs\<rparr>"
  using assms insert_attestation_tables unfolding append_ledger_attestation_def
  by (elim rbind_InrE) (auto split: if_splits)

section \<open>The step relation\<close>

inductive broker_step :: "digest \<Rightarrow> ledger \<Rightarrow> ledger \<Rightarrow> bool" for digest where
  open_account: "make_broker account_id initial_cash policy = Inr b \<Longrightarrow> initialize_account digest now b L = Inr L' \<Longrightarrow>
    broker_step digest L L'"
| submit: "submit_intent digest now b intent supplied t persisted trade_date quote L = Inr (r, L') \<Longrightarrow>
    broker_step digest L L'"
| execute: "apply_execution digest now b order_id execution_id t trade_date quantity quote snapshot persisted L
      = Inr (result, L') \<Longrightarrow> broker_step digest L L'"
| close: "close_open_order digest now b order_id status t persisted L = Inr (outcome, L') \<Longrightarrow> broker_step digest L L'"
| publish: "account_authority_snapshot digest now b as_of prices commit view L = Inr (state, L') \<Longrightarrow>
    broker_step digest L L'"

lemma broker_step_ok: "broker_step digest L L' \<Longrightarrow> ledger_ok digest L \<Longrightarrow> ledger_ok digest L'"
  by (induction rule: broker_step.induct)
     (rule initialize_account_ok submit_intent_ok apply_execution_ok close_open_order_ok account_authority_snapshot_ok;
      assumption)+

interpretation broker_sys: invariant_system "broker_step digest" "ledger_ok digest" for digest
  by unfold_locales (rule broker_step_ok)

text \<open>
  Where a run starts: a migrated ledger without business rows and with a linked chain that attests none. An
  offline migration that carries old business rows over starts from other ledgers and is not covered.
\<close>

definition fresh_ledger :: "ledger \<Rightarrow> bool" where
  "fresh_ledger L \<longleftrightarrow>
     lg_accounts L = [] \<and> lg_intents L = [] \<and> lg_orders L = [] \<and> lg_fills L = [] \<and> lg_lots L = []
     \<and> lg_consumptions L = [] \<and> lg_receipts L = [] \<and> lg_authorities L = []
     \<and> chain_ok L \<and> attested_counts L = Some no_counts"

lemma fresh_ledger_ok: "fresh_ledger L \<Longrightarrow> ledger_ok digest L"
  by (simp add: fresh_ledger_def ledger_ok_def lots_ok_def settled_def orders_ok_def table_counts_def no_counts_def)

lemma reachable_ok: "(broker_step digest)\<^sup>*\<^sup>* L0 L \<Longrightarrow> fresh_ledger L0 \<Longrightarrow> ledger_ok digest L"
  using fresh_ledger_ok broker_sys.reachable_inv by blast

section \<open>History\<close>

text \<open>
  Rows of the evidence tables are never changed or removed; a lot keeps everything but its
  remaining quantity; an order keeps its identity, entry signal and size, never loses a filled share, and is
  frozen once its status is final.
\<close>

definition order_le :: "paper_order \<Rightarrow> paper_order \<Rightarrow> bool" where
  "order_le r s \<longleftrightarrow>
     o_order_id s = o_order_id r \<and> o_intent_id s = o_intent_id r \<and> o_account_id s = o_account_id r
     \<and> o_side s = o_side r \<and> o_ts_code s = o_ts_code r \<and> o_quantity s = o_quantity r \<and> o_created_at s = o_created_at r
     \<and> o_filled_quantity r \<le> o_filled_quantity s \<and> o_updated_at r \<le> o_updated_at s
     \<and> (is_open (o_status r) \<or> s = r)"

definition history_le :: "ledger \<Rightarrow> ledger \<Rightarrow> bool" where
  "history_le L L' \<longleftrightarrow>
     prefix (lg_intents L) (lg_intents L') \<and> prefix (lg_fills L) (lg_fills L')
     \<and> prefix (lg_consumptions L) (lg_consumptions L') \<and> prefix (lg_receipts L) (lg_receipts L')
     \<and> prefix (lg_attestations L) (lg_attestations L') \<and> prefix (lg_heads L) (lg_heads L')
     \<and> prefix (lg_cost_specs L) (lg_cost_specs L')
     \<and> prefix (map (\<lambda>l. l\<lparr>l_remaining_quantity := 0\<rparr>) (lg_lots L))
         (map (\<lambda>l. l\<lparr>l_remaining_quantity := 0\<rparr>) (lg_lots L'))
     \<and> prefix (map account_binding (lg_accounts L)) (map account_binding (lg_accounts L'))
     \<and> length (lg_orders L) \<le> length (lg_orders L')
     \<and> (\<forall>i < length (lg_orders L). order_le (or_order (lg_orders L ! i)) (or_order (lg_orders L' ! i))
          \<and> or_entry_signal_id (lg_orders L' ! i) = or_entry_signal_id (lg_orders L ! i))"

lemma order_le_refl [simp]: "order_le r r"
  by (simp add: order_le_def)

lemma order_le_trans: "order_le r s \<Longrightarrow> order_le s t \<Longrightarrow> order_le r t"
  by (auto simp: order_le_def)

lemma history_le_refl [simp]: "history_le L L"
  by (simp add: history_le_def)

lemma history_le_trans: "history_le L M \<Longrightarrow> history_le M N \<Longrightarrow> history_le L N"
  unfolding history_le_def by (auto intro: prefix_order.trans order_le_trans)

lemma history_order:
  assumes "history_le L L'" "row \<in> set (lg_orders L)"
  shows "\<exists>row' \<in> set (lg_orders L'). order_le (or_order row) (or_order row') \<and> or_entry_signal_id row' = or_entry_signal_id row"
proof -
  from assms(2) obtain i where "i < length (lg_orders L)" "row = lg_orders L ! i" by (auto simp: in_set_conv_nth)
  with assms(1) show ?thesis by (intro bexI [of _ "lg_orders L' ! i"]) (simp_all add: history_le_def)
qed

lemma insert_intent_history: "insert_intent r L = Inr L' \<Longrightarrow> history_le L L'"
  using insert_intent_Inr [of r L L'] by (simp add: history_le_def)

lemma insert_order_history: "insert_order r intent L = Inr L' \<Longrightarrow> history_le L L'"
  unfolding insert_order_def by (drule insert_order_row_Inr) (simp add: history_le_def nth_append)

lemma insert_execution_receipt_history:
  "insert_execution_receipt digest b request receipt L = Inr L' \<Longrightarrow> history_le L L'"
  by (erule insert_execution_receipt_Inr) (simp add: history_le_def)

lemma deduct_frozen [simp]: "(deduct cs l)\<lparr>l_remaining_quantity := 0\<rparr> = l\<lparr>l_remaining_quantity := 0\<rparr>"
  by (simp add: deduct_def)

lemma apply_fill_history:
  assumes "apply_fill b intent fill trade_date available_date p L = Inr ((ld, cd), L')"
  shows "history_le L L'"
  using assms
  by (cases rule: apply_fill_cases) (simp_all add: history_le_def comp_def set_account_cash_def map_update_where)

lemma append_history:
  assumes "append_ledger_attestation digest now k e d L = Inr L'" "chain_ok L"
  shows "history_le L L'"
proof -
  from append_effect [OF assms] obtain a h where
    "L' = L\<lparr>lg_attestations := lg_attestations L @ [a], lg_heads := lg_heads L @ [h]\<rparr>" by metis
  then show ?thesis by (simp add: history_le_def)
qed

lemma update_order_history:
  assumes "orders_ok digest (lg_orders L) fills" "row \<in> set (lg_orders L)" "o_order_id (or_order row) = i"
    and "order_le (or_order row) (f (or_order row))"
  shows "history_le L (update_order_row i f L)"
proof -
  let ?u = "\<lambda>r. if o_order_id (or_order r) = i then r\<lparr>or_order := f (or_order r)\<rparr> else r"
  have "order_le (or_order r) (or_order (?u r)) \<and> or_entry_signal_id (?u r) = or_entry_signal_id r"
    if "r \<in> set (lg_orders L)" for r
    using orders_ok_row [OF assms(1,2) that] assms(3,4) by auto
  then show ?thesis by (simp add: history_le_def update_order_row_def update_where_def)
qed

lemma persist_intent_history:
  assumes persist: "persist_intent digest now b intent execution_id t p trade_date quote costs request L = Inr (r, L')"
    and ok: "ledger_ok digest L"
  shows "history_le L L'"
  using persist
proof (cases rule: persist_intent_Inr)
  case (1 row evaluated fill L1 L2 L3 L4 ld cd receipt e)
  obtain rc where L4: "L4 = L3\<lparr>lg_receipts := lg_receipts L3 @ [rc]\<rparr>"
    using 1(11) by (rule insert_execution_receipt_Inr)
  have L2: "lg_attestations L2 = lg_attestations L" "lg_heads L2 = lg_heads L"
    using insert_intent_Inr [OF 1(1)] insert_order_row_Inr [OF 1(8) [unfolded insert_order_def]] by simp_all
  have 3: "history_le L2 L3" "lg_attestations L3 = lg_attestations L2" "lg_heads L3 = lg_heads L2"
    using 1(9) apply_fill_history apply_fill_frame(5,6) by (auto split: option.splits)
  have "chain_ok L4" using ok chain_ok_cong [of L4 L] L2 3 by (simp add: ledger_ok_def L4)
  then show ?thesis
    using insert_intent_history [OF 1(1)] insert_order_history [OF 1(8)] 3(1)
      insert_execution_receipt_history [OF 1(11)] append_history [OF 1(12)]
    by (blast intro: history_le_trans)
qed

lemma persist_execution_history:
  assumes persist: "persist_execution digest now b r intent execution_id sequence t p trade_date quantity quote
      snapshot costs request L = Inr L'"
    and ok: "ledger_ok digest L" and q: "positive_lot quantity"
    and row: "find_order b L order_id = Some row" and r: "order_from_row digest row = Inr r" "is_open (o_status r)"
  shows "history_le L L'"
  using persist
proof (cases rule: persist_execution_Inr)
  case (1 fill ld cd L1 average L2 updated receipt L3 e)
  obtain rc where L3: "L3 = L2\<lparr>lg_receipts := lg_receipts L2 @ [rc]\<rparr>"
    using 1(7) by (rule insert_execution_receipt_Inr)
  note fr = apply_fill_frame [OF 1(2)] and rr = order_from_row_Inr(1) [OF r(1)]
  have "history_le L1 L2"
    unfolding 1(5) using find_order_row [OF row] q r(2) ok
    by (intro update_order_history [of digest _ "lg_fills L" row])
       (simp_all add: fr(2) ledger_ok_def order_le_def 1(4) rr positive_lot_def)
  moreover have "chain_ok L3"
    using ok chain_ok_cong [of L3 L] by (simp add: ledger_ok_def L3 1(5) update_order_row_def fr)
  ultimately show ?thesis
    using apply_fill_history [OF 1(2)] insert_execution_receipt_history [OF 1(7)] append_history [OF 1(8)]
    by (blast intro: history_le_trans)
qed

lemma close_open_order_history:
  assumes close: "close_open_order digest now b order_id status t persisted L = Inr (result, L')"
    and ok: "ledger_ok digest L"
  shows "history_le L L'"
  using close
proof (cases rule: close_open_order_cases)
  case (1 p row r i intent previous n L1 e)
  have "history_le L L1"
    unfolding 1(12) using find_order_row [OF 1(5)] 1(7) ok order_from_row_Inr(1) [OF 1(6)]
    by (intro update_order_history [of digest _ "lg_fills L" row]) (simp_all add: ledger_ok_def order_le_def)
  moreover have "chain_ok L1"
    using ok chain_ok_cong [of L1 L] by (simp add: ledger_ok_def 1(12) update_order_row_def)
  ultimately show ?thesis using append_history [OF 1(13)] by (blast intro: history_le_trans)
qed

lemma broker_step_history:
  assumes "broker_step digest L L'" "ledger_ok digest L"
  shows "history_le L L'"
  using assms
proof (induction rule: broker_step.induct)
  case (open_account account_id initial_cash policy b now L L')
  from open_account(2) show ?case
  proof (cases rule: initialize_account_cases)
    case (opened specs row e)
    let ?L = "L\<lparr>lg_cost_specs := specs, lg_accounts := lg_accounts L @ [row]\<rparr>"
    have "chain_ok ?L" using open_account(3) chain_ok_cong [of ?L L] by (simp add: ledger_ok_def)
    moreover have "history_le L ?L" using opened(3) by (simp add: history_le_def)
    ultimately show ?thesis using append_history [OF opened(7)] by (blast intro: history_le_trans)
  qed simp
next
  case (submit now b intent supplied t persisted trade_date quote L r L')
  from submit(1) show ?case
    by (cases rule: submit_intent_cases) (use persist_intent_history submit(2) in auto)
next
  case (execute now b order_id execution_id t trade_date quantity quote snapshot persisted L result L')
  from execute(1) show ?case
  proof (cases rule: apply_execution_cases)
    case (1 p side costs request known)
    from 1(9) show ?thesis
      by (cases rule: execution_transaction_cases) (use persist_execution_history execute(2) 1(5) in auto)
  qed
next
  case (close now b order_id status t persisted L outcome L')
  then show ?case by (rule close_open_order_history)
next
  case (publish now b as_of prices commit view L state L')
  from publish(1) show ?case
  proof (cases rule: account_authority_snapshot_cases)
    case (published candidate L1 d)
    from published(4) obtain rows where L1: "L1 = L\<lparr>lg_authorities := rows\<rparr>" by (rule upsert_authority_Inr)
    have "chain_ok L1" using publish(2) chain_ok_cong [of L1 L] by (simp add: ledger_ok_def L1)
    then show ?thesis using append_history [OF published(6)] by (simp add: history_le_def L1)
  qed simp
qed

interpretation broker_history: monotone_system "broker_step digest" "ledger_ok digest" history_le for digest
  by unfold_locales (auto intro: history_le_trans broker_step_history)

section \<open>Trust\<close>

text \<open>What the trust check reads: the schema row, the migration evidence and the two chains.\<close>

definition chain_state ::
  "ledger \<Rightarrow> schema_metadata \<times> bool \<times> bool \<times> string option \<times> string option \<times> attestation_row list \<times> head_row list
     \<times> int list" where
  "chain_state L = (lg_schema L, lg_attestation_table L, lg_archive_valid L, lg_schema_fingerprint L,
     lg_migration_digest L, lg_attestations L, lg_heads L, lg_tamper_ids L)"

lemma ledger_trust_status_cong:
  assumes "lg_schema L' = lg_schema L" "lg_attestation_table L' = lg_attestation_table L"
    "lg_archive_valid L' = lg_archive_valid L" "lg_schema_fingerprint L' = lg_schema_fingerprint L"
    "lg_migration_digest L' = lg_migration_digest L" "lg_attestations L' = lg_attestations L"
    "lg_heads L' = lg_heads L" "lg_tamper_ids L' = lg_tamper_ids L"
  shows "ledger_trust_status digest L' = ledger_trust_status digest L"
  unfolding ledger_trust_status_def attestation_head_def validate_canonical_head_def assms ..

lemma chain_state_trust: "chain_state L' = chain_state L \<Longrightarrow> ledger_trust_status digest L' = ledger_trust_status digest L"
  by (rule ledger_trust_status_cong) (simp_all add: chain_state_def)

lemma chain_state_chain_ok: "chain_state L' = chain_state L \<Longrightarrow> chain_ok L' = chain_ok L"
  by (simp add: chain_state_def chain_ok_def)

lemma chain_state_simps [simp]:
  "chain_state (L\<lparr>lg_accounts := x0\<rparr>) = chain_state L" "chain_state (L\<lparr>lg_cost_specs := x1\<rparr>) = chain_state L"
  "chain_state (L\<lparr>lg_intents := x2\<rparr>) = chain_state L" "chain_state (L\<lparr>lg_orders := x3\<rparr>) = chain_state L"
  "chain_state (L\<lparr>lg_fills := x4\<rparr>) = chain_state L" "chain_state (L\<lparr>lg_lots := x5\<rparr>) = chain_state L"
  "chain_state (L\<lparr>lg_consumptions := x6\<rparr>) = chain_state L" "chain_state (L\<lparr>lg_receipts := x7\<rparr>) = chain_state L"
  "chain_state (L\<lparr>lg_authorities := x8\<rparr>) = chain_state L"
  by (simp_all add: chain_state_def)

lemma trust_simps [simp]:
  "ledger_trust_status digest (L\<lparr>lg_accounts := x0\<rparr>) = ledger_trust_status digest L"
  "ledger_trust_status digest (L\<lparr>lg_cost_specs := x1\<rparr>) = ledger_trust_status digest L"
  "ledger_trust_status digest (L\<lparr>lg_intents := x2\<rparr>) = ledger_trust_status digest L"
  "ledger_trust_status digest (L\<lparr>lg_orders := x3\<rparr>) = ledger_trust_status digest L"
  "ledger_trust_status digest (L\<lparr>lg_fills := x4\<rparr>) = ledger_trust_status digest L"
  "ledger_trust_status digest (L\<lparr>lg_lots := x5\<rparr>) = ledger_trust_status digest L"
  "ledger_trust_status digest (L\<lparr>lg_consumptions := x6\<rparr>) = ledger_trust_status digest L"
  "ledger_trust_status digest (L\<lparr>lg_receipts := x7\<rparr>) = ledger_trust_status digest L"
  "ledger_trust_status digest (L\<lparr>lg_authorities := x8\<rparr>) = ledger_trust_status digest L"
  by (rule chain_state_trust; simp)+

lemma chain_state_writes:
  "insert_intent r1 L = Inr L' \<Longrightarrow> chain_state L' = chain_state L"
  "insert_order r2 intent L = Inr L' \<Longrightarrow> chain_state L' = chain_state L"
  "apply_fill b intent fill trade_date available_date p L = Inr ((ld, cd), L') \<Longrightarrow> chain_state L' = chain_state L"
  "insert_execution_receipt digest b request receipt L = Inr L' \<Longrightarrow> chain_state L' = chain_state L"
  "chain_state (update_order_row i f L) = chain_state L"
  subgoal by (drule insert_intent_Inr) simp
  subgoal unfolding insert_order_def by (drule insert_order_row_Inr) simp
  subgoal by (erule apply_fill_cases) simp_all
  subgoal by (erule insert_execution_receipt_Inr) simp
  by (simp add: update_order_row_def)

lemma persist_intent_chain:
  assumes "insert_intent row L = Inr L1" "insert_order r intent L1 = Inr L2"
    and "(case fill of None \<Rightarrow> Inr ((0, 0), L2)
      | Some f \<Rightarrow> apply_fill b intent f trade_date available_date p L2) = Inr ((ld, cd), L3)"
    and "insert_execution_receipt digest b request receipt L3 = Inr L4"
  shows "chain_state L4 = chain_state L"
proof -
  have "chain_state L3 = chain_state L2" using assms(3) chain_state_writes(3) by (auto split: option.splits)
  with assms(1,2,4) show ?thesis by (simp add: chain_state_writes)
qed

lemma persist_execution_chain:
  assumes "apply_fill b intent fill trade_date available_date p L = Inr ((ld, cd), L1)"
    and "L2 = update_order_row order_id f L1" "insert_execution_receipt digest b request receipt L2 = Inr L3"
  shows "chain_state L3 = chain_state L"
  using assms by (simp add: chain_state_writes)

lemma persist_intent_append:
  assumes "persist_intent digest now b intent execution_id t p trade_date quote costs request L = Inr (r, L')"
  obtains e d L4 where "append_ledger_attestation digest now ''intent_execution'' e d L4 = Inr L'"
    "chain_state L4 = chain_state L"
  using assms
proof (cases rule: persist_intent_Inr)
  case (1 row evaluated fill L1 L2 L3 L4 ld cd receipt e)
  from 1(12) persist_intent_chain [OF 1(1,8,9,11)] show ?thesis by (rule that)
qed

lemma persist_execution_append:
  assumes "persist_execution digest now b r intent execution_id sequence t p trade_date quantity quote
      snapshot costs request L = Inr L'"
  obtains e d L3 where "append_ledger_attestation digest now ''incremental_execution'' e d L3 = Inr L'"
    "chain_state L3 = chain_state L"
  using assms
proof (cases rule: persist_execution_Inr)
  case (1 fill ld cd L1 average L2 updated receipt L3 e)
  from 1(8) persist_execution_chain [OF 1(2,5,7)] show ?thesis by (rule that)
qed

lemma require_execution_ready_integrity: "require_execution_ready digest b L = Inr () \<Longrightarrow> require_schema_integrity digest L = Inr ()"
  by (auto simp: require_execution_ready_def)

text \<open>Whoever returns has found the ledger trusted and the account ready, also when it only reads an old result back.\<close>

lemma operation_ready:
  "submit_intent digest now b intent supplied t persisted trade_date quote L = Inr (r, L') \<Longrightarrow> require_execution_ready digest b L = Inr ()"
  "apply_execution digest now b order_id execution_id t trade_date quantity quote snapshot persisted L = Inr (result, L') \<Longrightarrow>
   require_execution_ready digest b L = Inr ()"
  "close_open_order digest now b order_id status t persisted L = Inr (outcome, L') \<Longrightarrow> require_execution_ready digest b L = Inr ()"
  "account_authority_snapshot digest now b as_of prices commit view L = Inr (state, L') \<Longrightarrow> require_execution_ready digest b L = Inr ()"
  subgoal by (erule submit_intent_cases)
  subgoal by (erule apply_execution_cases) (auto simp: execution_transaction_def elim: rbind_InrE)
  subgoal by (erule close_open_order_cases)
  subgoal unfolding account_authority_snapshot_def Let_def by (auto elim: rbind_InrE)
  done

lemma integrity_refused:
  assumes "\<not> ts_trusted (ledger_trust_status digest L)" "ts_reason (ledger_trust_status digest L) \<noteq> ''unknown_legacy_execution_evidence''"
  shows "\<exists>m. require_schema_integrity digest L = Inl (PaperLedgerQuarantinedError m)"
    "\<exists>m. require_execution_ready digest b L = Inl (PaperLedgerQuarantinedError m)"
  using assms by (simp_all add: require_execution_ready_def require_schema_integrity_def raise_if_ledger_untrusted_def Let_def)

text \<open>Every step either writes nothing, or ends in one append on a ledger whose integrity was checked.\<close>

lemma broker_step_append:
  assumes "broker_step digest L L'"
  obtains (unchanged) "L' = L"
  | (appended) now k e d L1 where "require_schema_integrity digest L = Inr ()"
      "append_ledger_attestation digest now k e d L1 = Inr L'" "chain_state L1 = chain_state L"
  using assms
proof (cases rule: broker_step.cases)
  case (open_account account_id initial_cash policy b now)
  from open_account(2) show ?thesis
    by (cases rule: initialize_account_cases) (auto intro: unchanged appended)
next
  case (submit now b intent supplied t persisted trade_date quote r)
  from submit show ?thesis
  proof (cases rule: submit_intent_cases)
    case (1 execution_id p costs request)
    note i = require_execution_ready_integrity [OF 1(8)]
    from 1(9) show ?thesis
      by (elim disjE exE conjE) (auto elim!: persist_intent_append intro: unchanged appended [OF i])
  qed
next
  case (execute now b order_id execution_id t trade_date quantity quote snapshot persisted result)
  from execute show ?thesis
  proof (cases rule: apply_execution_cases)
    case (1 p side costs request known)
    from 1(9) show ?thesis
    proof (cases rule: execution_transaction_cases)
      case (applied row r i intent sequence previous)
      from applied(12) appended [OF require_execution_ready_integrity [OF applied(3)]] show ?thesis
        by (elim persist_execution_append) blast
    qed (rule unchanged)
  qed
next
  case (close now b order_id status t persisted outcome)
  from close show ?thesis
  proof (cases rule: close_open_order_cases)
    case (1 p row r i intent previous n L1 e)
    have "chain_state L1 = chain_state L" by (simp add: 1(12) chain_state_writes)
    with 1(13) show ?thesis by (rule appended [OF require_execution_ready_integrity [OF 1(4)]])
  qed
next
  case (publish now b as_of prices commit view state)
  from publish show ?thesis
  proof (cases rule: account_authority_snapshot_cases)
    case (published candidate L1 d)
    have "chain_state L1 = chain_state L" using published(4) by (auto elim: upsert_authority_Inr)
    with published(6) show ?thesis by (rule appended [OF require_execution_ready_integrity [OF published(3)]])
  qed (rule unchanged)
qed

lemma broker_step_frozen: "broker_step digest L L' \<Longrightarrow> require_schema_integrity digest L = Inr () \<or> L' = L"
  by (erule broker_step_append) simp_all

lemma append_trust:
  assumes "append_ledger_attestation digest now k e d L1 = Inr L'" "chain_ok L1"
    and "require_schema_integrity digest L = Inr ()" "ledger_trust_status digest L1 = ledger_trust_status digest L"
  shows "ledger_trust_status digest L' = ledger_trust_status digest L"
  using append_ledger_trust_status [OF assms(1,2)] assms(3,4)
  by (simp add: require_schema_integrity_def)

lemma broker_step_trust:
  assumes "broker_step digest L L'" "ledger_ok digest L"
  shows "L' = L \<or> require_schema_integrity digest L = Inr () \<and>
    ledger_trust_status digest L' = ledger_trust_status digest L"
  using assms(1)
proof (cases rule: broker_step_append)
  case (appended now k e d L1)
  have "chain_ok L1" using assms(2) chain_state_chain_ok [OF appended(3)] by (simp add: ledger_ok_def)
  from append_trust [OF appended(2) this appended(1) chain_state_trust [OF appended(3)]] appended(1) show ?thesis by simp
qed simp

end
