(* ===== verification/Ledger_Example.thy ===== *)
theory Ledger_Example
  imports Market_Example Broker_Machine
begin

text \<open>
  A migrated, still empty ledger of the market of \<open>Market_Example\<close>, and that its attestation chain can
  be extended.
\<close>

lemma ex_costs_resolve:
  "resolve_costs ex_digest ex_spec ex_buy_input ex_context = Inr ex_buy_costs"
  "resolve_costs ex_digest ex_spec ex_sell_input ex_context = Inr ex_sell_costs"
proof -
  have spec: "es_cost_spec_id ex_spec = Some (ex_sha (CHR ''d''))" "es_cost_engine_version ex_spec = Some ''v3''"
    "es_slippage ex_spec = Some ex_slippage" "es_money ex_spec = Some ex_money"
    "es_commission_rules ex_spec = [ex_commission]" "es_transfer_fee_rules ex_spec = [ex_transfer]"
    "es_stamp_duty_rules ex_spec = [ex_stamp]" "mn_quantum ex_money = Dec False 1 (- 2)"
    by (simp_all add: ex_spec_def ex_money_def)
  have ids: "[(''selector'', sel_selector_id ex_selector), (''commission'', fr_rule_id ex_commission),
                 (''transfer_fee'', fr_rule_id ex_transfer), (''stamp_duty'', fr_rule_id ex_stamp)] = ex_rule_ids"
    by (simp add: ex_rule_ids_def ex_spec_defs)
  have inputs: "oi_side ex_buy_input = CostBuy" "oi_side ex_sell_input = CostSell"
    "dmul (oi_reference_price ex_buy_input) (dof_int (oi_quantity ex_buy_input)) = Dec False 200000 (- 2)"
    "dmul (oi_reference_price ex_sell_input) (dof_int (oi_quantity ex_sell_input)) = Dec False 105000 (- 2)"
    "dmul (Dec False 1001 (- 2)) (dof_int (oi_quantity ex_buy_input)) = Dec False 200200 (- 2)"
    "dmul (Dec False 1049 (- 2)) (dof_int (oi_quantity ex_sell_input)) = Dec False 104900 (- 2)"
    by (simp_all add: ex_buy_input_def ex_sell_input_def dec_eval)
  have amounts:
    "quantize (dabs (dsub (Dec False 200200 (- 2)) (Dec False 200000 (- 2)))) (Some (Dec False 1 (- 2))) = Inr (Dec False 200 (- 2))"
    "quantize (dabs (dsub (Dec False 104900 (- 2)) (Dec False 105000 (- 2)))) (Some (Dec False 1 (- 2))) = Inr (Dec False 100 (- 2))"
    "dadd (dadd (Dec False 500 (- 2)) (Dec False 0 (- 2))) (Dec False 0 (- 2)) = Dec False 500 (- 2)"
    "dadd (dadd (Dec False 500 (- 2)) (Dec False 0 (- 2))) (Dec False 52 (- 2)) = Dec False 552 (- 2)"
    by (simp_all add: quantize_def dec_eval)
  have fingerprint: "canonical_sha256 ex_digest (cost_context_payload s i g sl m ord ctx ids) =
      ex_sha (if oi_side ord = CostBuy then CHR ''b'' else CHR ''c'')" for s i g sl m ord ctx ids
    by (simp add: cost_context_payload_def canonical_sha256_ex ex_digest_def ex_tag_def int_at_def text_at_def
        opt_list_def side_text_def split: execution_cost_side.splits)
  show "resolve_costs ex_digest ex_spec ex_buy_input ex_context = Inr ex_buy_costs"
    unfolding resolve_costs_def spec option.case prod.case ex_selection rbind_simps ex_prices Let_def inputs ex_fees
      amounts ids fingerprint ex_costs_valid(1) [unfolded ex_buy_costs_def ex_costs_def, folded ex_buy_costs_def]
    using ex_costs_valid(1) by (simp add: ex_buy_costs_def ex_costs_def)
  show "resolve_costs ex_digest ex_spec ex_sell_input ex_context = Inr ex_sell_costs"
    unfolding resolve_costs_def spec option.case prod.case ex_selection rbind_simps ex_prices Let_def inputs ex_fees
      amounts ids fingerprint
    using ex_costs_valid(2) by (simp add: ex_sell_costs_def ex_costs_def)
qed

section \<open>A migrated ledger and its chain\<close>

definition ex_genesis :: attestation_row where
  "ex_genesis = \<lparr>at_revision = 1, at_ledger_generation = ex_sha (CHR ''1''), at_migration_version = 4,
     at_schema_version = 5, at_schema_fingerprint = ex_sha (CHR ''2''),
     at_previous_attestation_fingerprint = None, at_migration_attestation_fingerprint = ex_sha (CHR ''3''),
     at_event_kind = ''migration_audit'', at_event_fingerprint = ex_sha (CHR ''3''), at_counts = no_counts,
     at_payload_json = None, at_attestation_fingerprint = [], at_persisted_at = 0\<rparr>"

definition ex_ledger :: ledger where
  "ex_ledger = \<lparr>lg_accounts = [], lg_cost_specs = [], lg_intents = [], lg_orders = [], lg_fills = [],
     lg_lots = [], lg_consumptions = [], lg_receipts = [], lg_authorities = [],
     lg_attestations = [seal_attestation ex_digest ex_genesis],
     lg_heads = [seal_head ex_digest (marker_for (seal_attestation ex_digest ex_genesis) None)],
     lg_tamper_ids = [], lg_schema = SchemaTable (Some
       \<lparr>sr_schema_version = 5, sr_internal_migration_version = 4, sr_unknown = []\<rparr>),
     lg_attestation_table = True, lg_schema_fingerprint = Some (ex_sha (CHR ''2'')), lg_archive_valid = True,
     lg_migration_digest = Some (ex_sha (CHR ''3''))\<rparr>"

text \<open>A ledger whose chain has \<open>n\<close> rows, each with the digest of its revision.\<close>

definition ex_chain :: "int \<Rightarrow> ledger \<Rightarrow> bool" where
  "ex_chain n L \<longleftrightarrow>
     chain_ok L \<and> require_schema_integrity ex_digest L = Inr ()
     \<and> (\<exists>l. latest_by at_revision (lg_attestations L) = Some l \<and> at_revision l = n \<and> counts_nonneg (at_counts l))
     \<and> (\<forall>a \<in> set (lg_attestations L). \<exists>i \<in> {1..n}. at_attestation_fingerprint a = ex_sha (hex_digit i))
     \<and> (\<forall>h \<in> set (lg_heads L). \<exists>i \<in> {1..n}. hd_attestation_fingerprint h = ex_sha (hex_digit i)
          \<and> hd_head_marker_fingerprint h = ex_sha (hex_digit i))"

definition ex_append :: "utc \<Rightarrow> string \<Rightarrow> string \<Rightarrow> ledger_counts \<Rightarrow> ledger \<Rightarrow> ledger" where
  "ex_append now k e d L =
     (case append_ledger_attestation ex_digest now k e d L of Inr L' \<Rightarrow> L' | Inl _ \<Rightarrow> L)"

lemma ex_digest_revision:
  shows "at_revision a = n \<Longrightarrow> canonical_sha256 ex_digest (attestation_payload a) = ex_sha (hex_digit n)"
    and "hd_revision h = n \<Longrightarrow> canonical_sha256 ex_digest (head_marker_payload h) = ex_sha (hex_digit n)"
  by (simp_all add: attestation_payload_def head_marker_payload_def canonical_sha256_ex ex_digest_def ex_tag_def
      int_at_def opt_list_def)

lemma ex_ledger_chain: "ex_chain 1 ex_ledger"
proof -
  let ?a = "seal_attestation ex_digest ex_genesis" and ?h = "seal_head ex_digest (marker_for (seal_attestation ex_digest ex_genesis) None)"
  have rev: "at_revision ex_genesis = 1" "at_previous_attestation_fingerprint ex_genesis = None"
    "at_event_kind ex_genesis = ''migration_audit''" "at_counts ex_genesis = no_counts"
    by (simp_all add: ex_genesis_def)
  have chain: "chain_ok ex_ledger"
    by (simp add: chain_ok_def linked_def ex_ledger_def rev)
  have "validate_canonical_head ex_digest ex_ledger ?a ?a = Inr ()"
    using marker_checks_ok [of ?h ?a ?h ?a]
    by (simp add: validate_canonical_head_def ex_ledger_def rev)
  then have head: "attestation_head ex_digest ex_ledger = Inr (?a, ?a)"
    by (simp add: attestation_head_def ex_ledger_def rev counts_le_def no_counts_def)
  have "require_schema_integrity ex_digest ex_ledger = Inr ()"
    using ledger_trust_status_sound [of ex_ledger _ "ex_sha (CHR ''2'')" "ex_sha (CHR ''3'')", OF _ _ _ _ _ _ _ head]
    by (simp add: require_schema_integrity_def ex_ledger_def chain_matches_def ex_genesis_def ledger_migration_version_def)
  then show ?thesis
    using chain ex_digest_revision
    by (simp add: ex_chain_def) (simp add: ex_ledger_def rev counts_nonneg_def counts_le_def)
qed

lemma ex_append_works:
  assumes "ex_chain n L" "n < 15" "counts_nonneg d"
  shows "append_ledger_attestation ex_digest now k e d L = Inr (ex_append now k e d L)"
    and "ex_chain (n + 1) (ex_append now k e d L)"
proof -
  from assms(1) have chain: "chain_ok L" and ok: "require_schema_integrity ex_digest L = Inr ()"
    by (simp_all add: ex_chain_def)
  from ok obtain m l where head: "attestation_head ex_digest L = Inr (m, l)" by (rule require_schema_integrityD)
  from assms(1) attestation_headD(2) [OF head] have l: "at_revision l = n" "counts_nonneg (at_counts l)"
    by (auto simp: ex_chain_def)
  have n: "1 \<le> n" using chain latest_by_SomeD [OF attestation_headD(2) [OF head]] l
    by (auto simp: chain_ok_def linked_def)
  obtain lm where lm: "latest_by hd_revision (lg_heads L) = Some lm"
    using attestation_headD(9) [OF head] by (rule validate_canonical_headD)
  define a where "a = seal_attestation ex_digest (next_attestation now k e d m l)"
  define h where "h = seal_head ex_digest (marker_for a (Some (hd_head_marker_fingerprint lm)))"
  have fp: "at_attestation_fingerprint a = ex_sha (hex_digit (n + 1))" "hd_attestation_fingerprint h = ex_sha (hex_digit (n + 1))"
    "hd_head_marker_fingerprint h = ex_sha (hex_digit (n + 1))"
    by (simp_all add: a_def h_def l ex_digest_revision)
  have distinct_hex: "hex_digit i \<noteq> hex_digit (n + 1)" if "i \<in> {1..n}" for i
    using that assms(2) n by (simp add: hex_digit_inject)
  have "\<forall>x \<in> set (lg_attestations L). at_attestation_fingerprint x \<noteq> at_attestation_fingerprint a"
    using assms(1) distinct_hex unfolding ex_chain_def fp by (metis ex_sha_inject)
  moreover have "\<forall>x \<in> set (lg_heads L). hd_attestation_fingerprint x \<noteq> at_attestation_fingerprint a
      \<and> hd_head_marker_fingerprint x \<noteq> hd_head_marker_fingerprint h"
    using assms(1) distinct_hex unfolding ex_chain_def fp by (metis ex_sha_inject)
  ultimately have eq: "append_ledger_attestation ex_digest now k e d L =
      Inr (L\<lparr>lg_attestations := lg_attestations L @ [a], lg_heads := lg_heads L @ [h]\<rparr>)"
    by (rule append_succeeds [OF head chain assms(3) l(2) lm a_def h_def])
  then show app: "append_ledger_attestation ex_digest now k e d L = Inr (ex_append now k e d L)"
    by (simp add: ex_append_def)
  with eq have L': "ex_append now k e d L = L\<lparr>lg_attestations := lg_attestations L @ [a], lg_heads := lg_heads L @ [h]\<rparr>"
    by simp
  have "require_schema_integrity ex_digest (ex_append now k e d L) = Inr ()"
    using append_ledger_trust_status [OF app chain ok] ok by (simp add: require_schema_integrity_def)
  moreover have "counts_nonneg (at_counts a)"
    using assms(3) l(2) by (simp add: a_def counts_nonneg_def counts_le_def add_counts_def no_counts_def)
  moreover have "latest_by at_revision (lg_attestations L @ [a]) = Some a"
    unfolding a_def using attestation_headD(2) [OF head] by (rule attest_chain.latest_extend) simp
  ultimately show "ex_chain (n + 1) (ex_append now k e d L)"
    using append_chain_ok [OF app chain] assms(1) fp l n unfolding ex_chain_def
    by (fastforce simp: L' a_def)
qed

lemma ex_chain_simps [simp]:
  "ex_chain n (L\<lparr>lg_accounts := x1\<rparr>) = ex_chain n L" "ex_chain n (L\<lparr>lg_cost_specs := x2\<rparr>) = ex_chain n L"
  "ex_chain n (L\<lparr>lg_intents := x3\<rparr>) = ex_chain n L" "ex_chain n (L\<lparr>lg_orders := x4\<rparr>) = ex_chain n L"
  "ex_chain n (L\<lparr>lg_fills := x5\<rparr>) = ex_chain n L" "ex_chain n (L\<lparr>lg_lots := x6\<rparr>) = ex_chain n L"
  "ex_chain n (L\<lparr>lg_consumptions := x7\<rparr>) = ex_chain n L" "ex_chain n (L\<lparr>lg_receipts := x8\<rparr>) = ex_chain n L"
  "ex_chain n (L\<lparr>lg_authorities := x9\<rparr>) = ex_chain n L"
  by (simp_all add: ex_chain_def require_schema_integrity_def chain_ok_def)

lemma ex_append_frame [simp]:
  "lg_accounts (ex_append now k e d L) = lg_accounts L" "lg_cost_specs (ex_append now k e d L) = lg_cost_specs L"
  "lg_intents (ex_append now k e d L) = lg_intents L" "lg_orders (ex_append now k e d L) = lg_orders L"
  "lg_fills (ex_append now k e d L) = lg_fills L" "lg_lots (ex_append now k e d L) = lg_lots L"
  "lg_consumptions (ex_append now k e d L) = lg_consumptions L" "lg_receipts (ex_append now k e d L) = lg_receipts L"
  "lg_authorities (ex_append now k e d L) = lg_authorities L"
  by (cases "append_ledger_attestation ex_digest now k e d L"; force simp: ex_append_def dest: append_tables)+

end
