(* ===== verification/Trade_Example.thy ===== *)
theory Trade_Example
  imports Ledger_Example
begin

text \<open>
  The market of \<open>Market_Example\<close> in operation: the ledger after the account is opened. 200 shares
  are bought in \<open>Buy_Example\<close>, and 100 of them sold the next trading day in \<open>Sell_Example\<close>.
\<close>

definition ex_broker :: broker where
  "ex_broker = \<lparr>b_account_id = ''paper'', b_initial_cash = Dec False 10000000 (- 2),
     b_cost_policy = \<lparr>cp_execution_cost_spec = ex_spec, cp_cost_spec_id = ex_sha (CHR ''d'')\<rparr>\<rparr>"

lemma ex_policy_valid:
  "make_cost_policy ex_digest ex_spec None = Inr (b_cost_policy ex_broker)"
  by (simp add: make_cost_policy_def ex_spec_valid is_alignment_eligible_def ex_broker_def) (simp add: ex_spec_def)

definition ex_account :: "decimal \<Rightarrow> decimal \<Rightarrow> account_row" where
  "ex_account cash pnl = \<lparr>ac_account_id = ''paper'', ac_initial_cash = Dec False 10000000 (- 2), ac_cash = cash,
     ac_realized_pnl = pnl, ac_cost_policy_fingerprint = ex_sha (CHR ''d''),
     ac_cost_spec_id = Some (ex_sha (CHR ''d'')), ac_cost_spec_schema_version = Some 3,
     ac_cost_provenance_state = KNOWN_V3\<rparr>"

definition ex_cost_row :: cost_spec_row where
  "ex_cost_row = \<lparr>cs_cost_spec_id = ex_sha (CHR ''d''), cs_schema_version = 3, cs_cost_engine_version = ''v3'',
     cs_canonical_json = ex_spec_json, cs_persisted_at = 0\<rparr>"

lemma ex_broker_fields [simp]:
  "b_account_id ex_broker = ''paper''" "b_initial_cash ex_broker = Dec False 10000000 (- 2)"
  "cp_execution_cost_spec (b_cost_policy ex_broker) = ex_spec"
  "cp_cost_spec_id (b_cost_policy ex_broker) = ex_sha (CHR ''d'')"
  by (simp_all add: ex_broker_def)

lemma ex_account_fields [simp]:
  "ac_account_id (ex_account c p) = ''paper''" "ac_cash (ex_account c p) = c" "ac_realized_pnl (ex_account c p) = p"
  "ac_cost_spec_id (ex_account c p) = Some (ex_sha (CHR ''d''))"
  "ac_cost_spec_schema_version (ex_account c p) = Some 3" "ac_cost_provenance_state (ex_account c p) = KNOWN_V3"
  by (simp_all add: ex_account_def)

lemma ex_spec_fields_simps [simp]:
  "es_cost_spec_id ex_spec = Some (ex_sha (CHR ''d''))" "es_cost_engine_version ex_spec = Some ''v3''"
  "es_slippage ex_spec = Some ex_slippage"
  by (simp_all add: ex_spec_def)

section \<open>Opening the account\<close>

definition ex_opened :: ledger where
  "ex_opened = ex_append 0 ''account_bootstrap''
     (canonical_sha256 ex_digest (PDict
        [(''account_id'', PStr ''paper''), (''initial_cash'', PDecimal (Dec False 10000000 (- 2))),
         (''cost_spec_id'', PStr (ex_sha (CHR ''d''))), (''cost_spec_schema_version'', PInt 3)]))
     (no_counts\<lparr>n_broker_account := 1\<rparr>)
     (ex_ledger\<lparr>lg_cost_specs := [ex_cost_row], lg_accounts := [ex_account (Dec False 10000000 (- 2)) dzero]\<rparr>)"

lemma counts_nonneg_simps [simp]: "counts_nonneg no_counts"
  "0 \<le> x \<Longrightarrow> counts_nonneg (no_counts\<lparr>n_broker_account := x\<rparr>)"
  "0 \<le> x \<Longrightarrow> counts_nonneg (no_counts\<lparr>n_authority := x\<rparr>)"
  by (simp_all add: counts_nonneg_def counts_le_def no_counts_def)

lemma ex_open: "initialize_account ex_digest 0 ex_broker ex_ledger = Inr ex_opened"
  and ex_opened_chain: "ex_chain 2 ex_opened"
proof -
  let ?L = "ex_ledger\<lparr>lg_cost_specs := [ex_cost_row], lg_accounts := [ex_account (Dec False 10000000 (- 2)) dzero]\<rparr>"
  have empty: "lg_accounts ex_ledger = []" "lg_cost_specs ex_ledger = []" by (simp_all add: ex_ledger_def)
  have ready: "require_schema_integrity ex_digest ex_ledger = Inr ()" using ex_ledger_chain by (simp add: ex_chain_def)
  have specs: "ensure_paper_cost_spec_authority 0 ex_broker ex_ledger = Inr (ex_ledger\<lparr>lg_cost_specs := [ex_cost_row]\<rparr>)"
    by (simp add: ensure_paper_cost_spec_authority_def ex_spec_json insert_cost_spec_def raise_first.simps empty
        ex_cost_row_def)
  have ins: "insert_account (ex_account (Dec False 10000000 (- 2)) dzero) (ex_ledger\<lparr>lg_cost_specs := [ex_cost_row]\<rparr>) = Inr ?L"
    by (simp add: insert_account_def raise_first.simps empty spec_exists_def account_exists_def ex_account_def
        ex_cost_row_def)
  have "bootstrap_account ex_digest 0 ex_broker ex_ledger = Inr ex_opened"
    using specs ins ex_append_works(1) [of 1 ?L] ex_ledger_chain
    unfolding bootstrap_account_def Let_def
    by (simp add: ex_account_def [symmetric] ex_opened_def fixed_point_def)
  then show "initialize_account ex_digest 0 ex_broker ex_ledger = Inr ex_opened"
    by (simp add: initialize_account_def find_account_def empty ready)
  show "ex_chain 2 ex_opened"
    using ex_append_works(2) [of 1 ?L] ex_ledger_chain by (simp add: ex_opened_def)
qed

text \<open>Every later ledger of the example is ready for execution.\<close>

lemma ex_ready:
  assumes "ex_chain n L" "lg_accounts L = [ex_account cash pnl]" "lg_cost_specs L = [ex_cost_row]"
  shows "require_execution_ready ex_digest ex_broker L = Inr ()"
  using assms
  by (simp add: require_execution_ready_def ex_chain_def find_account_def require_active_cost_spec_authority_def
      ex_spec_json ex_cost_row_def)

end
