(* ===== verification/Buy_Example.thy ===== *)
theory Buy_Example
  imports Trade_Example
begin

text \<open>The purchase of 200 shares on the open account, evaluated through \<open>submit_intent\<close>.\<close>

section \<open>Buying\<close>

definition ex_buy_time :: utc where "ex_buy_time = 864000000000"

lemma ex_buy_date [simp]: "shanghai_date ex_buy_time = 10"
  by (simp add: shanghai_date_def ex_buy_time_def microseconds_per_day_def)

definition ex_buy_intent :: order_intent where
  "ex_buy_intent = \<lparr>i_intent_id = ex_sha (CHR ''b''), i_signal_id = ex_sha (CHR ''e''), i_entry_signal_id = None,
     i_sell_quantity_authority = None, i_account_id = ''paper'', i_ts_code = ''600000.SH'', i_side = BUY,
     i_order_type = MARKET, i_quantity = 200, i_limit_price = None, i_event_time = ex_buy_time,
     i_available_at = ex_buy_time, i_expires_at = ex_buy_time + 1000000, i_earliest_execution_at = ex_buy_time,
     i_price_snapshot_id = ex_sha (CHR ''1''), i_producer_commit = replicate 40 (CHR ''a'')\<rparr>"

definition ex_buy_quote :: execution_quote where
  "ex_buy_quote = \<lparr>q_executable_price = Dec False 1000 (- 2), q_instrument_context = ex_context,
     q_executable_quantity = None, q_acquisition_available_date = Some 11, q_suspended = False,
     q_limit_locked = False, q_risk_rejected = False\<rparr>"

definition ex_buy_order :: paper_order where
  "ex_buy_order = \<lparr>o_order_id = ex_sha (CHR ''b''), o_intent_id = ex_sha (CHR ''b''), o_account_id = ''paper'',
     o_ts_code = ''600000.SH'', o_side = BUY, o_order_type = MARKET, o_quantity = 200, o_filled_quantity = 200,
     o_average_fill_price = Some (Dec False 1001 (- 2)), o_status = FILLED, o_reject_reason = None,
     o_created_at = ex_buy_time, o_updated_at = ex_buy_time\<rparr>"

definition ex_buy_fill :: paper_fill where
  "ex_buy_fill = \<lparr>f_fill_id = ex_sha (CHR ''1''), f_execution_id = ex_sha (CHR ''1''), f_order_id = ex_sha (CHR ''b''),
     f_sequence = 1, f_quantity = 200, f_price = Dec False 1001 (- 2), f_commission = Dec False 500 (- 2),
     f_transfer_fee = Some (Dec False 0 (- 2)), f_tax = Dec False 0 (- 2), f_total_fees = Some (Dec False 500 (- 2)),
     f_cost_spec_id = Some (ex_sha (CHR ''d'')), f_cost_spec_schema_version = Some 3,
     f_cost_context_fingerprint = Some (ex_sha (CHR ''b'')), f_cost_provenance_state = KNOWN_V3,
     f_executed_at = ex_buy_time, f_price_snapshot_id = ex_sha (CHR ''1'')\<rparr>"

definition ex_buy_receipt :: execution_receipt where
  "ex_buy_receipt = \<lparr>r_execution_id = ex_sha (CHR ''1''), r_request_fingerprint = ex_sha (CHR ''1''),
     r_intent_id = ex_sha (CHR ''b''), r_order = ex_buy_order, r_fill = Some ex_buy_fill,
     r_cost_spec_id = Some (ex_sha (CHR ''d'')), r_cost_spec_schema_version = Some 3,
     r_cost_context_fingerprint = Some (ex_sha (CHR ''b'')), r_cost_provenance_state = KNOWN_V3,
     r_cost_calculation = Some ex_buy_costs, r_persisted_at = ex_buy_time\<rparr>"

definition ex_buy_request :: pyval where
  "ex_buy_request = initial_request ex_digest (ex_sha (CHR ''1'')) (ex_sha (CHR ''b'')) ex_buy_time ex_buy_time 10
     ex_buy_quote ex_buy_costs"

lemmas ex_digest_eval = canonical_sha256_ex ex_digest_def ex_tag_def int_at_def text_at_def opt_list_def

lemma ex_identities:
  "canonical_sha256 ex_digest ex_buy_request = ex_sha (CHR ''1'')"
  "order_identity ex_digest ''paper'' (ex_sha (CHR ''b'')) = ex_sha (CHR ''b'')"
  "fill_identity ex_digest (ex_sha (CHR ''b'')) (ex_sha (CHR ''1'')) = ex_sha (CHR ''1'')"
  "canonical_sha256 ex_digest (PDict (intent_content ex_buy_intent)) = ex_sha (CHR ''b'')"
  by (simp_all add: ex_buy_request_def initial_request_def order_identity_def fill_identity_def
      intent_content_def ex_buy_intent_def paper_side_text_def ex_digest_eval)

lemma ex_buy_intent_valid: "make_intent ex_digest (Some (i_intent_id ex_buy_intent)) ex_buy_intent = Inr ex_buy_intent"
  unfolding make_intent_def Let_def ex_identities
  by (simp add: intent_fields_def intent_checks_def raise_first.simps validate_opt_def is_commit_sha_def
      bind_identity_def ex_buy_intent_def positive_lot_def is_hex_lower_def list_all_iff)

lemma ex_buy_order_valid:
  "make_order ex_digest None (ex_buy_order\<lparr>o_order_id := i\<rparr>) = Inr ex_buy_order"
  "make_order ex_digest (Some (ex_sha (CHR ''b''))) ex_buy_order = Inr ex_buy_order"
  by (simp_all add: make_order_def order_fields_def order_status_checks_def raise_first.simps ex_buy_order_def
      ex_identities bind_identity_def positive_lot_def non_negative_lot_def dec_eval Let_def)

lemma ex_buy_fill_valid:
  "make_fill ex_digest None (ex_buy_fill\<lparr>f_fill_id := i\<rparr>) = Inr ex_buy_fill"
  "make_fill ex_digest (Some (ex_sha (CHR ''1''))) ex_buy_fill = Inr ex_buy_fill"
  by (simp_all add: make_fill_def fill_fields_def validate_cost_provenance_def raise_first.simps ex_buy_fill_def
      ex_identities bind_identity_def positive_lot_def dec_eval Let_def)

lemma ex_buy_receipt_valid: "make_receipt ex_digest ex_buy_receipt = Inr ex_buy_receipt"
proof -
  have "validate_execution ex_buy_receipt = Inr ex_buy_receipt"
    by (simp add: validate_execution_def validate_known_v3_def fill_matches_calculation_def
        calculation_matches_receipt_def opt_deq_def ex_buy_receipt_def ex_buy_order_def ex_buy_fill_def
        ex_buy_costs_def ex_costs_def)
  then show ?thesis
    using ex_buy_order_valid(2) ex_buy_fill_valid(2) ex_costs_valid(1)
    by (simp add: make_receipt_def receipt_fields_def raise_first.simps validate_opt_def ex_buy_receipt_def
        ex_buy_order_def ex_buy_fill_def)
qed

lemma ex_buy_evaluated:
  assumes "lg_accounts L = [ex_account (Dec False 10000000 (- 2)) dzero]"
  shows "evaluate_intent ex_digest ex_broker L ex_buy_intent (ex_sha (CHR ''1'')) ex_buy_time 10 ex_buy_quote ex_buy_costs
    = Inr (ex_buy_order, Some ex_buy_fill)"
proof -
  have gate: "gate_reason ex_buy_quote ex_buy_time ex_buy_intent = None"
    by (simp add: gate_reason_def ex_buy_quote_def ex_buy_intent_def)
  have limit: "misses_limit ex_buy_intent p = Inr False" for p by (simp add: misses_limit_def ex_buy_intent_def)
  have cash: "dlt (Dec False 10000000 (- 2)) (dadd (cc_executed_notional ex_buy_costs) (cc_total_fees ex_buy_costs)) = False"
    by (simp add: ex_buy_costs_def ex_costs_def dec_eval)
  have position: "position_reason ex_broker L ex_buy_intent 10 ex_buy_quote ex_buy_costs 200 = Inr None"
    using cash by (simp add: position_reason_def ex_buy_intent_def ex_buy_quote_def account_values_def find_account_def assms)
  have order: "new_order ex_digest ex_broker ex_buy_intent ex_buy_time FILLED None 200 (Some (cc_executed_price ex_buy_costs))
      = Inr ex_buy_order"
    using ex_buy_order_valid(1) [of "[]"]
    by (simp add: new_order_def ex_buy_order_def ex_buy_intent_def ex_buy_costs_def ex_costs_def)
  have fill: "new_fill ex_digest (o_order_id ex_buy_order) (ex_sha (CHR ''1'')) 1 200 ex_buy_costs ex_buy_time
      (i_price_snapshot_id ex_buy_intent) = Inr ex_buy_fill"
    using ex_buy_fill_valid(1) [of "[]"]
    by (simp add: new_fill_def ex_buy_fill_def ex_buy_order_def ex_buy_intent_def ex_buy_costs_def ex_costs_def)
  have fields: "i_earliest_execution_at ex_buy_intent = ex_buy_time" "i_quantity ex_buy_intent = 200"
    "q_executable_quantity ex_buy_quote = None" "oi_quantity (cc_order_input ex_buy_costs) = 200"
    by (simp_all add: ex_buy_intent_def ex_buy_quote_def ex_buy_costs_def ex_costs_def ex_buy_input_def)
  show ?thesis unfolding evaluate_intent_def Let_def by (simp add: gate limit fields position order fill)
qed

definition ex_lot :: "int \<Rightarrow> lot_row" where
  "ex_lot remaining = \<lparr>l_lot_id = ex_sha (CHR ''1''), l_account_id = ''paper'', l_ts_code = ''600000.SH'',
     l_entry_signal_id = ex_sha (CHR ''e''), l_acquisition_trade_date = 10, l_available_date = 11,
     l_original_quantity = 200, l_remaining_quantity = remaining, l_unit_cost = Dec False 10035 (- 3),
     l_persisted_at = ex_buy_time, l_buy_executed_at = ex_buy_time, l_buy_persisted_at = ex_buy_time,
     l_buy_fill_sequence = 1\<rparr>"

definition ex_buy_intent_row :: intent_row where
  "ex_buy_intent_row = \<lparr>ir_intent_id = ex_sha (CHR ''b''), ir_account_id = ''paper'', ir_signal_id = ex_sha (CHR ''e''),
     ir_entry_signal_id = None, ir_ts_code = ''600000.SH'', ir_side = BUY, ir_initial_execution_id = ex_sha (CHR ''1''),
     ir_initial_execution_request_fingerprint = ex_sha (CHR ''1''), ir_payload_json = Some ex_buy_intent,
     ir_persisted_at = ex_buy_time\<rparr>"

definition ex_receipt_row :: "char \<Rightarrow> pyval \<Rightarrow> execution_receipt \<Rightarrow> cost_calculation \<Rightarrow> receipt_row" where
  "ex_receipt_row c request receipt costs =
     \<lparr>rr_execution_id = r_execution_id receipt, rr_account_id = ''paper'', rr_intent_id = ex_sha c,
      rr_order_id = ex_sha c, rr_request_fingerprint = r_request_fingerprint receipt,
      rr_request_json = Some request, rr_receipt_json = Some receipt,
      rr_transfer_fee = Some (fixed_point (cc_transfer_fee costs)), rr_total_fees = Some (fixed_point (cc_total_fees costs)),
      rr_cost_spec_id = Some (ex_sha (CHR ''d'')), rr_cost_spec_schema_version = Some 3,
      rr_cost_context_fingerprint = Some (ex_sha c), rr_cost_provenance_state = KNOWN_V3,
      rr_persisted_at = r_persisted_at receipt\<rparr>"

definition ex_bought_tables :: "ledger \<Rightarrow> ledger" where
  "ex_bought_tables L = L\<lparr>lg_intents := [ex_buy_intent_row],
     lg_orders := [\<lparr>or_order = ex_buy_order, or_entry_signal_id = None\<rparr>],
     lg_fills := [\<lparr>fl_fill = ex_buy_fill, fl_persisted_at = ex_buy_time\<rparr>],
     lg_accounts := [ex_account (Dec False 9799300 (- 2)) dzero], lg_lots := [ex_lot 200],
     lg_receipts := [ex_receipt_row (CHR ''b'') ex_buy_request ex_buy_receipt ex_buy_costs]\<rparr>"

lemma ex_buy_applied:
  assumes "lg_accounts L = [ex_account (Dec False 10000000 (- 2)) dzero]" "lg_cost_specs L = [ex_cost_row]"
    "\<exists>r \<in> set (lg_orders L). o_order_id (or_order r) = ex_sha (CHR ''b'')" "lg_fills L = []" "lg_lots L = []"
  shows "apply_fill ex_broker ex_buy_intent ex_buy_fill 10 (Some 11) ex_buy_time L =
    Inr ((1, 0), L\<lparr>lg_fills := [\<lparr>fl_fill = ex_buy_fill, fl_persisted_at = ex_buy_time\<rparr>],
      lg_accounts := [ex_account (Dec False 9799300 (- 2)) dzero], lg_lots := [ex_lot 200]\<rparr>)"
proof -
  have stored: "stored_fill ex_buy_fill ex_buy_time = \<lparr>fl_fill = ex_buy_fill, fl_persisted_at = ex_buy_time\<rparr>"
    by (simp add: stored_fill_def ex_buy_fill_def fixed_point_def)
  have ins: "insert_fill \<lparr>fl_fill = ex_buy_fill, fl_persisted_at = ex_buy_time\<rparr> L =
      Inr (L\<lparr>lg_fills := [\<lparr>fl_fill = ex_buy_fill, fl_persisted_at = ex_buy_time\<rparr>]\<rparr>)"
    using assms by (simp add: insert_fill_def raise_first.simps spec_exists_def ex_buy_fill_def ex_cost_row_def
        positive_lot_def list_ex_iff)
  have cost: "dadd (fill_notional ex_buy_fill) (Dec False 500 (- 2)) = Dec False 200700 (- 2)"
    by (simp add: fill_notional_def ex_buy_fill_def dec_eval)
  have unit: "ddiv (Dec False 200700 (- 2)) (dof_int 200) = Inr (Dec False 10035 (- 3))"
    by (simp add: dec_eval)
  have cash: "fixed_point (dsub (Dec False 10000000 (- 2)) (Dec False 200700 (- 2))) = Dec False 9799300 (- 2)"
    by (simp add: dec_eval)
  have fields: "i_side ex_buy_intent = BUY" "i_ts_code ex_buy_intent = ''600000.SH''" "i_signal_id ex_buy_intent = ex_sha (CHR ''e'')"
    "f_total_fees ex_buy_fill = Some (Dec False 500 (- 2))" "f_quantity ex_buy_fill = 200"
    "f_fill_id ex_buy_fill = ex_sha (CHR ''1'')" "f_executed_at ex_buy_fill = ex_buy_time" "f_sequence ex_buy_fill = 1"
    by (simp_all add: ex_buy_fill_def ex_buy_intent_def)
  have lot: "insert_lot (ex_lot 200) (L\<lparr>lg_fills := [\<lparr>fl_fill = ex_buy_fill, fl_persisted_at = ex_buy_time\<rparr>],
      lg_accounts := [ex_account (Dec False 9799300 (- 2)) dzero]\<rparr>) =
    Inr (L\<lparr>lg_fills := [\<lparr>fl_fill = ex_buy_fill, fl_persisted_at = ex_buy_time\<rparr>],
      lg_accounts := [ex_account (Dec False 9799300 (- 2)) dzero], lg_lots := [ex_lot 200]\<rparr>)"
    by (simp add: insert_lot_def raise_first.simps account_exists_def positive_lot_def non_negative_lot_def ex_lot_def
        fields assms)
  have pay: "(ex_account c p)\<lparr>ac_cash := c'\<rparr> = ex_account c' p" for c p c' by (simp add: ex_account_def)
  show ?thesis
    unfolding apply_fill_def stored ins rbind_simps apply_buy_def fields
    using lot
    by (simp add: account_values_def find_account_def assms fields cost unit cash set_account_cash_def pay
        ex_lot_def [of 200, symmetric] fixed_point_def [of "Dec False 10035 (- 3)"])
qed

definition ex_bought :: ledger where
  "ex_bought = ex_append 0 ''intent_execution''
     (canonical_sha256 ex_digest (PDict [(''intent'', intent_dump ex_buy_intent), (''receipt'', receipt_dump ex_buy_receipt)]))
     (no_counts\<lparr>n_intent := 1, n_order := 1, n_fill := 1, n_lot := 1, n_consumption := 0, n_receipt := 1\<rparr>)
     (ex_bought_tables ex_opened)"

lemma ex_opened_tables [simp]:
  "lg_accounts ex_opened = [ex_account (Dec False 10000000 (- 2)) dzero]" "lg_cost_specs ex_opened = [ex_cost_row]"
  "lg_intents ex_opened = []" "lg_orders ex_opened = []" "lg_fills ex_opened = []" "lg_lots ex_opened = []"
  "lg_consumptions ex_opened = []" "lg_receipts ex_opened = []" "lg_authorities ex_opened = []"
  by (simp_all add: ex_opened_def ex_ledger_def)

lemma ex_bought_tables_simps [simp]:
  "lg_accounts (ex_bought_tables L) = [ex_account (Dec False 9799300 (- 2)) dzero]"
  "lg_cost_specs (ex_bought_tables L) = lg_cost_specs L" "lg_intents (ex_bought_tables L) = [ex_buy_intent_row]"
  "lg_orders (ex_bought_tables L) = [\<lparr>or_order = ex_buy_order, or_entry_signal_id = None\<rparr>]"
  "lg_fills (ex_bought_tables L) = [\<lparr>fl_fill = ex_buy_fill, fl_persisted_at = ex_buy_time\<rparr>]"
  "lg_lots (ex_bought_tables L) = [ex_lot 200]" "lg_consumptions (ex_bought_tables L) = lg_consumptions L"
  "lg_receipts (ex_bought_tables L) = [ex_receipt_row (CHR ''b'') ex_buy_request ex_buy_receipt ex_buy_costs]"
  "ex_chain n (ex_bought_tables L) = ex_chain n L"
  by (simp_all add: ex_bought_tables_def)

lemma ex_bought_tables [simp]:
  "lg_accounts ex_bought = [ex_account (Dec False 9799300 (- 2)) dzero]" "lg_cost_specs ex_bought = [ex_cost_row]"
  "lg_intents ex_bought = [ex_buy_intent_row]"
  "lg_orders ex_bought = [\<lparr>or_order = ex_buy_order, or_entry_signal_id = None\<rparr>]"
  "lg_fills ex_bought = [\<lparr>fl_fill = ex_buy_fill, fl_persisted_at = ex_buy_time\<rparr>]"
  "lg_lots ex_bought = [ex_lot 200]" "lg_consumptions ex_bought = []"
  "lg_receipts ex_bought = [ex_receipt_row (CHR ''b'') ex_buy_request ex_buy_receipt ex_buy_costs]"
  by (simp_all add: ex_bought_def)

lemma ex_buy_persisted:
  "persist_intent ex_digest 0 ex_broker ex_buy_intent (ex_sha (CHR ''1'')) ex_buy_time ex_buy_time 10 ex_buy_quote
     ex_buy_costs ex_buy_request ex_opened = Inr (ex_buy_order, ex_bought)"
  and ex_bought_chain: "ex_chain 3 ex_bought"
proof -
  let ?L1 = "ex_opened\<lparr>lg_intents := [ex_buy_intent_row]\<rparr>"
  let ?L2 = "?L1\<lparr>lg_orders := [\<lparr>or_order = ex_buy_order, or_entry_signal_id = None\<rparr>]\<rparr>"
  let ?L3 = "?L2\<lparr>lg_fills := [\<lparr>fl_fill = ex_buy_fill, fl_persisted_at = ex_buy_time\<rparr>],
      lg_accounts := [ex_account (Dec False 9799300 (- 2)) dzero], lg_lots := [ex_lot 200]\<rparr>"
  let ?d = "no_counts\<lparr>n_intent := 1, n_order := 1, n_fill := 1, n_lot := 1, n_consumption := 0, n_receipt := 1\<rparr>"
  have intent: "insert_intent ex_buy_intent_row ex_opened = Inr ?L1"
    by (simp add: insert_intent_def raise_first.simps account_exists_def ex_buy_intent_row_def)
  have row: "\<lparr>ir_intent_id = i_intent_id ex_buy_intent, ir_account_id = b_account_id ex_broker,
         ir_signal_id = i_signal_id ex_buy_intent, ir_entry_signal_id = i_entry_signal_id ex_buy_intent,
         ir_ts_code = i_ts_code ex_buy_intent, ir_side = i_side ex_buy_intent,
         ir_initial_execution_id = ex_sha (CHR ''1''), ir_initial_execution_request_fingerprint = ex_sha (CHR ''1''),
         ir_payload_json = Some ex_buy_intent, ir_persisted_at = ex_buy_time\<rparr> = ex_buy_intent_row"
    by (simp add: ex_buy_intent_row_def ex_buy_intent_def)
  have order: "insert_order ex_buy_order ex_buy_intent ?L1 = Inr ?L2"
    by (simp add: insert_order_def insert_order_row_def raise_first.simps account_exists_def ex_buy_intent_row_def
        ex_buy_order_def ex_buy_intent_def positive_lot_def fixed_point_def)
  have fill: "apply_fill ex_broker ex_buy_intent ex_buy_fill 10 (q_acquisition_available_date ex_buy_quote) ex_buy_time ?L2
      = Inr ((1, 0), ?L3)"
    using ex_buy_applied [of ?L2] by (simp add: ex_buy_quote_def ex_buy_order_def)
  have receipt: "execution_receipt_with_cost ex_digest (ex_sha (CHR ''1'')) (ex_sha (CHR ''1'')) (i_intent_id ex_buy_intent)
      ex_buy_order (Some ex_buy_fill) ex_buy_costs ex_buy_time = Inr ex_buy_receipt"
    using ex_buy_receipt_valid
    by (simp add: execution_receipt_with_cost_def ex_buy_receipt_def ex_buy_intent_def ex_buy_costs_def ex_costs_def)
  have stored: "insert_execution_receipt ex_digest ex_broker ex_buy_request ex_buy_receipt ?L3 = Inr (ex_bought_tables ex_opened)"
    by (simp add: insert_execution_receipt_def ex_identities ex_buy_receipt_def insert_receipt_def raise_first.simps
        spec_exists_def account_exists_def ex_cost_row_def ex_buy_intent_row_def ex_buy_order_def ex_bought_tables_def
        ex_receipt_row_def)
  have "counts_nonneg ?d" by (simp add: counts_nonneg_def counts_le_def no_counts_def)
  then have app: "append_ledger_attestation ex_digest 0 ''intent_execution'' e ?d (ex_bought_tables ex_opened) =
      Inr (ex_append 0 ''intent_execution'' e ?d (ex_bought_tables ex_opened))"
    "ex_chain 3 (ex_append 0 ''intent_execution'' e ?d (ex_bought_tables ex_opened))" for e
    using ex_append_works [of 2 "ex_bought_tables ex_opened" ?d] ex_opened_chain by simp_all
  have "o_updated_at ex_buy_order = ex_buy_time" by (simp add: ex_buy_order_def)
  then show "persist_intent ex_digest 0 ex_broker ex_buy_intent (ex_sha (CHR ''1'')) ex_buy_time ex_buy_time 10 ex_buy_quote
     ex_buy_costs ex_buy_request ex_opened = Inr (ex_buy_order, ex_bought)"
    unfolding persist_intent_def Let_def ex_identities row
    by (simp add: intent ex_buy_evaluated [of ?L1] order fill receipt stored app ex_bought_def)
  show "ex_chain 3 ex_bought" by (simp add: ex_bought_def app(2))
qed

lemma ex_execution_costs:
  "execution_costs ex_digest ex_broker BUY (Dec False 1000 (- 2)) 200 ex_context = Inr ex_buy_costs"
  "execution_costs ex_digest ex_broker SELL (Dec False 1050 (- 2)) 100 ex_context = Inr ex_sell_costs"
  using ex_inputs_valid ex_costs_resolve
  by (simp_all add: execution_costs_def calculate_execution_costs_def ex_spec_valid ex_context_valid
      is_alignment_eligible_def ex_buy_input_def ex_sell_input_def) (simp_all add: ex_spec_def)

lemma ex_instrument: "require_matching_instrument_context ''600000.SH'' ex_context = Inr ()"
  by (simp add: require_matching_instrument_context_def raise_first.simps ex_context_def ex_provenance_def text_eval)

lemma ex_buy:
  "submit_intent ex_digest 0 ex_broker ex_buy_intent (Some (ex_sha (CHR ''1''))) ex_buy_time None 10 ex_buy_quote ex_opened
   = Inr (ex_buy_order, ex_bought)"
proof -
  have fields: "i_account_id ex_buy_intent = ''paper''" "i_available_at ex_buy_intent = ex_buy_time"
    "i_ts_code ex_buy_intent = ''600000.SH''" "i_side ex_buy_intent = BUY" "i_quantity ex_buy_intent = 200"
    "i_intent_id ex_buy_intent = ex_sha (CHR ''b'')" "q_instrument_context ex_buy_quote = ex_context"
    "q_executable_quantity ex_buy_quote = None" "q_executable_price ex_buy_quote = Dec False 1000 (- 2)"
    by (simp_all add: ex_buy_intent_def ex_buy_quote_def)
  have "require_execution_ready ex_digest ex_broker ex_opened = Inr ()"
    using ex_ready [OF ex_opened_chain] by simp
  then show ?thesis
    using ex_buy_persisted
    by (simp add: submit_intent_def raise_first.simps fields resolve_execution_id_def check_execution_id_def ex_instrument
        ex_execution_costs find_execution_receipt_def find_receipt_row_def ex_buy_request_def [symmetric])
qed

end
