(* ===== verification/Sell_Example.thy ===== *)
theory Sell_Example
  imports Buy_Example
begin

text \<open>
  Selling one of the two lots on the next trading day: the quantity authority is derived from the
  ledger, and the sale is evaluated through \<open>submit_intent\<close>.
\<close>

section \<open>The quantity authority\<close>

definition ex_sell_time :: utc where "ex_sell_time = 950400000000"

lemma ex_sell_date [simp]: "shanghai_date ex_sell_time = 11" "ex_buy_time \<le> ex_sell_time" "\<not> ex_sell_time < ex_buy_time"
  by (simp_all add: shanghai_date_def ex_sell_time_def ex_buy_time_def microseconds_per_day_def)

definition ex_authority :: sell_authority where
  "ex_authority = \<lparr>a_snapshot_id = ex_sha (CHR ''d''), a_exit_signal_id = ex_sha (CHR ''f''),
     a_entry_signal_id = ex_sha (CHR ''e''), a_account_id = ''paper'', a_ts_code = ''600000.SH'', a_action = REDUCE,
     a_decision_cutoff = ex_sell_time, a_remaining_quantity = 200, a_available_quantity = 200,
     a_tranche_fraction = Dec False 5 (- 1), a_requested_quantity = 100,
     a_source_lot_fingerprint = ex_sha (CHR ''d'')\<rparr>"

lemma ex_buy_fill_fields [simp]:
  "f_fill_id ex_buy_fill = ex_sha (CHR ''1'')" "f_execution_id ex_buy_fill = ex_sha (CHR ''1'')"
  "f_order_id ex_buy_fill = ex_sha (CHR ''b'')" "f_sequence ex_buy_fill = 1" "f_quantity ex_buy_fill = 200"
  "f_executed_at ex_buy_fill = ex_buy_time"
  by (simp_all add: ex_buy_fill_def)

lemma ex_lot_fields [simp]:
  "l_lot_id (ex_lot n) = ex_sha (CHR ''1'')" "l_account_id (ex_lot n) = ''paper''" "l_ts_code (ex_lot n) = ''600000.SH''"
  "l_entry_signal_id (ex_lot n) = ex_sha (CHR ''e'')" "l_acquisition_trade_date (ex_lot n) = 10"
  "l_available_date (ex_lot n) = 11" "l_original_quantity (ex_lot n) = 200" "l_remaining_quantity (ex_lot n) = n"
  "l_unit_cost (ex_lot n) = Dec False 10035 (- 3)" "l_persisted_at (ex_lot n) = ex_buy_time"
  "l_buy_executed_at (ex_lot n) = ex_buy_time" "l_buy_persisted_at (ex_lot n) = ex_buy_time" "l_buy_fill_sequence (ex_lot n) = 1"
  by (simp_all add: ex_lot_def)

lemma ex_entry_position:
  "entry_position_at ex_digest ex_broker ex_bought (ex_sha (CHR ''e'')) ''600000.SH'' ex_sell_time 11
   = Inr (200, 200, ex_sha (CHR ''d''))"
proof -
  let ?o = "\<lparr>or_order = ex_buy_order, or_entry_signal_id = None\<rparr>"
  let ?f = "\<lparr>fl_fill = ex_buy_fill, fl_persisted_at = ex_buy_time\<rparr>"
  have order: "o_intent_id ex_buy_order = ex_sha (CHR ''b'')" "o_order_id ex_buy_order = ex_sha (CHR ''b'')"
    "o_side ex_buy_order = BUY" "o_account_id ex_buy_order = ''paper''" "o_ts_code ex_buy_order = ''600000.SH''"
    by (simp_all add: ex_buy_order_def)
  have rows: "entry_rows ex_broker ex_bought ''600000.SH'' (ex_sha (CHR ''e'')) = [(ex_buy_intent_row, ?o)]"
    by (simp add: entry_rows_def ex_buy_intent_row_def order)
  have intent: "load_intent ex_digest (ir_payload_json ex_buy_intent_row) = Inr ex_buy_intent"
    using ex_buy_intent_valid by (simp add: load_intent_def ex_buy_intent_row_def)
  have binds: "entry_binds ex_broker (ex_sha (CHR ''e'')) ''600000.SH'' ex_buy_intent_row ?o ex_buy_intent"
    by (simp add: entry_binds_def ex_buy_intent_row_def ex_buy_intent_def order)
  have fills: "visible_fills ex_digest ex_bought (ex_sha (CHR ''b'')) ex_sell_time = Inr [(ex_buy_fill, ex_buy_time)]"
    using ex_buy_fill_valid(2)
    by (simp add: visible_fills_def visible_fill_def fill_from_row_def)
  have none: "lot_consumptions ex_bought i ex_sell_time = []" for i by (simp add: lot_consumptions_def)
  have lot: "\<exists>e. lot_position ex_digest ex_broker ex_bought (ex_sha (CHR ''e'')) ''600000.SH'' ex_sell_time 11
      (ex_buy_fill, ex_buy_time) = Inr (200, 200, e)"
    by (simp add: lot_position_def none)
  moreover have "ir_persisted_at ex_buy_intent_row = ex_buy_time" by (simp add: ex_buy_intent_row_def)
  ultimately show ?thesis
    unfolding entry_position_at_def rows by (auto simp: intent binds fills order ex_digest_eval)
qed

lemma ex_authority_valid:
  "make_sell_authority ex_digest None (ex_authority\<lparr>a_snapshot_id := i\<rparr>) = Inr ex_authority"
  "make_sell_authority ex_digest (Some (ex_sha (CHR ''d''))) ex_authority = Inr ex_authority"
proof -
  have id: "canonical_sha256 ex_digest (PDict (sell_authority_content (ex_authority\<lparr>a_snapshot_id := i\<rparr>))) = ex_sha (CHR ''d'')" for i
    by (simp add: sell_authority_content_def ex_digest_eval)
  have expected: "expected_sell_quantity (ex_authority\<lparr>a_snapshot_id := i\<rparr>) = Inr 100" for i
    by (simp add: expected_sell_quantity_def tranche_lots_def ex_authority_def dec_eval)
  have fields: "raise_first (sell_authority_fields (ex_authority\<lparr>a_snapshot_id := i\<rparr>)) () = Inr ()" for i
    by (simp add: sell_authority_fields_def raise_first.simps ex_authority_def positive_lot_def non_negative_lot_def dec_eval)
  have made: "make_sell_authority ex_digest supplied (ex_authority\<lparr>a_snapshot_id := i\<rparr>) = Inr ex_authority"
    if "supplied = None \<or> supplied = Some (ex_sha (CHR ''d''))" for i supplied
    using that unfolding make_sell_authority_def fields rbind_simps expected id Let_def
    by (auto simp: ex_authority_def)
  show "make_sell_authority ex_digest None (ex_authority\<lparr>a_snapshot_id := i\<rparr>) = Inr ex_authority" by (rule made) simp
  have "ex_authority\<lparr>a_snapshot_id := ex_sha (CHR ''d'')\<rparr> = ex_authority" by (simp add: ex_authority_def)
  with made [of "Some (ex_sha (CHR ''d''))" "ex_sha (CHR ''d'')"]
  show "make_sell_authority ex_digest (Some (ex_sha (CHR ''d''))) ex_authority = Inr ex_authority" by simp
qed

lemma ex_bought_ready: "require_execution_ready ex_digest ex_broker ex_bought = Inr ()"
  using ex_ready [OF ex_bought_chain] by simp

lemma ex_sell_authority:
  "sell_quantity_authority ex_digest ex_broker ex_bought (ex_sha (CHR ''f'')) (ex_sha (CHR ''e'')) ''600000.SH'' REDUCE
     (Dec False 5 (- 1)) ex_sell_time 11 = Inr ex_authority"
proof -
  have "dtrunc (dmul (dof_int 200) (Dec False 5 (- 1))) = 100" by (simp add: dec_eval)
  then show ?thesis
    using ex_authority_valid(1) [of "[]"]
    by (simp add: sell_quantity_authority_def ex_bought_ready ex_entry_position Let_def ex_authority_def)
qed

section \<open>Selling\<close>

definition ex_sell_intent :: order_intent where
  "ex_sell_intent = \<lparr>i_intent_id = ex_sha (CHR ''c''), i_signal_id = ex_sha (CHR ''f''),
     i_entry_signal_id = Some (ex_sha (CHR ''e'')), i_sell_quantity_authority = Some ex_authority,
     i_account_id = ''paper'', i_ts_code = ''600000.SH'', i_side = SELL, i_order_type = MARKET, i_quantity = 100,
     i_limit_price = None, i_event_time = ex_sell_time, i_available_at = ex_sell_time,
     i_expires_at = ex_sell_time + 1000000, i_earliest_execution_at = ex_sell_time,
     i_price_snapshot_id = ex_sha (CHR ''2''), i_producer_commit = replicate 40 (CHR ''a'')\<rparr>"

definition ex_sell_quote :: execution_quote where
  "ex_sell_quote = \<lparr>q_executable_price = Dec False 1050 (- 2), q_instrument_context = ex_context,
     q_executable_quantity = None, q_acquisition_available_date = None, q_suspended = False,
     q_limit_locked = False, q_risk_rejected = False\<rparr>"

definition ex_sell_order :: paper_order where
  "ex_sell_order = \<lparr>o_order_id = ex_sha (CHR ''c''), o_intent_id = ex_sha (CHR ''c''), o_account_id = ''paper'',
     o_ts_code = ''600000.SH'', o_side = SELL, o_order_type = MARKET, o_quantity = 100, o_filled_quantity = 100,
     o_average_fill_price = Some (Dec False 1049 (- 2)), o_status = FILLED, o_reject_reason = None,
     o_created_at = ex_sell_time, o_updated_at = ex_sell_time\<rparr>"

definition ex_sell_fill :: paper_fill where
  "ex_sell_fill = \<lparr>f_fill_id = ex_sha (CHR ''2''), f_execution_id = ex_sha (CHR ''2''), f_order_id = ex_sha (CHR ''c''),
     f_sequence = 1, f_quantity = 100, f_price = Dec False 1049 (- 2), f_commission = Dec False 500 (- 2),
     f_transfer_fee = Some (Dec False 0 (- 2)), f_tax = Dec False 52 (- 2), f_total_fees = Some (Dec False 552 (- 2)),
     f_cost_spec_id = Some (ex_sha (CHR ''d'')), f_cost_spec_schema_version = Some 3,
     f_cost_context_fingerprint = Some (ex_sha (CHR ''c'')), f_cost_provenance_state = KNOWN_V3,
     f_executed_at = ex_sell_time, f_price_snapshot_id = ex_sha (CHR ''2'')\<rparr>"

definition ex_sell_receipt :: execution_receipt where
  "ex_sell_receipt = \<lparr>r_execution_id = ex_sha (CHR ''2''), r_request_fingerprint = ex_sha (CHR ''2''),
     r_intent_id = ex_sha (CHR ''c''), r_order = ex_sell_order, r_fill = Some ex_sell_fill,
     r_cost_spec_id = Some (ex_sha (CHR ''d'')), r_cost_spec_schema_version = Some 3,
     r_cost_context_fingerprint = Some (ex_sha (CHR ''c'')), r_cost_provenance_state = KNOWN_V3,
     r_cost_calculation = Some ex_sell_costs, r_persisted_at = ex_sell_time\<rparr>"

definition ex_sell_request :: pyval where
  "ex_sell_request = initial_request ex_digest (ex_sha (CHR ''2'')) (ex_sha (CHR ''c'')) ex_sell_time ex_sell_time 11
     ex_sell_quote ex_sell_costs"

lemma ex_sell_identities:
  "canonical_sha256 ex_digest ex_sell_request = ex_sha (CHR ''2'')"
  "order_identity ex_digest ''paper'' (ex_sha (CHR ''c'')) = ex_sha (CHR ''c'')"
  "fill_identity ex_digest (ex_sha (CHR ''c'')) (ex_sha (CHR ''2'')) = ex_sha (CHR ''2'')"
  by (simp_all add: ex_sell_request_def initial_request_def order_identity_def fill_identity_def ex_digest_eval)

lemma ex_sell_order_valid:
  "make_order ex_digest None (ex_sell_order\<lparr>o_order_id := i\<rparr>) = Inr ex_sell_order"
  "make_order ex_digest (Some (ex_sha (CHR ''c''))) ex_sell_order = Inr ex_sell_order"
  by (simp_all add: make_order_def order_fields_def order_status_checks_def raise_first.simps ex_sell_order_def
      ex_sell_identities bind_identity_def positive_lot_def non_negative_lot_def dec_eval Let_def)

lemma ex_sell_fill_valid:
  "make_fill ex_digest None (ex_sell_fill\<lparr>f_fill_id := i\<rparr>) = Inr ex_sell_fill"
  "make_fill ex_digest (Some (ex_sha (CHR ''2''))) ex_sell_fill = Inr ex_sell_fill"
  by (simp_all add: make_fill_def fill_fields_def validate_cost_provenance_def raise_first.simps ex_sell_fill_def
      ex_sell_identities bind_identity_def positive_lot_def dec_eval Let_def)

lemma ex_sell_receipt_valid: "make_receipt ex_digest ex_sell_receipt = Inr ex_sell_receipt"
proof -
  have "validate_execution ex_sell_receipt = Inr ex_sell_receipt"
    by (simp add: validate_execution_def validate_known_v3_def fill_matches_calculation_def
        calculation_matches_receipt_def opt_deq_def ex_sell_receipt_def ex_sell_order_def ex_sell_fill_def
        ex_sell_costs_def ex_costs_def)
  then show ?thesis
    using ex_sell_order_valid(2) ex_sell_fill_valid(2) ex_costs_valid(2)
    by (simp add: make_receipt_def receipt_fields_def raise_first.simps validate_opt_def ex_sell_receipt_def
        ex_sell_order_def ex_sell_fill_def)
qed

lemma ex_entry_lots:
  assumes "lg_lots L = [ex_lot n]" "ex_buy_intent_row \<in> set (lg_intents L)"
    "\<lparr>or_order = ex_buy_order, or_entry_signal_id = None\<rparr> \<in> set (lg_orders L)"
    "\<lparr>fl_fill = ex_buy_fill, fl_persisted_at = ex_buy_time\<rparr> \<in> set (lg_fills L)"
  shows "entry_lots ex_broker L ''600000.SH'' (ex_sha (CHR ''e'')) = [ex_lot n]"
proof -
  have "lot_has_buy L (ex_lot n)"
    unfolding lot_has_buy_def list_ex_iff
    by (rule bexI [OF _ assms(4)], simp, rule bexI [OF _ assms(3)], simp add: ex_buy_order_def,
        rule bexI [OF _ assms(2)], simp add: ex_buy_intent_row_def)
  then show ?thesis by (simp add: entry_lots_def assms(1))
qed

lemma ex_sell_intent_fields [simp]:
  "i_intent_id ex_sell_intent = ex_sha (CHR ''c'')" "i_signal_id ex_sell_intent = ex_sha (CHR ''f'')"
  "i_entry_signal_id ex_sell_intent = Some (ex_sha (CHR ''e''))" "i_sell_quantity_authority ex_sell_intent = Some ex_authority"
  "i_account_id ex_sell_intent = ''paper''" "i_ts_code ex_sell_intent = ''600000.SH''" "i_side ex_sell_intent = SELL"
  "i_order_type ex_sell_intent = MARKET" "i_quantity ex_sell_intent = 100" "i_available_at ex_sell_intent = ex_sell_time"
  "i_earliest_execution_at ex_sell_intent = ex_sell_time" "i_price_snapshot_id ex_sell_intent = ex_sha (CHR ''2'')"
  "i_expires_at ex_sell_intent = ex_sell_time + 1000000"
  by (simp_all add: ex_sell_intent_def)

lemma ex_sell_quote_fields [simp]:
  "q_executable_price ex_sell_quote = Dec False 1050 (- 2)" "q_instrument_context ex_sell_quote = ex_context"
  "q_executable_quantity ex_sell_quote = None" "q_acquisition_available_date ex_sell_quote = None"
  "\<not> q_suspended ex_sell_quote" "\<not> q_limit_locked ex_sell_quote" "\<not> q_risk_rejected ex_sell_quote"
  by (simp_all add: ex_sell_quote_def)

lemma ex_sell_costs_fields [simp]:
  "cc_executed_price ex_sell_costs = Dec False 1049 (- 2)" "oi_quantity (cc_order_input ex_sell_costs) = 100"
  by (simp_all add: ex_sell_costs_def ex_costs_def ex_sell_input_def)

lemma ex_sell_evaluated:
  assumes "entry_lots ex_broker L ''600000.SH'' (ex_sha (CHR ''e'')) = [ex_lot 200]"
  shows "evaluate_intent ex_digest ex_broker L ex_sell_intent (ex_sha (CHR ''2'')) ex_sell_time 11 ex_sell_quote ex_sell_costs
    = Inr (ex_sell_order, Some ex_sell_fill)"
proof -
  have gate: "gate_reason ex_sell_quote ex_sell_time ex_sell_intent = None" by (simp add: gate_reason_def)
  have limit: "misses_limit ex_sell_intent p = Inr False" for p by (simp add: misses_limit_def)
  have position: "position_reason ex_broker L ex_sell_intent 11 ex_sell_quote ex_sell_costs 100 = Inr None"
    by (simp add: position_reason_def position_quantities_def assms Let_def)
  have order: "new_order ex_digest ex_broker ex_sell_intent ex_sell_time FILLED None 100 (Some (Dec False 1049 (- 2)))
      = Inr ex_sell_order"
    using ex_sell_order_valid(1) [of "[]"] by (simp add: new_order_def ex_sell_order_def)
  have fill: "new_fill ex_digest (o_order_id ex_sell_order) (ex_sha (CHR ''2'')) 1 100 ex_sell_costs ex_sell_time
      (ex_sha (CHR ''2'')) = Inr ex_sell_fill"
    using ex_sell_fill_valid(1) [of "[]"]
    by (simp add: new_fill_def ex_sell_fill_def ex_sell_order_def ex_sell_costs_def ex_costs_def)
  show ?thesis unfolding evaluate_intent_def Let_def by (simp add: gate limit position order fill)
qed

definition ex_consumption :: consumption_row where
  "ex_consumption = \<lparr>c_fill_id = ex_sha (CHR ''2''), c_lot_id = ex_sha (CHR ''1''), c_quantity = 100,
     c_unit_cost = Dec False 10035 (- 3), c_persisted_at = ex_sell_time\<rparr>"

abbreviation ex_sell_fill_row :: fill_row where
  "ex_sell_fill_row \<equiv> \<lparr>fl_fill = ex_sell_fill, fl_persisted_at = ex_sell_time\<rparr>"

abbreviation ex_buy_fill_row :: fill_row where
  "ex_buy_fill_row \<equiv> \<lparr>fl_fill = ex_buy_fill, fl_persisted_at = ex_buy_time\<rparr>"

lemma ex_sell_applied:
  assumes "lg_accounts L = [ex_account (Dec False 9799300 (- 2)) dzero]" "lg_cost_specs L = [ex_cost_row]"
    "\<lparr>or_order = ex_sell_order, or_entry_signal_id = e\<rparr> \<in> set (lg_orders L)" "lg_fills L = [ex_buy_fill_row]"
    "lg_lots L = [ex_lot 200]" "lg_consumptions L = []"
    "entry_lots ex_broker (L\<lparr>lg_fills := [ex_buy_fill_row, ex_sell_fill_row]\<rparr>) ''600000.SH'' (ex_sha (CHR ''e'')) = [ex_lot 200]"
  shows "apply_fill ex_broker ex_sell_intent ex_sell_fill 11 None ex_sell_time L =
    Inr ((0, 1), L\<lparr>lg_fills := [ex_buy_fill_row, ex_sell_fill_row], lg_lots := [ex_lot 100],
      lg_consumptions := [ex_consumption], lg_accounts := [ex_account (Dec False 9903648 (- 2)) (Dec False 39980 (- 3))]\<rparr>)"
proof -
  let ?L = "L\<lparr>lg_fills := [ex_buy_fill_row, ex_sell_fill_row]\<rparr>"
  have stored: "stored_fill ex_sell_fill ex_sell_time = ex_sell_fill_row"
    by (simp add: stored_fill_def ex_sell_fill_def fixed_point_def)
  have "\<exists>x \<in> set (lg_orders L). o_order_id (or_order x) = ex_sha (CHR ''c'')"
    using assms(3) by (rule rev_bexI) (simp add: ex_sell_order_def)
  then have ins: "insert_fill ex_sell_fill_row L = Inr ?L"
    using assms(1,2,4) by (simp add: insert_fill_def raise_first.simps spec_exists_def ex_sell_fill_def ex_cost_row_def
        positive_lot_def list_ex_iff Let_def)
  have lots: "eligible_lots ex_broker ?L ''600000.SH'' (ex_sha (CHR ''e'')) 11 = [ex_lot 200]"
    unfolding eligible_lots_def assms(7) by simp
  have upd: "(ex_lot 200)\<lparr>l_remaining_quantity := 100\<rparr> = ex_lot 100" by (simp add: ex_lot_def)
  have fields: "f_fill_id ex_sell_fill = ex_sha (CHR ''2'')" "f_quantity ex_sell_fill = 100"
    "f_total_fees ex_sell_fill = Some (Dec False 552 (- 2))" by (simp_all add: ex_sell_fill_def)
  have dec: "dadd dzero (dmul (Dec False 10035 (- 3)) (dof_int 100)) = Dec False 1003500 (- 3)"
    "dsub (fill_notional ex_sell_fill) (Dec False 552 (- 2)) = Dec False 104348 (- 2)"
    "dadd (Dec False 9799300 (- 2)) (Dec False 104348 (- 2)) = Dec False 9903648 (- 2)"
    "dsub (dadd dzero (Dec False 104348 (- 2))) (Dec False 1003500 (- 3)) = Dec False 39980 (- 3)"
    by (simp_all add: fill_notional_def ex_sell_fill_def dec_eval)
  have allocated: "allocate_lots (ex_sha (CHR ''2'')) ex_sell_time [ex_lot 200] 100 dzero 0 ?L =
      Inr (0, Dec False 1003500 (- 3), 1, ?L\<lparr>lg_lots := [ex_lot 100], lg_consumptions := [ex_consumption]\<rparr>)"
    by (simp add: consume_lot_def insert_consumption_def raise_first.simps positive_lot_def non_negative_lot_def
        assms upd dec fixed_point_def fields ex_consumption_def Let_def)
  have pay: "(ex_account c p)\<lparr>ac_cash := c', ac_realized_pnl := p'\<rparr> = ex_account c' p'" for c p c' p'
    by (simp add: ex_account_def)
  show ?thesis
    unfolding apply_fill_def stored ins rbind_simps apply_sell_def
    by (simp add: account_values_def find_account_def assms(1) fields lots allocated set_account_values_def pay dec
        fixed_point_def [of "Dec s c e" for s c e] del: allocate_lots.simps)
qed

definition ex_sell_intent_row :: intent_row where
  "ex_sell_intent_row = \<lparr>ir_intent_id = ex_sha (CHR ''c''), ir_account_id = ''paper'', ir_signal_id = ex_sha (CHR ''f''),
     ir_entry_signal_id = Some (ex_sha (CHR ''e'')), ir_ts_code = ''600000.SH'', ir_side = SELL,
     ir_initial_execution_id = ex_sha (CHR ''2''), ir_initial_execution_request_fingerprint = ex_sha (CHR ''2''),
     ir_payload_json = Some ex_sell_intent, ir_persisted_at = ex_sell_time\<rparr>"

abbreviation ex_buy_order_row :: order_row where
  "ex_buy_order_row \<equiv> \<lparr>or_order = ex_buy_order, or_entry_signal_id = None\<rparr>"

abbreviation ex_sell_order_row :: order_row where
  "ex_sell_order_row \<equiv> \<lparr>or_order = ex_sell_order, or_entry_signal_id = Some (ex_sha (CHR ''e''))\<rparr>"

definition ex_sold_tables :: "ledger \<Rightarrow> ledger" where
  "ex_sold_tables L = L\<lparr>lg_intents := [ex_buy_intent_row, ex_sell_intent_row],
     lg_orders := [ex_buy_order_row, ex_sell_order_row], lg_fills := [ex_buy_fill_row, ex_sell_fill_row],
     lg_lots := [ex_lot 100], lg_consumptions := [ex_consumption],
     lg_accounts := [ex_account (Dec False 9903648 (- 2)) (Dec False 39980 (- 3))],
     lg_receipts := [ex_receipt_row (CHR ''b'') ex_buy_request ex_buy_receipt ex_buy_costs,
       ex_receipt_row (CHR ''c'') ex_sell_request ex_sell_receipt ex_sell_costs]\<rparr>"

definition ex_sold :: ledger where
  "ex_sold = ex_append 0 ''intent_execution''
     (canonical_sha256 ex_digest (PDict [(''intent'', intent_dump ex_sell_intent), (''receipt'', receipt_dump ex_sell_receipt)]))
     (no_counts\<lparr>n_intent := 1, n_order := 1, n_fill := 1, n_lot := 0, n_consumption := 1, n_receipt := 1\<rparr>)
     (ex_sold_tables ex_bought)"

lemma ex_sold_tables_simps [simp]:
  "ex_chain n (ex_sold_tables L) = ex_chain n L"
  by (simp add: ex_sold_tables_def)

lemma ex_sold_tables [simp]:
  "lg_accounts ex_sold = [ex_account (Dec False 9903648 (- 2)) (Dec False 39980 (- 3))]"
  "lg_cost_specs ex_sold = [ex_cost_row]" "lg_intents ex_sold = [ex_buy_intent_row, ex_sell_intent_row]"
  "lg_orders ex_sold = [ex_buy_order_row, ex_sell_order_row]" "lg_fills ex_sold = [ex_buy_fill_row, ex_sell_fill_row]"
  "lg_lots ex_sold = [ex_lot 100]" "lg_consumptions ex_sold = [ex_consumption]"
  "lg_receipts ex_sold = [ex_receipt_row (CHR ''b'') ex_buy_request ex_buy_receipt ex_buy_costs,
     ex_receipt_row (CHR ''c'') ex_sell_request ex_sell_receipt ex_sell_costs]"
  by (simp_all add: ex_sold_def ex_sold_tables_def)

lemma ex_sell_persisted:
  "persist_intent ex_digest 0 ex_broker ex_sell_intent (ex_sha (CHR ''2'')) ex_sell_time ex_sell_time 11 ex_sell_quote
     ex_sell_costs ex_sell_request ex_bought = Inr (ex_sell_order, ex_sold)"
  and ex_sold_chain: "ex_chain 4 ex_sold"
proof -
  let ?L1 = "ex_bought\<lparr>lg_intents := [ex_buy_intent_row, ex_sell_intent_row]\<rparr>"
  let ?L2 = "?L1\<lparr>lg_orders := [ex_buy_order_row, ex_sell_order_row]\<rparr>"
  let ?L3 = "?L2\<lparr>lg_fills := [ex_buy_fill_row, ex_sell_fill_row], lg_lots := [ex_lot 100],
      lg_consumptions := [ex_consumption], lg_accounts := [ex_account (Dec False 9903648 (- 2)) (Dec False 39980 (- 3))]\<rparr>"
  let ?d = "no_counts\<lparr>n_intent := 1, n_order := 1, n_fill := 1, n_lot := 0, n_consumption := 1, n_receipt := 1\<rparr>"
  have row: "\<lparr>ir_intent_id = i_intent_id ex_sell_intent, ir_account_id = b_account_id ex_broker,
         ir_signal_id = i_signal_id ex_sell_intent, ir_entry_signal_id = i_entry_signal_id ex_sell_intent,
         ir_ts_code = i_ts_code ex_sell_intent, ir_side = i_side ex_sell_intent,
         ir_initial_execution_id = ex_sha (CHR ''2''), ir_initial_execution_request_fingerprint = ex_sha (CHR ''2''),
         ir_payload_json = Some ex_sell_intent, ir_persisted_at = ex_sell_time\<rparr> = ex_sell_intent_row"
    by (simp add: ex_sell_intent_row_def)
  have intent: "insert_intent ex_sell_intent_row ex_bought = Inr ?L1"
    by (simp add: insert_intent_def raise_first.simps account_exists_def ex_sell_intent_row_def ex_buy_intent_row_def)
  have order: "insert_order ex_sell_order ex_sell_intent ?L1 = Inr ?L2"
    by (simp add: insert_order_def insert_order_row_def raise_first.simps account_exists_def ex_sell_intent_row_def
        ex_sell_order_def ex_buy_order_def positive_lot_def fixed_point_def)
  have fill: "apply_fill ex_broker ex_sell_intent ex_sell_fill 11 None ex_sell_time ?L2 = Inr ((0, 1), ?L3)"
    by (subst ex_sell_applied [where e = "Some (ex_sha (CHR ''e''))"]) (simp_all add: ex_entry_lots)
  have receipt: "execution_receipt_with_cost ex_digest (ex_sha (CHR ''2'')) (ex_sha (CHR ''2'')) (ex_sha (CHR ''c''))
      ex_sell_order (Some ex_sell_fill) ex_sell_costs ex_sell_time = Inr ex_sell_receipt"
    using ex_sell_receipt_valid
    by (simp add: execution_receipt_with_cost_def ex_sell_receipt_def ex_sell_costs_def ex_costs_def)
  have stored: "insert_execution_receipt ex_digest ex_broker ex_sell_request ex_sell_receipt ?L3 = Inr (ex_sold_tables ex_bought)"
    by (simp add: insert_execution_receipt_def ex_sell_identities ex_sell_receipt_def insert_receipt_def raise_first.simps
        spec_exists_def account_exists_def ex_cost_row_def ex_sell_intent_row_def ex_sell_order_def ex_sold_tables_def
        ex_receipt_row_def ex_buy_receipt_def)
  have "counts_nonneg ?d" by (simp add: counts_nonneg_def counts_le_def no_counts_def)
  then have app: "append_ledger_attestation ex_digest 0 ''intent_execution'' e ?d (ex_sold_tables ex_bought) =
      Inr (ex_append 0 ''intent_execution'' e ?d (ex_sold_tables ex_bought))"
    "ex_chain 4 (ex_append 0 ''intent_execution'' e ?d (ex_sold_tables ex_bought))" for e
    using ex_append_works [of 3 "ex_sold_tables ex_bought" ?d] ex_bought_chain by simp_all
  have "o_updated_at ex_sell_order = ex_sell_time" by (simp add: ex_sell_order_def)
  then show "persist_intent ex_digest 0 ex_broker ex_sell_intent (ex_sha (CHR ''2'')) ex_sell_time ex_sell_time 11 ex_sell_quote
     ex_sell_costs ex_sell_request ex_bought = Inr (ex_sell_order, ex_sold)"
    unfolding persist_intent_def Let_def ex_sell_identities row
    by (simp add: intent ex_sell_evaluated [of ?L1] ex_entry_lots order fill receipt stored app ex_sold_def)
  show "ex_chain 4 ex_sold" by (simp add: ex_sold_def app(2))
qed

lemma ex_sell:
  "submit_intent ex_digest 0 ex_broker ex_sell_intent (Some (ex_sha (CHR ''2''))) ex_sell_time None 11 ex_sell_quote ex_bought
   = Inr (ex_sell_order, ex_sold)"
proof -
  have "a_decision_cutoff ex_authority = ex_sell_time" by (simp add: ex_authority_def)
  then have "validate_sell_quantity_authority ex_digest ex_broker ex_bought ex_sell_intent ex_sell_time 11 = Inr ()"
    using ex_authority_valid(1) [of "[]"]
    by (simp add: validate_sell_quantity_authority_def ex_entry_position ex_authority_def same_authority_def)
  moreover have "find_execution_receipt ex_digest ex_broker ex_bought (ex_sha (CHR ''2'')) = Inr None"
    by (simp add: find_execution_receipt_def find_receipt_row_def ex_receipt_row_def ex_buy_receipt_def)
  moreover have "ir_intent_id ex_buy_intent_row = ex_sha (CHR ''b'')" by (simp add: ex_buy_intent_row_def)
  ultimately show ?thesis
    using ex_sell_persisted
    by (simp add: submit_intent_def raise_first.simps resolve_execution_id_def check_execution_id_def ex_instrument
        ex_execution_costs ex_bought_ready ex_sell_request_def [symmetric])
qed

section \<open>The round trip as a trace\<close>

lemma ex_fresh: "fresh_ledger ex_ledger"
  using ex_ledger_chain
  by (simp add: fresh_ledger_def ex_chain_def) (simp add: ex_ledger_def attested_counts_def ex_genesis_def)

lemma ex_opening: "broker_step ex_digest ex_ledger ex_opened"
proof (rule broker_step.open_account [OF _ ex_open])
  show "make_broker ''paper'' (Dec False 10000000 (- 2)) (b_cost_policy ex_broker) = Inr ex_broker"
    by (simp add: make_broker_def raise_first.simps ex_broker_def py_strip_def is_space_def dec_eval)
qed

lemma ex_opened_trace: "(broker_step ex_digest)\<^sup>*\<^sup>* ex_ledger ex_opened"
  by (rule r_into_rtranclp) (rule ex_opening)

lemma ex_trace:
  "(broker_step ex_digest)\<^sup>*\<^sup>* ex_ledger ex_bought" "(broker_step ex_digest)\<^sup>*\<^sup>* ex_bought ex_sold"
  "(broker_step ex_digest)\<^sup>*\<^sup>* ex_ledger ex_sold"
proof -
  have "broker_step ex_digest ex_opened ex_bought" by (rule broker_step.submit [OF ex_buy])
  with ex_opening show 1: "(broker_step ex_digest)\<^sup>*\<^sup>* ex_ledger ex_bought"
    by (meson converse_rtranclp_into_rtranclp rtranclp.rtrancl_refl)
  show 2: "(broker_step ex_digest)\<^sup>*\<^sup>* ex_bought ex_sold"
    by (rule r_into_rtranclp) (rule broker_step.submit [OF ex_sell])
  from 1 2 show "(broker_step ex_digest)\<^sup>*\<^sup>* ex_ledger ex_sold" by (rule rtranclp_trans)
qed

end
