(* ===== verification/Broker_Replay.thy ===== *)
theory Broker_Replay
  imports Broker_Machine
begin

text \<open>
  Retries. A committed execution is read back as it was written, and a retry with the same request
  on any later ledger returns the stored result and writes nothing.
\<close>

section \<open>Receipts are read back as written\<close>

lemma validate_cost_calculation_idem:
  assumes "validate_cost_calculation c = Inr d"
  shows "validate_cost_calculation d = Inr d"
  using assms validate_order_input_idem validate_instrument_context_idem
  unfolding validate_cost_calculation_def validate_component_sum_def
  by (elim rbind_InrE) (auto simp: validate_cost_calculation_def)

lemma validate_execution_Inr: "validate_execution r = Inr s \<Longrightarrow> s = r"
  by (auto simp: validate_execution_def validate_known_v3_def split: if_splits option.splits elim!: rbind_InrE)

lemma make_receipt_Inr:
  assumes "make_receipt digest r = Inr s"
  obtains calculation where "s = r\<lparr>r_cost_calculation := calculation\<rparr>"
    "validate_opt validate_cost_calculation (r_cost_calculation r) = Inr calculation"
    "validate_execution s = Inr s"
  using assms unfolding make_receipt_def
  by (elim rbind_InrE) (metis validate_execution_Inr)

lemma make_receipt_idem:
  assumes "make_receipt digest r = Inr s"
  shows "make_receipt digest s = Inr s"
proof -
  from assms obtain c where s: "s = r\<lparr>r_cost_calculation := c\<rparr>"
    and c: "validate_opt validate_cost_calculation (r_cost_calculation r) = Inr c" and v: "validate_execution s = Inr s"
    by (rule make_receipt_Inr)
  from validate_opt_idem [OF c validate_cost_calculation_idem]
  have "validate_opt validate_cost_calculation c = Inr c" .
  with assms v show ?thesis unfolding make_receipt_def s receipt_fields_def by (elim rbind_InrE) auto
qed

lemma resolve_costs_Inr:
  assumes "resolve_costs digest spec order cx = Inr c"
  obtains c0 where "validate_cost_calculation c0 = Inr c" "cc_order_input c0 = order"
    "cc_executed_notional c0 = dmul (cc_executed_price c0) (dof_int (oi_quantity order))"
    "cc_total_fees c0 = dadd (dadd (cc_commission c0) (cc_transfer_fee c0)) (cc_stamp_duty c0)"
  using assms unfolding resolve_costs_def Let_def
  by (clarsimp simp del: rbind_eq_Inr split: option.splits elim!: rbind_InrE)

lemma validate_order_input_quantity: "validate_order_input i = Inr x \<Longrightarrow> oi_quantity x = oi_quantity i"
  by (auto simp: validate_order_input_def elim!: rbind_InrE)

lemma execution_costs_Inr:
  assumes "execution_costs digest b side price quantity ctx = Inr c"
  obtains spec order cx where "oi_quantity order = quantity" "resolve_costs digest spec order cx = Inr c"
proof -
  from assms obtain i order spec cx where "validate_order_input
       \<lparr>oi_side = (if side = BUY then CostBuy else CostSell), oi_reference_price = price, oi_quantity = quantity\<rparr> = Inr i"
    "validate_order_input i = Inr order" "resolve_costs digest spec order cx = Inr c"
    unfolding execution_costs_def calculate_execution_costs_def by (auto elim!: rbind_InrE split: if_splits)
  moreover from this(1,2) have "oi_quantity order = quantity" by (simp add: validate_order_input_quantity)
  ultimately show ?thesis by (intro that)
qed

lemma execution_costs_valid:
  assumes "execution_costs digest b side price quantity ctx = Inr c"
  shows "validate_cost_calculation c = Inr c"
  using assms by (rule execution_costs_Inr) (metis resolve_costs_Inr validate_cost_calculation_idem)

lemma validate_cost_calculation_Inr:
  assumes "validate_cost_calculation c = Inr d"
  obtains i x where "validate_order_input (cc_order_input c) = Inr i"
    "d = c\<lparr>cc_order_input := i, cc_instrument_context := x\<rparr>"
proof -
  from assms obtain i x where i: "validate_order_input (cc_order_input c) = Inr i"
    and x: "validate_instrument_context (cc_instrument_context c) = Inr x"
    unfolding validate_cost_calculation_def by (elim rbind_InrE)
  note E = assms [unfolded validate_cost_calculation_def i x rbind_simps]
  from E have "validate_component_sum (c\<lparr>cc_order_input := i, cc_instrument_context := x\<rparr>) = Inr d"
    by (elim rbind_InrE) (simp only: raise_first_eq_Inr)
  then have "d = c\<lparr>cc_order_input := i, cc_instrument_context := x\<rparr>"
    unfolding validate_component_sum_def raise_first_eq_Inr by blast
  with i show ?thesis by (rule that)
qed

lemma validate_cost_calculation_quantity:
  assumes "validate_cost_calculation c = Inr d"
  shows "oi_quantity (cc_order_input d) = oi_quantity (cc_order_input c)" "cc_executed_price d = cc_executed_price c"
    "cc_executed_notional d = cc_executed_notional c" "cc_total_fees d = cc_total_fees c"
  using assms by (cases rule: validate_cost_calculation_Inr; simp add: validate_order_input_quantity)+

lemma execution_costs_notional:
  assumes "execution_costs digest b side price quantity ctx = Inr c"
  shows "oi_quantity (cc_order_input c) = quantity"
    "cc_executed_notional c = dmul (cc_executed_price c) (dof_int quantity)"
proof -
  from assms obtain spec order cx where q: "oi_quantity order = quantity" and r: "resolve_costs digest spec order cx = Inr c"
    by (rule execution_costs_Inr)
  from r obtain c0 where "validate_cost_calculation c0 = Inr c" "cc_order_input c0 = order"
    "cc_executed_notional c0 = dmul (cc_executed_price c0) (dof_int (oi_quantity order))"
    by (rule resolve_costs_Inr)
  with q validate_cost_calculation_quantity [of c0 c] show "oi_quantity (cc_order_input c) = quantity"
    "cc_executed_notional c = dmul (cc_executed_price c) (dof_int quantity)" by auto
qed

text \<open>The row of a new receipt, and what must hold of it for the receipt to be read back.\<close>

lemma insert_execution_receipt_row:
  assumes "insert_execution_receipt digest b request receipt L = Inr L'"
  obtains c row where "r_cost_calculation receipt = Some c" "L' = L\<lparr>lg_receipts := lg_receipts L @ [row]\<rparr>"
    "rr_execution_id row = r_execution_id receipt" "rr_account_id row = b_account_id b"
    "rr_execution_id row \<notin> rr_execution_id ` set (lg_receipts L)"
    "canonical_sha256 digest request = r_request_fingerprint receipt" "r_cost_provenance_state receipt = KNOWN_V3"
    "row = \<lparr>rr_execution_id = r_execution_id receipt, rr_account_id = b_account_id b,
             rr_intent_id = r_intent_id receipt, rr_order_id = o_order_id (r_order receipt),
             rr_request_fingerprint = r_request_fingerprint receipt, rr_request_json = Some request,
             rr_receipt_json = Some receipt, rr_transfer_fee = Some (fixed_point (cc_transfer_fee c)),
             rr_total_fees = Some (fixed_point (cc_total_fees c)),
             rr_cost_spec_id = r_cost_spec_id receipt,
             rr_cost_spec_schema_version = r_cost_spec_schema_version receipt,
             rr_cost_context_fingerprint = r_cost_context_fingerprint receipt,
             rr_cost_provenance_state = r_cost_provenance_state receipt,
             rr_persisted_at = r_persisted_at receipt\<rparr>"
  using assms unfolding insert_execution_receipt_def
  by (auto split: if_splits option.splits dest!: insert_receipt_Inr intro: that)

lemma receipt_read_back:
  assumes ins: "insert_execution_receipt digest b request receipt L = Inr L'"
    and valid: "make_receipt digest r0 = Inr receipt" and account: "o_account_id (r_order receipt) = b_account_id b"
    and request: "is_dict request" "request_get request ''execution_id'' = Some (PStr (r_execution_id receipt))"
      "request_get request ''persisted_at'' = Some (PStr (utc_iso (r_persisted_at receipt)))"
      "request_get request ''cost_evidence'' = map_option (cost_evidence digest) (r_cost_calculation receipt)"
      "request_kind_matches request receipt = Inr ()"
  obtains row where "L' = L\<lparr>lg_receipts := lg_receipts L @ [row]\<rparr>" "rr_execution_id row = r_execution_id receipt"
    "rr_account_id row = b_account_id b" "rr_execution_id row \<notin> rr_execution_id ` set (lg_receipts L)"
    "receipt_from_row digest b row = Inr receipt"
  using ins
proof (cases rule: insert_execution_receipt_row)
  case (1 c row)
  have "receipt_from_row digest b row = Inr receipt"
    using 1 account request make_receipt_idem [OF valid]
    by (simp add: receipt_from_row_def receipt_columns_match_def known_v3_row_matches_def same_value_def)
  with 1 show ?thesis by (intro that [of row]) simp_all
qed

section \<open>What an operation leaves for its retries\<close>

text \<open>
  The evidence a retry of an initial execution looks up: the intent row under its identity and the
  receipt under the execution identity.
\<close>

definition recorded_receipt :: "digest \<Rightarrow> broker \<Rightarrow> string \<Rightarrow> execution_receipt \<Rightarrow> ledger \<Rightarrow> bool" where
  "recorded_receipt digest b execution_id receipt L \<longleftrightarrow>
     find_execution_receipt digest b L execution_id = Inr (Some receipt)"

definition recorded_intent :: "order_intent \<Rightarrow> string \<Rightarrow> string \<Rightarrow> ledger \<Rightarrow> bool" where
  "recorded_intent intent execution_id request_fingerprint L \<longleftrightarrow>
     (\<exists>row. select_one (\<lambda>r. ir_intent_id r = i_intent_id intent) (lg_intents L) = Some row
        \<and> ir_payload_json row = Some intent \<and> ir_initial_execution_id row = execution_id
        \<and> ir_initial_execution_request_fingerprint row = request_fingerprint)"

lemma select_one_prefix: "select_one p xs = Some x \<Longrightarrow> prefix xs ys \<Longrightarrow> select_one p ys = Some x"
  by (auto simp: prefix_def select_one_append)

lemma recorded_receipt_mono:
  assumes "recorded_receipt digest b i receipt L" "prefix (lg_receipts L) (lg_receipts L')"
  shows "recorded_receipt digest b i receipt L'"
proof -
  from assms(1) obtain row where "find_receipt_row b L i = Some row"
    "receipt_from_row digest b row = Inr receipt"
    by (auto simp: recorded_receipt_def find_execution_receipt_def split: option.splits)
  moreover from this(1) have "find_receipt_row b L' i = Some row"
    unfolding find_receipt_row_def using assms(2) by (rule select_one_prefix)
  ultimately show ?thesis by (simp add: recorded_receipt_def find_execution_receipt_def)
qed

lemma recorded_intent_mono:
  "recorded_intent intent i f L \<Longrightarrow> prefix (lg_intents L) (lg_intents L') \<Longrightarrow> recorded_intent intent i f L'"
  unfolding recorded_intent_def using select_one_prefix by metis

lemma recorded_receipt_new:
  assumes "find_execution_receipt digest b L i = Inr None"
    and "rr_execution_id row = i" "rr_account_id row = b_account_id b"
    and "receipt_from_row digest b row = Inr receipt"
    and "lg_receipts L' = lg_receipts L @ [row]"
  shows "recorded_receipt digest b i receipt L'"
proof -
  have "select_one (\<lambda>r. rr_account_id r = b_account_id b \<and> rr_execution_id r = i) (lg_receipts L) = None"
    using assms(1) unfolding find_execution_receipt_def find_receipt_row_def
    by (simp split: option.splits del: select_one_None)
  then show ?thesis
    using assms(2-5) unfolding recorded_receipt_def find_execution_receipt_def find_receipt_row_def
    by (simp add: select_one_append del: select_one_None)
qed

lemma initial_request_get:
  "is_dict (initial_request digest i n t p d q c)"
  "request_get (initial_request digest i n t p d q c) ''execution_id'' = Some (PStr i)"
  "request_get (initial_request digest i n t p d q c) ''persisted_at'' = Some (PStr (utc_iso p))"
  "request_get (initial_request digest i n t p d q c) ''cost_evidence'' = Some (cost_evidence digest c)"
  "request_get (initial_request digest i n t p d q c) ''kind'' = Some (PStr ''INITIAL'')"
  "request_get (initial_request digest i n t p d q c) ''intent_id'' = Some (PStr n)"
  "request_get (initial_request digest i n t p d q c) ''decision_time'' = Some (PStr (utc_iso t))"
  by (simp_all add: initial_request_def request_get_def is_dict_def)

lemma incremental_request_get:
  "is_dict (incremental_request digest i r t p d n q s c)"
  "request_get (incremental_request digest i r t p d n q s c) ''execution_id'' = Some (PStr i)"
  "request_get (incremental_request digest i r t p d n q s c) ''persisted_at'' = Some (PStr (utc_iso p))"
  "request_get (incremental_request digest i r t p d n q s c) ''cost_evidence'' = Some (cost_evidence digest c)"
  "request_get (incremental_request digest i r t p d n q s c) ''kind'' = Some (PStr ''INCREMENTAL'')"
  "request_get (incremental_request digest i r t p d n q s c) ''order_id'' = Some (PStr r)"
  "request_get (incremental_request digest i r t p d n q s c) ''executed_at'' = Some (PStr (utc_iso t))"
  "request_get (incremental_request digest i r t p d n q s c) ''quantity'' = Some (PInt n)"
  "request_get (incremental_request digest i r t p d n q s c) ''price_snapshot_id'' = Some (PStr s)"
  by (simp_all add: incremental_request_def request_get_def is_dict_def)

lemma execution_receipt_with_cost_Inr:
  assumes "execution_receipt_with_cost digest i f n r fill c p = Inr receipt" "validate_cost_calculation c = Inr c"
  shows "receipt = \<lparr>r_execution_id = i, r_request_fingerprint = f, r_intent_id = n, r_order = r, r_fill = fill,
        r_cost_spec_id = Some (cc_cost_spec_id c),
        r_cost_spec_schema_version = Some (cc_cost_spec_schema_version c),
        r_cost_context_fingerprint = Some (cc_cost_context_fingerprint c),
        r_cost_provenance_state = KNOWN_V3, r_cost_calculation = Some c, r_persisted_at = p\<rparr>"
  using assms(1) unfolding execution_receipt_with_cost_def
  by (rule make_receipt_Inr) (use assms(2) in \<open>simp add: validate_opt_def\<close>)

lemma persist_intent_recorded:
  assumes persist: "persist_intent digest now b intent execution_id t p trade_date quote costs request L = Inr (r, L')"
    and request: "request = initial_request digest execution_id (i_intent_id intent) t p trade_date quote costs"
    and costs: "validate_cost_calculation costs = Inr costs" and chain: "chain_ok L"
    and fresh: "find_execution_receipt digest b L execution_id = Inr None"
  obtains receipt where "recorded_receipt digest b execution_id receipt L'" "r_order receipt = r"
    "recorded_intent intent execution_id (canonical_sha256 digest request) L'"
  using persist
proof (cases rule: persist_intent_Inr)
  case (1 row evaluated fill L1 L2 L3 L4 ld cd receipt e)
  note rc = execution_receipt_with_cost_Inr [OF 1(10) costs]
  have order: "o_account_id r = b_account_id b" "o_created_at r = t" "opt_all (\<lambda>f. f_executed_at f = t) fill"
    using 1(6) by (cases rule: evaluate_intent_cases; simp add: 1(7))+
  note L1 = insert_intent_Inr [OF 1(1)] and L2 = insert_order_row_Inr [OF 1(8) [unfolded insert_order_def]]
  have L3: "lg_receipts L3 = lg_receipts L2" "lg_intents L3 = lg_intents L2"
    using 1(9) apply_fill_frame by (auto split: option.splits)
  have kind: "request_kind_matches request receipt = Inr ()"
    using order by (simp add: request_kind_matches_def request initial_request_get rc)
  obtain rw where rw: "L4 = L3\<lparr>lg_receipts := lg_receipts L3 @ [rw]\<rparr>" "rr_execution_id rw = r_execution_id receipt"
      "rr_account_id rw = b_account_id b" "receipt_from_row digest b rw = Inr receipt"
    by (rule receipt_read_back [OF 1(11) 1(10) [unfolded execution_receipt_with_cost_def]])
       (use order kind in \<open>simp_all add: rc request initial_request_get\<close>)
  have "chain_ok L4" using chain chain_state_chain_ok [OF persist_intent_chain [OF 1(1,8,9,11)]] by simp
  note fr = append_frame [OF 1(12) this]
  have "recorded_receipt digest b execution_id receipt L'"
    using fresh rw(2-4) by (intro recorded_receipt_new) (simp_all add: rc fr rw(1) L3 L1 L2)
  moreover have "recorded_intent intent execution_id (canonical_sha256 digest request) L'"
    using intents.ins_lookup [OF 1(1)] 1(2-5) by (auto simp: recorded_intent_def fr rw(1) L3 L2)
  ultimately show ?thesis by (intro that [of receipt]) (simp_all add: rc)
qed

section \<open>Readiness is kept\<close>

lemma find_account_binding:
  "select_one (\<lambda>r. ac_account_id r = b_account_id b) (map account_binding (lg_accounts L))
   = map_option account_binding (find_account b L)"
  unfolding find_account_def by (rule select_one_map) simp

lemma find_account_mono:
  assumes "find_account b L = Some a" "history_le L L'"
  obtains a' where "find_account b L' = Some a'" "account_binding a' = account_binding a"
proof -
  have "prefix (map account_binding (lg_accounts L)) (map account_binding (lg_accounts L'))"
    using assms(2) by (simp add: history_le_def)
  with assms(1) find_account_binding [of b L] find_account_binding [of b L']
  have "map_option account_binding (find_account b L') = Some (account_binding a)"
    by (metis option.simps(9) select_one_prefix)
  then show ?thesis using that by auto
qed

lemma require_execution_ready_mono:
  assumes "require_execution_ready digest b L = Inr ()" "history_le L L'"
    and "ledger_trust_status digest L' = ledger_trust_status digest L"
  shows "require_execution_ready digest b L' = Inr ()"
proof -
  from assms(1) obtain a where a: "find_account b L = Some a" and i: "require_schema_integrity digest L = Inr ()"
    by (auto simp: require_execution_ready_def split: option.splits)
  from a assms(2) obtain a' where a': "find_account b L' = Some a'" "account_binding a' = account_binding a"
    by (rule find_account_mono)
  have bound: "ac_cost_provenance_state a' = ac_cost_provenance_state a" "ac_cost_spec_id a' = ac_cost_spec_id a"
    "ac_cost_spec_schema_version a' = ac_cost_spec_schema_version a"
    using arg_cong [OF a'(2), of ac_cost_provenance_state] arg_cong [OF a'(2), of ac_cost_spec_id]
      arg_cong [OF a'(2), of ac_cost_spec_schema_version] by simp_all
  have "prefix (lg_cost_specs L) (lg_cost_specs L')" using assms(2) by (simp add: history_le_def)
  then have spec: "require_active_cost_spec_authority b L' = Inr ()"
    if "require_active_cost_spec_authority b L = Inr ()"
    using that unfolding require_active_cost_spec_authority_def Let_def
    by (clarsimp split: option.splits if_splits simp del: rbind_eq_Inr select_one_None elim!: rbind_InrE)
       (fastforce dest: select_one_prefix simp del: select_one_None)
  from assms(1) i spec show ?thesis
    by (simp add: require_execution_ready_def require_schema_integrity_def assms(3) a a'(1) bound)
qed

interpretation broker_trust: monotone_system "broker_step digest" "ledger_ok digest"
  "\<lambda>L L'. ledger_trust_status digest L' = ledger_trust_status digest L" for digest
  by unfold_locales (auto dest: broker_step_trust)

text \<open>A ledger whose integrity fails is frozen, whatever its rows are.\<close>

interpretation broker_frozen: monotone_system "broker_step digest" "\<lambda>_. True"
  "\<lambda>L L'. require_schema_integrity digest L = Inr () \<or> L' = L" for digest
  by unfold_locales (auto dest: broker_step_frozen)

lemma reachable_ready:
  assumes "(broker_step digest)\<^sup>*\<^sup>* L L'" "ledger_ok digest L" "require_execution_ready digest b L = Inr ()"
  shows "require_execution_ready digest b L' = Inr ()"
  using assms broker_history.reachable_le broker_trust.reachable_le by (metis require_execution_ready_mono)

section \<open>Retrying an initial execution\<close>

lemma replay_intent_Inr:
  assumes "replay_intent digest b L intent execution_id f existing = Inr r"
  obtains receipt where "ir_payload_json existing = Some intent" "ir_initial_execution_id existing = execution_id"
    "ir_initial_execution_request_fingerprint existing = f" "recorded_receipt digest b execution_id receipt L"
    "r_order receipt = r"
  using assms unfolding replay_intent_def recorded_receipt_def
  by (auto split: if_splits option.splits elim!: rbind_InrE)

lemma replay_recorded:
  assumes "recorded_receipt digest b execution_id receipt L" "recorded_intent intent execution_id f L"
  obtains existing where "select_one (\<lambda>r. ir_intent_id r = i_intent_id intent) (lg_intents L) = Some existing"
    "replay_intent digest b L intent execution_id f existing = Inr (r_order receipt)"
  using assms unfolding recorded_intent_def recorded_receipt_def replay_intent_def by auto

lemma submit_intent_recorded:
  assumes submit: "submit_intent digest now b intent supplied t persisted trade_date quote L = Inr (r, L')"
    and ok: "ledger_ok digest L"
  obtains execution_id costs receipt p where "p = (case persisted of None \<Rightarrow> t | Some p \<Rightarrow> p)"
    "resolve_execution_id digest intent supplied t p = Inr execution_id"
    "execution_costs digest b (i_side intent) (q_executable_price quote)
         (case q_executable_quantity quote of
            None \<Rightarrow> i_quantity intent | Some n \<Rightarrow> if n = 0 then i_quantity intent else n)
         (q_instrument_context quote) = Inr costs"
    "recorded_receipt digest b execution_id receipt L'" "r_order receipt = r"
    "recorded_intent intent execution_id (canonical_sha256 digest
       (initial_request digest execution_id (i_intent_id intent) t p trade_date quote costs)) L'"
    "require_execution_ready digest b L = Inr ()"
  using submit
proof (cases rule: submit_intent_cases)
  case (1 execution_id p costs request)
  from 1(9) show ?thesis
  proof (elim disjE exE conjE)
    fix existing assume e: "select_one (\<lambda>r. ir_intent_id r = i_intent_id intent) (lg_intents L) = Some existing"
      and replay: "replay_intent digest b L intent execution_id (canonical_sha256 digest request) existing = Inr r"
      and L': "L' = L"
    from replay obtain receipt where rc: "ir_payload_json existing = Some intent"
      "ir_initial_execution_id existing = execution_id"
      "ir_initial_execution_request_fingerprint existing = canonical_sha256 digest request"
      "recorded_receipt digest b execution_id receipt L" "r_order receipt = r" by (rule replay_intent_Inr)
    from e rc(1-3) have "recorded_intent intent execution_id (canonical_sha256 digest request) L"
      by (auto simp: recorded_intent_def)
    then show ?thesis using 1 rc(4,5) L' by (intro that [OF 1(1,5,6)]) auto
  next
    assume fresh: "find_execution_receipt digest b L execution_id = Inr None"
      and persist: "persist_intent digest now b intent execution_id t p trade_date quote costs request L = Inr (r, L')"
    obtain receipt where "recorded_receipt digest b execution_id receipt L'" "r_order receipt = r"
      "recorded_intent intent execution_id (canonical_sha256 digest request) L'"
      by (rule persist_intent_recorded [OF persist 1(7) execution_costs_valid [OF 1(6)] _ fresh])
         (use ok in \<open>simp add: ledger_ok_def\<close>)
    then show ?thesis using 1 by (intro that [OF 1(1,5,6)]) auto
  qed
qed

lemma submit_intent_retry_lemma:
  assumes submit: "submit_intent digest now b intent supplied t persisted trade_date quote L = Inr (r, L1)"
    and ok: "ledger_ok digest L" and later: "(broker_step digest)\<^sup>*\<^sup>* L1 L2"
  shows "submit_intent digest now' b intent supplied t persisted trade_date quote L2 = Inr (r, L2)"
  using submit ok
proof (cases rule: submit_intent_recorded)
  case (1 execution_id costs receipt p)
  have step: "broker_step digest L L1" using submit by (rule broker_step.submit)
  then have reach: "(broker_step digest)\<^sup>*\<^sup>* L L2" using later by (rule converse_rtranclp_into_rtranclp)
  have ok1: "ledger_ok digest L1" using step ok by (rule broker_step_ok)
  have "history_le L1 L2" using later ok1 by (rule broker_history.reachable_le)
  then have pre: "prefix (lg_receipts L1) (lg_receipts L2)" "prefix (lg_intents L1) (lg_intents L2)"
    by (simp_all add: history_le_def)
  obtain existing where e: "select_one (\<lambda>r. ir_intent_id r = i_intent_id intent) (lg_intents L2) = Some existing"
    "replay_intent digest b L2 intent execution_id (canonical_sha256 digest
       (initial_request digest execution_id (i_intent_id intent) t p trade_date quote costs)) existing = Inr (r_order receipt)"
    by (rule replay_recorded [OF recorded_receipt_mono [OF 1(4) pre(1)] recorded_intent_mono [OF 1(6) pre(2)]])
  have ready: "require_execution_ready digest b L2 = Inr ()" using reach ok 1(7) by (rule reachable_ready)
  have checks: "raise_first
        [(i_account_id intent \<noteq> b_account_id b, ValueError ''intent account_id does not match broker account''),
         (t < i_available_at intent, ValueError ''decision_time cannot precede intent available_at''),
         (p < t \<or> p < i_available_at intent,
          ValueError ''persisted_at cannot precede decision or intent availability''),
         (trade_date \<noteq> shanghai_date t,
          ValueError ''trade_date must match decision_time in Asia/Shanghai'')] () = Inr ()"
    using submit unfolding submit_intent_def Let_def 1(1) [symmetric] by (rule rbind_InrE) simp
  have inst: "require_matching_instrument_context (i_ts_code intent) (q_instrument_context quote) = Inr ()"
    using submit unfolding submit_intent_def Let_def 1(1) [symmetric] checks 1(2) rbind_simps by (rule rbind_InrE) simp
  show ?thesis
    unfolding submit_intent_def Let_def 1(1) [symmetric] checks 1(2) 1(3) inst ready rbind_simps e option.case 1(5) ..
qed

section \<open>Retrying an incremental execution\<close>

lemma persist_execution_recorded:
  assumes persist: "persist_execution digest now b r intent execution_id sequence t p trade_date quantity quote
      snapshot costs request L = Inr L'"
    and request: "request = incremental_request digest execution_id (o_order_id r) t p trade_date quantity quote snapshot costs"
    and costs: "validate_cost_calculation costs = Inr costs" and chain: "chain_ok L"
    and fresh: "find_execution_receipt digest b L execution_id = Inr None" and account: "o_account_id r = b_account_id b"
  obtains receipt where "recorded_receipt digest b execution_id receipt L'" "o_order_id (r_order receipt) = o_order_id r"
    "r_request_fingerprint receipt = canonical_sha256 digest request"
  using persist
proof (cases rule: persist_execution_Inr)
  case (1 fill ld cd L1 average L2 updated receipt L3 e)
  note rc = execution_receipt_with_cost_Inr [OF 1(6) costs] and fr1 = apply_fill_frame [OF 1(2)]
  have kind: "request_kind_matches request receipt = Inr ()"
    using new_fill_Inr [OF 1(1)] by (simp add: request_kind_matches_def request incremental_request_get rc 1(4))
  obtain rw where rw: "L3 = L2\<lparr>lg_receipts := lg_receipts L2 @ [rw]\<rparr>" "rr_execution_id rw = r_execution_id receipt"
      "rr_account_id rw = b_account_id b" "receipt_from_row digest b rw = Inr receipt"
    by (rule receipt_read_back [OF 1(7) 1(6) [unfolded execution_receipt_with_cost_def]])
       (use account kind in \<open>simp_all add: rc request incremental_request_get 1(4)\<close>)
  have "chain_ok L3" using chain chain_state_chain_ok [OF persist_execution_chain [OF 1(2,5,7)]] by simp
  note fr = append_frame [OF 1(8) this]
  have "recorded_receipt digest b execution_id receipt L'"
    using fresh rw(2-4) by (intro recorded_receipt_new) (simp_all add: rc fr rw(1) 1(5) update_order_row_def fr1)
  then show ?thesis by (intro that [of receipt]) (simp_all add: rc 1(4))
qed

lemma apply_execution_preflight:
  assumes "apply_execution digest now b order_id execution_id t trade_date quantity quote snapshot persisted L
      = Inr (result, L')"
  obtains p preflight costs known where
      "p = (case persisted of None \<Rightarrow> t | Some p \<Rightarrow> p)" "preflight_intent digest b L order_id = Inr preflight"
      "execution_costs digest b (i_side preflight) (q_executable_price quote) quantity (q_instrument_context quote) = Inr costs"
      "execution_transaction digest now b order_id execution_id t p trade_date quantity quote snapshot (i_side preflight)
         costs (incremental_request digest execution_id order_id t p trade_date quantity quote snapshot costs) L
       = Inr (known, L')"
      "result = (case known of Some receipt \<Rightarrow> Inr receipt
        | None \<Rightarrow> rbind (execution digest b L' execution_id)
           (\<lambda>x. case x of None \<Rightarrow> Inl AssertionError | Some receipt \<Rightarrow> Inr receipt))"
      "\<And>L2 receipt now'. preflight_intent digest b L2 order_id = Inr preflight \<Longrightarrow>
         execution_transaction digest now' b order_id execution_id t p trade_date quantity quote snapshot (i_side preflight)
         costs (incremental_request digest execution_id order_id t p trade_date quantity quote snapshot costs) L2
         = Inr (Some receipt, L2) \<Longrightarrow>
         apply_execution digest now' b order_id execution_id t trade_date quantity quote snapshot persisted L2
         = Inr (Inr receipt, L2)"
      "is_sha256 execution_id"
proof -
  define p where "p = (case persisted of None \<Rightarrow> t | Some p \<Rightarrow> p)"
  note E = assms [unfolded apply_execution_def Let_def, folded p_def]
  from E obtain i where i: "check_execution_id execution_id = Inr i" by (rule rbind_InrE)
  define checks where "checks = raise_first
        [(p < t, ValueError ''persisted_at cannot precede execution''),
         (trade_date \<noteq> shanghai_date t, ValueError ''trade_date must match executed_at in Asia/Shanghai''),
         (\<not> positive_lot quantity, ValueError ''execution quantity must be a positive 100-share lot''),
         (\<not> opt_all (\<lambda>n. n = quantity) (q_executable_quantity quote),
          ValueError ''quote executable_quantity does not match execution quantity''),
         (\<not> is_sha256 snapshot, ValueError ''price_snapshot_id must be a lowercase SHA-256 digest'')] ()"
  have c: "checks = Inr ()" using E unfolding i rbind_simps checks_def [symmetric] by (rule rbind_InrE) simp
  from E obtain preflight where pf: "preflight_intent digest b L order_id = Inr preflight"
    unfolding i rbind_simps checks_def [symmetric] c by (rule rbind_InrE)
  have m: "require_matching_instrument_context (i_ts_code preflight) (q_instrument_context quote) = Inr ()"
    using E unfolding i rbind_simps checks_def [symmetric] c pf by (rule rbind_InrE) simp
  from E obtain costs where k: "execution_costs digest b (i_side preflight) (q_executable_price quote) quantity
      (q_instrument_context quote) = Inr costs"
    unfolding i rbind_simps checks_def [symmetric] c pf m by (rule rbind_InrE)
  note E' = E [unfolded i rbind_simps checks_def [symmetric] c pf m k]
  have "is_sha256 execution_id" using i by (auto simp: check_execution_id_def split: if_splits)
  moreover obtain known L1 where tx: "execution_transaction digest now b order_id execution_id t p trade_date quantity
      quote snapshot (i_side preflight) costs
      (incremental_request digest execution_id order_id t p trade_date quantity quote snapshot costs) L = Inr (known, L1)"
    using E' by (elim rbind_InrE) auto
  moreover have "L1 = L'" "result = (case known of Some receipt \<Rightarrow> Inr receipt
        | None \<Rightarrow> rbind (execution digest b L' execution_id)
           (\<lambda>x. case x of None \<Rightarrow> Inl AssertionError | Some receipt \<Rightarrow> Inr receipt))"
    using E' unfolding tx by (auto split: option.splits)
  ultimately show ?thesis
    using that [OF p_def pf k]
    by (simp add: apply_execution_def Let_def p_def [symmetric] i checks_def [symmetric] c m k del: rbind_eq_Inr)
qed

lemma select_one_list_all2:
  assumes "list_all2 R xs ys" "\<And>x y. R x y \<Longrightarrow> p y = p x" "select_one p xs = Some x"
  obtains y where "select_one p ys = Some y" "R x y"
  using assms by (induction arbitrary: thesis rule: list_all2_induct) (auto split: if_splits)

text \<open>An order found once is found again on every later ledger, with the same identity and intent.\<close>

lemma find_order_mono:
  assumes "find_order b L order_id = Some row" "history_le L L'"
  obtains row' where "find_order b L' order_id = Some row'" "order_le (or_order row) (or_order row')"
proof -
  let ?n = "length (lg_orders L)"
  have "list_all2 (\<lambda>x y. order_le (or_order x) (or_order y)) (lg_orders L) (take ?n (lg_orders L'))"
    using assms(2) by (simp add: history_le_def list_all2_conv_all_nth)
  from this _ assms(1) [unfolded find_order_def] obtain row'
    where row': "select_one (\<lambda>r. o_account_id (or_order r) = b_account_id b \<and> o_order_id (or_order r) = order_id)
        (take ?n (lg_orders L')) = Some row'" "order_le (or_order row) (or_order row')"
    by (rule select_one_list_all2) (simp add: order_le_def)
  have "find_order b L' order_id = Some row'"
    unfolding find_order_def using row'(1) take_is_prefix by (rule select_one_prefix)
  then show ?thesis using row'(2) by (rule that)
qed

lemma preflight_intent_mono:
  assumes "preflight_intent digest b L order_id = Inr preflight" "history_le L L'"
  shows "preflight_intent digest b L' order_id = Inr preflight"
proof -
  from assms(1) obtain row i where row: "find_order b L order_id = Some row"
    and i: "select_one (\<lambda>i. ir_intent_id i = o_intent_id (or_order row)) (lg_intents L) = Some i"
      "load_intent digest (ir_payload_json i) = Inr preflight"
    by (auto simp: preflight_intent_def split: option.splits)
  from row assms(2) obtain row' where row': "find_order b L' order_id = Some row'"
    "order_le (or_order row) (or_order row')" by (rule find_order_mono)
  have "prefix (lg_intents L) (lg_intents L')" using assms(2) by (simp add: history_le_def)
  from select_one_prefix [OF i(1) this] row' i(2) show ?thesis by (simp add: preflight_intent_def order_le_def)
qed

lemma execution_transaction_recorded:
  assumes tx: "execution_transaction digest now b order_id execution_id t p trade_date quantity quote snapshot side
      costs request L = Inr (known, L')"
    and request: "request = incremental_request digest execution_id order_id t p trade_date quantity quote snapshot costs"
    and costs: "validate_cost_calculation costs = Inr costs" and ok: "ledger_ok digest L"
  obtains receipt where "recorded_receipt digest b execution_id receipt L'" "o_order_id (r_order receipt) = order_id"
    "r_request_fingerprint receipt = canonical_sha256 digest request" "known = None \<or> known = Some receipt"
    "require_execution_ready digest b L = Inr ()"
proof -
  have ready: "require_execution_ready digest b L = Inr ()"
    using tx unfolding execution_transaction_def by (rule rbind_InrE) simp
  from tx show ?thesis
  proof (cases rule: execution_transaction_cases)
    case (replay receipt)
    then show ?thesis using ready by (intro that [of receipt]) (simp_all add: recorded_receipt_def)
  next
    case (applied row r i intent sequence previous)
    have r: "o_order_id r = order_id" "o_account_id r = b_account_id b"
      using find_order_row [OF applied(5)] order_from_row_Inr(1) [OF applied(6)] select_one_SomeD [OF applied(5) [unfolded find_order_def]] by auto
    show ?thesis
      by (rule persist_execution_recorded [OF applied(12) request [folded r(1)] costs _ applied(4) r(2)])
         (use ok ready r applied(1) in \<open>auto simp: ledger_ok_def intro: that\<close>)
  qed
qed

lemma apply_execution_retry_lemma:
  assumes run: "apply_execution digest now b order_id execution_id t trade_date quantity quote snapshot persisted L
      = Inr (result, L1)"
    and ok: "ledger_ok digest L"
  obtains receipt where "result = Inr receipt" "recorded_receipt digest b execution_id receipt L1"
    "o_order_id (r_order receipt) = order_id"
    "\<And>L2 now'. (broker_step digest)\<^sup>*\<^sup>* L1 L2 \<Longrightarrow>
      apply_execution digest now' b order_id execution_id t trade_date quantity quote snapshot persisted L2
      = Inr (Inr receipt, L2)"
  using run
proof (cases rule: apply_execution_preflight)
  case (1 p preflight costs known)
  obtain receipt where rc: "recorded_receipt digest b execution_id receipt L1" "o_order_id (r_order receipt) = order_id"
    "r_request_fingerprint receipt = canonical_sha256 digest
       (incremental_request digest execution_id order_id t p trade_date quantity quote snapshot costs)"
    "known = None \<or> known = Some receipt" "require_execution_ready digest b L = Inr ()"
    by (rule execution_transaction_recorded [OF 1(4) refl execution_costs_valid [OF 1(3)] ok])
  have step: "broker_step digest L L1" using run by (rule broker_step.execute)
  show ?thesis
  proof (rule that [of receipt])
    show "result = Inr receipt"
      using rc(1,4) 1(5,7) by (auto simp: execution_def check_execution_id_def recorded_receipt_def)
  next
    fix L2 now'
    assume later: "(broker_step digest)\<^sup>*\<^sup>* L1 L2"
    with step have reach: "(broker_step digest)\<^sup>*\<^sup>* L L2" by (rule converse_rtranclp_into_rtranclp)
    have le: "history_le L1 L2" using later broker_step_ok [OF step ok] by (rule broker_history.reachable_le)
    have "recorded_receipt digest b execution_id receipt L2"
      using rc(1) le by (auto simp: history_le_def intro: recorded_receipt_mono)
    moreover have "require_execution_ready digest b L2 = Inr ()" using reach ok rc(5) by (rule reachable_ready)
    moreover have "preflight_intent digest b L2 order_id = Inr preflight"
      using 1(2) broker_history.reachable_le [OF reach ok] by (rule preflight_intent_mono)
    ultimately show "apply_execution digest now' b order_id execution_id t trade_date quantity quote snapshot persisted L2
      = Inr (Inr receipt, L2)"
      using rc(2,3) by (intro 1(6)) (simp_all add: execution_transaction_def recorded_receipt_def)
  qed (use rc in simp_all)
qed

lemma submit_intent_once:
  assumes first: "submit_intent digest now b intent supplied t persisted trade_date quote L = Inr (r, L1)"
    and ok: "ledger_ok digest L" and later: "(broker_step digest)\<^sup>*\<^sup>* L1 L2"
    and second: "submit_intent digest now' b intent' supplied' t' persisted' trade_date' quote' L2 = Inr (r', L3)"
    and same: "i_intent_id intent' = i_intent_id intent"
  shows "intent' = intent \<and> r' = r \<and> L3 = L2"
  using first ok
proof (cases rule: submit_intent_recorded)
  case (1 execution_id costs receipt p)
  have "history_le L1 L2"
    using later broker_step_ok [OF broker_step.submit [OF first] ok] by (rule broker_history.reachable_le)
  then have "prefix (lg_receipts L1) (lg_receipts L2)" "prefix (lg_intents L1) (lg_intents L2)"
    by (simp_all add: history_le_def)
  note rec = recorded_receipt_mono [OF 1(4) this(1)] recorded_intent_mono [OF 1(6) this(2)]
  from rec(2) obtain row where row: "select_one (\<lambda>r. ir_intent_id r = i_intent_id intent) (lg_intents L2) = Some row"
    "ir_payload_json row = Some intent" "ir_initial_execution_id row = execution_id"
    by (auto simp: recorded_intent_def)
  from second show ?thesis
  proof (cases rule: submit_intent_cases)
    case (1 execution_id' p' costs' request')
    from 1(9) row(1) same have "L3 = L2" and
      "replay_intent digest b L2 intent' execution_id' (canonical_sha256 digest request') row = Inr r'" by auto
    from this(2) obtain receipt' where "ir_payload_json row = Some intent'" "ir_initial_execution_id row = execution_id'"
      "recorded_receipt digest b execution_id' receipt' L2" "r_order receipt' = r'"
      by (rule replay_intent_Inr)
    with row rec(1) \<open>L3 = L2\<close> \<open>r_order receipt = r\<close> show ?thesis by (simp add: recorded_receipt_def)
  qed
qed

lemma apply_execution_once:
  assumes first: "apply_execution digest now b order_id execution_id t trade_date quantity quote snapshot persisted L
      = Inr (result, L1)"
    and ok: "ledger_ok digest L" and later: "(broker_step digest)\<^sup>*\<^sup>* L1 L2"
    and second: "apply_execution digest now' b order_id' execution_id t' trade_date' quantity' quote' snapshot' persisted' L2
      = Inr (result', L3)"
  shows "result' = result \<and> order_id' = order_id \<and> L3 = L2"
  using first ok
proof (cases rule: apply_execution_retry_lemma)
  case (1 receipt)
  have "history_le L1 L2"
    using later broker_step_ok [OF broker_step.execute [OF first] ok] by (rule broker_history.reachable_le)
  then have rec: "recorded_receipt digest b execution_id receipt L2"
    using 1(2) by (auto simp: history_le_def intro: recorded_receipt_mono)
  from second show ?thesis
  proof (cases rule: apply_execution_cases)
    case (1 p side costs request known)
    from 1(9) have "known = Some receipt" "L3 = L2" "o_order_id (r_order receipt) = order_id'"
      using rec by (cases rule: execution_transaction_cases; simp add: recorded_receipt_def)+
    with 1(10) \<open>result = Inr receipt\<close> \<open>o_order_id (r_order receipt) = order_id\<close> show ?thesis by simp
  qed
qed

end
