(* ===== verification/Broker_Trading.thy ===== *)
theory Broker_Trading
  imports Broker_Replay
begin

text \<open>
  What a trade does: lots are consumed in first-in first-out order, a buy is paid for with cash the
  account has, and nothing is executed against a closed gate or beyond its limit price.
\<close>

section \<open>First in, first out\<close>

lemma allocate_lots_order:
  assumes "allocate_lots fill_id p lots remaining cost n L = Inr (remaining', cost', n', L')"
    and "lg_consumptions L' = lg_consumptions L @ new"
  shows "map c_lot_id new = map l_lot_id (take (length new) lots)
    \<and> (\<forall>i. Suc i < length new \<longrightarrow> c_quantity (new ! i) = l_remaining_quantity (lots ! i))"
  using assms
proof (induction fill_id p lots remaining cost n L arbitrary: new rule: allocate_lots.induct)
  case (2 fill_id p lot lots remaining cost n L)
  show ?case
  proof (cases "remaining = 0")
    case False
    define k where "k = min remaining (l_remaining_quantity lot)"
    let ?c = "\<lparr>c_fill_id = fill_id, c_lot_id = l_lot_id lot, c_quantity = k,
      c_unit_cost = fixed_point (l_unit_cost lot), c_persisted_at = p\<rparr>"
    from 2(2) False obtain L1 L2 where L1: "consume_lot (l_lot_id lot) k L = Inr L1"
      and L2: "insert_consumption ?c L1 = Inr L2"
      and rest: "allocate_lots fill_id p lots (remaining - k)
        (dadd cost (dmul (l_unit_cost lot) (dof_int k))) (n + 1) L2 = Inr (remaining', cost', n', L')"
      by (auto simp: Let_def k_def)
    have "lg_consumptions L2 = lg_consumptions L @ [?c]"
      using consume_lot_Inr [of ?c L L1] L1 insert_consumption_Inr [OF L2] by auto
    moreover obtain ms where ms: "lg_consumptions L' = lg_consumptions L2 @ ms" "length ms = nat (n' - n - 1)"
      using allocate_lots_effect [OF rest] by auto
    ultimately have new: "new = ?c # ms" using 2(3) by simp
    from "2.IH" [OF False k_def L1 L2 rest ms(1)]
    have IH: "map c_lot_id ms = map l_lot_id (take (length ms) lots)"
        "\<forall>i. Suc i < length ms \<longrightarrow> c_quantity (ms ! i) = l_remaining_quantity (lots ! i)" by auto
    have "k = l_remaining_quantity lot" if "ms \<noteq> []"
    proof (rule ccontr)
      assume "k \<noteq> l_remaining_quantity lot"
      then have "remaining - k = 0" by (simp add: k_def min_def split: if_splits)
      with rest have "L' = L2" by (cases lots) auto
      with ms that show False by simp
    qed
    with IH show ?thesis
      by (auto simp: new nth_Cons split: nat.splits)
  qed (use 2 in simp)
qed simp

lemma apply_sell_lots:
  assumes "apply_sell b intent fill trade_date p cash realized L = Inr (d, L')"
    and "i_entry_signal_id intent = Some entry" "lots = eligible_lots b L (i_ts_code intent) entry trade_date"
  obtains new where "lg_lots L' = map (deduct new) (lg_lots L)" "sum_by c_quantity new = f_quantity fill"
    "map c_lot_id new = map l_lot_id (take (length new) lots)"
    "\<forall>i. Suc i < length new \<longrightarrow> c_quantity (new ! i) = l_remaining_quantity (lots ! i)"
    "\<forall>c \<in> set new. 0 < c_quantity c"
    "\<forall>l \<in> set (lg_lots L). non_negative_lot (l_remaining_quantity l) \<longrightarrow>
       non_negative_lot (l_remaining_quantity (deduct new l))"
proof -
  from assms obtain basis n L1 where
    alloc: "allocate_lots (f_fill_id fill) p lots (f_quantity fill) dzero 0 L = Inr (0, basis, n, L1)"
    and L': "lg_lots L' = lg_lots L1"
    unfolding apply_sell_def Let_def
    by (auto elim!: rbind_InrE split: option.splits prod.splits simp: set_account_values_def)
  from allocate_lots_effect [OF alloc] obtain new where
    new: "L1 = L\<lparr>lg_lots := map (deduct new) (lg_lots L), lg_consumptions := lg_consumptions L @ new\<rparr>"
      "sum_by c_quantity new = f_quantity fill" "\<forall>c \<in> set new. positive_lot (c_quantity c)"
      "\<forall>l \<in> set (lg_lots L). non_negative_lot (l_remaining_quantity l) \<longrightarrow>
       non_negative_lot (l_remaining_quantity (deduct new l))"
    by auto
  have "lg_consumptions L1 = lg_consumptions L @ new" by (simp add: new(1))
  from allocate_lots_order [OF alloc this] L' new show ?thesis
    by (intro that [of new]) (simp_all add: positive_lot_def)
qed

lemma taken_from_ge:
  assumes "\<forall>c \<in> set cs. 0 < c_quantity c" "c \<in> set cs" "c_lot_id c = l_lot_id l"
  shows "c_quantity c \<le> taken_from cs l"
  using assms by (induction cs) (force simp: taken_from_def sum_by_def intro!: sum_list_nonneg)+

lemma taken_from_none: "taken_from cs l \<noteq> 0 \<Longrightarrow> l_lot_id l \<in> c_lot_id ` set cs"
  by (induction cs) (auto simp: taken_from_def sum_by_def split: if_splits)

lemma eligible_lots_distinct:
  "distinct (map l_lot_id (lg_lots L)) \<Longrightarrow> distinct (map l_lot_id (eligible_lots b L code entry trade_date))"
proof -
  assume "distinct (map l_lot_id (lg_lots L))"
  then have "distinct (map l_lot_id (filter P (lg_lots L)))" for P by (rule distinct_map_filter)
  then show ?thesis by (simp add: eligible_lots_def entry_lots_def distinct_map)
qed

lemma fifo_exhausts:
  assumes lots: "distinct (map l_lot_id lots)" "sorted (map fifo_key lots)" "l \<in> set lots" "m \<in> set lots"
      "fifo_key l < fifo_key m"
    and new: "map c_lot_id new = map l_lot_id (take (length new) lots)"
      "\<forall>i. Suc i < length new \<longrightarrow> c_quantity (new ! i) = l_remaining_quantity (lots ! i)"
      "\<forall>c \<in> set new. 0 < c_quantity c"
    and m: "taken_from new m \<noteq> 0"
  shows "l_remaining_quantity l \<le> taken_from new l"
proof -
  from lots(3,4) obtain i j where i: "i < length lots" "l = lots ! i" and j: "j < length lots" "m = lots ! j"
    by (auto simp: in_set_conv_nth)
  have ij: "i < j" using lots(2,5) i j by (metis leD length_map not_less nth_map sorted_nth_mono)
  have len: "length new \<le> length lots" using arg_cong [OF new(1), of length] by simp
  from taken_from_none [OF m] have "l_lot_id m \<in> set (map l_lot_id (take (length new) lots))"
    by (simp add: new(1) [symmetric])
  then obtain k where k: "k < length new" "l_lot_id (lots ! k) = l_lot_id (lots ! j)"
    using len j by (auto simp: in_set_conv_nth)
  with lots(1) j len have "k = j" using nth_eq_iff_index_eq [OF lots(1), of k j] by simp
  with k ij have "Suc i < length new" by simp
  with new(2) have q: "c_quantity (new ! i) = l_remaining_quantity l" by (simp add: i)
  have "c_lot_id (new ! i) = l_lot_id l"
    using arg_cong [OF new(1), of "\<lambda>xs. xs ! i"] \<open>Suc i < length new\<close> len by (simp add: i)
  with taken_from_ge [OF new(3), of "new ! i" l] q \<open>Suc i < length new\<close> show ?thesis by simp
qed

lemma sell_fifo:
  assumes sell: "apply_sell b intent fill trade_date p cash realized L = Inr (d, L')" and ok: "lots_ok L"
    and entry: "i_entry_signal_id intent = Some entry" "lots = eligible_lots b L (i_ts_code intent) entry trade_date"
    and lm: "l \<in> set lots" "m \<in> set lots" "fifo_key l < fifo_key m"
    and l': "l' \<in> set (lg_lots L')" "l_lot_id l' = l_lot_id l"
    and m': "m' \<in> set (lg_lots L')" "l_lot_id m' = l_lot_id m" "l_remaining_quantity m' < l_remaining_quantity m"
  shows "l_remaining_quantity l' = 0"
proof -
  from sell entry obtain new where new: "lg_lots L' = map (deduct new) (lg_lots L)"
    "map c_lot_id new = map l_lot_id (take (length new) lots)"
    "\<forall>i. Suc i < length new \<longrightarrow> c_quantity (new ! i) = l_remaining_quantity (lots ! i)"
    "\<forall>c \<in> set new. 0 < c_quantity c"
    "\<forall>l \<in> set (lg_lots L). non_negative_lot (l_remaining_quantity l) \<longrightarrow>
       non_negative_lot (l_remaining_quantity (deduct new l))"
    by (rule apply_sell_lots)
  have d: "distinct (map l_lot_id (lg_lots L))" using ok by (simp add: lots_ok_def)
  have same: "x' = deduct new x" if "x \<in> set lots" "x' \<in> set (lg_lots L')" "l_lot_id x' = l_lot_id x" for x x'
  proof -
    from that(2,3) obtain y where y: "y \<in> set (lg_lots L)" "x' = deduct new y" "l_lot_id y = l_lot_id x"
      by (auto simp: new(1))
    moreover have "x \<in> set (lg_lots L)" using that(1) eligible_lots_set by (simp add: entry(2))
    ultimately have "y = x" using d by (meson distinct_map inj_onD)
    with y(2) show ?thesis by simp
  qed
  have taken: "taken_from new m \<noteq> 0" using same [OF lm(2) m'(1,2)] m'(3) by (simp add: deduct_def)
  have ord: "distinct (map l_lot_id lots)" "sorted (map fifo_key lots)"
    using eligible_lots_distinct [OF d] by (simp_all add: entry(2)) (simp add: eligible_lots_def)
  have "l_remaining_quantity l \<le> taken_from new l"
    by (rule fifo_exhausts [OF ord lm new(2,3,4) taken])
  moreover have "non_negative_lot (l_remaining_quantity (deduct new l))"
    using new(5) ok eligible_lots_set lm(1) entry(2) by (simp add: lots_ok_def)
  ultimately show ?thesis using same [OF lm(1) l'] by (simp add: deduct_def non_negative_lot_def)
qed

section \<open>Cash\<close>

definition funded :: "ledger \<Rightarrow> bool" where
  "funded L \<longleftrightarrow> (\<forall>a \<in> set (lg_accounts L). 0 \<le> dval (ac_cash a))"

lemma funded_cong: "lg_accounts L' = lg_accounts L \<Longrightarrow> funded L' = funded L"
  by (simp add: funded_def)

lemma covered_cong:
  assumes "lg_accounts L' = lg_accounts L" "i_side intent = BUY"
  shows "covered b L' intent trade_date available costs n = covered b L intent trade_date available costs n"
  by (simp add: covered_def assms account_values_def find_account_def)

text \<open>A fill that consumes no lot is a buy, and a covered buy leaves the cash of every account non-negative.\<close>

lemma apply_fill_funded:
  assumes fill: "apply_fill b intent fill trade_date available_date p L = Inr ((ld, cd), L')" and ok: "funded L"
    and cover: "i_side intent = BUY \<Longrightarrow> covered b L intent trade_date available_date costs (f_quantity fill)"
    and costs: "fill_notional fill = cc_executed_notional costs" "f_total_fees fill = Some (cc_total_fees costs)"
    and unsold: "lg_consumptions L' = lg_consumptions L"
  shows "funded L'"
  using fill
proof (cases rule: apply_fill_cases)
  case (buy available fees lot accounts cash realized)
  have "\<not> dlt cash (dadd (fill_notional fill) fees)"
    using cover [OF buy(1)] buy(1,2,4) costs by (auto simp: covered_def)
  then have "0 \<le> dval (dsub cash (dadd (fill_notional fill) fees))" by (intro dsub_nonneg) (simp add: dlt_iff)
  then show ?thesis using ok buy(7,8) by (auto simp: funded_def set_account_cash_def set_update_where)
next
  case (sell new accounts)
  with unsold have "sum_by c_quantity [] = f_quantity fill" by simp
  with apply_fill_fill(3) [OF fill] show ?thesis by (simp add: positive_lot_def)
qed

lemma fill_notional_costs:
  assumes "execution_costs digest b side price quantity ctx = Inr costs" "f_price fill = cc_executed_price costs"
    and "f_quantity fill = oi_quantity (cc_order_input costs)"
  shows "fill_notional fill = cc_executed_notional costs"
  using assms execution_costs_notional [OF assms(1)] by (simp add: fill_notional_def)

lemma persist_intent_funded:
  assumes persist: "persist_intent digest now b intent execution_id t p trade_date quote costs request L = Inr (r, L')"
    and ok: "funded L" "chain_ok L" and unsold: "lg_consumptions L' = lg_consumptions L"
    and costs: "execution_costs digest b side price quantity ctx = Inr costs"
  shows "funded L'"
  using persist
proof (cases rule: persist_intent_Inr)
  case (1 row evaluated fill L1 L2 L3 L4 ld cd receipt e)
  note L1 = insert_intent_Inr [OF 1(1)] and L2 = insert_order_row_Inr [OF 1(8) [unfolded insert_order_def]]
  have acc: "lg_accounts L1 = lg_accounts L" "lg_accounts L2 = lg_accounts L" "lg_consumptions L2 = lg_consumptions L"
    using L1 L2 by simp_all
  obtain rr where L4: "L4 = L3\<lparr>lg_receipts := lg_receipts L3 @ [rr]\<rparr>"
    using 1(11) by (rule insert_execution_receipt_Inr)
  have "chain_ok L4" using ok(2) chain_state_chain_ok [OF persist_intent_chain [OF 1(1,8,9,11)]] by simp
  note fr = append_frame [OF 1(12) this]
  have "funded L3" using 1(6)
  proof (cases rule: evaluate_intent_cases)
    case unfilled
    then show ?thesis using 1(9) ok funded_cong [OF acc(2)] by simp
  next
    case (filled f)
    from 1(9) have "apply_fill b intent f trade_date (q_acquisition_available_date quote) p L2 = Inr ((ld, cd), L3)"
      by (simp add: filled(1))
    then show ?thesis
    proof (rule apply_fill_funded [where costs = costs])
      show "covered b L2 intent trade_date (q_acquisition_available_date quote) costs (f_quantity f)" if "i_side intent = BUY"
        using filled(13) covered_cong [OF _ that, of L2 L1] acc by simp
    qed (use ok funded_cong [OF acc(2)] unsold fr acc(3) filled fill_notional_costs [OF costs] in \<open>simp_all add: L4\<close>)
  qed
  then show ?thesis using funded_cong [of L' L3] fr by (simp add: L4)
qed

lemma persist_execution_funded:
  assumes persist: "persist_execution digest now b r intent execution_id sequence t p trade_date quantity quote
      snapshot costs request L = Inr L'"
    and ok: "funded L" "chain_ok L" and unsold: "lg_consumptions L' = lg_consumptions L"
    and costs: "execution_costs digest b side price quantity ctx = Inr costs"
    and check: "check_incremental b L r intent previous t p trade_date quantity quote costs = Inr ()"
  shows "funded L'"
  using persist
proof (cases rule: persist_execution_Inr)
  case (1 fill ld cd L1 average L2 updated receipt L3 e)
  note f = new_fill_Inr [OF 1(1)]
  obtain rr where L3: "L3 = L2\<lparr>lg_receipts := lg_receipts L2 @ [rr]\<rparr>"
    using 1(7) by (rule insert_execution_receipt_Inr)
  have "chain_ok L3" using ok(2) chain_state_chain_ok [OF persist_execution_chain [OF 1(2,5,7)]] by simp
  note fr = append_frame [OF 1(8) this]
  have "funded L1" using 1(2)
    by (rule apply_fill_funded [where costs = costs])
       (use ok unsold fr check_incremental_Inr(5) [OF check] fill_notional_costs [OF costs, of fill] execution_costs_notional [OF costs]
        in \<open>simp_all add: L3 1(5) update_order_row_def f\<close>)
  then show ?thesis using funded_cong [of L' L1] fr by (simp add: L3 1(5) update_order_row_def)
qed

lemma initialize_account_funded:
  assumes "make_broker account_id initial_cash policy = Inr b" "initialize_account digest now b L = Inr L'"
    and "funded L" "chain_ok L"
  shows "funded L'"
  using assms(2)
proof (cases rule: initialize_account_cases)
  case (opened specs row e)
  have cash: "0 \<le> dval (b_initial_cash b)" using assms(1) by (auto simp: make_broker_def dlt_iff)
  have "chain_ok (L\<lparr>lg_cost_specs := specs, lg_accounts := lg_accounts L @ [row]\<rparr>)"
    using assms(4) chain_ok_cong [of "L\<lparr>lg_cost_specs := specs, lg_accounts := lg_accounts L @ [row]\<rparr>" L] by simp
  from append_frame(1) [OF opened(7) this] assms(3) opened(5) cash show ?thesis by (simp add: funded_def)
qed (use assms in simp)

lemma broker_step_funded:
  assumes "broker_step digest L L'" "ledger_ok digest L" "funded L" "lg_consumptions L' = lg_consumptions L"
  shows "funded L'"
  using assms
proof (induction rule: broker_step.induct)
  case (open_account account_id initial_cash policy b now L L')
  from initialize_account_funded [OF open_account(1,2)] open_account(3,4) show ?case by (simp add: ledger_ok_def)
next
  case (submit now b intent supplied t persisted trade_date quote L r L')
  from submit(1) show ?case
  proof (cases rule: submit_intent_cases)
    case (1 execution_id p costs request)
    have chain: "chain_ok L" using submit(2) by (simp add: ledger_ok_def)
    from 1(9) show ?thesis
      by (elim disjE exE conjE) (use submit(3,4) persist_intent_funded [OF _ _ chain _ 1(6)] in simp_all)
  qed
next
  case (execute now b order_id execution_id t trade_date quantity quote snapshot persisted L result L')
  from execute(1) show ?case
  proof (cases rule: apply_execution_cases)
    case (1 p side costs request known)
    from 1(9) show ?thesis
    proof (cases rule: execution_transaction_cases)
      case (applied row r i intent sequence previous)
      with execute(2-4) persist_execution_funded [OF applied(12) _ _ _ 1(7) applied(11)] show ?thesis
        by (simp add: ledger_ok_def)
    qed (use execute in simp)
  qed
next
  case (close now b order_id status t persisted L outcome L')
  from close(1) show ?case
  proof (cases rule: close_open_order_cases)
    case (1 p row r i intent previous n L1 e)
    have "chain_ok L1" using close(2) chain_ok_cong [of L1 L] by (simp add: ledger_ok_def 1(12) update_order_row_def)
    from append_frame(1) [OF 1(13) this] close(3) show ?thesis by (simp add: funded_def 1(12) update_order_row_def)
  qed
next
  case (publish now b as_of prices commit view L state L')
  from publish(1) show ?case
  proof (cases rule: account_authority_snapshot_cases)
    case (published candidate L1 d)
    from published(4) obtain rows where L1: "L1 = L\<lparr>lg_authorities := rows\<rparr>" by (rule upsert_authority_Inr)
    have "chain_ok L1" using publish(2) chain_ok_cong [of L1 L] by (simp add: ledger_ok_def L1)
    from append_frame(1) [OF published(6) this] publish(3) show ?thesis by (simp add: funded_def L1)
  qed (use publish in simp)
qed

section \<open>Gates and limit prices\<close>

definition executable :: "order_intent \<Rightarrow> execution_quote \<Rightarrow> utc \<Rightarrow> paper_fill \<Rightarrow> bool" where
  "executable intent quote t f \<longleftrightarrow>
     \<not> q_suspended quote \<and> \<not> q_limit_locked quote \<and> \<not> q_risk_rejected quote \<and> t < i_expires_at intent
     \<and> f_executed_at f = t
     \<and> (i_order_type intent = LIMIT \<longrightarrow> (\<exists>limit. i_limit_price intent = Some limit
          \<and> (i_side intent = BUY \<longrightarrow> dval (f_price f) \<le> dval limit)
          \<and> (i_side intent = SELL \<longrightarrow> dval limit \<le> dval (f_price f))))"

lemma misses_limit_False:
  "misses_limit intent price = Inr False \<Longrightarrow> i_order_type intent = LIMIT \<Longrightarrow>
   \<exists>limit. i_limit_price intent = Some limit \<and> (i_side intent = BUY \<longrightarrow> dval price \<le> dval limit)
     \<and> (i_side intent = SELL \<longrightarrow> dval limit \<le> dval price)"
  by (auto simp: misses_limit_def dlt_iff split: option.splits)

lemma gate_reason_None:
  "gate_reason quote t intent = None \<longleftrightarrow>
   \<not> q_suspended quote \<and> \<not> q_limit_locked quote \<and> \<not> q_risk_rejected quote \<and> t < i_expires_at intent"
  by (auto simp: gate_reason_def)

lemma evaluate_intent_executable:
  assumes "evaluate_intent digest b L intent execution_id t trade_date quote costs = Inr (r, Some f)"
  shows "executable intent quote t f" "i_earliest_execution_at intent \<le> t" "f_quantity f \<le> i_quantity intent"
proof -
  define n where "n = (case q_executable_quantity quote of None \<Rightarrow> i_quantity intent | Some n \<Rightarrow> n)"
  note E = assms [unfolded evaluate_intent_def Let_def, folded n_def]
  have g: "gate_reason quote t intent = None" and e: "i_earliest_execution_at intent \<le> t"
    using E by (auto split: option.splits if_splits elim!: rbind_InrE)
  with E obtain missed where m: "misses_limit intent (cc_executed_price costs) = Inr missed"
    by (auto split: if_splits elim: rbind_InrE)
  note E' = E [unfolded g option.case m rbind_simps]
  have "\<not> missed" "n \<le> i_quantity intent"
    using E' e by (auto split: if_splits elim!: rbind_InrE)
  with E' e obtain reason where "position_reason b L intent trade_date quote costs n = Inr reason"
    by (auto split: if_splits elim: rbind_InrE)
  note E'' = E' [unfolded this rbind_simps]
  obtain i where "new_fill digest i execution_id 1 n costs t (i_price_snapshot_id intent) = Inr f"
    using E'' e \<open>\<not> missed\<close> by (auto split: if_splits option.splits elim!: rbind_InrE)
  note f = new_fill_Inr [OF this]
  from f g e m \<open>\<not> missed\<close> \<open>n \<le> i_quantity intent\<close> misses_limit_False [of intent "cc_executed_price costs"]
  show "executable intent quote t f" "i_earliest_execution_at intent \<le> t" "f_quantity f \<le> i_quantity intent"
    by (simp_all add: executable_def gate_reason_None)
qed

lemma check_incremental_executable:
  assumes "check_incremental b L r intent previous t p trade_date quantity quote costs = Inr ()"
    and "f_executed_at f = t" "f_price f = cc_executed_price costs"
  shows "executable intent quote t f"
proof -
  from assms(1) have "misses_limit intent (cc_executed_price costs) = Inr False"
    unfolding check_incremental_def by (auto elim!: rbind_InrE split: if_splits)
  from misses_limit_False [OF this] assms show ?thesis
    unfolding check_incremental_def executable_def by (auto elim!: rbind_InrE)
qed

lemma executable_stored [simp]: "executable intent quote t (fl_fill (stored_fill f p)) = executable intent quote t f"
  by (simp add: executable_def stored_fill_def)

lemma submit_intent_executable:
  assumes "submit_intent digest now b intent supplied t persisted trade_date quote L = Inr (r, L')" "chain_ok L"
    and "lg_fills L' \<noteq> lg_fills L"
  obtains x where "lg_fills L' = lg_fills L @ [x]" "executable intent quote t (fl_fill x)"
    "i_earliest_execution_at intent \<le> t" "f_quantity (fl_fill x) \<le> i_quantity intent"
  using assms(1)
proof (cases rule: submit_intent_cases)
  case (1 execution_id p costs request)
  from 1(9) assms(3) have
    "persist_intent digest now b intent execution_id t p trade_date quote costs request L = Inr (r, L')" by auto
  then show ?thesis
  proof (cases rule: persist_intent_Inr)
    case (1 row evaluated fill L1 L2 L3 L4 ld cd receipt e)
    note L1 = insert_intent_Inr [OF 1(1)] and L2 = insert_order_row_Inr [OF 1(8) [unfolded insert_order_def]]
    obtain rr where L4: "L4 = L3\<lparr>lg_receipts := lg_receipts L3 @ [rr]\<rparr>"
      using 1(11) by (rule insert_execution_receipt_Inr)
    have "chain_ok L4" using assms(2) chain_state_chain_ok [OF persist_intent_chain [OF 1(1,8,9,11)]] by simp
    note fr = append_frame [OF 1(12) this]
    from assms(3) obtain f where f: "fill = Some f" using 1(9) L1 L2 by (cases fill) (auto simp: fr L4)
    with 1(9) have "lg_fills L3 = lg_fills L2 @ [stored_fill f p]" by (auto dest: apply_fill_frame(1))
    then show ?thesis
      using evaluate_intent_executable [OF 1(6) [unfolded f]] L1 L2
      by (intro that [of "stored_fill f p"]) (simp_all add: fr L4)
  qed
qed

lemma apply_execution_executable:
  assumes "apply_execution digest now b order_id execution_id t trade_date quantity quote snapshot persisted L
      = Inr (result, L')" "chain_ok L" and "lg_fills L' \<noteq> lg_fills L"
  obtains intent x where "preflight_intent digest b L order_id = Inr intent" "lg_fills L' = lg_fills L @ [x]"
    "executable intent quote t (fl_fill x)" "f_quantity (fl_fill x) = quantity"
  using assms(1)
proof (cases rule: apply_execution_cases)
  case (1 p side costs request known)
  from 1(9) show ?thesis
  proof (cases rule: execution_transaction_cases)
    case (applied row r i intent sequence previous)
    have pre: "preflight_intent digest b L order_id = Inr intent"
      using applied(5,7,8) order_from_row_Inr(1) [OF applied(6)] by (simp add: preflight_intent_def)
    from applied(12) show ?thesis
    proof (cases rule: persist_execution_Inr)
      case (1 fill ld cd L1 average L2 updated receipt L3 e)
      obtain rr where L3: "L3 = L2\<lparr>lg_receipts := lg_receipts L2 @ [rr]\<rparr>"
        using 1(7) by (rule insert_execution_receipt_Inr)
      have "chain_ok L3" using assms(2) chain_state_chain_ok [OF persist_execution_chain [OF 1(2,5,7)]] by simp
      note fr = append_frame [OF 1(8) this] and f = new_fill_Inr [OF 1(1)]
      show ?thesis
        using check_incremental_executable [OF applied(11), of fill] apply_fill_frame(1) [OF 1(2)]
        by (intro that [OF pre, of "stored_fill fill p"]) (simp_all add: fr L3 1(5) update_order_row_def f)
    qed
  qed (use assms in simp)
qed

end
