(* ===== verification/Account_Views.thy ===== *)
theory Account_Views
  imports Broker_Trading "HOL-Library.Multiset"
begin

text \<open>
  What the read side reports: the authority to sell, the account snapshot, the latest execution
  prices and the revisions of the published account.
\<close>

section \<open>Sell authority\<close>

lemma dfloor_bounds: "of_int (dfloor d) \<le> dval d" "dval d < of_int (dfloor d) + 1"
proof -
  have f: "dfloor d = \<lfloor>dval d\<rfloor>"
  proof (cases "0 \<le> dexp d")
    case True
    then have "dval d = of_int (dfloor d)" by (simp add: dfloor_def dval_def powi_nat)
    then show ?thesis by simp
  next
    case False
    then have p: "(10::rat) powi dexp d = 1 / of_int (10 ^ nat (- dexp d))"
      unfolding power_int_def by (simp add: power_inverse inverse_eq_divide power_one_over)
    have "dval d = of_int (signed (dsign d) (dcoeff d)) / of_int (10 ^ nat (- dexp d))"
      unfolding dval_def p by simp
    then have "\<lfloor>dval d\<rfloor> = signed (dsign d) (dcoeff d) div 10 ^ nat (- dexp d)"
      by (simp only: floor_divide_of_int_eq)
    with False show ?thesis by (simp add: dfloor_def)
  qed
  show "of_int (dfloor d) \<le> dval d" "dval d < of_int (dfloor d) + 1" unfolding f by linarith+
qed

lemma make_sell_authority_Inr:
  assumes "make_sell_authority digest supplied x = Inr a"
  shows "a = x\<lparr>a_snapshot_id := canonical_sha256 digest (PDict (sell_authority_content x))\<rparr>"
    "positive_lot (a_remaining_quantity a)" "non_negative_lot (a_available_quantity a)"
    "a_available_quantity a \<le> a_remaining_quantity a" "positive_lot (a_requested_quantity a)"
    "expected_sell_quantity a = Inr (a_requested_quantity a)" "supplied = None \<or> supplied = Some (a_snapshot_id a)"
proof -
  from assms obtain e where e: "expected_sell_quantity x = Inr e"
    unfolding make_sell_authority_def by (auto elim!: rbind_InrE split: if_splits)
  have "expected_sell_quantity (x\<lparr>a_snapshot_id := i\<rparr>) = expected_sell_quantity x" for i
    by (cases "a_action x") (simp_all add: expected_sell_quantity_def)
  with assms e show "a = x\<lparr>a_snapshot_id := canonical_sha256 digest (PDict (sell_authority_content x))\<rparr>"
    "positive_lot (a_remaining_quantity a)" "non_negative_lot (a_available_quantity a)"
    "a_available_quantity a \<le> a_remaining_quantity a" "positive_lot (a_requested_quantity a)"
    "expected_sell_quantity a = Inr (a_requested_quantity a)" "supplied = None \<or> supplied = Some (a_snapshot_id a)"
    unfolding make_sell_authority_def sell_authority_fields_def Let_def
    by (auto elim!: rbind_InrE split: if_splits)
qed

lemma expected_sell_bounds:
  assumes "expected_sell_quantity a = Inr n" "positive_lot (a_remaining_quantity a)"
  shows "n \<le> a_remaining_quantity a" "a_action a = S_INTENT \<Longrightarrow> n = a_remaining_quantity a"
    "a_action a = REDUCE \<Longrightarrow> n < a_remaining_quantity a
       \<and> of_int n \<le> dval (dmul (dof_int (a_remaining_quantity a)) (a_tranche_fraction a))
       \<and> dval (dmul (dof_int (a_remaining_quantity a)) (a_tranche_fraction a)) < of_int n + 100"
proof -
  let ?d = "dmul (dof_int (a_remaining_quantity a)) (a_tranche_fraction a)"
  have lots: "dfloor ?d div 100 * 100 \<le> dfloor ?d" "dfloor ?d < dfloor ?d div 100 * 100 + 100" by linarith+
  have "of_int (dfloor ?d div 100 * 100) \<le> dval ?d" "dval ?d < of_int (dfloor ?d div 100 * 100) + 100"
    using dfloor_bounds [of ?d] lots by linarith+
  with assms show "n \<le> a_remaining_quantity a" "a_action a = S_INTENT \<Longrightarrow> n = a_remaining_quantity a"
    "a_action a = REDUCE \<Longrightarrow> n < a_remaining_quantity a \<and> of_int n \<le> dval ?d \<and> dval ?d < of_int n + 100"
    by (auto simp: expected_sell_quantity_def tranche_lots_def Let_def split: sell_action.splits if_splits)
qed

lemma sell_quantity_authority_Inr:
  assumes "sell_quantity_authority digest b L exit_id entry ts_code action fraction cutoff trade_date = Inr a"
  shows "entry_position_at digest b L entry ts_code cutoff trade_date
      = Inr (a_remaining_quantity a, a_available_quantity a, a_source_lot_fingerprint a)"
    "a_action a = action" "a_tranche_fraction a = fraction" "\<exists>x. make_sell_authority digest None x = Inr a"
proof -
  from assms obtain remaining available fingerprint where
    pos: "entry_position_at digest b L entry ts_code cutoff trade_date = Inr (remaining, available, fingerprint)"
    unfolding sell_quantity_authority_def by (auto elim!: rbind_InrE split: if_splits)
  from assms obtain requested where "make_sell_authority digest None
           \<lparr>a_snapshot_id = [], a_exit_signal_id = exit_id, a_entry_signal_id = entry,
            a_account_id = b_account_id b, a_ts_code = ts_code, a_action = action,
            a_decision_cutoff = cutoff, a_remaining_quantity = remaining,
            a_available_quantity = available, a_tranche_fraction = fraction,
            a_requested_quantity = requested, a_source_lot_fingerprint = fingerprint\<rparr> = Inr a"
    unfolding sell_quantity_authority_def pos by (auto elim!: rbind_InrE split: if_splits)
  with make_sell_authority_Inr(1) [OF this] pos show
    "entry_position_at digest b L entry ts_code cutoff trade_date
      = Inr (a_remaining_quantity a, a_available_quantity a, a_source_lot_fingerprint a)"
    "a_action a = action" "a_tranche_fraction a = fraction" "\<exists>x. make_sell_authority digest None x = Inr a"
    by auto
qed

lemma validate_sell_quantity_authority_Inr:
  assumes "validate_sell_quantity_authority digest b L intent t trade_date = Inr ()"
  obtains entry remaining available fingerprint authority where "i_entry_signal_id intent = Some entry"
    "i_sell_quantity_authority intent = Some authority" "a_decision_cutoff authority = t"
    "entry_position_at digest b L entry (i_ts_code intent) t trade_date = Inr (remaining, available, fingerprint)"
    "positive_lot (i_quantity intent)" "i_quantity intent \<le> remaining" "available \<le> remaining"
    "a_requested_quantity authority = i_quantity intent" "a_remaining_quantity authority = remaining"
proof -
  from assms obtain entry authority where o: "i_entry_signal_id intent = Some entry"
    "i_sell_quantity_authority intent = Some authority" "a_decision_cutoff authority = t"
    unfolding validate_sell_quantity_authority_def by (auto split: option.splits if_splits)
  note E = assms [unfolded validate_sell_quantity_authority_def o(1,2) prod.case option.case]
  from E o(3) obtain remaining available fingerprint where
    pos: "entry_position_at digest b L entry (i_ts_code intent) t trade_date = Inr (remaining, available, fingerprint)"
    by (auto elim!: rbind_InrE)
  from E [unfolded pos rbind_simps prod.case] o(3) obtain expected where
    m: "make_sell_authority digest None
              \<lparr>a_snapshot_id = [], a_exit_signal_id = i_signal_id intent, a_entry_signal_id = entry,
               a_account_id = b_account_id b, a_ts_code = i_ts_code intent, a_action = a_action authority,
               a_decision_cutoff = t, a_remaining_quantity = remaining,
               a_available_quantity = available, a_tranche_fraction = a_tranche_fraction authority,
               a_requested_quantity = i_quantity intent, a_source_lot_fingerprint = fingerprint\<rparr> = Inr expected"
    and same: "same_authority expected authority"
    by (auto elim!: rbind_InrE split: if_splits)
  have f: "a_requested_quantity authority = a_requested_quantity expected" "a_remaining_quantity authority = a_remaining_quantity expected"
    using arg_cong [OF same [unfolded same_authority_def, THEN conjunct2], of a_requested_quantity]
      arg_cong [OF same [unfolded same_authority_def, THEN conjunct2], of a_remaining_quantity] by simp_all
  note x = make_sell_authority_Inr [OF m]
  show ?thesis
    using x(2-6) expected_sell_bounds(1) [OF x(6,2)] f unfolding x(1)
    by (intro that [OF o pos]) simp_all
qed

lemma submit_sell_authorised:
  assumes "submit_intent digest now b intent supplied t persisted trade_date quote L = Inr (r, L')"
    and "i_side intent = SELL" "L' \<noteq> L"
  shows "validate_sell_quantity_authority digest b L intent t trade_date = Inr ()"
  using assms unfolding submit_intent_def Let_def
  by (elim rbind_InrE) (auto split: option.splits elim!: rbind_InrE)

section \<open>Account snapshot\<close>

lemma make_holding_Inr: "make_holding x = Inr h \<Longrightarrow> h = x"
  by (simp add: make_holding_def)

lemma holding_of_code_Inr:
  assumes "holding_of_code b L trade_date prices code = Inr h"
  shows "h_code h = code" "map_of prices code = Some (h_market_price h)"
    "h_quantity h = sum_by l_remaining_quantity (filter (\<lambda>l. l_ts_code l = code) (held_lots b L))"
    "h_available_quantity h = sum_by (\<lambda>l. if l_available_date l \<le> trade_date then l_remaining_quantity l else 0)
       (filter (\<lambda>l. l_ts_code l = code) (held_lots b L))"
    "h_frozen_quantity h = h_quantity h - h_available_quantity h"
proof -
  have sort: "sum_by f (lots_of_code b L code) = sum_by f (filter (\<lambda>l. l_ts_code l = code) (held_lots b L))" for f
    unfolding sum_by_def lots_of_code_def sum_mset_sum_list [symmetric] by simp
  from assms obtain price where p: "map_of prices code = Some price" by (auto simp: holding_of_code_def split: option.splits)
  from assms obtain cost where "make_holding
      \<lparr>h_code = code, h_quantity = sum_by l_remaining_quantity (lots_of_code b L code),
       h_available_quantity = sum_by (\<lambda>l. if l_available_date l \<le> trade_date then l_remaining_quantity l else 0) (lots_of_code b L code),
       h_frozen_quantity = sum_by l_remaining_quantity (lots_of_code b L code)
         - sum_by (\<lambda>l. if l_available_date l \<le> trade_date then l_remaining_quantity l else 0) (lots_of_code b L code),
       h_average_cost = cost, h_market_price = price\<rparr> = Inr h"
    unfolding holding_of_code_def p option.case Let_def by (rule rbind_InrE)
  from make_holding_Inr [OF this] p show "h_code h = code" "map_of prices code = Some (h_market_price h)"
    "h_quantity h = sum_by l_remaining_quantity (filter (\<lambda>l. l_ts_code l = code) (held_lots b L))"
    "h_available_quantity h = sum_by (\<lambda>l. if l_available_date l \<le> trade_date then l_remaining_quantity l else 0)
       (filter (\<lambda>l. l_ts_code l = code) (held_lots b L))"
    "h_frozen_quantity h = h_quantity h - h_available_quantity h"
    by (simp_all add: sort)
qed

lemma sum_by_codes:
  assumes "distinct codes" "g ` set xs \<subseteq> set codes"
  shows "(\<Sum>c \<leftarrow> codes. sum_by f (filter (\<lambda>x. g x = c) xs)) = sum_by f xs"
  using assms(2)
proof (induction xs)
  case (Cons x xs)
  have "(\<Sum>c \<leftarrow> codes. if g x = c then f x else 0) = f x"
    using assms(1) Cons.prems by (subst sum_list_distinct_conv_sum_set) (auto simp: sum.delta)
  moreover have "(\<Sum>c \<leftarrow> codes. sum_by f (filter (\<lambda>y. g y = c) (x # xs))) =
      (\<Sum>c \<leftarrow> codes. (if g x = c then f x else 0) + sum_by f (filter (\<lambda>y. g y = c) xs))"
    by (intro arg_cong [where f = sum_list] map_cong) auto
  ultimately show ?case using Cons by (simp add: sum_list_addf)
qed (simp add: sum_by_def)

lemma holdings_codes:
  "list_all2 (\<lambda>c h. holding_of_code b L trade_date prices c = Inr h) codes holdings \<Longrightarrow> map h_code holdings = codes"
  by (induction rule: list_all2_induct) (auto simp: holding_of_code_Inr)

lemma make_account_snapshot_Inr:
  assumes "make_account_snapshot digest supplied x = Inr s"
  shows "\<exists>i. s = x\<lparr>s_holdings := sort_key h_code (s_holdings x), s_snapshot_id := i\<rparr>" "0 \<le> dval (s_cash x)"
    "distinct (map h_code (s_holdings x))"
  using assms unfolding make_account_snapshot_def reconcile_account_def Let_def
  by (auto elim!: rbind_InrE split: if_splits simp: dle_iff)

lemma take_account_snapshot_Inr:
  assumes "take_account_snapshot digest b L as_of prices = Inr s"
  obtains cash realized where "account_values b L = Inr (cash, realized)" "s_cash s = cash" "s_realized_pnl s = realized"
    "s_account_id s = b_account_id b" "s_as_of_time s = as_of" "0 \<le> dval cash"
    "map h_code (s_holdings s) = sort (remdups (map l_ts_code (held_lots b L)))"
    "list_all2 (\<lambda>c h. holding_of_code b L (shanghai_date as_of) prices c = Inr h)
       (sort (remdups (map l_ts_code (held_lots b L)))) (s_holdings s)"
    "s_nav s = dadd cash (holdings_value (s_holdings s))"
    "opt_all (\<lambda>latest. latest \<le> as_of) (latest_update b L)"
proof -
  let ?codes = "sort (remdups (map l_ts_code (held_lots b L)))"
  from assms obtain cash realized where acc: "account_values b L = Inr (cash, realized)"
    and late: "opt_all (\<lambda>latest. latest \<le> as_of) (latest_update b L)"
    unfolding take_account_snapshot_def by (auto elim!: rbind_InrE split: if_splits)
  note E = assms [unfolded take_account_snapshot_def acc rbind_simps prod.case]
  from E late obtain holdings where h: "mapM (holding_of_code b L (shanghai_date as_of) prices) ?codes = Inr holdings"
    by (auto elim!: rbind_InrE)
  then have all2: "list_all2 (\<lambda>c h. holding_of_code b L (shanghai_date as_of) prices c = Inr h) ?codes holdings"
    by (simp add: mapM_Inr_list_all2)
  then have codes: "map h_code holdings = ?codes" by (rule holdings_codes)
  have sorted: "sort_key h_code holdings = holdings" by (rule sort_key_id_if_sorted) (simp add: codes)
  from E late obtain x where "make_account_snapshot digest None x = Inr s" and
    x: "x = \<lparr>s_snapshot_id = [], s_account_id = b_account_id b, s_as_of_time = as_of, s_cash = cash,
            s_available_cash = cash, s_frozen_cash = dzero, s_holdings = holdings,
            s_realized_pnl = realized, s_unrealized_pnl = holdings_unrealized holdings,
            s_nav = dadd cash (holdings_value holdings)\<rparr>"
    unfolding h rbind_simps by (auto elim: rbind_InrE)
  note m = make_account_snapshot_Inr(1,2) [OF this(1)]
  from m(1) obtain i where "s = x\<lparr>s_holdings := sort_key h_code (s_holdings x), s_snapshot_id := i\<rparr>" by (rule exE)
  with m(2) show ?thesis using codes all2 late by (intro that [OF acc]) (simp_all add: x sorted)
qed

section \<open>Latest execution prices\<close>

definition price_visible :: "utc \<Rightarrow> string \<Rightarrow> fill_row \<times> order_row \<Rightarrow> bool" where
  "price_visible as_of code = (\<lambda>(f, r).
     f_executed_at (fl_fill f) \<le> as_of \<and> fl_persisted_at f \<le> as_of \<and> o_ts_code (or_order r) = code)"

definition execution_key :: "fill_row \<times> order_row \<Rightarrow> utc \<times> int \<times> string" where
  "execution_key = (\<lambda>(f, r). (f_executed_at (fl_fill f), f_sequence (fl_fill f), f_fill_id (fl_fill f)))"

lemma latest_prices_Inr:
  "latest_prices as_of rows prices = Inr out \<Longrightarrow>
   map_of out code = (case map_of prices code of Some p \<Rightarrow> Some p | None \<Rightarrow>
     map_option (\<lambda>(f, r). f_price (fl_fill f))
       (find (\<lambda>(f, r). fl_persisted_at f \<le> as_of \<and> o_ts_code (or_order r) = code) rows))"
proof (induction as_of rows prices rule: latest_prices.induct)
  case (2 as_of f r rows prices)
  then show ?case by (cases "o_ts_code (or_order r) = code") (auto split: if_splits option.splits simp: map_add_def)
qed (simp split: option.splits)

lemma find_latest:
  fixes k :: "'a \<Rightarrow> 'b::linorder"
  assumes "find P (rev (sort_key k xs)) = Some x"
  shows "x \<in> set xs \<and> P x \<and> (\<forall>y \<in> set xs. P y \<longrightarrow> k y \<le> k x)"
proof -
  let ?ys = "rev (sort_key k xs)"
  from assms obtain i where i: "i < length ?ys" "P (?ys ! i)" "x = ?ys ! i" "\<forall>j < i. \<not> P (?ys ! j)"
    by (auto simp: find_Some_iff)
  have "k y \<le> k x" if y: "y \<in> set xs" "P y" for y
  proof -
    from y(1) have "y \<in> set ?ys" by simp
    then obtain j where j: "j < length ?ys" "y = ?ys ! j" by (metis in_set_conv_nth)
    with i(4) y(2) have "i \<le> j" using not_le by blast
    moreover have "sorted (rev (map k ?ys))" by (simp add: rev_map)
    ultimately show ?thesis using sorted_rev_nth_mono [of "map k ?ys" i j] i(1,3) j by simp
  qed
  moreover have "x \<in> set ?ys" using i(1,3) nth_mem by blast
  ultimately show ?thesis using i(2,3) by auto
qed

lemma latest_execution_prices_Inr:
  assumes "latest_execution_prices digest b L as_of = Inr prices"
  shows "case map_of prices code of
      None \<Rightarrow> \<forall>x \<in> set (account_fills b L). \<not> price_visible as_of code x
    | Some p \<Rightarrow> \<exists>x \<in> set (account_fills b L). price_visible as_of code x \<and> p = f_price (fl_fill (fst x))
        \<and> (\<forall>y \<in> set (account_fills b L). price_visible as_of code y \<longrightarrow> execution_key y \<le> execution_key x)"
proof -
  let ?xs = "filter (\<lambda>(f, r). f_executed_at (fl_fill f) \<le> as_of) (account_fills b L)"
  let ?P = "\<lambda>(f, r). fl_persisted_at f \<le> as_of \<and> o_ts_code (or_order r) = code"
  have v: "price_visible as_of code x \<longleftrightarrow> x \<in> set ?xs \<and> ?P x" if "x \<in> set (account_fills b L)" for x
    using that by (auto simp: price_visible_def)
  from assms have "latest_prices as_of (rev (sort_key execution_key ?xs)) [] = Inr prices"
    unfolding latest_execution_prices_def execution_key_def by (auto elim: rbind_InrE)
  from latest_prices_Inr [OF this, of code]
  have m: "map_of prices code = map_option (\<lambda>(f, r). f_price (fl_fill f)) (find ?P (rev (sort_key execution_key ?xs)))"
    by simp
  show ?thesis
  proof (cases "find ?P (rev (sort_key execution_key ?xs))")
    case None
    then have none: "\<forall>x \<in> set ?xs. \<not> ?P x" unfolding find_None_iff set_rev set_sort by blast
    from None m have "map_of prices code = None" by simp
    then show ?thesis using none v by (simp only: option.case) blast
  next
    case (Some x)
    from find_latest [OF this] have x: "x \<in> set ?xs" "?P x" "\<forall>y \<in> set ?xs. ?P y \<longrightarrow> execution_key y \<le> execution_key x"
      by blast+
    have xs: "x \<in> set (account_fills b L)" using x(1) by simp
    moreover have "map_of prices code = Some (f_price (fl_fill (fst x)))" using m Some by (simp add: case_prod_unfold)
    moreover have "price_visible as_of code x" using v [OF xs] x(1,2) by blast
    moreover have "\<forall>y \<in> set (account_fills b L). price_visible as_of code y \<longrightarrow> execution_key y \<le> execution_key x"
      using v x(3) by blast
    ultimately show ?thesis by (simp only: option.case) blast
  qed
qed

section \<open>The published authority\<close>

lemma mapM_make_holding: "mapM make_holding hs = Inr hs' \<longleftrightarrow> hs' = hs \<and> (\<forall>h \<in> set hs. make_holding h = Inr h)"
proof -
  have "list_all2 (\<lambda>x h. make_holding x = Inr h) hs hs' \<longleftrightarrow> hs' = hs \<and> (\<forall>h \<in> set hs. make_holding h = Inr h)"
    by (induction hs arbitrary: hs') (auto simp: list_all2_Cons1 dest: make_holding_Inr)
  then show ?thesis by (simp add: mapM_Inr_list_all2)
qed

text \<open>A validated snapshot is accepted again under its own identity.\<close>

lemma make_account_snapshot_again:
  assumes "make_account_snapshot digest supplied x = Inr s"
  shows "make_account_snapshot digest (Some (s_snapshot_id s)) s = Inr s"
proof -
  let ?hs = "sort_key h_code (s_holdings x)"
  have content: "snapshot_content (y\<lparr>s_snapshot_id := i, s_holdings := hs\<rparr>) = snapshot_content (y\<lparr>s_holdings := hs\<rparr>)" for y i hs
    by (simp add: snapshot_content_def)
  have sorted: "sort_key h_code ?hs = ?hs" by (rule sort_key_id_if_sorted) simp
  have "distinct (map h_code ?hs)" if "distinct (map h_code (s_holdings x))" using that by (simp add: distinct_map)
  moreover obtain s0 where s0: "s0 = x\<lparr>s_holdings := ?hs\<rparr>" "s = s0\<lparr>s_snapshot_id := canonical_sha256 digest (PDict (snapshot_content s0))\<rparr>"
    using assms unfolding make_account_snapshot_def reconcile_account_def Let_def by (auto elim!: rbind_InrE split: if_splits)
  ultimately show ?thesis
    using assms unfolding make_account_snapshot_def reconcile_account_def Let_def
    by (auto elim!: rbind_InrE split: if_splits simp: mapM_make_holding content sorted s0)
qed

lemma make_account_authority_Inr:
  "make_account_authority digest n f c y = Inr x \<Longrightarrow> aa_producer_commit x = c \<and> aa_state_fingerprint x = account_state_fingerprint digest y"
  by (auto simp: make_account_authority_def)

lemma authority_row_loads:
  assumes "take_account_snapshot digest b view as_of prices = Inr candidate" "aa_snapshot state = candidate"
    and "make_account_authority digest (aa_revision state) (aa_state_fingerprint state) commit candidate = Inr state"
  shows "load_account_authority digest (authority_row_of b state) = Inr state"
proof -
  from assms(1) obtain x where "make_account_snapshot digest None x = Inr candidate"
    unfolding take_account_snapshot_def by (auto elim!: rbind_InrE split: if_splits prod.splits)
  note again = make_account_snapshot_again [OF this]
  from make_account_authority_Inr [OF assms(3)] again assms(2,3) show ?thesis by (simp add: load_account_authority_def authority_row_of_def)
qed

lemma account_authority_stored:
  assumes "account_authority_snapshot digest now b as_of prices commit view L = Inr (state, L')"
  obtains row where "select_one (\<lambda>r. au_account_id r = b_account_id b) (lg_authorities L') = Some row"
    "load_account_authority digest row = Inr state"
    "filter (\<lambda>r. au_account_id r \<noteq> b_account_id b) (lg_authorities L') = filter (\<lambda>r. au_account_id r \<noteq> b_account_id b) (lg_authorities L)"
  using assms
proof (cases rule: account_authority_snapshot_cases)
  case (replay row candidate)
  then show ?thesis by (intro that [of row]) simp_all
next
  case (published candidate L1 d)
  have "lg_authorities L' = lg_authorities L1" using append_tables [OF published(6)] by auto
  with published(4) show ?thesis
    by (elim upsert_authority_Inr) (rule that [OF _ authority_row_loads [OF published(1,2,8)]], simp_all)
qed

end
