(* ===== verification/Fifo_Example.thy ===== *)
theory Fifo_Example
  imports Sell_Example Account_Views
begin

text \<open>A sale of 300 shares out of two lots of 200.\<close>

definition ex_later_lot :: "int \<Rightarrow> lot_row" where
  "ex_later_lot n = (ex_lot n)\<lparr>l_lot_id := ex_sha (CHR ''5''), l_buy_executed_at := ex_buy_time + 1\<rparr>"

definition ex_later_fill_row :: fill_row where
  "ex_later_fill_row = ex_buy_fill_row\<lparr>fl_fill := ex_buy_fill\<lparr>f_fill_id := ex_sha (CHR ''5'')\<rparr>\<rparr>"

definition ex_large_fill :: paper_fill where
  "ex_large_fill = ex_sell_fill\<lparr>f_quantity := 300\<rparr>"

definition ex_two_lots :: ledger where
  "ex_two_lots = ex_bought\<lparr>lg_fills := [ex_buy_fill_row, ex_later_fill_row, ex_sell_fill_row],
     lg_lots := [ex_later_lot 200, ex_lot 200]\<rparr>"

lemma ex_later_lot_fields [simp]:
  "l_lot_id (ex_later_lot n) = ex_sha (CHR ''5'')" "l_account_id (ex_later_lot n) = ''paper''"
  "l_ts_code (ex_later_lot n) = ''600000.SH''" "l_entry_signal_id (ex_later_lot n) = ex_sha (CHR ''e'')"
  "l_acquisition_trade_date (ex_later_lot n) = 10" "l_available_date (ex_later_lot n) = 11"
  "l_original_quantity (ex_later_lot n) = 200" "l_remaining_quantity (ex_later_lot n) = n"
  "l_buy_executed_at (ex_later_lot n) = ex_buy_time + 1" "l_buy_executed_at (ex_lot n) = ex_buy_time"
  "(ex_later_lot n)\<lparr>l_remaining_quantity := m\<rparr> = ex_later_lot m" "(ex_lot n)\<lparr>l_remaining_quantity := m\<rparr> = ex_lot m"
  "f_fill_id ex_large_fill = ex_sha (CHR ''2'')" "f_quantity ex_large_fill = 300"
  by (simp_all add: ex_later_lot_def ex_lot_def ex_large_fill_def ex_sell_fill_def)

lemma ex_two_lots_ok: "lots_ok ex_two_lots"
  by (simp add: lots_ok_def ex_two_lots_def positive_lot_def non_negative_lot_def taken_from_def)

lemma ex_two_eligible:
  "eligible_lots ex_broker ex_two_lots ''600000.SH'' (ex_sha (CHR ''e'')) 11 = [ex_lot 200, ex_later_lot 200]"
proof -
  have "lot_has_buy ex_two_lots (ex_lot 200)" "lot_has_buy ex_two_lots (ex_later_lot 200)"
    by (simp_all add: lot_has_buy_def ex_two_lots_def ex_buy_intent_row_def ex_later_fill_row_def) (simp_all add: ex_buy_order_def)
  then have "entry_lots ex_broker ex_two_lots ''600000.SH'' (ex_sha (CHR ''e'')) = [ex_later_lot 200, ex_lot 200]"
    unfolding entry_lots_def by (simp add: ex_two_lots_def)
  moreover have "\<not> fifo_key (ex_later_lot 200) \<le> fifo_key (ex_lot 200)" "fifo_key (ex_lot 200) \<le> fifo_key (ex_later_lot 200)"
    by (simp_all add: fifo_key_def less_eq_prod_def less_prod_def)
  ultimately show ?thesis by (simp add: eligible_lots_def)
qed

lemma ex_large_sale:
  "\<exists>d L'. apply_sell ex_broker ex_sell_intent ex_large_fill 11 ex_sell_time dzero dzero ex_two_lots = Inr (d, L')
     \<and> lg_lots L' = [ex_later_lot 100, ex_lot 0]"
proof -
  have lots: "lg_lots ex_two_lots = [ex_later_lot 200, ex_lot 200]" "lg_consumptions ex_two_lots = []"
    "lg_fills ex_two_lots = [ex_buy_fill_row, ex_later_fill_row, ex_sell_fill_row]"
    by (simp_all add: ex_two_lots_def)
  have "f_total_fees ex_large_fill = Some (Dec False 552 (- 2))" by (simp add: ex_large_fill_def ex_sell_fill_def)
  then show ?thesis
    unfolding apply_sell_def Let_def
    by (simp add: ex_two_eligible consume_lot_def insert_consumption_def raise_first.simps Let_def lots positive_lot_def
        non_negative_lot_def ex_sell_fill_def set_account_values_def)
qed

end
