(* ===== verification/Account_Example.thy ===== *)
theory Account_Example
  imports Fifo_Example
begin

text \<open>The account views of the example: a snapshot, the latest prices and a published authority.\<close>

definition ex_prices :: "(string \<times> decimal) list" where
  "ex_prices = [(''600000.SH'', Dec False 1050 (- 2))]"

definition ex_holding :: paper_holding where
  "ex_holding = \<lparr>h_code = ''600000.SH'', h_quantity = 200, h_available_quantity = 200, h_frozen_quantity = 0,
     h_average_cost = Dec False 10035 (- 3), h_market_price = Dec False 1050 (- 2)\<rparr>"

lemma ex_holding_of_code: "holding_of_code ex_broker ex_bought 11 ex_prices ''600000.SH'' = Inr ex_holding"
proof -
  have lots: "lots_of_code ex_broker ex_bought ''600000.SH'' = [ex_lot 200]"
    by (simp add: lots_of_code_def held_lots_def)
  have "l_unit_cost (ex_lot 200) = Dec False 10035 (- 3)" by (simp add: ex_lot_def)
  moreover have "dmul (Dec False 10035 (- 3)) (dof_int 200) = Dec False 2007000 (- 3)"
    "dsum [Dec False 2007000 (- 3)] = Dec False 2007000 (- 3)"
    "ddiv (Dec False 2007000 (- 3)) (dof_int 200) = Inr (Dec False 10035 (- 3))"
    by (simp_all add: dec_eval)
  moreover have "make_holding ex_holding = Inr ex_holding"
    by (simp add: make_holding_def raise_first.simps ex_holding_def non_negative_lot_def dec_eval)
  ultimately show ?thesis
    by (simp add: holding_of_code_def ex_prices_def lots ex_holding_def)
qed

lemma ex_snapshot: "\<exists>s. take_account_snapshot ex_digest ex_broker ex_bought ex_sell_time ex_prices = Inr s
    \<and> s_holdings s = [ex_holding]"
proof -
  have ready: "require_execution_ready ex_digest ex_broker ex_bought = Inr ()" by (rule ex_bought_ready)
  have held: "held_lots ex_broker ex_bought = [ex_lot 200]" by (simp add: held_lots_def)
  have latest: "latest_update ex_broker ex_bought = Some ex_buy_time"
    by (simp add: latest_update_def ex_buy_order_def)
  have acc: "account_values ex_broker ex_bought = Inr (Dec False 9799300 (- 2), dzero)"
    by (simp add: account_values_def find_account_def)
  have holding: "make_holding ex_holding = Inr ex_holding"
    by (simp add: make_holding_def raise_first.simps ex_holding_def non_negative_lot_def dec_eval)
  have cash: "deq (Dec False 9799300 (- 2)) (dadd (Dec False 9799300 (- 2)) dzero)" "dle dzero (Dec False 9799300 (- 2))"
    "dle dzero dzero" "dle dzero (dadd (Dec False 9799300 (- 2)) (holdings_value [ex_holding]))"
    by (simp_all add: holdings_value_def ex_holding_def dec_eval)
  have same: "deq x x" for x by (simp add: deq_iff)
  show ?thesis
    unfolding take_account_snapshot_def ready rbind_simps acc latest held
    by (simp add: ex_holding_of_code make_account_snapshot_def reconcile_account_def Let_def holding cash raise_first.simps
        same bind_identity_def)
qed

lemma ex_latest_prices:
  "latest_execution_prices ex_digest ex_broker ex_sold ex_sell_time = Inr [(''600000.SH'', Dec False 1049 (- 2))]"
proof -
  have ready: "require_execution_ready ex_digest ex_broker ex_sold = Inr ()" using ex_ready [OF ex_sold_chain] by simp
  have fills: "account_fills ex_broker ex_sold = [(ex_buy_fill_row, ex_buy_order_row), (ex_sell_fill_row, ex_sell_order_row)]"
    by (simp add: account_fills_def ex_buy_order_def ex_sell_order_def ex_sell_fill_def)
  have fields: "f_executed_at ex_sell_fill = ex_sell_time" "f_price ex_sell_fill = Dec False 1049 (- 2)"
    "o_ts_code ex_sell_order = ''600000.SH''" "o_ts_code ex_buy_order = ''600000.SH''" "ex_buy_time < ex_sell_time"
    by (simp_all add: ex_sell_fill_def ex_sell_order_def ex_buy_order_def ex_buy_time_def ex_sell_time_def)
  show ?thesis
    unfolding latest_execution_prices_def ready rbind_simps fills
    by (simp add: fields less_eq_prod_def less_prod_def)
qed

lemma ex_publish:
  "\<exists>state L'. account_authority_snapshot ex_digest 0 ex_broker ex_sell_time ex_prices (replicate 40 (CHR ''a'')) ex_bought ex_bought
     = Inr (state, L') \<and> aa_revision state = 1"
proof -
  obtain s where s: "take_account_snapshot ex_digest ex_broker ex_bought ex_sell_time ex_prices = Inr s"
    using ex_snapshot by blast
  have none: "select_one (\<lambda>r. au_account_id r = ''paper'') (lg_authorities ex_bought) = None" by (simp add: ex_bought_def ex_bought_tables_def)
  define state where "state = \<lparr>aa_revision = 1, aa_state_fingerprint = account_state_fingerprint ex_digest s,
     aa_producer_commit = replicate 40 (CHR ''a''), aa_snapshot = s\<rparr>"
  have "canonical_sha256 ex_digest (PDict (filter (\<lambda>(k, v). k \<noteq> ''as_of_time'') (snapshot_content s))) = ex_sha (CHR ''d'')"
    by (simp add: snapshot_content_def ex_digest_eval)
  then have fingerprint: "is_sha256 (canonical_sha256 ex_digest (PDict (filter (\<lambda>(k, v). k \<noteq> ''as_of_time'') (snapshot_content s))))"
    by simp
  have made: "make_account_authority ex_digest 1 (account_state_fingerprint ex_digest s) (replicate 40 (CHR ''a'')) s = Inr state"
    by (simp add: make_account_authority_def raise_first.simps state_def account_state_fingerprint_def is_commit_sha_def
        is_hex_lower_def list_all_iff fingerprint)
  have "\<exists>L1. upsert_authority ex_broker state ex_bought = Inr L1 \<and> ex_chain 3 L1"
    using ex_bought_chain none by (auto simp: upsert_authority_def Let_def account_exists_def)
  then obtain L1 where L1: "upsert_authority ex_broker state ex_bought = Inr L1" "ex_chain 3 L1" by blast
  have "append_ledger_attestation ex_digest 0 ''account_authority'' (aa_state_fingerprint state) (no_counts\<lparr>n_authority := 1\<rparr>) L1
      = Inr (ex_append 0 ''account_authority'' (aa_state_fingerprint state) (no_counts\<lparr>n_authority := 1\<rparr>) L1)"
    using ex_append_works(1) [OF L1(2)] by simp
  then show ?thesis
    unfolding account_authority_snapshot_def s rbind_simps Let_def ex_bought_ready ex_broker_fields none option.case made L1(1)
    by (simp add: state_def)
qed

end
