(* ===== verification/Execute_Example.thy ===== *)
theory Execute_Example
  imports Sell_Example Broker_Trading
begin

text \<open>
  The same purchase in two calls: the intent is submitted while nothing is executable, and the open
  order is filled later through \<open>apply_execution\<close>.
\<close>

definition ex_wait_quote :: execution_quote where
  "ex_wait_quote = ex_buy_quote\<lparr>q_executable_quantity := Some 0\<rparr>"

definition ex_wait_order :: paper_order where
  "ex_wait_order = ex_buy_order\<lparr>o_filled_quantity := 0, o_average_fill_price := None, o_status := ACCEPTED\<rparr>"

definition ex_wait_request :: pyval where
  "ex_wait_request = initial_request ex_digest (ex_sha (CHR ''4'')) (ex_sha (CHR ''b'')) ex_buy_time ex_buy_time 10
     ex_wait_quote ex_buy_costs"

definition ex_wait_receipt :: execution_receipt where
  "ex_wait_receipt = ex_buy_receipt\<lparr>r_execution_id := ex_sha (CHR ''4''), r_request_fingerprint := ex_sha (CHR ''4''),
     r_order := ex_wait_order, r_fill := None\<rparr>"

definition ex_wait_intent_row :: intent_row where
  "ex_wait_intent_row = ex_buy_intent_row\<lparr>ir_initial_execution_id := ex_sha (CHR ''4''),
     ir_initial_execution_request_fingerprint := ex_sha (CHR ''4'')\<rparr>"

definition ex_execute_request :: pyval where
  "ex_execute_request = incremental_request ex_digest (ex_sha (CHR ''1'')) (ex_sha (CHR ''b'')) ex_buy_time ex_buy_time 10
     200 ex_buy_quote (ex_sha (CHR ''1'')) ex_buy_costs"

lemma ex_wait_fields [simp]:
  "o_order_id ex_wait_order = ex_sha (CHR ''b'')" "o_intent_id ex_wait_order = ex_sha (CHR ''b'')"
  "o_account_id ex_wait_order = ''paper''" "o_quantity ex_wait_order = 200" "o_filled_quantity ex_wait_order = 0"
  "o_status ex_wait_order = ACCEPTED" "o_average_fill_price ex_wait_order = None"
  "o_created_at ex_wait_order = ex_buy_time" "o_updated_at ex_wait_order = ex_buy_time"
  "ir_intent_id ex_wait_intent_row = ex_sha (CHR ''b'')" "ir_payload_json ex_wait_intent_row = Some ex_buy_intent"
  "i_account_id ex_buy_intent = ''paper''" "i_available_at ex_buy_intent = ex_buy_time"
  "i_ts_code ex_buy_intent = ''600000.SH''" "i_side ex_buy_intent = BUY" "i_quantity ex_buy_intent = 200"
  "i_intent_id ex_buy_intent = ex_sha (CHR ''b'')" "i_price_snapshot_id ex_buy_intent = ex_sha (CHR ''1'')"
  "i_expires_at ex_buy_intent = ex_buy_time + 1000000"
  "q_instrument_context ex_buy_quote = ex_context" "q_executable_quantity ex_buy_quote = None"
  "q_executable_price ex_buy_quote = Dec False 1000 (- 2)" "q_acquisition_available_date ex_buy_quote = Some 11"
  "\<not> q_suspended ex_buy_quote" "\<not> q_limit_locked ex_buy_quote" "\<not> q_risk_rejected ex_buy_quote"
  by (simp_all add: ex_wait_order_def ex_buy_order_def ex_wait_intent_row_def ex_buy_intent_row_def ex_buy_intent_def
      ex_buy_quote_def)

lemma ex_execute_identities:
  "canonical_sha256 ex_digest ex_wait_request = ex_sha (CHR ''4'')"
  "canonical_sha256 ex_digest ex_execute_request = ex_sha (CHR ''1'')"
  by (simp_all add: ex_wait_request_def ex_execute_request_def initial_request_def incremental_request_def ex_digest_eval)

lemma ex_wait_order_valid:
  "make_order ex_digest None (ex_wait_order\<lparr>o_order_id := i\<rparr>) = Inr ex_wait_order"
  "make_order ex_digest (Some (ex_sha (CHR ''b''))) ex_wait_order = Inr ex_wait_order"
  by (simp_all add: make_order_def order_fields_def order_status_checks_def raise_first.simps ex_wait_order_def ex_buy_order_def
      ex_identities bind_identity_def positive_lot_def non_negative_lot_def dec_eval Let_def)

lemma ex_wait_receipt_valid: "make_receipt ex_digest ex_wait_receipt = Inr ex_wait_receipt"
proof -
  have "validate_execution ex_wait_receipt = Inr ex_wait_receipt"
    by (simp add: validate_execution_def validate_known_v3_def calculation_matches_receipt_def opt_deq_def
        ex_wait_receipt_def ex_buy_receipt_def ex_buy_costs_def ex_costs_def)
  then show ?thesis
    using ex_wait_order_valid(2) ex_costs_valid(1)
    by (simp add: make_receipt_def receipt_fields_def raise_first.simps validate_opt_def ex_wait_receipt_def ex_buy_receipt_def)
qed

section \<open>An open order\<close>

lemma ex_no_limit: "misses_limit ex_buy_intent p = Inr False"
  by (simp add: misses_limit_def ex_buy_intent_def)

definition ex_waiting_tables :: "ledger \<Rightarrow> ledger" where
  "ex_waiting_tables L = L\<lparr>lg_intents := [ex_wait_intent_row],
     lg_orders := [\<lparr>or_order = ex_wait_order, or_entry_signal_id = None\<rparr>],
     lg_receipts := [ex_receipt_row (CHR ''b'') ex_wait_request ex_wait_receipt ex_buy_costs]\<rparr>"

definition ex_waiting :: ledger where
  "ex_waiting = ex_append 0 ''intent_execution''
     (canonical_sha256 ex_digest (PDict [(''intent'', intent_dump ex_buy_intent), (''receipt'', receipt_dump ex_wait_receipt)]))
     (no_counts\<lparr>n_intent := 1, n_order := 1, n_fill := 0, n_lot := 0, n_consumption := 0, n_receipt := 1\<rparr>)
     (ex_waiting_tables ex_opened)"

lemma ex_waiting_simps [simp]:
  "lg_accounts ex_waiting = [ex_account (Dec False 10000000 (- 2)) dzero]" "lg_cost_specs ex_waiting = [ex_cost_row]"
  "lg_intents ex_waiting = [ex_wait_intent_row]"
  "lg_orders ex_waiting = [\<lparr>or_order = ex_wait_order, or_entry_signal_id = None\<rparr>]"
  "lg_fills ex_waiting = []" "lg_lots ex_waiting = []" "lg_consumptions ex_waiting = []"
  "lg_receipts ex_waiting = [ex_receipt_row (CHR ''b'') ex_wait_request ex_wait_receipt ex_buy_costs]"
  by (simp_all add: ex_waiting_def ex_waiting_tables_def)

lemma ex_wait_persisted:
  "persist_intent ex_digest 0 ex_broker ex_buy_intent (ex_sha (CHR ''4'')) ex_buy_time ex_buy_time 10 ex_wait_quote
     ex_buy_costs ex_wait_request ex_opened = Inr (ex_wait_order, ex_waiting)"
  and ex_waiting_chain: "ex_chain 3 ex_waiting"
proof -
  let ?L1 = "ex_opened\<lparr>lg_intents := [ex_wait_intent_row]\<rparr>"
  let ?L2 = "?L1\<lparr>lg_orders := [\<lparr>or_order = ex_wait_order, or_entry_signal_id = None\<rparr>]\<rparr>"
  let ?d = "no_counts\<lparr>n_intent := 1, n_order := 1, n_fill := 0, n_lot := 0, n_consumption := 0, n_receipt := 1\<rparr>"
  have evaluated: "evaluate_intent ex_digest ex_broker ?L1 ex_buy_intent (ex_sha (CHR ''4'')) ex_buy_time 10 ex_wait_quote ex_buy_costs
      = Inr (ex_wait_order, None)"
  proof -
    have gate: "gate_reason ex_wait_quote ex_buy_time ex_buy_intent = None"
      by (simp add: gate_reason_def ex_wait_quote_def)
    have order: "new_order ex_digest ex_broker ex_buy_intent ex_buy_time ACCEPTED None 0 None = Inr ex_wait_order"
      using ex_wait_order_valid(1) [of "[]"]
      by (simp add: new_order_def ex_wait_order_def ex_buy_order_def ex_buy_intent_def)
    show ?thesis
      unfolding evaluate_intent_def Let_def
      by (simp add: gate ex_no_limit order) (simp add: ex_wait_quote_def ex_buy_intent_def)
  qed
  have intent: "insert_intent ex_wait_intent_row ex_opened = Inr ?L1"
    by (simp add: insert_intent_def raise_first.simps account_exists_def ex_wait_intent_row_def ex_buy_intent_row_def)
  have row: "\<lparr>ir_intent_id = i_intent_id ex_buy_intent, ir_account_id = b_account_id ex_broker,
         ir_signal_id = i_signal_id ex_buy_intent, ir_entry_signal_id = i_entry_signal_id ex_buy_intent,
         ir_ts_code = i_ts_code ex_buy_intent, ir_side = i_side ex_buy_intent,
         ir_initial_execution_id = ex_sha (CHR ''4''), ir_initial_execution_request_fingerprint = ex_sha (CHR ''4''),
         ir_payload_json = Some ex_buy_intent, ir_persisted_at = ex_buy_time\<rparr> = ex_wait_intent_row"
    by (simp add: ex_wait_intent_row_def ex_buy_intent_row_def ex_buy_intent_def)
  have order: "insert_order ex_wait_order ex_buy_intent ?L1 = Inr ?L2"
    by (simp add: insert_order_def insert_order_row_def raise_first.simps account_exists_def ex_wait_intent_row_def
        ex_buy_intent_row_def ex_wait_order_def ex_buy_order_def ex_buy_intent_def positive_lot_def fixed_point_def)
  have receipt: "execution_receipt_with_cost ex_digest (ex_sha (CHR ''4'')) (ex_sha (CHR ''4'')) (ex_sha (CHR ''b''))
      ex_wait_order None ex_buy_costs ex_buy_time = Inr ex_wait_receipt"
    using ex_wait_receipt_valid
    by (simp add: execution_receipt_with_cost_def ex_wait_receipt_def ex_buy_receipt_def ex_buy_costs_def ex_costs_def)
  have stored: "insert_execution_receipt ex_digest ex_broker ex_wait_request ex_wait_receipt ?L2 = Inr (ex_waiting_tables ex_opened)"
    by (simp add: insert_execution_receipt_def ex_execute_identities ex_wait_receipt_def ex_buy_receipt_def insert_receipt_def
        raise_first.simps spec_exists_def account_exists_def ex_cost_row_def ex_waiting_tables_def ex_receipt_row_def)
  have "counts_nonneg ?d" by (simp add: counts_nonneg_def counts_le_def no_counts_def)
  then have app: "append_ledger_attestation ex_digest 0 ''intent_execution'' e ?d (ex_waiting_tables ex_opened) =
      Inr (ex_append 0 ''intent_execution'' e ?d (ex_waiting_tables ex_opened))"
    "ex_chain 3 (ex_append 0 ''intent_execution'' e ?d (ex_waiting_tables ex_opened))" for e
    using ex_append_works [of 2 "ex_waiting_tables ex_opened" ?d] ex_opened_chain by (simp_all add: ex_waiting_tables_def)
  show "persist_intent ex_digest 0 ex_broker ex_buy_intent (ex_sha (CHR ''4'')) ex_buy_time ex_buy_time 10 ex_wait_quote
     ex_buy_costs ex_wait_request ex_opened = Inr (ex_wait_order, ex_waiting)"
    unfolding persist_intent_def Let_def ex_execute_identities row
    using app(1) by (simp add: intent evaluated order receipt stored ex_waiting_def no_counts_def)
  show "ex_chain 3 ex_waiting" by (simp add: ex_waiting_def app(2))
qed

lemma ex_wait:
  "submit_intent ex_digest 0 ex_broker ex_buy_intent (Some (ex_sha (CHR ''4''))) ex_buy_time None 10 ex_wait_quote ex_opened
   = Inr (ex_wait_order, ex_waiting)"
proof -
  have "require_execution_ready ex_digest ex_broker ex_opened = Inr ()" using ex_ready [OF ex_opened_chain] by simp
  moreover have "q_instrument_context ex_wait_quote = ex_context" "q_executable_quantity ex_wait_quote = Some 0"
    "q_executable_price ex_wait_quote = Dec False 1000 (- 2)"
    by (simp_all add: ex_wait_quote_def)
  ultimately show ?thesis
    using ex_wait_persisted
    by (simp add: submit_intent_def raise_first.simps resolve_execution_id_def check_execution_id_def ex_instrument
        ex_execution_costs find_execution_receipt_def find_receipt_row_def ex_wait_request_def [symmetric])
qed

section \<open>Executing it\<close>

abbreviation ex_filled_row :: fill_row where
  "ex_filled_row \<equiv> \<lparr>fl_fill = ex_buy_fill, fl_persisted_at = ex_buy_time\<rparr>"

definition ex_executed_tables :: "ledger \<Rightarrow> ledger" where
  "ex_executed_tables L = L\<lparr>lg_fills := [ex_filled_row],
     lg_accounts := [ex_account (Dec False 9799300 (- 2)) dzero], lg_lots := [ex_lot 200],
     lg_orders := [\<lparr>or_order = ex_buy_order, or_entry_signal_id = None\<rparr>],
     lg_receipts := [ex_receipt_row (CHR ''b'') ex_wait_request ex_wait_receipt ex_buy_costs,
       ex_receipt_row (CHR ''b'') ex_execute_request ex_buy_receipt ex_buy_costs]\<rparr>"

definition ex_executed :: ledger where
  "ex_executed = ex_append 0 ''incremental_execution'' (canonical_sha256 ex_digest (receipt_dump ex_buy_receipt))
     (no_counts\<lparr>n_fill := 1, n_lot := 1, n_consumption := 0, n_receipt := 1\<rparr>) (ex_executed_tables ex_waiting)"

lemma ex_execute_persisted:
  "persist_execution ex_digest 0 ex_broker ex_wait_order ex_buy_intent (ex_sha (CHR ''1'')) 1 ex_buy_time ex_buy_time 10 200
     ex_buy_quote (ex_sha (CHR ''1'')) ex_buy_costs ex_execute_request ex_waiting = Inr ex_executed"
proof -
  let ?L1 = "ex_waiting\<lparr>lg_fills := [ex_filled_row],
      lg_accounts := [ex_account (Dec False 9799300 (- 2)) dzero], lg_lots := [ex_lot 200]\<rparr>"
  let ?L2 = "?L1\<lparr>lg_orders := [\<lparr>or_order = ex_buy_order, or_entry_signal_id = None\<rparr>]\<rparr>"
  let ?d = "no_counts\<lparr>n_fill := 1, n_lot := 1, n_consumption := 0, n_receipt := 1\<rparr>"
  have fill: "new_fill ex_digest (ex_sha (CHR ''b'')) (ex_sha (CHR ''1'')) 1 200 ex_buy_costs ex_buy_time (ex_sha (CHR ''1''))
      = Inr ex_buy_fill"
    using ex_buy_fill_valid(1) [of "[]"] by (simp add: new_fill_def ex_buy_fill_def ex_buy_costs_def ex_costs_def)
  have applied: "apply_fill ex_broker ex_buy_intent ex_buy_fill 10 (Some 11) ex_buy_time ex_waiting = Inr ((1, 0), ?L1)"
    by (rule ex_buy_applied) simp_all
  have price: "cc_executed_price ex_buy_costs = Dec False 1001 (- 2)" by (simp add: ex_buy_costs_def ex_costs_def)
  have average: "average_fill_price ex_broker ?L1 (ex_sha (CHR ''b'')) (Dec False 1001 (- 2)) 200 200 = Inr (Dec False 1001 (- 2))"
  proof -
    have steps: "dmul (Dec False 1001 (- 2)) (dof_int 200) = Dec False 200200 (- 2)"
      "dsum [Dec False 200200 (- 2)] = Dec False 200200 (- 2)"
      "dadd (dsub (Dec False 200200 (- 2)) (Dec False 200200 (- 2))) (Dec False 200200 (- 2)) = Dec False 200200 (- 2)"
      "ddiv (Dec False 200200 (- 2)) (dof_int 200) = Inr (Dec False 1001 (- 2))"
      "dquantize (Dec False 1001 (- 2)) (Dec False 1 (- 2)) = Inr (Dec False 1001 (- 2))"
      by (simp_all add: dec_eval)
    have fields: "f_order_id ex_buy_fill = ex_sha (CHR ''b'')" "f_price ex_buy_fill = Dec False 1001 (- 2)"
      "f_quantity ex_buy_fill = 200" "sl_price_tick ex_slippage = Dec False 1 (- 2)"
      by (simp_all add: ex_buy_fill_def ex_slippage_def)
    show ?thesis by (simp add: average_fill_price_def Let_def fields steps del: One_nat_def)
  qed
  have updated: "ex_wait_order\<lparr>o_filled_quantity := 200, o_average_fill_price := Some (Dec False 1001 (- 2)),
      o_status := FILLED, o_reject_reason := None, o_updated_at := ex_buy_time\<rparr> = ex_buy_order"
    by (simp add: ex_wait_order_def ex_buy_order_def)
  have row: "update_order_row (ex_sha (CHR ''b''))
      (\<lambda>x. x\<lparr>o_filled_quantity := 200, o_average_fill_price := Some (fixed_point (Dec False 1001 (- 2))),
          o_status := FILLED, o_reject_reason := None, o_updated_at := ex_buy_time\<rparr>) ?L1 = ?L2"
    using updated by (simp add: update_order_row_def fixed_point_def)
  have receipt: "execution_receipt_with_cost ex_digest (ex_sha (CHR ''1'')) (ex_sha (CHR ''1'')) (ex_sha (CHR ''b''))
      ex_buy_order (Some ex_buy_fill) ex_buy_costs ex_buy_time = Inr ex_buy_receipt"
    using ex_buy_receipt_valid
    by (simp add: execution_receipt_with_cost_def ex_buy_receipt_def ex_buy_costs_def ex_costs_def)
  have stored: "insert_execution_receipt ex_digest ex_broker ex_execute_request ex_buy_receipt ?L2 = Inr (ex_executed_tables ex_waiting)"
    by (simp add: insert_execution_receipt_def ex_execute_identities ex_buy_receipt_def insert_receipt_def
        raise_first.simps spec_exists_def account_exists_def ex_cost_row_def ex_executed_tables_def ex_receipt_row_def
        ex_wait_receipt_def ex_buy_order_def)
  have "counts_nonneg ?d" by (simp add: counts_nonneg_def counts_le_def no_counts_def)
  then have app: "append_ledger_attestation ex_digest 0 ''incremental_execution'' e ?d (ex_executed_tables ex_waiting) =
      Inr (ex_append 0 ''incremental_execution'' e ?d (ex_executed_tables ex_waiting))" for e
    using ex_append_works [of 3 "ex_executed_tables ex_waiting" ?d] ex_waiting_chain by (simp add: ex_executed_tables_def)
  show ?thesis
    unfolding persist_execution_def Let_def ex_execute_identities
    by (simp add: fill applied price average updated row receipt stored app ex_executed_def)
qed

lemma ex_execute:
  "\<exists>result. apply_execution ex_digest 0 ex_broker (ex_sha (CHR ''b'')) (ex_sha (CHR ''1'')) ex_buy_time 10 200 ex_buy_quote
     (ex_sha (CHR ''1'')) None ex_waiting = Inr (result, ex_executed)"
proof -
  have ready: "require_execution_ready ex_digest ex_broker ex_waiting = Inr ()" using ex_ready [OF ex_waiting_chain] by simp
  have intent: "load_intent ex_digest (Some ex_buy_intent) = Inr ex_buy_intent"
    using ex_buy_intent_valid by (simp add: load_intent_def)
  have order: "find_order ex_broker ex_waiting (ex_sha (CHR ''b'')) = Some \<lparr>or_order = ex_wait_order, or_entry_signal_id = None\<rparr>"
    by (simp add: find_order_def)
  have preflight: "preflight_intent ex_digest ex_broker ex_waiting (ex_sha (CHR ''b'')) = Inr ex_buy_intent"
    by (simp add: preflight_intent_def order intent)
  have known: "find_execution_receipt ex_digest ex_broker ex_waiting (ex_sha (CHR ''1'')) = Inr None"
    by (simp add: find_execution_receipt_def find_receipt_row_def ex_receipt_row_def ex_wait_receipt_def)
  have timeline: "incremental_fill_timeline ex_waiting ex_wait_order = Inr (1, None)"
    by (simp add: incremental_fill_timeline_def order_fills_def)
  have cash: "dlt (Dec False 10000000 (- 2)) (dadd (cc_executed_notional ex_buy_costs) (cc_total_fees ex_buy_costs)) = False"
    by (simp add: ex_buy_costs_def ex_costs_def dec_eval)
  have check: "check_incremental ex_broker ex_waiting ex_wait_order ex_buy_intent None ex_buy_time ex_buy_time 10 200 ex_buy_quote
      ex_buy_costs = Inr ()"
    using cash ex_no_limit by (simp add: check_incremental_def raise_first.simps account_values_def find_account_def)
  have "execution_transaction ex_digest 0 ex_broker (ex_sha (CHR ''b'')) (ex_sha (CHR ''1'')) ex_buy_time ex_buy_time 10 200
      ex_buy_quote (ex_sha (CHR ''1'')) BUY ex_buy_costs ex_execute_request ex_waiting = Inr (None, ex_executed)"
    using ex_wait_order_valid(2)
    by (simp add: execution_transaction_def ready known order order_from_row_def intent timeline check ex_execute_persisted
        is_open_def)
  then show ?thesis
    by (simp add: apply_execution_def check_execution_id_def raise_first.simps positive_lot_def preflight ex_instrument
        ex_execution_costs ex_execute_request_def [symmetric])
qed

section \<open>Cancelling it\<close>

definition ex_cancelled_order :: paper_order where
  "ex_cancelled_order = ex_wait_order\<lparr>o_status := CANCELLED\<rparr>"

lemma ex_cancel:
  "\<exists>L'. close_open_order ex_digest 0 ex_broker (ex_sha (CHR ''b'')) CANCELLED ex_buy_time None ex_waiting
     = Inr (Inr ex_cancelled_order, L')"
proof -
  have ready: "require_execution_ready ex_digest ex_broker ex_waiting = Inr ()" using ex_ready [OF ex_waiting_chain] by simp
  have intent: "load_intent ex_digest (Some ex_buy_intent) = Inr ex_buy_intent"
    using ex_buy_intent_valid by (simp add: load_intent_def)
  have order: "find_order ex_broker ex_waiting (ex_sha (CHR ''b'')) = Some \<lparr>or_order = ex_wait_order, or_entry_signal_id = None\<rparr>"
    by (simp add: find_order_def)
  have timeline: "incremental_fill_timeline ex_waiting ex_wait_order = Inr (1, None)"
    by (simp add: incremental_fill_timeline_def order_fills_def)
  have valid: "make_order ex_digest (Some (ex_sha (CHR ''b''))) ex_cancelled_order = Inr ex_cancelled_order"
    by (simp add: make_order_def order_fields_def order_status_checks_def raise_first.simps ex_cancelled_order_def
        ex_wait_order_def ex_buy_order_def ex_identities bind_identity_def positive_lot_def non_negative_lot_def dec_eval Let_def)
  have fields: "o_account_id ex_cancelled_order = ''paper''" "o_order_id ex_cancelled_order = ex_sha (CHR ''b'')"
    "ex_cancelled_order\<lparr>o_updated_at := ex_buy_time\<rparr> = ex_cancelled_order"
    by (simp_all add: ex_cancelled_order_def ex_wait_order_def ex_buy_order_def)
  have "append_ledger_attestation ex_digest 0 ''order_close'' e no_counts L = Inr (ex_append 0 ''order_close'' e no_counts L)"
    if "ex_chain 3 L" for e L
    using ex_append_works(1) [OF that] by simp
  with ex_waiting_chain valid show ?thesis
    unfolding close_open_order_def Let_def
    using ex_wait_order_valid(2)
    by (simp add: ready order order_from_row_def intent timeline is_open_def raise_first.simps update_order_row_def
        order_for_id_def find_order_def ex_cancelled_order_def [symmetric] fields)
qed

section \<open>The traces\<close>

lemma ex_waiting_trace: "(broker_step ex_digest)\<^sup>*\<^sup>* ex_ledger ex_waiting"
proof -
  have "broker_step ex_digest ex_opened ex_waiting" by (rule broker_step.submit [OF ex_wait])
  with ex_opening show ?thesis by (meson converse_rtranclp_into_rtranclp rtranclp.rtrancl_refl)
qed

end
