(* ===== verification/Chain_Binding.thy ===== *)
theory Chain_Binding
  imports Broker_Machine
begin

text \<open>
  What the attestation chain binds: its encoding loses no field, every row of a reachable ledger is
  sealed, and equal fingerprints mean equal histories as long as the digest has no collision among
  the rows compared.
\<close>

section \<open>The canonical encoding of an object\<close>

lemma canonical_dict_lookup:
  assumes "canonical_value (PDict xs) = canonical_value (PDict ys)"
  shows "map_option canonical_value (map_of xs k) = map_option canonical_value (map_of ys k)"
proof -
  from assms(1) have "map_of (sort_key fst (map (\<lambda>(key, item). (key, canonical_value item)) xs)) k =
      map_of (sort_key fst (map (\<lambda>(key, item). (key, canonical_value item)) ys)) k" by simp
  then show ?thesis
    by (metis map_of_canonical map_of_sort_key)
qed

lemma canonical_popt: "map_option canonical_value (Some (popt PStr x)) = map_option canonical_value (Some (popt PStr y)) \<Longrightarrow> x = y"
  by (cases x; cases y) (simp_all add: popt_def)

lemma attestation_payload_inject:
  assumes "canonical_value (attestation_payload r) = canonical_value (attestation_payload s)"
  shows "at_revision r = at_revision s" "at_event_kind r = at_event_kind s"
    "at_event_fingerprint r = at_event_fingerprint s" "at_counts r = at_counts s"
    "at_previous_attestation_fingerprint r = at_previous_attestation_fingerprint s"
proof -
  have look: "map_option canonical_value (map_of xs k) = map_option canonical_value (map_of ys k)"
    if "attestation_payload r = PDict xs" "attestation_payload s = PDict ys" "distinct (map fst xs)" "distinct (map fst ys)"
    for xs ys k
    using canonical_dict_lookup [of xs ys k] assms that by simp
  note L = look [OF attestation_payload_def attestation_payload_def, unfolded counts_content_def, simplified]
  show "at_revision r = at_revision s" using L [of "''revision''"] by simp
  show "at_event_kind r = at_event_kind s" using L [of "''event_kind''"] by simp
  show "at_event_fingerprint r = at_event_fingerprint s" using L [of "''event_fingerprint''"] by simp
  show "at_previous_attestation_fingerprint r = at_previous_attestation_fingerprint s"
    using L [of "''previous_attestation_fingerprint''"] by (simp add: canonical_popt)
  show "at_counts r = at_counts s"
    using L [of "''broker_account_count''"] L [of "''intent_count''"] L [of "''order_count''"] L [of "''fill_count''"]
      L [of "''lot_count''"] L [of "''consumption_count''"] L [of "''receipt_count''"] L [of "''authority_count''"]
    by (simp add: ledger_counts.equality)
qed

section \<open>Equal heads, equal histories\<close>

lemma linked_history:
  assumes xs: "linked rv fp prev xs" and ys: "linked rv fp prev ys"
    and inj: "\<And>x y. x \<in> set xs \<Longrightarrow> y \<in> set ys \<Longrightarrow> fp x = fp y \<Longrightarrow> rv x = rv y \<and> prev x = prev y"
    and z: "z \<in> set xs"
  shows "x \<in> set xs \<Longrightarrow> y \<in> set ys \<Longrightarrow> fp x = fp y \<Longrightarrow> rv z \<le> rv x \<Longrightarrow> \<exists>w \<in> set ys. rv w = rv z \<and> fp w = fp z"
proof (induction "nat (rv x - rv z)" arbitrary: x y)
  case 0
  then have "rv x = rv z" by simp
  with xs z 0(2) have "x = z" unfolding linked_def distinct_map by (blast dest: inj_onD)
  with 0 inj show ?case by metis
next
  case (Suc n)
  have rv: "rv z < rv x" "rv y = rv x" "prev x = prev y" using Suc.hyps(2) inj [OF Suc.prems(1,2,3)] by simp_all
  have "1 \<le> rv z" using xs z by (simp add: linked_def)
  with rv have gt: "1 < rv x" "1 < rv y" by simp_all
  from xs Suc.prems(1) gt(1) obtain p where p: "p \<in> set xs" "rv p = rv x - 1" "prev x = Some (fp p)"
    unfolding linked_def by blast
  from ys Suc.prems(2) gt(2) obtain q where q: "q \<in> set ys" "rv q = rv y - 1" "prev y = Some (fp q)"
    unfolding linked_def by blast
  have "fp p = fp q" using p(3) q(3) rv(3) by simp
  moreover have "n = nat (rv p - rv z)" "rv z \<le> rv p" using Suc.hyps(2) p(2) rv(1) by simp_all
  ultimately show ?case using Suc.hyps(1) p(1) q(1) by blast
qed

section \<open>Sealed rows\<close>

definition sealed_rows :: "digest \<Rightarrow> ledger \<Rightarrow> bool" where
  "sealed_rows digest L \<longleftrightarrow>
     (\<forall>a \<in> set (lg_attestations L). validate_attestation_row digest a = Inr ())
     \<and> (\<forall>h \<in> set (lg_heads L). validate_head_marker_row digest h = Inr ())"

lemma broker_step_sealed:
  assumes "broker_step digest L L'" "ledger_ok digest L" "sealed_rows digest L"
  shows "sealed_rows digest L'"
  using assms(1)
proof (cases rule: broker_step_append)
  case (appended now k e d L1)
  have chain: "chain_ok L1" using assms(2) chain_state_chain_ok [OF appended(3)] by (simp add: ledger_ok_def)
  have rows: "lg_attestations L1 = lg_attestations L" "lg_heads L1 = lg_heads L"
    using appended(3) by (simp_all add: chain_state_def)
  from append_effect [OF appended(2) chain] obtain a h where
    "L' = L1\<lparr>lg_attestations := lg_attestations L1 @ [seal_attestation digest a], lg_heads := lg_heads L1 @ [seal_head digest h]\<rparr>"
    by metis
  with rows assms(3) show ?thesis by (simp add: sealed_rows_def)
qed (use assms in simp)

interpretation broker_sealed: invariant_system "broker_step digest" "\<lambda>L. ledger_ok digest L \<and> sealed_rows digest L" for digest
  by unfold_locales (auto intro: broker_step_ok broker_step_sealed)

lemma sealed_fingerprint:
  "validate_attestation_row digest a = Inr () \<Longrightarrow>
   at_attestation_fingerprint a = digest (canonical_value (attestation_payload a))"
  by (auto simp: validate_attestation_row_def canonical_sha256_def split: option.splits if_splits)

lemma attestation_history:
  assumes rows: "\<forall>a \<in> set xs \<union> set ys. validate_attestation_row digest a = Inr ()"
    and linked: "linked at_revision at_attestation_fingerprint at_previous_attestation_fingerprint xs"
      "linked at_revision at_attestation_fingerprint at_previous_attestation_fingerprint ys"
    and free: "\<forall>x \<in> set xs. \<forall>y \<in> set ys. digest (canonical_value (attestation_payload x))
        = digest (canonical_value (attestation_payload y)) \<longrightarrow>
      canonical_value (attestation_payload x) = canonical_value (attestation_payload y)"
    and head: "a \<in> set xs" "a' \<in> set ys" "at_attestation_fingerprint a = at_attestation_fingerprint a'"
    and z: "z \<in> set xs" "at_revision z \<le> at_revision a"
  obtains w where "w \<in> set ys" "canonical_value (attestation_payload w) = canonical_value (attestation_payload z)"
proof -
  have same: "canonical_value (attestation_payload x) = canonical_value (attestation_payload y)"
    if "x \<in> set xs" "y \<in> set ys" "at_attestation_fingerprint x = at_attestation_fingerprint y" for x y
    using that rows free sealed_fingerprint [of digest x] sealed_fingerprint [of digest y] by simp
  have "\<exists>w \<in> set ys. at_revision w = at_revision z \<and> at_attestation_fingerprint w = at_attestation_fingerprint z"
    by (rule linked_history [OF linked _ z(1) head z(2)]) (use same attestation_payload_inject in metis)
  then show ?thesis using same [OF z(1)] that by metis
qed

end
