(* ===== verification/Chain_Example.thy ===== *)
theory Chain_Example
  imports Sell_Example Chain_Binding
begin

text \<open>The chain of the example: its rows are sealed and no two of them collide.\<close>

lemma ex_sealed: "sealed_rows ex_digest ex_ledger"
  by (simp add: sealed_rows_def ex_ledger_def)

lemma ex_sealed_trace: "sealed_rows ex_digest ex_bought" "chain_ok ex_bought" "sealed_rows ex_digest ex_sold" "chain_ok ex_sold"
  using broker_sealed.reachable_inv [OF ex_trace(1)] broker_sealed.reachable_inv [OF ex_trace(3)]
    fresh_ledger_ok [OF ex_fresh] ex_sealed by (simp_all add: ledger_ok_def)

lemma ex_prefix:
  "prefix (lg_attestations ex_ledger) (lg_attestations ex_bought)" "prefix (lg_attestations ex_bought) (lg_attestations ex_sold)"
  using broker_history.reachable_le [OF ex_trace(1)] broker_history.reachable_le [OF ex_trace(2)]
    fresh_ledger_ok [OF ex_fresh] reachable_ok [OF ex_trace(1) ex_fresh]
  by (simp_all add: history_le_def)

lemma ex_revisions:
  assumes "ex_chain n L" "x \<in> set (lg_attestations L)"
  shows "1 \<le> at_revision x \<and> at_revision x \<le> n"
  using assms latest_by_SomeD unfolding ex_chain_def chain_ok_def linked_def by fastforce

lemma ex_no_collision:
  assumes "x \<in> set (lg_attestations ex_bought)" "y \<in> set (lg_attestations ex_sold)"
    and "ex_digest (canonical_value (attestation_payload x)) = ex_digest (canonical_value (attestation_payload y))"
  shows "x = y"
proof -
  have x: "x \<in> set (lg_attestations ex_sold)" using set_mono_prefix [OF ex_prefix(2)] assms(1) by blast
  have "ex_sha (hex_digit (at_revision x)) = ex_sha (hex_digit (at_revision y))"
    using assms(3) ex_digest_revision(1) [OF refl, of x] ex_digest_revision(1) [OF refl, of y]
    by (simp add: canonical_sha256_def)
  then have "at_revision x = at_revision y"
    using ex_revisions [OF ex_sold_chain x] ex_revisions [OF ex_sold_chain assms(2)]
    by (auto simp: ex_sha_inject hex_digit_inject)
  with x assms(2) ex_sealed_trace(4) show ?thesis
    unfolding chain_ok_def linked_def distinct_map by (blast dest: inj_onD)
qed

end
