(* ===== verification/Position_Refinement.thy ===== *)
theory Position_Refinement
  imports Account_Views
begin

text \<open>
  The lots as a position book. Abstractly the broker keeps one number for every account and code; a
  buy adds to it and a sale takes from it. The lots, consumptions and updates of the ledger implement
  that book, and in every reachable ledger the book is what the fills say was bought less what was sold.
\<close>

section \<open>The abstract book\<close>

type_synonym book = "string \<Rightarrow> string \<Rightarrow> int"

definition book_trade :: "paper_side \<Rightarrow> string \<Rightarrow> string \<Rightarrow> int \<Rightarrow> book \<Rightarrow> book" where
  "book_trade side account code n B = (\<lambda>a c.
     if a = account \<and> c = code then (if side = BUY then B a c + n else B a c - n) else B a c)"

definition position :: "ledger \<Rightarrow> book" where
  "position L = (\<lambda>account code. sum_by l_remaining_quantity
     (filter (\<lambda>l. l_account_id l = account \<and> l_ts_code l = code) (lg_lots L)))"

lemma sum_by_diff: "sum_by (\<lambda>x. f x - g x) xs = sum_by f xs - sum_by g xs"
  by (induction xs) auto

lemma sum_by_map: "sum_by f (map g xs) = sum_by (\<lambda>x. f (g x)) xs"
  by (induction xs) auto

lemma sum_by_single:
  "distinct (map k xs) \<Longrightarrow> sum_by (\<lambda>x. if k x = i then n else 0) xs = (if i \<in> k ` set xs then n else 0)"
  by (induction xs) auto

lemma sum_taken:
  assumes "distinct (map l_lot_id xs)" "\<forall>c \<in> set new. c_lot_id c \<in> l_lot_id ` set xs"
  shows "sum_by (taken_from new) xs = sum_by c_quantity new"
  using assms(2)
proof (induction new)
  case Nil
  show ?case by (induction xs) simp_all
next
  case (Cons c new)
  have "sum_by (taken_from (c # new)) xs = sum_by (\<lambda>l. if l_lot_id l = c_lot_id c then c_quantity c else 0) xs
      + sum_by (taken_from new) xs"
    by (induction xs) (auto simp: taken_from_def)
  with Cons sum_by_single [OF assms(1), of "c_lot_id c" "c_quantity c"] show ?case by (simp del: taken_from_simps)
qed

lemma sum_taken_none:
  assumes "\<forall>c \<in> set new. c_lot_id c \<notin> l_lot_id ` set xs"
  shows "sum_by (taken_from new) xs = 0"
proof -
  have "taken_from new l = 0" if "l \<in> set xs" for l
  proof (rule ccontr)
    assume "taken_from new l \<noteq> 0"
    from taken_from_none [OF this] obtain c where "c \<in> set new" "c_lot_id c = l_lot_id l" by auto
    with assms that show False by force
  qed
  then have "sum_by (taken_from new) xs = sum_by (\<lambda>_. 0) xs" by (rule sum_by_cong)
  then show ?thesis by (simp add: sum_by_def)
qed

lemma position_deduct:
  "lg_lots L' = map (deduct new) (lg_lots L) \<Longrightarrow>
   position L' a c = position L a c
     - sum_by (taken_from new) (filter (\<lambda>l. l_account_id l = a \<and> l_ts_code l = c) (lg_lots L))"
  by (simp add: position_def filter_map comp_def sum_by_map sum_by_diff [symmetric])

lemma apply_fill_position:
  assumes "apply_fill b intent fill trade_date available_date p L = Inr ((ld, cd), L')"
    and d: "distinct (map l_lot_id (lg_lots L))"
  shows "position L' = book_trade (i_side intent) (b_account_id b) (i_ts_code intent) (f_quantity fill) (position L)"
  using assms(1)
proof (cases rule: apply_fill_cases)
  case (buy available fees lot accounts cash realized)
  then show ?thesis by (intro ext) (simp add: position_def book_trade_def)
next
  case (sell new accounts)
  let ?group = "\<lambda>a c. filter (\<lambda>l. l_account_id l = a \<and> l_ts_code l = c) (lg_lots L)"
  have lots: "lg_lots L' = map (deduct new) (lg_lots L)" by (simp add: sell(4))
  have own: "c_lot_id c \<in> l_lot_id ` set (?group (b_account_id b) (i_ts_code intent))" if "c \<in> set new" for c
    using sell(6) that by force
  have other: "c_lot_id c \<notin> l_lot_id ` set (?group a code)"
    if c: "c \<in> set new" and ne: "\<not> (a = b_account_id b \<and> code = i_ts_code intent)" for c a code
  proof
    assume "c_lot_id c \<in> l_lot_id ` set (?group a code)"
    with own [OF c] obtain l m where "l \<in> set (lg_lots L)" "m \<in> set (lg_lots L)" "l_lot_id l = l_lot_id m"
      "l_account_id l = b_account_id b" "l_ts_code l = i_ts_code intent" "l_account_id m = a" "l_ts_code m = code"
      by auto
    with d ne show False by (metis distinct_map inj_onD)
  qed
  have "sum_by (taken_from new) (?group a code) =
      (if a = b_account_id b \<and> code = i_ts_code intent then f_quantity fill else 0)" for a code
    using sum_taken [of "?group a code" new] sum_taken_none [of new "?group a code"] own other sell(5)
      distinct_map_filter [OF d] by auto
  then show ?thesis using sell(1) by (intro ext) (simp add: position_deduct [OF lots] book_trade_def)
qed

section \<open>The book of the fills\<close>

definition fill_effect :: "order_row list \<Rightarrow> fill_row \<Rightarrow> book" where
  "fill_effect orders f = (\<lambda>a c.
     case select_one (\<lambda>r. o_order_id (or_order r) = f_order_id (fl_fill f)) orders of
       None \<Rightarrow> 0
     | Some r \<Rightarrow> if o_account_id (or_order r) = a \<and> o_ts_code (or_order r) = c
                 then (if o_side (or_order r) = BUY then f_quantity (fl_fill f) else - f_quantity (fl_fill f))
                 else 0)"

definition traded :: "ledger \<Rightarrow> book" where
  "traded L = (\<lambda>a c. sum_by (\<lambda>f. fill_effect (lg_orders L) f a c) (lg_fills L))"

text \<open>Every order is of a stored intent, with its side and code.\<close>

definition order_of_intent :: "intent_row list \<Rightarrow> paper_order \<Rightarrow> bool" where
  "order_of_intent intents r \<longleftrightarrow> (\<exists>i \<in> set intents. ir_intent_id i = o_intent_id r \<and>
     (\<exists>x. ir_payload_json i = Some x \<and> i_side x = o_side r \<and> i_ts_code x = o_ts_code r))"

definition book_ok :: "ledger \<Rightarrow> bool" where
  "book_ok L \<longleftrightarrow> position L = traded L \<and> distinct (map ir_intent_id (lg_intents L))
     \<and> (\<forall>r \<in> set (lg_orders L). order_of_intent (lg_intents L) (or_order r))"

lemma book_ok_cong:
  "lg_lots L' = lg_lots L \<Longrightarrow> lg_fills L' = lg_fills L \<Longrightarrow> lg_orders L' = lg_orders L \<Longrightarrow>
   lg_intents L' = lg_intents L \<Longrightarrow> book_ok L' = book_ok L"
  by (simp add: book_ok_def position_def traded_def)

lemma fill_effect_insert:
  "f_order_id (fl_fill f) \<in> (\<lambda>r. o_order_id (or_order r)) ` set orders \<Longrightarrow> fill_effect (orders @ rows) f = fill_effect orders f"
proof -
  assume "f_order_id (fl_fill f) \<in> (\<lambda>r. o_order_id (or_order r)) ` set orders"
  then obtain r where "select_one (\<lambda>r. o_order_id (or_order r) = f_order_id (fl_fill f)) orders = Some r"
    by (cases "select_one (\<lambda>r. o_order_id (or_order r) = f_order_id (fl_fill f)) orders") auto
  then show ?thesis by (simp add: fill_effect_def select_one_append)
qed

lemma fill_effect_update:
  assumes "\<And>x. o_order_id (f x) = o_order_id x" "\<And>x. o_account_id (f x) = o_account_id x"
    "\<And>x. o_ts_code (f x) = o_ts_code x" "\<And>x. o_side (f x) = o_side x"
  shows "fill_effect (update_where p (\<lambda>r. r\<lparr>or_order := f (or_order r)\<rparr>) orders) x = fill_effect orders x"
proof -
  let ?u = "\<lambda>r. if p r then r\<lparr>or_order := f (or_order r)\<rparr> else r"
  have "select_one (\<lambda>r. o_order_id (or_order r) = i) (map ?u orders)
      = map_option ?u (select_one (\<lambda>r. o_order_id (or_order r) = i) orders)" for i
    by (rule select_one_map) (simp add: assms)
  note sel = this [of "f_order_id (fl_fill x)"]
  show ?thesis
    unfolding fill_effect_def update_where_def sel
    by (cases "select_one (\<lambda>r. o_order_id (or_order r) = f_order_id (fl_fill x)) orders")
       (simp_all add: assms del: select_one_None)
qed

lemma fill_effect_of_order:
  assumes "distinct (map (\<lambda>r. o_order_id (or_order r)) orders)" "r \<in> set orders"
    and "o_order_id (or_order r) = f_order_id (fl_fill f)"
  shows "fill_effect orders f = (\<lambda>a c. if o_account_id (or_order r) = a \<and> o_ts_code (or_order r) = c
    then (if o_side (or_order r) = BUY then f_quantity (fl_fill f) else - f_quantity (fl_fill f)) else 0)"
proof -
  have "select_one (\<lambda>x. o_order_id (or_order x) = o_order_id (or_order r)) orders = Some r"
    using assms(1,2) by (rule select_one_unique)
  then show ?thesis unfolding fill_effect_def assms(3) by simp
qed

lemma traded_fill:
  assumes "lg_fills L' = lg_fills L @ [f]" "traded_before = traded (L\<lparr>lg_orders := lg_orders L'\<rparr>)"
    and "distinct (map (\<lambda>r. o_order_id (or_order r)) (lg_orders L'))" "r \<in> set (lg_orders L')"
    and "o_order_id (or_order r) = f_order_id (fl_fill f)"
  shows "traded L' = book_trade (o_side (or_order r)) (o_account_id (or_order r)) (o_ts_code (or_order r))
      (f_quantity (fl_fill f)) traded_before"
  using fill_effect_of_order [OF assms(3-5)] unfolding traded_def assms(1,2)
  by (intro ext) (auto simp: book_trade_def)

section \<open>Every step keeps the two books equal\<close>

lemma order_of_intent_mono: "order_of_intent intents r \<Longrightarrow> order_of_intent (intents @ rows) r"
  by (auto simp: order_of_intent_def)

lemma traded_insert:
  assumes "orders_ok digest (lg_orders L) (lg_fills L)" "lg_fills L' = lg_fills L" "lg_orders L' = lg_orders L @ rows"
  shows "traded L' = traded L"
  unfolding traded_def assms(2,3)
  by (intro ext sum_by_cong) (use assms(1) in \<open>simp add: orders_ok_def fill_effect_insert\<close>)

lemma persist_intent_book:
  assumes persist: "persist_intent digest now b intent execution_id t p trade_date quote costs request L = Inr (r, L')"
    and ok: "ledger_ok digest L" "book_ok L"
  shows "book_ok L'"
  using persist
proof (cases rule: persist_intent_Inr)
  case (1 row evaluated fill L1 L2 L3 L4 ld cd receipt e)
  define stored where "stored = \<lparr>or_order = r\<lparr>o_average_fill_price := map_option fixed_point (o_average_fill_price r)\<rparr>,
        or_entry_signal_id = i_entry_signal_id intent\<rparr>"
  have ok': "lots_ok L" "orders_ok digest (lg_orders L) (lg_fills L)" "chain_ok L" using ok(1) by (simp_all add: ledger_ok_def)
  have L1: "L1 = L\<lparr>lg_intents := lg_intents L @ [row]\<rparr>" using insert_intent_Inr [OF 1(1)] by simp
  have L2: "L2 = L1\<lparr>lg_orders := lg_orders L @ [stored]\<rparr>"
    and fresh: "o_order_id (or_order stored) \<notin> (\<lambda>x. o_order_id (or_order x)) ` set (lg_orders L)"
    using insert_order_row_Inr [of stored L1 L2] 1(8) by (simp_all add: insert_order_def stored_def L1)
  obtain rr where L4: "L4 = L3\<lparr>lg_receipts := lg_receipts L3 @ [rr]\<rparr>" using 1(11) by (rule insert_execution_receipt_Inr)
  have "chain_ok L4" using ok'(3) chain_state_chain_ok [OF persist_intent_chain [OF 1(1,8,9,11)]] by simp
  note fr = append_frame [OF 1(12) this]
  have order: "o_side r = i_side intent" "o_ts_code r = i_ts_code intent" "o_account_id r = b_account_id b"
      "o_intent_id r = i_intent_id intent"
    using 1(6) by (cases rule: evaluate_intent_cases; simp add: 1(7))+
  have intents: "distinct (map ir_intent_id (lg_intents L @ [row]))"
    using intents.ins_distinct [OF 1(1)] ok(2) by (simp add: L1 book_ok_def)
  have orders: "\<forall>x \<in> set (lg_orders L @ [stored]). order_of_intent (lg_intents L @ [row]) (or_order x)"
    using ok(2) order_of_intent_mono 1(2,3) order by (auto simp: book_ok_def stored_def) (simp add: order_of_intent_def)
  have before: "traded L2 = position L2"
    using traded_insert [OF ok'(2), of L2] ok(2) by (simp add: L1 L2 book_ok_def position_def)
  have "book_ok L3" using 1(6)
  proof (cases rule: evaluate_intent_cases)
    case unfilled
    with 1(9) have "L3 = L2" by simp
    then show ?thesis using before intents orders by (simp add: book_ok_def L1 L2)
  next
    case (filled f)
    from 1(9) have fill: "apply_fill b intent f trade_date (q_acquisition_available_date quote) p L2 = Inr ((ld, cd), L3)"
      by (simp add: filled(1))
    note frame = apply_fill_frame [OF fill]
    have "distinct (map l_lot_id (lg_lots L2))" using ok'(1) by (simp add: L1 L2 lots_ok_def)
    from apply_fill_position [OF fill this]
    have pos: "position L3 = book_trade (i_side intent) (b_account_id b) (i_ts_code intent) (f_quantity f) (position L2)" .
    have "traded L3 = book_trade (o_side (or_order stored)) (o_account_id (or_order stored)) (o_ts_code (or_order stored))
        (f_quantity (fl_fill (stored_fill f p))) (traded L2)"
      by (rule traded_fill [OF frame(1)])
         (use frame ok'(2) fresh filled(3) in \<open>simp_all add: L1 L2 orders_ok_def stored_def 1(7)\<close>)
    with pos before intents orders show ?thesis
      by (simp add: book_ok_def frame) (simp add: L1 L2 stored_def order)
  qed
  then show ?thesis using book_ok_cong [of L' L3] fr by (simp add: L4)
qed

lemma load_intent_Inr: "load_intent digest (Some x) = Inr intent \<Longrightarrow> intent = x"
  unfolding load_intent_def make_intent_def Let_def by (auto elim!: rbind_InrE)

lemma loaded_intent:
  assumes "order_of_intent intents r" "distinct (map ir_intent_id intents)"
    and "select_one (\<lambda>x. ir_intent_id x = o_intent_id r) intents = Some i" "load_intent digest (ir_payload_json i) = Inr intent"
  shows "i_side intent = o_side r" "i_ts_code intent = o_ts_code r"
proof -
  from assms(1) obtain j x where j: "j \<in> set intents" "ir_intent_id j = o_intent_id r" "ir_payload_json j = Some x"
    "i_side x = o_side r" "i_ts_code x = o_ts_code r" by (auto simp: order_of_intent_def)
  from select_one_unique [OF assms(2) j(1)] assms(3) j(2) have "i = j" by simp
  with assms(4) j show "i_side intent = o_side r" "i_ts_code intent = o_ts_code r" by (auto dest: load_intent_Inr)
qed

lemma persist_execution_book:
  assumes persist: "persist_execution digest now b r intent execution_id sequence t p trade_date quantity quote
      snapshot costs request L = Inr L'"
    and ok: "ledger_ok digest L" "book_ok L"
    and row: "find_order b L order_id = Some row" "order_from_row digest row = Inr r"
    and i: "select_one (\<lambda>x. ir_intent_id x = o_intent_id r) (lg_intents L) = Some i"
      "load_intent digest (ir_payload_json i) = Inr intent"
  shows "book_ok L'"
  using persist
proof (cases rule: persist_execution_Inr)
  case (1 fill ld cd L1 average L2 updated receipt L3 e)
  note fill = new_fill_Inr [OF 1(1)] and frame = apply_fill_frame [OF 1(2)] and rr = order_from_row_Inr(1) [OF row(2)]
  define g :: "paper_order \<Rightarrow> paper_order" where "g = (\<lambda>x. x\<lparr>o_filled_quantity := o_filled_quantity updated,
          o_average_fill_price := Some (fixed_point average), o_status := o_status updated,
          o_reject_reason := None, o_updated_at := o_updated_at updated\<rparr>)"
  let ?orders = "update_where (\<lambda>x. o_order_id (or_order x) = o_order_id r) (\<lambda>x. x\<lparr>or_order := g (or_order x)\<rparr>) (lg_orders L)"
  let ?row = "row\<lparr>or_order := g (or_order row)\<rparr>"
  have ok': "lots_ok L" "orders_ok digest (lg_orders L) (lg_fills L)" "chain_ok L" using ok(1) by (simp_all add: ledger_ok_def)
  have L2: "lg_orders L2 = ?orders" "lg_fills L2 = lg_fills L @ [stored_fill fill p]" "lg_lots L2 = lg_lots L1"
      "lg_intents L2 = lg_intents L"
    by (simp_all add: 1(5) g_def update_order_row_def frame)
  obtain rc where L3: "L3 = L2\<lparr>lg_receipts := lg_receipts L2 @ [rc]\<rparr>" using 1(7) by (rule insert_execution_receipt_Inr)
  have "chain_ok L3" using ok'(3) chain_state_chain_ok [OF persist_execution_chain [OF 1(2,5,7)]] by simp
  note fr = append_frame [OF 1(8) this]
  have member: "row \<in> set (lg_orders L)" "o_account_id r = b_account_id b"
    using select_one_SomeD [OF row(1) [unfolded find_order_def]] rr by simp_all
  have intent: "i_side intent = o_side r" "i_ts_code intent = o_ts_code r"
    using loaded_intent [OF _ _ i] ok(2) member(1) rr by (auto simp: book_ok_def)
  have ids: "map (\<lambda>x. o_order_id (or_order x)) ?orders = map (\<lambda>x. o_order_id (or_order x)) (lg_orders L)"
    by (rule map_update_where) (simp add: g_def)
  have "fill_effect ?orders x = fill_effect (lg_orders L) x" for x by (rule fill_effect_update) (simp_all add: g_def)
  then have before: "traded (L\<lparr>lg_orders := lg_orders L2\<rparr>) = traded L" by (simp add: traded_def L2)
  have "traded L2 = book_trade (o_side (or_order ?row)) (o_account_id (or_order ?row)) (o_ts_code (or_order ?row))
      (f_quantity (fl_fill (stored_fill fill p))) (traded L)"
  proof (rule traded_fill [OF L2(2)])
    show "?row \<in> set (lg_orders L2)" using member(1) by (auto simp: L2 set_update_where rr image_iff intro!: bexI [of _ row])
  qed (use before ids ok'(2) fill in \<open>simp_all add: L2 orders_ok_def g_def rr\<close>)
  moreover have "position L2 = book_trade (i_side intent) (b_account_id b) (i_ts_code intent) (f_quantity fill) (position L)"
    using apply_fill_position [OF 1(2)] ok'(1) by (simp add: position_def L2(3) lots_ok_def)
  ultimately have "position L2 = traded L2" using ok(2) intent member(2) by (simp add: book_ok_def g_def rr)
  moreover have "order_of_intent (lg_intents L) (or_order x)" if "x \<in> set ?orders" for x
    using that ok(2) by (auto simp: set_update_where book_ok_def order_of_intent_def g_def split: if_splits)
  ultimately have "book_ok L2" using ok(2) by (simp add: book_ok_def L2)
  then show ?thesis using book_ok_cong [of L' L2] fr by (simp add: L3)
qed

lemma close_open_order_book:
  assumes "close_open_order digest now b order_id status t persisted L = Inr (result, L')"
    and ok: "chain_ok L" "book_ok L"
  shows "book_ok L'"
  using assms(1)
proof (cases rule: close_open_order_cases)
  case (1 p row r i intent previous n L1 e)
  let ?f = "\<lambda>x. x\<lparr>o_status := status, o_updated_at := max (o_updated_at r) p\<rparr>"
  have "chain_ok L1" using ok(1) chain_state_chain_ok [of L1 L] by (simp add: 1(12) chain_state_writes)
  note fr = append_frame [OF 1(13) this]
  have "fill_effect (lg_orders L1) x = fill_effect (lg_orders L) x" for x
    using fill_effect_update [of ?f] by (simp add: 1(12) update_order_row_def)
  then have "traded L1 = traded L" by (simp add: traded_def 1(12) update_order_row_def)
  moreover have "position L1 = position L" by (simp add: position_def 1(12) update_order_row_def)
  moreover have "order_of_intent (lg_intents L) (or_order x)" if "x \<in> set (lg_orders L1)" for x
    using that ok(2) by (auto simp: 1(12) update_order_row_def set_update_where book_ok_def order_of_intent_def split: if_splits)
  ultimately have "book_ok L1" using ok(2) by (simp add: book_ok_def 1(12) update_order_row_def)
  then show ?thesis using book_ok_cong [of L' L1] fr by simp
qed

lemma broker_step_book:
  assumes "broker_step digest L L'" "ledger_ok digest L" "book_ok L"
  shows "book_ok L'"
  using assms(1)
proof (cases rule: broker_step.cases)
  case (open_account account_id initial_cash policy b now)
  from open_account(2) show ?thesis
  proof (cases rule: initialize_account_cases)
    case (opened specs row e)
    let ?L = "L\<lparr>lg_cost_specs := specs, lg_accounts := lg_accounts L @ [row]\<rparr>"
    have "chain_ok ?L" using assms(2) chain_state_chain_ok [of ?L L] by (simp add: ledger_ok_def)
    from append_frame [OF opened(7) this] show ?thesis using assms(3) book_ok_cong [of L' L] by simp
  qed (use assms(3) in simp)
next
  case (submit now b intent supplied t persisted trade_date quote r)
  then show ?thesis
    by (rule submit_intent_cases) (use persist_intent_book [OF _ assms(2,3)] assms(3) in auto)
next
  case (execute now b order_id execution_id t trade_date quantity quote snapshot persisted result)
  then show ?thesis
  proof (cases rule: apply_execution_cases)
    case (1 p side costs request known)
    from 1(9) show ?thesis
    proof (cases rule: execution_transaction_cases)
      case (applied row r i intent sequence previous)
      show ?thesis by (rule persist_execution_book [OF applied(12) assms(2,3) applied(5,6,7,8)])
    qed (use assms(3) in simp)
  qed
next
  case (close now b order_id status t persisted outcome)
  then show ?thesis by (rule close_open_order_book) (use assms(2,3) in \<open>simp_all add: ledger_ok_def\<close>)
next
  case (publish now b as_of prices commit view state)
  then show ?thesis
  proof (cases rule: account_authority_snapshot_cases)
    case (published candidate L1 d)
    from published(4) obtain rows where L1: "L1 = L\<lparr>lg_authorities := rows\<rparr>" by (rule upsert_authority_Inr)
    have "chain_ok L1" using assms(2) chain_state_chain_ok [of L1 L] by (simp add: ledger_ok_def L1)
    from append_frame [OF published(6) this] show ?thesis using assms(3) book_ok_cong [of L' L] by (simp add: L1)
  qed (use assms(3) in simp)
qed

interpretation broker_book: invariant_system "broker_step digest" "\<lambda>L. ledger_ok digest L \<and> book_ok L" for digest
  by unfold_locales (auto intro: broker_step_ok broker_step_book)

lemma fresh_book_ok: "fresh_ledger L \<Longrightarrow> book_ok L"
  by (simp add: fresh_ledger_def book_ok_def position_def traded_def)

section \<open>The book of a snapshot\<close>

definition held_quantity :: "broker \<Rightarrow> ledger \<Rightarrow> string \<Rightarrow> int" where
  "held_quantity b L code = sum_by l_remaining_quantity (filter (\<lambda>l. l_ts_code l = code) (held_lots b L))"

lemma sum_by_filter_zero:
  "(\<And>x. x \<in> set xs \<Longrightarrow> \<not> q x \<Longrightarrow> f x = 0) \<Longrightarrow> sum_by f (filter (\<lambda>x. q x \<and> p x) xs) = sum_by f (filter p xs)"
  by (induction xs) auto

lemma position_held:
  assumes "lots_ok L"
  shows "position L (b_account_id b) code = held_quantity b L code"
proof -
  have zero: "l_remaining_quantity l = 0" if "l \<in> set (lg_lots L)" "\<not> 0 < l_remaining_quantity l" for l
    using assms that by (auto simp: lots_ok_def non_negative_lot_def)
  have "held_quantity b L code = sum_by l_remaining_quantity
      (filter (\<lambda>l. 0 < l_remaining_quantity l \<and> (l_account_id l = b_account_id b \<and> l_ts_code l = code)) (lg_lots L))"
    unfolding held_quantity_def held_lots_def filter_filter by (metis (lifting))
  with sum_by_filter_zero [of "lg_lots L" "\<lambda>l. 0 < l_remaining_quantity l" l_remaining_quantity, OF zero]
  show ?thesis by (simp add: position_def)
qed

lemma snapshot_quantities:
  assumes "take_account_snapshot digest b L as_of prices = Inr s"
  shows "held_quantity b L code = (case map_of (map (\<lambda>h. (h_code h, h_quantity h)) (s_holdings s)) code of None \<Rightarrow> 0 | Some n \<Rightarrow> n)"
  using assms
proof (cases rule: take_account_snapshot_Inr)
  case (1 cash realized)
  have each: "h_quantity h = held_quantity b L (h_code h)" if "h \<in> set (s_holdings s)" for h
  proof -
    from 1(8) that obtain c where "holding_of_code b L (shanghai_date as_of) prices c = Inr h"
      by (auto simp: list_all2_conv_all_nth in_set_conv_nth)
    from holding_of_code_Inr(1,3) [OF this] show ?thesis by (simp add: held_quantity_def)
  qed
  have codes: "set (map h_code (s_holdings s)) = l_ts_code ` set (held_lots b L)" unfolding 1(7) by simp
  show ?thesis
  proof (cases "map_of (map (\<lambda>h. (h_code h, h_quantity h)) (s_holdings s)) code")
    case None
    then have "code \<notin> set (map h_code (s_holdings s))" by (simp add: map_of_eq_None_iff image_image)
    then have "filter (\<lambda>l. l_ts_code l = code) (held_lots b L) = []" unfolding codes by (auto simp: filter_empty_conv)
    with None show ?thesis by (simp add: held_quantity_def)
  next
    case (Some n)
    from map_of_SomeD [OF this] each show ?thesis using Some by auto
  qed
qed

end
