(* ===== verification/Paper_Reconciliation.thy ===== *)
theory Paper_Reconciliation
  imports Position_Refinement
begin

text \<open>
  The audit \<open>reconcile\<close> of \<open>paper_broker.py\<close>: it recomputes orders, fills, lots, cash and realised
  profit of the account from the rows and collects every disagreement. Stored times are numbers here, so
  the branches for unreadable timestamps do not occur. Messages leave out the text of a caught exception
  and the number of a fill.
\<close>

section \<open>Collected errors\<close>

definition err :: "bool \<Rightarrow> string \<Rightarrow> string list" where
  "err wrong message = (if wrong then [message] else [])"

text \<open>
  \<open>except (TypeError, ValueError)\<close>. Around a model's validation an assertion counts as well, since the
  validation error that wraps it is a \<open>ValueError\<close>.
\<close>

definition value_error :: "exn \<Rightarrow> bool" where
  "value_error e = (case e of ValueError _ \<Rightarrow> True | TypeError _ \<Rightarrow> True | _ \<Rightarrow> False)"

definition caught :: "(exn \<Rightarrow> bool) \<Rightarrow> exn + 'a \<Rightarrow> exn + 'a option" where
  "caught p m = (case m of Inr x \<Rightarrow> Inr (Some x) | Inl e \<Rightarrow> if p e then Inr None else Inl e)"

definition invalid_model :: "exn \<Rightarrow> bool" where
  "invalid_model e \<longleftrightarrow> value_error e \<or> e = AssertionError"

section \<open>The joins\<close>

definition audit_orders :: "broker \<Rightarrow> ledger \<Rightarrow> (order_row \<times> intent_row) list" where
  "audit_orders b L =
     sort_key (\<lambda>(r, i). o_order_id (or_order r))
       (concat (map (\<lambda>r. map (\<lambda>i. (r, i)) (filter (\<lambda>i. ir_intent_id i = o_intent_id (or_order r)) (lg_intents L)))
          (filter (\<lambda>r. o_account_id (or_order r) = b_account_id b) (lg_orders L))))"

definition audit_fills :: "broker \<Rightarrow> ledger \<Rightarrow> (fill_row \<times> order_row \<times> intent_row) list" where
  "audit_fills b L =
     sort_key (\<lambda>(f, r, i). f_fill_id (fl_fill f))
       (concat (map (\<lambda>(f, r). map (\<lambda>i. (f, r, i)) (filter (\<lambda>i. ir_intent_id i = o_intent_id (or_order r)) (lg_intents L)))
          (account_fills b L)))"

section \<open>Receipts\<close>

definition receipt_ids :: "broker \<Rightarrow> ledger \<Rightarrow> string list" where
  "receipt_ids b L = sort (remdups (map rr_execution_id (filter (\<lambda>r. rr_account_id r = b_account_id b) (lg_receipts L))))"

definition receipt_set_errors :: "broker \<Rightarrow> ledger \<Rightarrow> string list" where
  "receipt_set_errors b L =
     err (set (map (\<lambda>(r, i). ir_initial_execution_id i) (audit_orders b L))
            \<union> set (map (\<lambda>(f, r, i). f_execution_id (fl_fill f)) (audit_fills b L)) \<noteq> set (receipt_ids b L))
       ''paper execution receipt identity set mismatch''"

fun load_receipts ::
  "digest \<Rightarrow> broker \<Rightarrow> ledger \<Rightarrow> string list \<Rightarrow> exn + string list \<times> (string \<times> execution_receipt) list" where
  "load_receipts digest b L [] = Inr ([], [])"
| "load_receipts digest b L (receipt_id # ids) =
     (case find_execution_receipt digest b L receipt_id of
        Inl (PaperBrokerReconciliationError message) \<Rightarrow>
          rbind (load_receipts digest b L ids) (\<lambda>(errors, receipts). Inr (message # errors, receipts))
      | Inl e \<Rightarrow> Inl e
      | Inr None \<Rightarrow> Inl AssertionError
      | Inr (Some receipt) \<Rightarrow>
          rbind (load_receipts digest b L ids) (\<lambda>(errors, receipts). Inr (errors, (receipt_id, receipt) # receipts)))"

section \<open>Orders\<close>

definition intent_errors :: "paper_order \<Rightarrow> intent_row \<Rightarrow> order_intent \<Rightarrow> string list" where
  "intent_errors r i intent =
     err (i_intent_id intent \<noteq> o_intent_id r \<or> i_account_id intent \<noteq> o_account_id r \<or> i_ts_code intent \<noteq> o_ts_code r
          \<or> i_side intent \<noteq> o_side r \<or> i_order_type intent \<noteq> o_order_type r \<or> i_quantity intent \<noteq> o_quantity r
          \<or> ir_signal_id i \<noteq> i_signal_id intent \<or> ir_entry_signal_id i \<noteq> i_entry_signal_id intent
          \<or> ir_ts_code i \<noteq> i_ts_code intent \<or> ir_side i \<noteq> i_side intent)
       (''order '' @ o_order_id r @ '' intent/order mismatch'')"

definition initial_receipt_errors ::
  "(string \<times> execution_receipt) list \<Rightarrow> paper_order \<Rightarrow> intent_row \<Rightarrow> order_intent \<Rightarrow> string list" where
  "initial_receipt_errors receipts r i intent =
     (case map_of receipts (ir_initial_execution_id i) of
        None \<Rightarrow> [''order '' @ o_order_id r @ '' initial execution receipt is missing'']
      | Some receipt \<Rightarrow>
          err (r_intent_id receipt \<noteq> i_intent_id intent \<or> o_order_id (r_order receipt) \<noteq> o_order_id r
               \<or> r_request_fingerprint receipt \<noteq> ir_initial_execution_request_fingerprint i)
            (''order '' @ o_order_id r @ '' initial execution receipt mismatch''))"

definition entry_errors :: "string \<Rightarrow> string option \<Rightarrow> order_intent \<Rightarrow> string list" where
  "entry_errors order_id entry_signal_id intent =
     err (entry_signal_id \<noteq> (if i_side intent = BUY then None else i_entry_signal_id intent))
       (''order '' @ order_id @ '' entry_signal_id provenance mismatch'')"

definition sell_entry_errors :: "digest \<Rightarrow> broker \<Rightarrow> ledger \<Rightarrow> order_intent \<Rightarrow> string \<Rightarrow> exn + string list" where
  "sell_entry_errors digest b L intent order_id =
     (case (i_entry_signal_id intent, i_sell_quantity_authority intent) of
        (Some entry_signal_id, Some authority) \<Rightarrow>
          if a_exit_signal_id authority \<noteq> i_signal_id intent \<or> a_entry_signal_id authority \<noteq> entry_signal_id
             \<or> a_account_id authority \<noteq> i_account_id intent \<or> a_ts_code authority \<noteq> i_ts_code intent
             \<or> a_requested_quantity authority \<noteq> i_quantity intent
          then Inr [''order '' @ order_id @ '' SELL authority provenance mismatch'']
          else (case entry_rows b L (i_ts_code intent) entry_signal_id of
             [(row, r)] \<Rightarrow>
               rbind (caught invalid_model (load_intent digest (ir_payload_json row))) (\<lambda>loaded.
                 case loaded of
                   None \<Rightarrow> Inr [''order '' @ order_id @ '' entry BUY intent is invalid'']
                 | Some entry_intent \<Rightarrow>
                     Inr (err (i_side entry_intent \<noteq> BUY \<or> i_signal_id entry_intent \<noteq> entry_signal_id
                        \<or> i_account_id entry_intent \<noteq> i_account_id intent \<or> i_ts_code entry_intent \<noteq> i_ts_code intent
                        \<or> o_account_id (or_order r) \<noteq> i_account_id intent \<or> o_ts_code (or_order r) \<noteq> i_ts_code intent
                        \<or> o_side (or_order r) \<noteq> BUY \<or> or_entry_signal_id r \<noteq> None
                        \<or> \<not> list_ex (\<lambda>f. f_order_id (fl_fill f) = o_order_id (or_order r)) (lg_fills L))
                       (''order '' @ order_id @ '' entry_signal_id provenance mismatch'')))
           | _ \<Rightarrow> Inr [''order '' @ order_id @ '' entry_signal_id does not resolve to one BUY entry''])
      | _ \<Rightarrow> Inr [''order '' @ order_id @ '' SELL authority provenance mismatch''])"

text \<open>The loop over the fills of an order, with the times of the previous one.\<close>

fun fill_time_errors :: "paper_order \<Rightarrow> (utc \<times> utc) option \<Rightarrow> fill_row list \<Rightarrow> string list" where
  "fill_time_errors r previous [] = []"
| "fill_time_errors r previous (row # rows) =
     (let executed_at = f_executed_at (fl_fill row); persisted_at = fl_persisted_at row; name = ''order '' @ o_order_id r in
      err (persisted_at < executed_at) (name @ '' fill availability precedes execution'')
      @ err (\<not> opt_all (\<lambda>(e, p). e \<le> executed_at) previous) (name @ '' fill execution sequence is nonmonotonic'')
      @ err (\<not> opt_all (\<lambda>(e, p). p \<le> persisted_at) previous) (name @ '' fill availability sequence is nonmonotonic'')
      @ err (o_updated_at r < executed_at) (name @ '' updated_at precedes fill execution'')
      @ err (o_updated_at r < persisted_at) (name @ '' updated_at precedes fill availability'')
      @ fill_time_errors r (Some (executed_at, persisted_at)) rows)"

definition status_errors :: "paper_order \<Rightarrow> int \<Rightarrow> string list" where
  "status_errors r filled =
     (if o_status r = PENDING \<or> o_status r = ACCEPTED \<or> o_status r = REJECTED
      then err (filled \<noteq> 0) (''unfilled order '' @ o_order_id r @ '' has fills'')
      else if o_status r = PARTIALLY_FILLED
      then err (\<not> (0 < filled \<and> filled < o_quantity r))
             (''partially filled order '' @ o_order_id r @ '' has invalid fill quantity'')
      else if o_status r = FILLED
      then err (filled \<noteq> o_quantity r) (''filled order '' @ o_order_id r @ '' is not fully consumed'')
      else err (\<not> (0 \<le> filled \<and> filled < o_quantity r))
             (''closed order '' @ o_order_id r @ '' has no unfilled remainder''))"

text \<open>What the fills of an order say of it: quantity, sequence, times and status.\<close>

definition fill_quantity_errors :: "paper_order \<Rightarrow> fill_row list \<Rightarrow> string list" where
  "fill_quantity_errors r rows =
     err (sum_by (\<lambda>x. f_quantity (fl_fill x)) rows \<noteq> o_filled_quantity r)
       (''order '' @ o_order_id r @ '' fill quantity mismatch'')
     @ err (map (\<lambda>x. f_sequence (fl_fill x)) rows \<noteq> map int [1..<Suc (length rows)])
         (''order '' @ o_order_id r @ '' fill sequence mismatch'')"

definition average_errors :: "broker \<Rightarrow> paper_order \<Rightarrow> fill_row list \<Rightarrow> exn + string list" where
  "average_errors b r rows =
     (if rows = []
      then Inr (err (o_average_fill_price r \<noteq> None) (''order '' @ o_order_id r @ '' has average price without fills''))
      else rbind (ddiv (dsum (map (\<lambda>x. dmul (f_price (fl_fill x)) (dof_int (f_quantity (fl_fill x)))) rows))
               (dof_int (sum_by (\<lambda>x. f_quantity (fl_fill x)) rows))) (\<lambda>average.
        case es_slippage (cp_execution_cost_spec (b_cost_policy b)) of
          None \<Rightarrow> Inl AssertionError
        | Some slippage \<Rightarrow>
            rbind (dquantize average (sl_price_tick slippage)) (\<lambda>weighted.
              Inr (err (\<not> opt_deq (o_average_fill_price r) weighted)
                     (''order '' @ o_order_id r @ '' average fill price mismatch'')))))"

definition rows_of_order :: "(fill_row \<times> order_row \<times> intent_row) list \<Rightarrow> string \<Rightarrow> fill_row list" where
  "rows_of_order fills order_id =
     sort_key (\<lambda>x. (f_sequence (fl_fill x), f_fill_id (fl_fill x)))
       (map fst (filter (\<lambda>(f, r, i). f_order_id (fl_fill f) = order_id) fills))"

definition order_errors ::
  "digest \<Rightarrow> broker \<Rightarrow> ledger \<Rightarrow> (string \<times> execution_receipt) list \<Rightarrow> order_row \<times> intent_row \<Rightarrow> exn + string list" where
  "order_errors digest b L receipts x = (case x of (row, i) \<Rightarrow>
     rbind (order_from_row digest row) (\<lambda>r.
     let rows = rows_of_order (audit_fills b L) (o_order_id r); filled = sum_by (\<lambda>x. f_quantity (fl_fill x)) rows in
     rbind (caught invalid_model (load_intent digest (ir_payload_json i))) (\<lambda>loaded.
     case loaded of
       None \<Rightarrow> Inr [''order '' @ o_order_id r @ '' intent payload is invalid'']
     | Some intent \<Rightarrow>
         rbind (if i_side intent = SELL then sell_entry_errors digest b L intent (o_order_id r) else Inr []) (\<lambda>entry.
         rbind (average_errors b r rows) (\<lambda>average.
           Inr (intent_errors r i intent @ initial_receipt_errors receipts r i intent
             @ entry_errors (o_order_id r) (or_entry_signal_id row) intent @ entry
             @ fill_quantity_errors r rows @ fill_time_errors r None rows @ average @ status_errors r filled))))))"

section \<open>Fills\<close>

text \<open>Model equality compares decimals by value, and the selected rules as a mapping.\<close>

definition same_fill :: "paper_fill \<Rightarrow> paper_fill \<Rightarrow> bool" where
  "same_fill x y \<longleftrightarrow>
     deq (f_price x) (f_price y) \<and> deq (f_commission x) (f_commission y) \<and> deq (f_tax x) (f_tax y)
     \<and> rel_option deq (f_transfer_fee x) (f_transfer_fee y) \<and> rel_option deq (f_total_fees x) (f_total_fees y)
     \<and> x\<lparr>f_price := dzero, f_commission := dzero, f_tax := dzero, f_transfer_fee := None, f_total_fees := None\<rparr>
       = y\<lparr>f_price := dzero, f_commission := dzero, f_tax := dzero, f_transfer_fee := None, f_total_fees := None\<rparr>"

definition calculation_decimals :: "cost_calculation \<Rightarrow> decimal list" where
  "calculation_decimals c =
     [oi_reference_price (cc_order_input c), cc_executed_price c, cc_reference_notional c, cc_executed_notional c,
      cc_commission c, cc_transfer_fee c, cc_stamp_duty c, cc_slippage_amount c, cc_total_fees c]"

definition same_calculation :: "cost_calculation \<Rightarrow> cost_calculation \<Rightarrow> bool" where
  "same_calculation x y \<longleftrightarrow>
     list_all2 deq (calculation_decimals x) (calculation_decimals y)
     \<and> set (cc_selected_rule_ids x) = set (cc_selected_rule_ids y)
     \<and> cc_cost_spec_id x = cc_cost_spec_id y \<and> cc_cost_spec_schema_version x = cc_cost_spec_schema_version y
     \<and> cc_cost_engine_version x = cc_cost_engine_version y \<and> cc_instrument_context x = cc_instrument_context y
     \<and> oi_side (cc_order_input x) = oi_side (cc_order_input y) \<and> oi_quantity (cc_order_input x) = oi_quantity (cc_order_input y)
     \<and> cc_cost_context_fingerprint x = cc_cost_context_fingerprint y"

definition cost_errors ::
  "digest \<Rightarrow> broker \<Rightarrow> paper_side \<Rightarrow> paper_fill \<Rightarrow> cost_calculation option \<Rightarrow> exn + string list" where
  "cost_errors digest b side f calculation =
     (case calculation of
        None \<Rightarrow> Inr [''fill '' @ f_fill_id f @ '' v3 cost provenance mismatch'']
      | Some c \<Rightarrow>
          if f_cost_provenance_state f \<noteq> KNOWN_V3 \<or> oi_side (cc_order_input c) \<noteq> (if side = BUY then CostBuy else CostSell)
             \<or> oi_quantity (cc_order_input c) \<noteq> f_quantity f \<or> Some (cc_cost_spec_id c) \<noteq> f_cost_spec_id f
             \<or> Some (cc_cost_spec_schema_version c) \<noteq> f_cost_spec_schema_version f
             \<or> Some (cc_cost_context_fingerprint c) \<noteq> f_cost_context_fingerprint f
          then Inr [''fill '' @ f_fill_id f @ '' v3 cost provenance mismatch'']
          else rbind (caught value_error (calculate_execution_costs digest (cp_execution_cost_spec (b_cost_policy b))
                        (cc_order_input c) (cc_instrument_context c))) (\<lambda>recomputed.
            case recomputed of
              None \<Rightarrow> Inr [''fill '' @ f_fill_id f @ '' v3 cost context is invalid'']
            | Some d \<Rightarrow>
                Inr (err (\<not> (same_calculation d c \<and> deq (f_price f) (cc_executed_price c)
                           \<and> deq (f_commission f) (cc_commission c) \<and> opt_deq (f_transfer_fee f) (cc_transfer_fee c)
                           \<and> deq (f_tax f) (cc_stamp_duty c) \<and> opt_deq (f_total_fees f) (cc_total_fees c)))
                       (''fill '' @ f_fill_id f @ '' v3 cost calculation mismatch''))))"

definition buy_lot_errors :: "ledger \<Rightarrow> order_intent \<Rightarrow> paper_fill \<Rightarrow> utc \<Rightarrow> string list" where
  "buy_lot_errors L intent f persisted_at =
     (case select_one (\<lambda>l. l_lot_id l = f_fill_id f) (lg_lots L) of
        None \<Rightarrow> [''buy fill '' @ f_fill_id f @ '' lot mismatch'']
      | Some lot \<Rightarrow>
          (if l_original_quantity lot \<noteq> f_quantity f then [''buy fill '' @ f_fill_id f @ '' lot mismatch'']
           else err (l_entry_signal_id lot \<noteq> i_signal_id intent \<or> l_account_id lot \<noteq> i_account_id intent
                  \<or> l_ts_code lot \<noteq> i_ts_code intent) (''buy fill '' @ f_fill_id f @ '' lot entry_signal_id provenance mismatch''))
          @ err (l_persisted_at lot \<noteq> persisted_at) (''buy fill '' @ f_fill_id f @ '' lot availability mismatch'')
          @ err (l_buy_executed_at lot \<noteq> f_executed_at f \<or> l_buy_persisted_at lot \<noteq> persisted_at
                 \<or> l_buy_fill_sequence lot \<noteq> f_sequence f) (''buy fill '' @ f_fill_id f @ '' lot timeline mismatch''))"

text \<open>The consumptions of a fill come in the order of the primary key.\<close>

definition allocations :: "ledger \<Rightarrow> string \<Rightarrow> (consumption_row \<times> lot_row) list" where
  "allocations L fill_id =
     concat (map (\<lambda>c. map (\<lambda>l. (c, l)) (filter (\<lambda>l. l_lot_id l = c_lot_id c) (lg_lots L)))
       (sort_key c_lot_id (filter (\<lambda>c. c_fill_id c = fill_id) (lg_consumptions L))))"

definition allocation_errors :: "ledger \<Rightarrow> paper_fill \<Rightarrow> string list" where
  "allocation_errors L f =
     err (sum_by (\<lambda>(c, l). c_quantity c) (allocations L (f_fill_id f)) \<noteq> f_quantity f)
       (''sell fill '' @ f_fill_id f @ '' allocation mismatch'')"

definition consumption_errors :: "ledger \<Rightarrow> order_intent \<Rightarrow> paper_fill \<Rightarrow> utc \<Rightarrow> string list" where
  "consumption_errors L intent f persisted_at =
     concat (map (\<lambda>(c, l).
       err (c_persisted_at c \<noteq> persisted_at) (''sell fill '' @ f_fill_id f @ '' consumption availability mismatch'')
       @ err (Some (l_entry_signal_id l) \<noteq> i_entry_signal_id intent \<or> l_account_id l \<noteq> i_account_id intent
              \<or> l_ts_code l \<noteq> i_ts_code intent) (''sell fill '' @ f_fill_id f @ '' lot entry_signal_id provenance mismatch''))
       (allocations L (f_fill_id f)))"

definition allocation_cost :: "ledger \<Rightarrow> string \<Rightarrow> decimal" where
  "allocation_cost L fill_id = dsum (map (\<lambda>(c, l). dmul (c_unit_cost c) (dof_int (c_quantity c))) (allocations L fill_id))"

definition fill_errors ::
  "digest \<Rightarrow> broker \<Rightarrow> ledger \<Rightarrow> (string \<times> execution_receipt) list \<Rightarrow> fill_row \<times> order_row \<times> intent_row
   \<Rightarrow> decimal \<times> decimal \<Rightarrow> exn + string list \<times> decimal \<times> decimal" where
  "fill_errors digest b L receipts x money = (case (x, money) of ((row, r, i), (cash, realized)) \<Rightarrow>
     rbind (caught invalid_model (fill_from_row digest row)) (\<lambda>parsed.
     case parsed of
       None \<Rightarrow> Inr ([''paper fill '' @ f_fill_id (fl_fill row) @ '' v3 cost evidence is invalid''], cash, realized)
     | Some f \<Rightarrow>
         let receipt = map_of receipts (f_execution_id f);
             unmatched = err (\<not> (case receipt of None \<Rightarrow> False | Some x \<Rightarrow> rel_option same_fill (r_fill x) (Some f)))
               (''fill '' @ f_fill_id f @ '' immutable execution receipt mismatch'') in
         rbind (caught invalid_model (load_intent digest (ir_payload_json i))) (\<lambda>loaded.
         case loaded of
           None \<Rightarrow> Inr (unmatched @ [''fill '' @ f_fill_id f @ '' intent payload is invalid''], cash, realized)
         | Some intent \<Rightarrow>
             rbind (cost_errors digest b (o_side (or_order r)) f (Option.bind receipt r_cost_calculation)) (\<lambda>costs.
             let early = err (fl_persisted_at row < f_executed_at f) (''fill '' @ f_fill_id f @ '' availability precedes execution'')
                   @ err (fl_persisted_at row < ir_persisted_at i) (''fill '' @ f_fill_id f @ '' availability precedes its intent'')
                   @ entry_errors (f_order_id f) (or_entry_signal_id r) intent in
             case f_total_fees f of
               None \<Rightarrow> Inl AssertionError
             | Some fees \<Rightarrow>
                 if o_side (or_order r) = BUY
                 then Inr (unmatched @ costs @ early @ buy_lot_errors L intent f (fl_persisted_at row),
                           dsub cash (dadd (fill_notional f) fees), realized)
                 else Inr (unmatched @ costs @ early @ allocation_errors L f
                             @ consumption_errors L intent f (fl_persisted_at row),
                           dadd cash (dsub (fill_notional f) fees),
                           dadd realized (dsub (dsub (fill_notional f) fees) (allocation_cost L (f_fill_id f))))))))"

fun audit_fill_loop ::
  "digest \<Rightarrow> broker \<Rightarrow> ledger \<Rightarrow> (string \<times> execution_receipt) list \<Rightarrow> (fill_row \<times> order_row \<times> intent_row) list
   \<Rightarrow> decimal \<times> decimal \<Rightarrow> exn + string list \<times> decimal \<times> decimal" where
  "audit_fill_loop digest b L receipts [] (cash, realized) = Inr ([], cash, realized)"
| "audit_fill_loop digest b L receipts (x # xs) money =
     rbind (fill_errors digest b L receipts x money) (\<lambda>(errors, money').
     rbind (audit_fill_loop digest b L receipts xs money') (\<lambda>(more, money''). Inr (errors @ more, money'')))"

section \<open>Lots and the account\<close>

definition account_lots :: "broker \<Rightarrow> ledger \<Rightarrow> lot_row list" where
  "account_lots b L = filter (\<lambda>l. l_account_id l = b_account_id b) (lg_lots L)"

definition lot_errors :: "broker \<Rightarrow> ledger \<Rightarrow> string list" where
  "lot_errors b L =
     concat (map (\<lambda>l. err (l_remaining_quantity l + sum_by c_quantity (filter (\<lambda>c. c_lot_id c = l_lot_id l) (lg_consumptions L))
         \<noteq> l_original_quantity l) (''lot '' @ l_lot_id l @ '' quantity mismatch'')) (account_lots b L))"

record broker_reconciliation =
  br_is_consistent :: bool
  br_account_id :: string
  br_order_count :: int
  br_fill_count :: int
  br_open_lot_quantity :: int
  br_cash :: decimal
  br_realized_pnl :: decimal

definition check_audit_authority :: "broker \<Rightarrow> ledger \<Rightarrow> exn + account_row" where
  "check_audit_authority b L =
     (case find_account b L of
        None \<Rightarrow> Inl (PaperBrokerReconciliationError ''broker account is missing'')
      | Some account \<Rightarrow>
          let spec = cp_execution_cost_spec (b_cost_policy b) in
          case (es_cost_spec_id spec, es_cost_engine_version spec) of
            (Some spec_id, Some engine) \<Rightarrow>
              let refused = PaperBrokerReconciliationError ''paper account v3 cost authority does not reconcile'' in
              (case select_one (\<lambda>r. cs_cost_spec_id r = spec_id) (lg_cost_specs L) of
                 None \<Rightarrow> Inl refused
               | Some authority \<Rightarrow>
                   if ac_cost_provenance_state account \<noteq> KNOWN_V3 \<or> ac_cost_spec_schema_version account \<noteq> Some 3
                      \<or> ac_cost_spec_id account \<noteq> Some spec_id \<or> cs_schema_version authority \<noteq> 3
                      \<or> cs_cost_engine_version authority \<noteq> engine
                   then Inl refused
                   else rbind (canonical_json spec) (\<lambda>j.
                     if cs_canonical_json authority \<noteq> j then Inl refused
                     else case lg_schema L of
                       SchemaTable (Some s) \<Rightarrow>
                         if sr_schema_version s \<noteq> 5
                         then Inl (PaperBrokerReconciliationError ''paper ledger requires explicit schema v5 migration'')
                         else Inr account
                     | _ \<Rightarrow> Inl (PaperBrokerReconciliationError ''paper ledger requires explicit schema v5 migration'')))
          | _ \<Rightarrow> Inl AssertionError)"

definition audit_errors :: "digest \<Rightarrow> broker \<Rightarrow> ledger \<Rightarrow> account_row \<Rightarrow> exn + string list" where
  "audit_errors digest b L account =
     rbind (load_receipts digest b L (receipt_ids b L)) (\<lambda>(receipt_errors, receipts).
     rbind (mapM (order_errors digest b L receipts) (audit_orders b L)) (\<lambda>orders.
     rbind (audit_fill_loop digest b L receipts (audit_fills b L) (ac_initial_cash account, dzero)) (\<lambda>(fills, cash, realized).
       Inr (receipt_set_errors b L @ receipt_errors @ concat orders @ fills @ lot_errors b L
         @ err (\<not> deq (ac_cash account) cash) ''cash does not reconcile from fills''
         @ err (\<not> deq (ac_realized_pnl account) realized) ''realized_pnl does not reconcile from fills and lots''))))"

definition reconcile :: "digest \<Rightarrow> broker \<Rightarrow> ledger \<Rightarrow> exn + broker_reconciliation" where
  "reconcile digest b L =
     rbind (require_execution_ready digest b L) (\<lambda>_.
     rbind (check_audit_authority b L) (\<lambda>account.
     rbind (audit_errors digest b L account) (\<lambda>errors.
       if errors \<noteq> [] then Inl (PaperBrokerReconciliationError (join_with ''; '' errors))
       else if sum_by l_remaining_quantity (account_lots b L) < 0 \<or> dlt (ac_cash account) dzero
       then Inl (ValueError ''open_lot_quantity and cash must be non-negative'')
       else Inr \<lparr>br_is_consistent = True, br_account_id = b_account_id b, br_order_count = int (length (audit_orders b L)),
              br_fill_count = int (length (audit_fills b L)),
              br_open_lot_quantity = sum_by l_remaining_quantity (account_lots b L),
              br_cash = ac_cash account, br_realized_pnl = ac_realized_pnl account\<rparr>)))"

end
