(* ===== verification/Reconciliation_Audit.thy ===== *)
theory Reconciliation_Audit
  imports Paper_Reconciliation
begin

text \<open>
  What the audit finds in a reachable ledger. Every order agrees with its stored intent and every fill
  is booked: a purchase by its lot, a sale by its consumptions. So the checks of the audit on intents,
  quantities, sequences, times, states and lots report nothing.
\<close>

section \<open>Booked fills\<close>

definition fill_booked :: "ledger \<Rightarrow> order_intent \<Rightarrow> fill_row \<Rightarrow> bool" where
  "fill_booked L intent row \<longleftrightarrow> (let f = fl_fill row; p = fl_persisted_at row in
     if i_side intent = BUY
     then \<exists>l \<in> set (lg_lots L). l_lot_id l = f_fill_id f \<and> l_original_quantity l = f_quantity f
            \<and> l_entry_signal_id l = i_signal_id intent \<and> l_account_id l = i_account_id intent
            \<and> l_ts_code l = i_ts_code intent \<and> l_persisted_at l = p \<and> l_buy_executed_at l = f_executed_at f
            \<and> l_buy_persisted_at l = p \<and> l_buy_fill_sequence l = f_sequence f
     else sum_by c_quantity (filter (\<lambda>c. c_fill_id c = f_fill_id f) (lg_consumptions L)) = f_quantity f
          \<and> (\<forall>c \<in> set (lg_consumptions L). c_fill_id c = f_fill_id f \<longrightarrow> c_persisted_at c = p
               \<and> (\<exists>l \<in> set (lg_lots L). c_lot_id c = l_lot_id l \<and> Some (l_entry_signal_id l) = i_entry_signal_id intent
                    \<and> l_account_id l = i_account_id intent \<and> l_ts_code l = i_ts_code intent)))"

definition order_audited :: "ledger \<Rightarrow> order_row \<Rightarrow> intent_row \<Rightarrow> bool" where
  "order_audited L r i \<longleftrightarrow> (\<exists>x. ir_payload_json i = Some x \<and> intent_errors (or_order r) i x = []
     \<and> (\<forall>f \<in> set (lg_fills L). f_order_id (fl_fill f) = o_order_id (or_order r) \<longrightarrow> fill_booked L x f))"

definition audit_ok :: "ledger \<Rightarrow> bool" where
  "audit_ok L \<longleftrightarrow> (\<forall>r \<in> set (lg_orders L). \<forall>i \<in> set (lg_intents L).
     ir_intent_id i = o_intent_id (or_order r) \<longrightarrow> order_audited L r i)"

lemma fill_booked_cong:
  "lg_lots L' = lg_lots L \<Longrightarrow> lg_consumptions L' = lg_consumptions L \<Longrightarrow> fill_booked L' = fill_booked L"
  by (intro ext) (simp add: fill_booked_def)

lemma audit_ok_cong:
  assumes "lg_lots L' = lg_lots L" "lg_fills L' = lg_fills L" "lg_orders L' = lg_orders L"
    "lg_consumptions L' = lg_consumptions L" "lg_intents L' = lg_intents L"
  shows "audit_ok L' = audit_ok L"
  using assms fill_booked_cong [OF assms(1,4)] by (simp add: audit_ok_def order_audited_def)

lemma audit_ok_update:
  assumes "audit_ok L" "\<And>x. intent_errors (g x) = intent_errors x" "\<And>x. o_order_id (g x) = o_order_id x"
      "\<And>x. o_intent_id (g x) = o_intent_id x"
    and "lg_orders L' = update_where p (\<lambda>r. r\<lparr>or_order := g (or_order r)\<rparr>) (lg_orders L)"
    and same: "lg_lots L' = lg_lots L" "lg_fills L' = lg_fills L" "lg_consumptions L' = lg_consumptions L"
      "lg_intents L' = lg_intents L"
  shows "audit_ok L'"
  unfolding audit_ok_def
proof (intro ballI impI)
  fix r i assume r: "r \<in> set (lg_orders L')" and i: "i \<in> set (lg_intents L')" "ir_intent_id i = o_intent_id (or_order r)"
  from r obtain r0 where r0: "r0 \<in> set (lg_orders L)" "r = (if p r0 then r0\<lparr>or_order := g (or_order r0)\<rparr> else r0)"
    unfolding assms(5) set_update_where by blast
  then have eq: "o_order_id (or_order r) = o_order_id (or_order r0)" "o_intent_id (or_order r) = o_intent_id (or_order r0)"
      "intent_errors (or_order r) = intent_errors (or_order r0)"
    by (simp_all add: assms(2-4))
  with assms(1) r0(1) i same(4) have "order_audited L r0 i" by (simp add: audit_ok_def)
  then show "order_audited L' r i" by (simp add: order_audited_def eq same(2) fill_booked_cong [OF same(1,3)])
qed

text \<open>A fill is booked by its own rows, and the rows of the others are kept.\<close>

lemma fill_booked_kept:
  assumes fill: "apply_fill b intent fill trade_date available_date p L = Inr ((ld, cd), L')"
    and f: "f \<in> set (lg_fills L)" "fill_booked L x f"
  shows "fill_booked L' x f"
  using fill
proof (cases rule: apply_fill_cases)
  case (buy available fees lot accounts cash realized)
  have "lg_lots L' = lg_lots L @ [lot]" "lg_consumptions L' = lg_consumptions L" by (simp_all add: buy(7))
  then show ?thesis using f(2) by (auto simp: fill_booked_def Let_def split: if_splits)
next
  case (sell new accounts)
  have "f_fill_id fill \<noteq> f_fill_id (fl_fill f)"
    using apply_fill_fill(1) [OF fill] imageI [OF f(1), of "\<lambda>x. f_fill_id (fl_fill x)"] by auto
  then have other: "c_fill_id c \<noteq> f_fill_id (fl_fill f)" if "c \<in> set new" for c using sell(6) that by simp
  then have "filter (\<lambda>c. c_fill_id c = f_fill_id (fl_fill f)) new = []" by (simp add: filter_empty_conv)
  moreover have "lg_lots L' = map (deduct new) (lg_lots L)" "lg_consumptions L' = lg_consumptions L @ new"
    by (simp_all add: sell(4))
  ultimately show ?thesis
    using f(2) other by (auto simp: fill_booked_def Let_def deduct_def split: if_splits)
qed

lemma fill_booked_new:
  assumes fill: "apply_fill b intent fill trade_date available_date p L = Inr ((ld, cd), L')"
    and "settled L" "i_account_id intent = b_account_id b"
  shows "fill_booked L' intent (stored_fill fill p)"
  using fill
proof (cases rule: apply_fill_cases)
  case (buy available fees lot accounts cash realized)
  then show ?thesis using assms(3) by (simp add: fill_booked_def Let_def)
next
  case (sell new accounts)
  have "c_fill_id c \<in> (\<lambda>x. f_fill_id (fl_fill x)) ` set (lg_fills L)" if "c \<in> set (lg_consumptions L)" for c
    using assms(2) that by (force simp: settled_def)
  then have other: "c_fill_id c \<noteq> f_fill_id fill" if "c \<in> set (lg_consumptions L)" for c
    using apply_fill_fill(1) [OF fill] that by metis
  then have "filter (\<lambda>c. c_fill_id c = f_fill_id fill) (lg_consumptions L) = []" by (simp add: filter_empty_conv)
  moreover have "filter (\<lambda>c. c_fill_id c = f_fill_id fill) new = new" using sell(6) by (simp add: filter_id_conv)
  moreover have "lg_lots L' = map (deduct new) (lg_lots L)" "lg_consumptions L' = lg_consumptions L @ new"
    by (simp_all add: sell(4))
  ultimately show ?thesis
    using sell(1,5,9) other assms(3) by (auto simp: fill_booked_def Let_def deduct_def)
qed

lemma apply_fill_audit:
  assumes fill: "apply_fill b intent fill trade_date available_date p L = Inr ((ld, cd), L')"
    and ok: "audit_ok L" "settled L" "i_account_id intent = b_account_id b"
    and own: "\<And>r i. r \<in> set (lg_orders L) \<Longrightarrow> o_order_id (or_order r) = f_order_id fill \<Longrightarrow> i \<in> set (lg_intents L) \<Longrightarrow>
      ir_intent_id i = o_intent_id (or_order r) \<Longrightarrow> ir_payload_json i = Some intent"
  shows "audit_ok L'"
  unfolding audit_ok_def
proof (intro ballI impI)
  note frame = apply_fill_frame [OF fill]
  fix r i assume r: "r \<in> set (lg_orders L')" "i \<in> set (lg_intents L')" "ir_intent_id i = o_intent_id (or_order r)"
  with ok(1) frame(2,3) obtain x where x: "ir_payload_json i = Some x" "intent_errors (or_order r) i x = []"
    and old: "\<And>f. f \<in> set (lg_fills L) \<Longrightarrow> f_order_id (fl_fill f) = o_order_id (or_order r) \<Longrightarrow> fill_booked L x f"
    unfolding audit_ok_def order_audited_def by metis
  have "fill_booked L' x f" if f: "f \<in> set (lg_fills L')" "f_order_id (fl_fill f) = o_order_id (or_order r)" for f
  proof (cases "f \<in> set (lg_fills L)")
    case True
    then show ?thesis using fill_booked_kept [OF fill] old f(2) by blast
  next
    case False
    then have new: "f = stored_fill fill p" using f(1) frame(1) by simp
    then have "x = intent" using own [of r i] r f(2) x(1) frame(2,3) by simp
    then show ?thesis using fill_booked_new [OF fill ok(2,3)] new by simp
  qed
  with x show "order_audited L' r i" by (auto simp: order_audited_def)
qed

section \<open>Every step keeps the ledger audited\<close>

lemma intent_errors_Nil:
  "intent_errors r i x = [] \<longleftrightarrow>
     i_intent_id x = o_intent_id r \<and> i_account_id x = o_account_id r \<and> i_ts_code x = o_ts_code r \<and> i_side x = o_side r
     \<and> i_order_type x = o_order_type r \<and> i_quantity x = o_quantity r \<and> ir_signal_id i = i_signal_id x
     \<and> ir_entry_signal_id i = i_entry_signal_id x \<and> ir_ts_code i = i_ts_code x \<and> ir_side i = i_side x"
  by (auto simp: intent_errors_def err_def)

lemma audit_ok_insert:
  assumes ok: "audit_ok L" "book_ok L" "orders_ok digest (lg_orders L) (lg_fills L)"
    and new: "lg_intents L' = lg_intents L @ [row]" "distinct (map ir_intent_id (lg_intents L'))"
      "lg_orders L' = lg_orders L @ [stored]" "o_order_id (or_order stored) \<notin> (\<lambda>x. o_order_id (or_order x)) ` set (lg_orders L)"
      "ir_intent_id row = o_intent_id (or_order stored)"
      "ir_payload_json row = Some intent" "intent_errors (or_order stored) row intent = []"
    and same: "lg_lots L' = lg_lots L" "lg_fills L' = lg_fills L" "lg_consumptions L' = lg_consumptions L"
  shows "audit_ok L'"
  unfolding audit_ok_def
proof (intro ballI impI)
  fix r i assume r: "r \<in> set (lg_orders L')" and i: "i \<in> set (lg_intents L')" "ir_intent_id i = o_intent_id (or_order r)"
  have fresh: "ir_intent_id row \<notin> ir_intent_id ` set (lg_intents L)" using new(1,2) by simp
  from r new(3) consider (old) "r \<in> set (lg_orders L)" | (stored) "r = stored" by auto
  then show "order_audited L' r i"
  proof cases
    case old
    then obtain j where "j \<in> set (lg_intents L)" "ir_intent_id j = o_intent_id (or_order r)"
      using ok(2) by (auto simp: book_ok_def order_of_intent_def)
    with fresh have "ir_intent_id row \<noteq> o_intent_id (or_order r)" by (metis image_eqI)
    then have "i \<in> set (lg_intents L)" using i new(1) by auto
    with ok(1) old i(2) have "order_audited L r i" by (simp add: audit_ok_def)
    then show ?thesis by (simp add: order_audited_def same(2) fill_booked_cong [OF same(1,3)])
  next
    case stored
    then have "ir_intent_id i = ir_intent_id row" using i(2) new(5) by simp
    with fresh i(1) new(1) have "i = row" by (auto simp: image_iff)
    moreover have "f_order_id (fl_fill f) \<noteq> o_order_id (or_order stored)" if "f \<in> set (lg_fills L)" for f
      using ok(3) new(4) that unfolding orders_ok_def by metis
    ultimately show ?thesis using stored new(6,7) by (simp add: order_audited_def same(2))
  qed
qed

lemma persist_intent_audit:
  assumes persist: "persist_intent digest now b intent execution_id t p trade_date quote costs request L = Inr (r, L')"
    and ok: "ledger_ok digest L" "book_ok L" "audit_ok L" and account: "i_account_id intent = b_account_id b"
  shows "audit_ok L'"
  using persist
proof (cases rule: persist_intent_Inr)
  case (1 row evaluated fill L1 L2 L3 L4 ld cd receipt e)
  define stored where "stored = \<lparr>or_order = r\<lparr>o_average_fill_price := map_option fixed_point (o_average_fill_price r)\<rparr>,
        or_entry_signal_id = i_entry_signal_id intent\<rparr>"
  have ok': "settled L" "orders_ok digest (lg_orders L) (lg_fills L)" "chain_ok L" using ok(1) by (simp_all add: ledger_ok_def)
  have L1: "L1 = L\<lparr>lg_intents := lg_intents L @ [row]\<rparr>" using insert_intent_Inr [OF 1(1)] by simp
  have L2: "L2 = L1\<lparr>lg_orders := lg_orders L @ [stored]\<rparr>"
    and fresh: "o_order_id (or_order stored) \<notin> (\<lambda>x. o_order_id (or_order x)) ` set (lg_orders L)"
    using insert_order_row_Inr [of stored L1 L2] 1(8) by (simp_all add: insert_order_def stored_def L1)
  obtain rr where L4: "L4 = L3\<lparr>lg_receipts := lg_receipts L3 @ [rr]\<rparr>" using 1(11) by (rule insert_execution_receipt_Inr)
  have "chain_ok L4" using ok'(3) chain_state_chain_ok [OF persist_intent_chain [OF 1(1,8,9,11)]] by simp
  note fr = append_frame [OF 1(12) this]
  have order: "o_side r = i_side intent" "o_ts_code r = i_ts_code intent" "o_account_id r = b_account_id b"
      "o_intent_id r = i_intent_id intent" "o_quantity r = i_quantity intent" "o_order_type r = i_order_type intent"
    using 1(6) by (cases rule: evaluate_intent_cases; simp add: 1(7))+
  have intents: "distinct (map ir_intent_id (lg_intents L @ [row]))"
    using intents.ins_distinct [OF 1(1)] ok(2) by (simp add: L1 book_ok_def)
  have "intent_errors (or_order stored) row intent = []"
    using order account 1(13-16) by (simp add: intent_errors_Nil stored_def)
  then have two: "audit_ok L2"
    by (intro audit_ok_insert [OF ok(3,2) ok'(2), where stored = stored and row = row and intent = intent])
       (use intents fresh 1(2,3) order in \<open>simp_all add: L1 L2\<close>, simp add: stored_def)
  have "audit_ok L3" using 1(6)
  proof (cases rule: evaluate_intent_cases)
    case unfilled
    with 1(9) two show ?thesis by simp
  next
    case (filled f)
    from 1(9) have "apply_fill b intent f trade_date (q_acquisition_available_date quote) p L2 = Inr ((ld, cd), L3)"
      by (simp add: filled(1))
    then show ?thesis using two
    proof (rule apply_fill_audit)
      show "settled L2" using ok'(1) settled_cong [of L2 L] by (simp add: L1 L2)
      fix x i assume x: "x \<in> set (lg_orders L2)" "o_order_id (or_order x) = f_order_id f"
        and i: "i \<in> set (lg_intents L2)" "ir_intent_id i = o_intent_id (or_order x)"
      have "o_order_id (or_order x) = o_order_id (or_order stored)" using filled(3) x(2) by (simp add: stored_def 1(7))
      then have "x \<notin> set (lg_orders L)" using fresh by (metis image_eqI)
      then have "x = stored" using x(1) by (simp add: L1 L2)
      then have "ir_intent_id i = ir_intent_id row" using i(2) 1(2) order by (simp add: stored_def)
      then have "i = row" using i(1) intents by (auto simp: L1 L2 image_iff)
      then show "ir_payload_json i = Some intent" using 1(3) by simp
    qed (rule account)
  qed
  then show ?thesis using audit_ok_cong [of L' L3] fr by (simp add: L4)
qed

lemma persist_execution_audit:
  assumes persist: "persist_execution digest now b r intent execution_id sequence t p trade_date quantity quote
      snapshot costs request L = Inr L'"
    and ok: "ledger_ok digest L" "book_ok L" "audit_ok L"
    and row: "find_order b L order_id = Some row" "order_from_row digest row = Inr r"
    and i: "select_one (\<lambda>x. ir_intent_id x = o_intent_id r) (lg_intents L) = Some i"
      "load_intent digest (ir_payload_json i) = Inr intent"
  shows "audit_ok L'"
  using persist
proof (cases rule: persist_execution_Inr)
  case (1 fill ld cd L1 average L2 updated receipt L3 e)
  note rr = order_from_row_Inr(1) [OF row(2)]
  have ok': "settled L" "orders_ok digest (lg_orders L) (lg_fills L)" "chain_ok L" using ok(1) by (simp_all add: ledger_ok_def)
  have member: "row \<in> set (lg_orders L)" "o_account_id r = b_account_id b"
    using select_one_SomeD [OF row(1) [unfolded find_order_def]] rr by simp_all
  have imem: "i \<in> set (lg_intents L)" "ir_intent_id i = o_intent_id r" using select_one_SomeD [OF i(1)] by simp_all
  then have "order_audited L row i" using ok(3) member(1) rr by (simp add: audit_ok_def)
  then obtain x where x: "ir_payload_json i = Some x" "intent_errors (or_order row) i x = []"
    unfolding order_audited_def by blast
  then have "intent = x" using i(2) by (auto dest: load_intent_Inr)
  with x member(2) rr have account: "i_account_id intent = b_account_id b" by (simp add: intent_errors_Nil)
  have "audit_ok L1" using 1(2) ok(3) ok'(1) account
  proof (rule apply_fill_audit)
    fix y j assume y: "y \<in> set (lg_orders L)" "o_order_id (or_order y) = f_order_id fill"
      and j: "j \<in> set (lg_intents L)" "ir_intent_id j = o_intent_id (or_order y)"
    from y have "y = row" using ok'(2) member new_fill_Inr(1) [OF 1(1)] rr by (auto simp: orders_ok_def distinct_map dest: inj_onD)
    moreover have "inj_on ir_intent_id (set (lg_intents L))" using ok(2) by (simp add: book_ok_def distinct_map)
    ultimately have "j = i" using j imem rr by (metis inj_onD)
    then show "ir_payload_json j = Some intent" using x(1) \<open>intent = x\<close> by simp
  qed
  then have "audit_ok L2"
    by (rule audit_ok_update [where g = "\<lambda>x. x\<lparr>o_filled_quantity := o_filled_quantity updated,
          o_average_fill_price := Some (fixed_point average), o_status := o_status updated,
          o_reject_reason := None, o_updated_at := o_updated_at updated\<rparr>"])
       (simp_all add: 1(5) update_order_row_def intent_errors_def fun_eq_iff)
  moreover obtain rc where L3: "L3 = L2\<lparr>lg_receipts := lg_receipts L2 @ [rc]\<rparr>" using 1(7) by (rule insert_execution_receipt_Inr)
  moreover have "chain_ok L3" using ok'(3) chain_state_chain_ok [OF persist_execution_chain [OF 1(2,5,7)]] by simp
  ultimately show ?thesis using audit_ok_cong [of L' L2] append_frame [OF 1(8)] by simp
qed

lemma close_open_order_audit:
  assumes "close_open_order digest now b order_id status t persisted L = Inr (result, L')"
    and ok: "chain_ok L" "audit_ok L"
  shows "audit_ok L'"
  using assms(1)
proof (cases rule: close_open_order_cases)
  case (1 p row r i intent previous n L1 e)
  have "chain_ok L1" using ok(1) chain_state_chain_ok [of L1 L] by (simp add: 1(12) chain_state_writes)
  note fr = append_frame [OF 1(13) this]
  from ok(2) have "audit_ok L1"
    by (rule audit_ok_update [where g = "\<lambda>x. x\<lparr>o_status := status, o_updated_at := max (o_updated_at r) p\<rparr>"])
       (simp_all add: 1(12) update_order_row_def intent_errors_def fun_eq_iff)
  then show ?thesis using audit_ok_cong [of L' L1] fr by simp
qed

lemma broker_step_audit:
  assumes "broker_step digest L L'" and ok: "ledger_ok digest L" "book_ok L" "audit_ok L"
  shows "audit_ok L'"
  using assms(1)
proof (cases rule: broker_step.cases)
  case (open_account account_id initial_cash policy b now)
  from open_account(2) show ?thesis
  proof (cases rule: initialize_account_cases)
    case (opened specs row e)
    let ?L = "L\<lparr>lg_cost_specs := specs, lg_accounts := lg_accounts L @ [row]\<rparr>"
    have "chain_ok ?L" using ok(1) chain_state_chain_ok [of ?L L] by (simp add: ledger_ok_def)
    from append_frame [OF opened(7) this] show ?thesis using ok(3) audit_ok_cong [of L' L] by simp
  qed (use ok(3) in simp)
next
  case (submit now b intent supplied t persisted trade_date quote r)
  then show ?thesis by (rule submit_intent_cases) (use persist_intent_audit [OF _ ok] ok(3) in auto)
next
  case (execute now b order_id execution_id t trade_date quantity quote snapshot persisted result)
  then show ?thesis
  proof (cases rule: apply_execution_cases)
    case (1 p side costs request known)
    from 1(9) show ?thesis
    proof (cases rule: execution_transaction_cases)
      case (applied row r i intent sequence previous)
      show ?thesis by (rule persist_execution_audit [OF applied(12) ok applied(5,6,7,8)])
    qed (use ok(3) in simp)
  qed
next
  case (close now b order_id status t persisted outcome)
  then show ?thesis by (rule close_open_order_audit) (use ok in \<open>simp_all add: ledger_ok_def\<close>)
next
  case (publish now b as_of prices commit view state)
  then show ?thesis
  proof (cases rule: account_authority_snapshot_cases)
    case (published candidate L1 d)
    from published(4) obtain rows where L1: "L1 = L\<lparr>lg_authorities := rows\<rparr>" by (rule upsert_authority_Inr)
    have "chain_ok L1" using ok(1) chain_state_chain_ok [of L1 L] by (simp add: ledger_ok_def L1)
    from append_frame [OF published(6) this] show ?thesis using ok(3) audit_ok_cong [of L' L] by (simp add: L1)
  qed (use ok(3) in simp)
qed

interpretation broker_audit: invariant_system "broker_step digest" "\<lambda>L. ledger_ok digest L \<and> book_ok L \<and> audit_ok L" for digest
  by unfold_locales (auto intro: broker_step_ok broker_step_book broker_step_audit)

lemma fresh_audit_ok: "fresh_ledger L \<Longrightarrow> audit_ok L"
  by (simp add: fresh_ledger_def audit_ok_def)

section \<open>What the audit reads\<close>

lemma filter_key:
  assumes "distinct (map k xs)" "x \<in> set xs"
  shows "filter (\<lambda>y. k y = k x) xs = [x]"
proof -
  obtain y where y: "filter (\<lambda>y. k y = k x) xs = [y]" using filter_unique [OF assms(1)] assms(2) by blast
  moreover have "x \<in> set (filter (\<lambda>y. k y = k x) xs)" using assms(2) by simp
  ultimately show ?thesis by simp
qed

lemma set_audit_orders:
  "(r, i) \<in> set (audit_orders b L) \<longleftrightarrow> r \<in> set (lg_orders L) \<and> o_account_id (or_order r) = b_account_id b
     \<and> i \<in> set (lg_intents L) \<and> ir_intent_id i = o_intent_id (or_order r)"
  by (auto simp: audit_orders_def)

lemma set_audit_fills:
  "(f, r, i) \<in> set (audit_fills b L) \<longleftrightarrow> f \<in> set (lg_fills L) \<and> o_order_id (or_order r) = f_order_id (fl_fill f)
     \<and> (r, i) \<in> set (audit_orders b L)"
  by (auto simp: audit_fills_def account_fills_def audit_orders_def)

lemma map_filter_concat: "map f (filter q (concat (map g xs))) = concat (map (\<lambda>x. map f (filter q (g x))) xs)"
  by (induction xs) simp_all

lemma concat_concat_map: "concat (concat (map g xs)) = concat (map (\<lambda>x. concat (g x)) xs)"
  by (induction xs) simp_all

lemma concat_if_single: "concat (map (\<lambda>x. if q x then [x] else []) xs) = filter q xs"
  by (induction xs) simp_all

lemma rows_of_order_fill_rows:
  assumes ok: "ledger_ok digest L" "book_ok L" and r: "(r, i) \<in> set (audit_orders b L)"
  shows "rows_of_order (audit_fills b L) (o_order_id (or_order r)) = fill_rows (lg_fills L) (o_order_id (or_order r))"
proof -
  let ?id = "o_order_id (or_order r)" and ?k = "\<lambda>x. (f_sequence (fl_fill x), f_fill_id (fl_fill x))"
  define joined where "joined f = concat (map (\<lambda>r. map (\<lambda>i. (f, r, i))
      (filter (\<lambda>i. ir_intent_id i = o_intent_id (or_order r)) (lg_intents L)))
    (filter (\<lambda>r. o_order_id (or_order r) = f_order_id (fl_fill f) \<and> o_account_id (or_order r) = b_account_id b) (lg_orders L)))" for f :: fill_row
  have r': "r \<in> set (lg_orders L)" "o_account_id (or_order r) = b_account_id b" "i \<in> set (lg_intents L)"
    "ir_intent_id i = o_intent_id (or_order r)" using r by (simp_all add: set_audit_orders)
  have orders: "orders_ok digest (lg_orders L) (lg_fills L)" using ok(1) by (simp add: ledger_ok_def)
  have order: "filter (\<lambda>x. o_order_id (or_order x) = ?id \<and> o_account_id (or_order x) = b_account_id b) (lg_orders L) = [r]"
  proof -
    have "filter (\<lambda>x. o_order_id (or_order x) = ?id) (lg_orders L) = [r]"
      using filter_key [of "\<lambda>x. o_order_id (or_order x)" "lg_orders L" r] orders r'(1) by (simp add: orders_ok_def)
    then show ?thesis using r'(2) unfolding filter_filter [symmetric] by simp
  qed
  have intent: "filter (\<lambda>x. ir_intent_id x = o_intent_id (or_order r)) (lg_intents L) = [i]"
    using filter_key [of ir_intent_id "lg_intents L" i] ok(2) r'(3,4) by (simp add: book_ok_def)
  have "map fst (filter (\<lambda>(f, r, i). f_order_id (fl_fill f) = ?id) (joined f))
      = (if f_order_id (fl_fill f) = ?id then [f] else [])" for f
    by (auto simp: joined_def order intent filter_empty_conv)
  then have one: "map fst (filter (\<lambda>(f, r, i). f_order_id (fl_fill f) = ?id) (concat (map joined (lg_fills L))))
      = fill_rows (lg_fills L) ?id"
    by (simp add: map_filter_concat concat_if_single fill_rows_def)
  have join: "audit_fills b L = sort_key (\<lambda>(f, r, i). f_fill_id (fl_fill f)) (concat (map joined (lg_fills L)))"
    by (simp add: audit_fills_def account_fills_def joined_def [abs_def] map_concat comp_def concat_concat_map)
  have seq: "map (\<lambda>x. f_sequence (fl_fill x)) (fill_rows (lg_fills L) ?id) = map int [1..<Suc (length (fill_rows (lg_fills L) ?id))]"
    using orders r'(1) by (simp add: orders_ok_def timeline_ok_def)
  then have "inj_on (\<lambda>x. f_sequence (fl_fill x)) (set (fill_rows (lg_fills L) ?id))"
    by (metis distinct_map distinct_upt inj_on_of_nat)
  then have inj: "inj_on ?k (set (fill_rows (lg_fills L) ?id))" by (auto simp: inj_on_def)
  have perm: "mset (map fst (filter (\<lambda>(f, r, i). f_order_id (fl_fill f) = ?id) (audit_fills b L))) = mset (fill_rows (lg_fills L) ?id)"
    unfolding one [symmetric] join by (simp add: mset_filter)
  have "rows_of_order (audit_fills b L) ?id = sort_key ?k (fill_rows (lg_fills L) ?id)"
    unfolding rows_of_order_def by (rule sort_key_inj_key_eq) (use perm inj mset_eq_setD [OF perm] in simp_all)
  then show ?thesis using order_fills_sorted [OF seq] by (simp add: order_fills_def fill_rows_def)
qed

lemma timeline_no_errors:
  "check_timeline (o_order_id r) (o_updated_at r) previous rows = Inr q \<Longrightarrow> fill_time_errors r previous rows = []"
  by (induction rows arbitrary: previous) (auto simp: Let_def err_def elim!: rbind_InrE split: if_splits)

lemma status_no_errors: "order_ok digest r \<Longrightarrow> status_errors r (o_filled_quantity r) = []"
  by (cases "o_status r") (auto simp: status_errors_def err_def order_ok_def order_status_checks_def non_negative_lot_def)

lemma order_rows_no_errors:
  assumes "ledger_ok digest L" "book_ok L" "(r, i) \<in> set (audit_orders b L)"
    and rows: "rows = rows_of_order (audit_fills b L) (o_order_id (or_order r))"
  shows "fill_quantity_errors (or_order r) rows = []" "fill_time_errors (or_order r) None rows = []"
    "status_errors (or_order r) (sum_by (\<lambda>x. f_quantity (fl_fill x)) rows) = []"
proof -
  have "r \<in> set (lg_orders L)" using assms(3) by (simp add: set_audit_orders)
  then have ok: "order_ok digest (or_order r)" "timeline_ok rows (or_order r)"
    using assms(1) unfolding rows rows_of_order_fill_rows [OF assms(1-3)] by (simp_all add: ledger_ok_def orders_ok_def)
  then show "fill_quantity_errors (or_order r) rows = []" by (simp add: timeline_ok_def fill_quantity_errors_def err_def)
  from ok(2) show "fill_time_errors (or_order r) None rows = []" unfolding timeline_ok_def by (blast intro: timeline_no_errors)
  from ok status_no_errors show "status_errors (or_order r) (sum_by (\<lambda>x. f_quantity (fl_fill x)) rows) = []"
    by (simp add: timeline_ok_def)
qed

lemma lots_no_errors: "lots_ok L \<Longrightarrow> lot_errors b L = []"
  by (auto simp: lot_errors_def account_lots_def err_def lots_ok_def taken_from_def)

section \<open>What the audit recomputes of a fill\<close>

lemma buy_no_errors:
  assumes "lots_ok L" "fill_booked L x f" "i_side x = BUY"
  shows "buy_lot_errors L x (fl_fill f) (fl_persisted_at f) = []"
proof -
  from assms(2,3) obtain l where l: "l \<in> set (lg_lots L)" "l_lot_id l = f_fill_id (fl_fill f)"
      "l_original_quantity l = f_quantity (fl_fill f)" "l_entry_signal_id l = i_signal_id x"
      "l_account_id l = i_account_id x" "l_ts_code l = i_ts_code x" "l_persisted_at l = fl_persisted_at f"
      "l_buy_executed_at l = f_executed_at (fl_fill f)" "l_buy_persisted_at l = fl_persisted_at f"
      "l_buy_fill_sequence l = f_sequence (fl_fill f)"
    by (auto simp: fill_booked_def Let_def)
  have "select_one (\<lambda>x. l_lot_id x = f_fill_id (fl_fill f)) (lg_lots L) = Some l"
    using select_one_unique [of l_lot_id "lg_lots L" l] assms(1) l(1,2) by (simp add: lots_ok_def)
  with l(3-) show ?thesis by (simp add: buy_lot_errors_def err_def)
qed

lemma sum_by_sort: "sum_by f (sort_key k xs) = sum_by f xs"
proof -
  have "sum_by f ys = sum_mset (image_mset f (mset ys))" for ys by (induction ys) simp_all
  then show ?thesis by simp
qed

lemma sum_allocations:
  assumes "lots_ok L"
  shows "sum_by (\<lambda>(c, l). c_quantity c) (allocations L i) = sum_by c_quantity (filter (\<lambda>c. c_fill_id c = i) (lg_consumptions L))"
proof -
  let ?pairs = "\<lambda>c. map (\<lambda>l. (c, l)) (filter (\<lambda>l. l_lot_id l = c_lot_id c) (lg_lots L))"
  have each: "sum_by (\<lambda>(c, l). c_quantity c) (concat (map ?pairs cs)) = sum_by c_quantity cs"
    if "set cs \<subseteq> set (lg_consumptions L)" for cs
    using that
  proof (induction cs)
    case (Cons c cs)
    then obtain l where l: "l \<in> set (lg_lots L)" "c_lot_id c = l_lot_id l" using assms by (auto simp: lots_ok_def)
    have "filter (\<lambda>l. l_lot_id l = c_lot_id c) (lg_lots L) = [l]"
      using filter_key [of l_lot_id "lg_lots L" l] assms l by (simp add: lots_ok_def)
    with Cons show ?case by simp
  qed simp
  then show ?thesis unfolding allocations_def by (subst each) (auto simp: sum_by_sort)
qed

lemma sell_no_errors:
  assumes "lots_ok L" "fill_booked L x f" "i_side x \<noteq> BUY"
  shows "allocation_errors L (fl_fill f) = []" "consumption_errors L x (fl_fill f) (fl_persisted_at f) = []"
proof -
  let ?id = "f_fill_id (fl_fill f)"
  from assms(2,3) have sum: "sum_by c_quantity (filter (\<lambda>c. c_fill_id c = ?id) (lg_consumptions L)) = f_quantity (fl_fill f)"
    and each: "\<And>c. c \<in> set (lg_consumptions L) \<Longrightarrow> c_fill_id c = ?id \<Longrightarrow> c_persisted_at c = fl_persisted_at f
       \<and> (\<exists>l \<in> set (lg_lots L). c_lot_id c = l_lot_id l \<and> Some (l_entry_signal_id l) = i_entry_signal_id x
            \<and> l_account_id l = i_account_id x \<and> l_ts_code l = i_ts_code x)"
    by (simp_all add: fill_booked_def Let_def)
  from sum show "allocation_errors L (fl_fill f) = []" by (simp add: allocation_errors_def err_def sum_allocations [OF assms(1)])
  have "c_persisted_at c = fl_persisted_at f \<and> Some (l_entry_signal_id l) = i_entry_signal_id x
      \<and> l_account_id l = i_account_id x \<and> l_ts_code l = i_ts_code x" if "(c, l) \<in> set (allocations L ?id)" for c l
  proof -
    from that have c: "c \<in> set (lg_consumptions L)" "c_fill_id c = ?id" "l \<in> set (lg_lots L)" "l_lot_id l = c_lot_id c"
      by (auto simp: allocations_def)
    from each [OF c(1,2)] obtain m where m: "m \<in> set (lg_lots L)" "c_lot_id c = l_lot_id m"
      "Some (l_entry_signal_id m) = i_entry_signal_id x" "l_account_id m = i_account_id x" "l_ts_code m = i_ts_code x" by blast
    have "m = l" using assms(1) m(1,2) c(3,4) by (auto simp: lots_ok_def distinct_map dest: inj_onD)
    with m each [OF c(1,2)] show ?thesis by simp
  qed
  then show "consumption_errors L x (fl_fill f) (fl_persisted_at f) = []"
    by (auto simp: consumption_errors_def err_def)
qed

section \<open>Audited orders and fills\<close>

lemma audited_order:
  assumes "audit_ok L" "(r, i) \<in> set (audit_orders b L)"
  shows "\<exists>x. ir_payload_json i = Some x \<and> intent_errors (or_order r) i x = []"
  using assms unfolding set_audit_orders audit_ok_def order_audited_def by blast

lemma audited_fill:
  assumes "lots_ok L" "audit_ok L" "(f, r, i) \<in> set (audit_fills b L)"
  shows "\<exists>x. ir_payload_json i = Some x \<and>
    (if o_side (or_order r) = BUY then buy_lot_errors L x (fl_fill f) (fl_persisted_at f) = []
     else allocation_errors L (fl_fill f) = [] \<and> consumption_errors L x (fl_fill f) (fl_persisted_at f) = [])"
proof -
  from assms(3) have f: "f \<in> set (lg_fills L)" "o_order_id (or_order r) = f_order_id (fl_fill f)"
    and "r \<in> set (lg_orders L)" "i \<in> set (lg_intents L)" "ir_intent_id i = o_intent_id (or_order r)"
    by (simp_all add: set_audit_fills set_audit_orders)
  then have "order_audited L r i" using assms(2) by (simp add: audit_ok_def)
  then obtain x where x: "ir_payload_json i = Some x" "i_side x = o_side (or_order r)" "fill_booked L x f"
    using f by (auto simp: order_audited_def intent_errors_Nil)
  then show ?thesis using buy_no_errors [OF assms(1) x(3)] sell_no_errors [OF assms(1) x(3)] by auto
qed

lemma audit_covers_orders:
  assumes "book_ok L" "r \<in> set (lg_orders L)" "o_account_id (or_order r) = b_account_id b"
  shows "\<exists>i. (r, i) \<in> set (audit_orders b L)"
  using assms by (auto simp: book_ok_def order_of_intent_def set_audit_orders)

end
