(* ===== verification/Resource_Admission.thy ===== *)
theory Resource_Admission
  imports Cost_Spec
begin

text \<open>
  Admission of research work next to the live system: \<open>resource_admission.py\<close>. A shard's cost is
  estimated from its work plan, and a request is admitted, deferred or rejected against a snapshot of
  the machine, a policy and, for work that calls a data source, a quota lease. Percentages are compared
  only, so a float is the rational number it denotes; a duration given in seconds enters as the decimal
  that \<open>Decimal(str(value))\<close> reads.
\<close>

section \<open>Sessions, outcomes and bounds\<close>

datatype trading_session = PRE_MARKET | MORNING | LUNCH | AFTERNOON | POST_MARKET | SESSION_CLOSED
datatype admission_outcome = ADMITTED | DEFERRED | ADMISSION_REJECTED
datatype resource_class = INTERACTIVE | STANDARD | HEAVY

definition live_sessions :: "trading_session list" where
  "live_sessions = [PRE_MARKET, MORNING, LUNCH, AFTERNOON]"

definition microseconds_per_second :: int where
  "microseconds_per_second = 1000000"

definition max_resource_count :: int where
  "max_resource_count = 2 ^ 63 - 1"

definition max_admission_duration_ms :: int where
  "max_admission_duration_ms = 2592000000"

definition max_admission_retry_seconds :: int where
  "max_admission_retry_seconds = 86400"

text \<open>\<open>datetime.max\<close> less the longest retry delay.\<close>

definition max_safe_resource_observed_at :: utc where
  "max_safe_resource_observed_at = 253402300799999999 - max_admission_retry_seconds * microseconds_per_second"

definition bounded :: "int \<Rightarrow> int \<Rightarrow> int \<Rightarrow> bool" where
  "bounded low high n \<longleftrightarrow> low \<le> n \<and> n \<le> high"

section \<open>Durations\<close>

datatype duration_input = NotANumber | Seconds decimal

text \<open>\<open>int(scaled.to_integral_value(rounding=ROUND_HALF_UP))\<close> of a non-negative decimal.\<close>

definition to_integral_half_up :: "decimal \<Rightarrow> int" where
  "to_integral_half_up d =
     (if 0 \<le> dexp d then signed (dsign d) (dcoeff d) * 10 ^ nat (dexp d)
      else signed (dsign d) (round_half_up (dcoeff d) (nat (- dexp d))))"

definition seconds_to_microseconds :: "duration_input \<Rightarrow> string \<Rightarrow> exn + int" where
  "seconds_to_microseconds value label =
     (case value of
        NotANumber \<Rightarrow> Inl (ValueError (label @ '' must be a finite non-negative duration''))
      | Seconds seconds \<Rightarrow>
          if dlt seconds dzero then Inl (ValueError (label @ '' must be a finite non-negative duration''))
          else
            let scaled = dmul seconds (dof_int microseconds_per_second) in
            if dlt (dof_int max_resource_count) scaled
            then Inl (ValueError (label @ '' exceeds the supported duration range''))
            else Inr (to_integral_half_up scaled))"

section \<open>Snapshots and quota leases\<close>

record resource_snapshot =
  rs_observed_at :: utc
  rs_session :: trading_session
  rs_live_slo_applicable :: bool
  rs_live_backlog_age_microseconds :: int
  rs_live_p95_latency_microseconds :: int
  rs_available_memory_bytes :: int
  rs_available_disk_bytes :: int
  rs_io_pressure_pct :: rat
  rs_cpu_load_pct :: rat
  rs_source_quota_remaining :: int
  rs_live_healthy :: bool

text \<open>A missing \<open>live_slo_applicable\<close> is derived from the session, a wrong one is refused.\<close>

definition make_resource_snapshot :: "bool option \<Rightarrow> resource_snapshot \<Rightarrow> exn + resource_snapshot" where
  "make_resource_snapshot supplied s =
     (let live = (rs_session s \<in> set live_sessions);
          applicable = (case supplied of None \<Rightarrow> live | Some b \<Rightarrow> b) in
      raise_first
        [(max_safe_resource_observed_at < rs_observed_at s,
          ValueError ''observed_at is outside the safe admission arithmetic range''),
         (\<not> list_all (bounded 0 max_resource_count)
             [rs_live_backlog_age_microseconds s, rs_live_p95_latency_microseconds s, rs_available_memory_bytes s,
              rs_available_disk_bytes s, rs_source_quota_remaining s],
          ValueError ''resource snapshot field is out of range''),
         (\<not> list_all (\<lambda>x. 0 \<le> x \<and> x \<le> 100) [rs_io_pressure_pct s, rs_cpu_load_pct s],
          ValueError ''resource snapshot percentage is out of range''),
         (applicable \<noteq> live, ValueError ''live_slo_applicable must match the trading session'')]
        (s\<lparr>rs_live_slo_applicable := applicable\<rparr>))"

record source_quota_lease =
  sq_lease_id :: string
  sq_source :: string
  sq_owner :: string
  sq_units :: int
  sq_granted_at :: utc
  sq_expires_at :: utc
  sq_quota_reset_at :: utc
  sq_released_at :: "utc option"

definition lease_identity_payload :: "source_quota_lease \<Rightarrow> pyval" where
  "lease_identity_payload l = PDict
     [(''source'', PStr (sq_source l)), (''owner'', PStr (sq_owner l)), (''units'', PInt (sq_units l)),
      (''granted_at'', PDatetime (sq_granted_at l)), (''expires_at'', PDatetime (sq_expires_at l)),
      (''quota_reset_at'', PDatetime (sq_quota_reset_at l))]"

text \<open>
  The model strips its texts; the empty identity asks for the canonical one, any other must be it.
\<close>

definition make_source_quota_lease :: "digest \<Rightarrow> source_quota_lease \<Rightarrow> exn + source_quota_lease" where
  "make_source_quota_lease digest raw =
     (let l = raw\<lparr>sq_lease_id := py_strip (sq_lease_id raw), sq_source := py_strip (sq_source raw),
                  sq_owner := py_strip (sq_owner raw)\<rparr>;
          expected_id = canonical_sha256 digest (lease_identity_payload l) in
      raise_first
        [(sq_source l = [] \<or> sq_owner l = [], ValueError ''source and owner must be nonempty''),
         (\<not> bounded 1 max_resource_count (sq_units l), ValueError ''units is out of range''),
         (sq_expires_at l \<le> sq_granted_at l, ValueError ''expires_at must follow granted_at''),
         (sq_quota_reset_at l < sq_expires_at l, ValueError ''quota_reset_at cannot precede expires_at''),
         (\<not> opt_all (\<lambda>r. sq_granted_at l \<le> r) (sq_released_at l),
          ValueError ''released_at cannot precede granted_at''),
         (sq_lease_id l \<noteq> [] \<and> sq_lease_id l \<noteq> expected_id,
          ValueError ''lease_id does not match canonical lease content'')]
        (l\<lparr>sq_lease_id := expected_id\<rparr>))"

section \<open>Source usage and reservations\<close>

record adapter_source_usage =
  us_adapter_id :: string
  us_external :: bool
  us_immutable_snapshot :: bool
  us_source :: "string option"
  us_expected_calls :: int
  us_actual_calls :: int
  us_quota_lease :: "source_quota_lease option"

definition validate_source_usage :: "adapter_source_usage \<Rightarrow> exn + adapter_source_usage" where
  "validate_source_usage u =
     (if \<not> bounded 0 max_resource_count (us_expected_calls u) \<or> \<not> bounded 0 max_resource_count (us_actual_calls u)
      then Inl (ValueError ''source calls are out of range'')
      else if us_expected_calls u < us_actual_calls u
      then Inl (ValueError ''actual source calls exceed the declared estimate'')
      else if us_external u
      then (if us_immutable_snapshot u
            then Inl (ValueError ''external adapter cannot claim an immutable local snapshot'')
            else case (us_source u, us_quota_lease u) of
              (Some source, Some lease) \<Rightarrow>
                raise_first
                  [(us_expected_calls u = 0, ValueError ''external adapter requires source, calls, and quota lease''),
                   (sq_source lease \<noteq> source, ValueError ''external adapter quota lease source conflicts''),
                   (sq_units lease < us_expected_calls u,
                    ValueError ''external adapter quota lease is below declared calls'')] u
            | _ \<Rightarrow> Inl (ValueError ''external adapter requires source, calls, and quota lease''))
      else if \<not> us_immutable_snapshot u \<or> us_source u \<noteq> None \<or> us_expected_calls u \<noteq> 0
              \<or> us_actual_calls u \<noteq> 0 \<or> us_quota_lease u \<noteq> None
      then Inl (ValueError ''zero quota is reserved for immutable local snapshot adapters'')
      else Inr u)"

definition require_research_adapter_source_usage ::
  "string \<Rightarrow> adapter_source_usage option \<Rightarrow> exn + adapter_source_usage" where
  "require_research_adapter_source_usage adapter_id usage =
     (case usage of
        None \<Rightarrow> Inl (ValueError ''research adapter source usage is required'')
      | Some u \<Rightarrow>
          if us_adapter_id u \<noteq> adapter_id
          then Inl (ValueError ''research adapter source usage identity conflicts'') else Inr u)"

text \<open>One reservation per execution attempt: the identity of the lease is the digest of the attempt.\<close>

record reservation_identity =
  ri_job_id :: string
  ri_run_id :: string
  ri_shard_id :: string
  ri_attempt_id :: string
  ri_claim_generation :: int
  ri_scheduler_fencing_token :: int
  ri_worker_id :: string

record resource_reservation_lease =
  rl_lease_id :: string
  rl_identity :: reservation_identity
  rl_request_hash :: string
  rl_expected_memory_bytes :: int
  rl_expected_disk_bytes :: int
  rl_expected_quota_units :: int
  rl_granted_at :: utc
  rl_expires_at :: utc

definition reservation_identity_dump :: "reservation_identity \<Rightarrow> pyval" where
  "reservation_identity_dump i = PDict
     [(''job_id'', PUuid (ri_job_id i)), (''run_id'', PStr (ri_run_id i)), (''shard_id'', PUuid (ri_shard_id i)),
      (''attempt_id'', PUuid (ri_attempt_id i)), (''claim_generation'', PInt (ri_claim_generation i)),
      (''scheduler_fencing_token'', PInt (ri_scheduler_fencing_token i)), (''worker_id'', PStr (ri_worker_id i))]"

definition make_reservation_identity :: "reservation_identity \<Rightarrow> exn + reservation_identity" where
  "make_reservation_identity raw =
     (let i = raw\<lparr>ri_run_id := py_strip (ri_run_id raw), ri_worker_id := py_strip (ri_worker_id raw)\<rparr> in
      raise_first
        [(\<not> is_sha256 (ri_run_id i), ValueError ''run_id must be a digest''),
         (\<not> bounded 1 max_resource_count (ri_claim_generation i)
          \<or> \<not> bounded 1 max_resource_count (ri_scheduler_fencing_token i), ValueError ''generation or token is out of range''),
         (ri_worker_id i = [] \<or> 200 < length (ri_worker_id i), ValueError ''worker_id length is out of range'')] i)"

definition make_reservation_lease :: "digest \<Rightarrow> resource_reservation_lease \<Rightarrow> exn + resource_reservation_lease" where
  "make_reservation_lease digest raw =
     rbind (make_reservation_identity (rl_identity raw)) (\<lambda>identity.
     let l = raw\<lparr>rl_lease_id := py_strip (rl_lease_id raw), rl_identity := identity,
                 rl_request_hash := py_strip (rl_request_hash raw)\<rparr>;
         expected_id = canonical_sha256 digest (reservation_identity_dump identity) in
     raise_first
       [(\<not> is_sha256 (rl_request_hash l), ValueError ''request_hash must be a digest''),
        (\<not> list_all (bounded 0 max_resource_count)
            [rl_expected_memory_bytes l, rl_expected_disk_bytes l, rl_expected_quota_units l],
         ValueError ''reservation cost is out of range''),
        (rl_expires_at l \<le> rl_granted_at l, ValueError ''expires_at must follow granted_at''),
        (rl_lease_id l \<noteq> [] \<and> rl_lease_id l \<noteq> expected_id, ValueError ''lease_id does not match reservation identity'')]
       (l\<lparr>rl_lease_id := expected_id\<rparr>))"

section \<open>Policies and cost profiles\<close>

record admission_policy =
  ap_allow_live_session :: bool
  ap_max_live_shard_duration_ms :: int
  ap_max_snapshot_age_microseconds :: int
  ap_max_live_backlog_age_microseconds :: int
  ap_max_live_p95_latency_microseconds :: int
  ap_min_available_memory_bytes :: int
  ap_min_available_disk_bytes :: int
  ap_max_io_pressure_pct :: rat
  ap_max_cpu_load_pct :: rat
  ap_max_expected_memory_bytes :: int
  ap_max_expected_disk_bytes :: int
  ap_max_expected_quota_units :: int
  ap_retry_delay_seconds :: int

definition make_admission_policy :: "admission_policy \<Rightarrow> exn + admission_policy" where
  "make_admission_policy p =
     raise_first
       [(\<not> bounded 1 max_admission_duration_ms (ap_max_live_shard_duration_ms p),
         ValueError ''max_live_shard_duration_ms is out of range''),
        (\<not> bounded 1 max_resource_count (ap_max_snapshot_age_microseconds p),
         ValueError ''max_snapshot_age_microseconds is out of range''),
        (\<not> list_all (bounded 0 max_resource_count)
            [ap_max_live_backlog_age_microseconds p, ap_max_live_p95_latency_microseconds p,
             ap_min_available_memory_bytes p, ap_min_available_disk_bytes p, ap_max_expected_memory_bytes p,
             ap_max_expected_disk_bytes p, ap_max_expected_quota_units p],
         ValueError ''admission policy field is out of range''),
        (\<not> list_all (\<lambda>x. 0 \<le> x \<and> x \<le> 100) [ap_max_io_pressure_pct p, ap_max_cpu_load_pct p],
         ValueError ''admission policy percentage is out of range''),
        (\<not> bounded 1 max_admission_retry_seconds (ap_retry_delay_seconds p),
         ValueError ''retry_delay_seconds is out of range'')] p"

record admission_cost_profile =
  pf_base_memory_bytes :: int
  pf_memory_bytes_per_work_step :: int
  pf_work_units_per_step :: int
  pf_memory_bytes_per_duration_step :: int
  pf_duration_ms_per_step :: int
  pf_max_memory_bytes :: int
  pf_base_disk_bytes :: int
  pf_disk_bytes_per_work_step :: int
  pf_disk_bytes_per_duration_step :: int
  pf_max_disk_bytes :: int
  pf_preemptible :: bool

definition mib :: int where "mib = 1024 ^ 2"

definition gib :: int where "gib = 1024 ^ 3"

definition lab_admission_cost_profiles :: "resource_class \<Rightarrow> admission_cost_profile" where
  "lab_admission_cost_profiles c = (case c of
     INTERACTIVE \<Rightarrow>
       \<lparr>pf_base_memory_bytes = 256 * mib, pf_memory_bytes_per_work_step = 64 * mib, pf_work_units_per_step = 500,
        pf_memory_bytes_per_duration_step = 32 * mib, pf_duration_ms_per_step = 15 * 60 * 1000,
        pf_max_memory_bytes = 1536 * mib, pf_base_disk_bytes = 128 * mib, pf_disk_bytes_per_work_step = 32 * mib,
        pf_disk_bytes_per_duration_step = 64 * mib, pf_max_disk_bytes = 4 * gib, pf_preemptible = True\<rparr>
   | STANDARD \<Rightarrow>
       \<lparr>pf_base_memory_bytes = 512 * mib, pf_memory_bytes_per_work_step = 64 * mib, pf_work_units_per_step = 1000,
        pf_memory_bytes_per_duration_step = 64 * mib, pf_duration_ms_per_step = 60 * 60 * 1000,
        pf_max_memory_bytes = 4 * gib, pf_base_disk_bytes = 256 * mib, pf_disk_bytes_per_work_step = 64 * mib,
        pf_disk_bytes_per_duration_step = 256 * mib, pf_max_disk_bytes = 16 * gib, pf_preemptible = True\<rparr>
   | HEAVY \<Rightarrow>
       \<lparr>pf_base_memory_bytes = 1 * gib, pf_memory_bytes_per_work_step = 128 * mib, pf_work_units_per_step = 5000,
        pf_memory_bytes_per_duration_step = 128 * mib, pf_duration_ms_per_step = 6 * 60 * 60 * 1000,
        pf_max_memory_bytes = 8 * gib, pf_base_disk_bytes = 512 * mib, pf_disk_bytes_per_work_step = 256 * mib,
        pf_disk_bytes_per_duration_step = 1 * gib, pf_max_disk_bytes = 64 * gib, pf_preemptible = False\<rparr>)"

definition ceil_div :: "int \<Rightarrow> int \<Rightarrow> int" where
  "ceil_div value divisor = (value + divisor - 1) div divisor"

section \<open>Requests\<close>

record admission_request =
  rq_job_id :: string
  rq_resource_class :: resource_class
  rq_expected_memory_bytes :: int
  rq_expected_disk_bytes :: int
  rq_expected_quota_units :: int
  rq_expected_duration_ms :: int
  rq_source :: "string option"
  rq_preemptible :: bool
  rq_read_only :: bool
  rq_deadline :: utc

definition make_admission_request :: "admission_request \<Rightarrow> exn + admission_request" where
  "make_admission_request raw =
     (let r = raw\<lparr>rq_job_id := py_strip (rq_job_id raw), rq_source := map_option py_strip (rq_source raw)\<rparr> in
      raise_first
        [(rq_job_id r = [] \<or> rq_source r = Some [], ValueError ''job_id and source must be nonempty''),
         (\<not> list_all (bounded 0 max_resource_count)
             [rq_expected_memory_bytes r, rq_expected_disk_bytes r, rq_expected_quota_units r],
          ValueError ''admission request cost is out of range''),
         (\<not> bounded 1 max_admission_duration_ms (rq_expected_duration_ms r),
          ValueError ''expected_duration_ms is out of range''),
         (0 < rq_expected_quota_units r \<and> rq_source r = None,
          ValueError ''source is required when expected_quota_units is positive'')] r)"

definition expected_memory :: "admission_cost_profile \<Rightarrow> int \<Rightarrow> int \<Rightarrow> int" where
  "expected_memory profile work_steps duration_steps = min (pf_max_memory_bytes profile)
     (pf_base_memory_bytes profile + work_steps * pf_memory_bytes_per_work_step profile
      + duration_steps * pf_memory_bytes_per_duration_step profile)"

definition expected_disk :: "admission_cost_profile \<Rightarrow> int \<Rightarrow> int \<Rightarrow> int" where
  "expected_disk profile work_steps duration_steps = min (pf_max_disk_bytes profile)
     (pf_base_disk_bytes profile + work_steps * pf_disk_bytes_per_work_step profile
      + duration_steps * pf_disk_bytes_per_duration_step profile)"

text \<open>
  The estimate of one shard. A run specification enters through its resource class and deadline, a
  work plan through its work units and static duration, both within \<open>1 .. 2\<^sup>6\<^sup>3 - 1\<close>.
\<close>

definition derive_lab_admission_request ::
  "string \<Rightarrow> resource_class \<Rightarrow> utc \<Rightarrow> (int \<times> int) option \<Rightarrow> exn + admission_request" where
  "derive_lab_admission_request job_id resource_class deadline work_plan =
     (case work_plan of
        None \<Rightarrow> Inl (ValueError ''resource admission requires an explicit shard work plan'')
      | Some (work_units, static_duration_ms) \<Rightarrow>
          if \<not> bounded 1 max_resource_count work_units \<or> \<not> bounded 1 max_resource_count static_duration_ms
          then Inl (ValueError ''work plan is out of range'')
          else
            let profile = lab_admission_cost_profiles resource_class;
                work_steps = ceil_div work_units (pf_work_units_per_step profile);
                duration_steps = ceil_div static_duration_ms (pf_duration_ms_per_step profile)
            in make_admission_request
              \<lparr>rq_job_id = job_id, rq_resource_class = resource_class,
               rq_expected_memory_bytes = expected_memory profile work_steps duration_steps,
               rq_expected_disk_bytes = expected_disk profile work_steps duration_steps, rq_expected_quota_units = 0,
               rq_expected_duration_ms = static_duration_ms, rq_source = None,
               rq_preemptible = pf_preemptible profile, rq_read_only = True, rq_deadline = deadline\<rparr>)"

section \<open>Decisions\<close>

record admission_decision =
  dc_outcome :: admission_outcome
  dc_reason_codes :: "string list"
  dc_observed_at :: utc
  dc_retry_at :: "utc option"
  dc_quota_lease :: "source_quota_lease option"

definition make_admission_decision :: "admission_decision \<Rightarrow> exn + admission_decision" where
  "make_admission_decision d =
     raise_first
       [([] \<in> set (dc_reason_codes d), ValueError ''reason_codes cannot contain empty values''),
        (\<not> distinct (dc_reason_codes d), ValueError ''reason_codes must be unique''),
        (\<not> opt_all (\<lambda>t. dc_observed_at d < t) (dc_retry_at d), ValueError ''retry_at must follow observed_at''),
        (dc_outcome d = ADMITTED \<and> (dc_reason_codes d \<noteq> [] \<or> dc_retry_at d \<noteq> None),
         ValueError ''admitted decision cannot have reasons or retry_at''),
        (dc_outcome d = DEFERRED \<and> dc_reason_codes d = [], ValueError ''deferred decision requires reasons''),
        (dc_outcome d = DEFERRED \<and> dc_retry_at d = None, ValueError ''deferred decision requires retry_at''),
        (dc_outcome d = ADMISSION_REJECTED \<and> dc_reason_codes d = [], ValueError ''rejected decision requires reasons''),
        (dc_outcome d = ADMISSION_REJECTED \<and> dc_retry_at d \<noteq> None,
         ValueError ''rejected decision cannot have retry_at'')]
       (d\<lparr>dc_reason_codes := sort (dc_reason_codes d)\<rparr>)"

definition session_reasons :: "admission_request \<Rightarrow> resource_snapshot \<Rightarrow> admission_policy \<Rightarrow> string list" where
  "session_reasons r s p =
     (if rs_session s \<notin> set live_sessions then []
      else if \<not> ap_allow_live_session p then [''live_session_blocked'']
      else if \<not> rq_preemptible r then [''non_preemptible_live_session'']
      else if ap_max_live_shard_duration_ms p < rq_expected_duration_ms r then [''live_duration_exceeded'']
      else [])"

definition when_all :: "(bool \<times> string) list \<Rightarrow> string list" where
  "when_all cs = map snd (filter fst cs)"

definition machine_reasons :: "admission_request \<Rightarrow> resource_snapshot \<Rightarrow> admission_policy \<Rightarrow> string list" where
  "machine_reasons r s p = when_all
     [(rs_live_slo_applicable s \<and> \<not> rs_live_healthy s, ''live_unhealthy''),
      (rs_live_slo_applicable s \<and> ap_max_live_backlog_age_microseconds p < rs_live_backlog_age_microseconds s,
       ''live_backlog_stale''),
      (rs_live_slo_applicable s \<and> ap_max_live_p95_latency_microseconds p < rs_live_p95_latency_microseconds s,
       ''live_latency_high''),
      (ap_max_io_pressure_pct p < rs_io_pressure_pct s, ''io_pressure_high''),
      (ap_max_cpu_load_pct p < rs_cpu_load_pct s, ''cpu_load_high''),
      (ap_max_expected_memory_bytes p < rq_expected_memory_bytes r, ''expected_memory_cost_exceeded''),
      (ap_max_expected_disk_bytes p < rq_expected_disk_bytes r, ''expected_disk_cost_exceeded''),
      (ap_max_expected_quota_units p < rq_expected_quota_units r, ''expected_quota_cost_exceeded''),
      (rs_available_memory_bytes s - rq_expected_memory_bytes r < ap_min_available_memory_bytes p, ''insufficient_memory''),
      (rs_available_disk_bytes s - rq_expected_disk_bytes r < ap_min_available_disk_bytes p, ''insufficient_disk''),
      (rs_source_quota_remaining s < rq_expected_quota_units r, ''insufficient_source_quota''),
      (rq_deadline r \<le> rs_observed_at s, ''deadline_expired''),
      (rs_observed_at s < rq_deadline r
       \<and> rq_deadline r - rs_observed_at s < rq_expected_duration_ms r * 1000, ''deadline_insufficient'')]"

definition lease_reasons :: "admission_request \<Rightarrow> resource_snapshot \<Rightarrow> source_quota_lease option \<Rightarrow> string list" where
  "lease_reasons r s lease =
     (if rq_expected_quota_units r \<le> 0 then []
      else case lease of
        None \<Rightarrow> [''quota_lease_missing'']
      | Some l \<Rightarrow>
          if sq_owner l \<noteq> rq_job_id r then [''quota_lease_owner_mismatch'']
          else if Some (sq_source l) \<noteq> rq_source r then [''quota_lease_source_mismatch'']
          else if sq_released_at l \<noteq> None then [''quota_lease_released'']
          else if rs_observed_at s < sq_granted_at l then [''quota_lease_not_active'']
          else if sq_expires_at l \<le> rs_observed_at s then [''quota_lease_expired'']
          else if sq_units l < rq_expected_quota_units r then [''quota_lease_insufficient'']
          else [])"

definition admission_retry_at ::
  "resource_snapshot \<Rightarrow> admission_policy \<Rightarrow> source_quota_lease option \<Rightarrow> string list \<Rightarrow> utc" where
  "admission_retry_at s p lease reasons =
     (let retry_at = rs_observed_at s + ap_retry_delay_seconds p * microseconds_per_second in
      case lease of
        Some l \<Rightarrow> if reasons = [''quota_lease_expired''] then max retry_at (sq_quota_reset_at l) else retry_at
      | None \<Rightarrow> retry_at)"

definition evaluate_admission ::
  "admission_request \<Rightarrow> resource_snapshot \<Rightarrow> admission_policy \<Rightarrow> source_quota_lease option \<Rightarrow> exn + admission_decision" where
  "evaluate_admission r s p lease =
     (if \<not> rq_read_only r
      then make_admission_decision
        \<lparr>dc_outcome = ADMISSION_REJECTED, dc_reason_codes = [''non_read_only''], dc_observed_at = rs_observed_at s,
         dc_retry_at = None, dc_quota_lease = None\<rparr>
      else
        let reasons = session_reasons r s p @ machine_reasons r s p @ lease_reasons r s lease in
        if reasons \<noteq> []
        then make_admission_decision
          \<lparr>dc_outcome = DEFERRED, dc_reason_codes = sort (remdups reasons), dc_observed_at = rs_observed_at s,
           dc_retry_at = Some (admission_retry_at s p lease (lease_reasons r s lease)), dc_quota_lease = lease\<rparr>
        else make_admission_decision
          \<lparr>dc_outcome = ADMITTED, dc_reason_codes = [], dc_observed_at = rs_observed_at s, dc_retry_at = None,
           dc_quota_lease = lease\<rparr>)"

section \<open>Decisions are exact\<close>

lemma when_all_simps [simp]: "when_all [] = []" "when_all ((b, t) # cs) = (if b then t # when_all cs else when_all cs)"
  by (simp_all add: when_all_def)

lemma reasons_nonempty_texts:
  "[] \<notin> set (session_reasons r s p)" "[] \<notin> set (machine_reasons r s p)" "[] \<notin> set (lease_reasons r s lease)"
  by (simp_all add: session_reasons_def machine_reasons_def lease_reasons_def when_all_def split: option.split)

lemma session_reasons_Nil:
  "session_reasons r s p = [] \<longleftrightarrow>
   (rs_session s \<in> set live_sessions \<longrightarrow>
      ap_allow_live_session p \<and> rq_preemptible r \<and> rq_expected_duration_ms r \<le> ap_max_live_shard_duration_ms p)"
  by (auto simp: session_reasons_def)

lemma machine_reasons_Nil:
  "machine_reasons r s p = [] \<longleftrightarrow>
   (rs_live_slo_applicable s \<longrightarrow> rs_live_healthy s
      \<and> rs_live_backlog_age_microseconds s \<le> ap_max_live_backlog_age_microseconds p
      \<and> rs_live_p95_latency_microseconds s \<le> ap_max_live_p95_latency_microseconds p)
   \<and> rs_io_pressure_pct s \<le> ap_max_io_pressure_pct p \<and> rs_cpu_load_pct s \<le> ap_max_cpu_load_pct p
   \<and> rq_expected_memory_bytes r \<le> ap_max_expected_memory_bytes p
   \<and> rq_expected_disk_bytes r \<le> ap_max_expected_disk_bytes p
   \<and> rq_expected_quota_units r \<le> ap_max_expected_quota_units p
   \<and> ap_min_available_memory_bytes p \<le> rs_available_memory_bytes s - rq_expected_memory_bytes r
   \<and> ap_min_available_disk_bytes p \<le> rs_available_disk_bytes s - rq_expected_disk_bytes r
   \<and> rq_expected_quota_units r \<le> rs_source_quota_remaining s
   \<and> rs_observed_at s < rq_deadline r \<and> rs_observed_at s + rq_expected_duration_ms r * 1000 \<le> rq_deadline r"
  unfolding machine_reasons_def by (simp split: if_splits) (auto simp: not_less)

lemma lease_reasons_Nil:
  "lease_reasons r s lease = [] \<longleftrightarrow>
   (0 < rq_expected_quota_units r \<longrightarrow> (\<exists>l. lease = Some l \<and> sq_owner l = rq_job_id r \<and> rq_source r = Some (sq_source l)
      \<and> sq_released_at l = None \<and> sq_granted_at l \<le> rs_observed_at s \<and> rs_observed_at s < sq_expires_at l
      \<and> rq_expected_quota_units r \<le> sq_units l))"
  by (cases lease) (auto simp: lease_reasons_def)

lemma admission_retry_later:
  "0 < ap_retry_delay_seconds p \<Longrightarrow> rs_observed_at s < admission_retry_at s p lease reasons"
  by (auto simp: admission_retry_at_def Let_def microseconds_per_second_def less_max_iff_disj split: option.split)

lemma evaluate_admission_cases:
  assumes "0 < ap_retry_delay_seconds p"
  obtains (rejected) d where "\<not> rq_read_only r" "evaluate_admission r s p lease = Inr d" "dc_outcome d = ADMISSION_REJECTED"
      "dc_retry_at d = None" "dc_reason_codes d = [''non_read_only'']"
  | (deferred) d t where "rq_read_only r" "session_reasons r s p @ machine_reasons r s p @ lease_reasons r s lease \<noteq> []"
      "evaluate_admission r s p lease = Inr d" "dc_outcome d = DEFERRED" "dc_retry_at d = Some t" "rs_observed_at s < t"
      "set (dc_reason_codes d) = set (session_reasons r s p @ machine_reasons r s p @ lease_reasons r s lease)"
      "sorted (dc_reason_codes d)" "distinct (dc_reason_codes d)"
  | (admitted) d where "rq_read_only r" "session_reasons r s p = []" "machine_reasons r s p = []" "lease_reasons r s lease = []"
      "evaluate_admission r s p lease = Inr d" "dc_outcome d = ADMITTED" "dc_quota_lease d = lease" "dc_reason_codes d = []"
      "dc_retry_at d = None"
proof (cases "rq_read_only r")
  case False
  then show ?thesis
    by (intro rejected) (auto simp: evaluate_admission_def make_admission_decision_def opt_all_def)
next
  case True
  let ?reasons = "session_reasons r s p @ machine_reasons r s p @ lease_reasons r s lease"
  show ?thesis
  proof (cases "?reasons = []")
    case True
    then show ?thesis using \<open>rq_read_only r\<close>
      by (intro admitted) (auto simp: evaluate_admission_def make_admission_decision_def opt_all_def)
  next
    case False
    let ?t = "admission_retry_at s p lease (lease_reasons r s lease)"
    define codes where "codes = sort (remdups ?reasons)"
    have set: "set codes = set ?reasons" and codes: "sort codes = codes" "distinct codes"
      by (simp_all add: codes_def sorted_sort_id)
    have "set codes \<noteq> {}" using False unfolding set by blast
    moreover have "[] \<notin> set codes" using reasons_nonempty_texts unfolding set by simp
    ultimately have "evaluate_admission r s p lease = Inr \<lparr>dc_outcome = DEFERRED, dc_reason_codes = codes,
        dc_observed_at = rs_observed_at s, dc_retry_at = Some ?t, dc_quota_lease = lease\<rparr>"
      using False \<open>rq_read_only r\<close> admission_retry_later [OF assms, of s lease "lease_reasons r s lease"] codes
      by (simp add: evaluate_admission_def make_admission_decision_def opt_all_def Let_def codes_def [symmetric]
          del: append_is_Nil_conv)
    then show ?thesis using \<open>rq_read_only r\<close> False admission_retry_later [OF assms] set codes
      by (intro deferred) (auto simp: codes_def)
  qed
qed

lemma ceil_div_mono: "0 < d \<Longrightarrow> a \<le> b \<Longrightarrow> ceil_div a d \<le> ceil_div b d"
  by (simp add: ceil_div_def zdiv_mono1)

lemma ceil_div_bounds: "0 < d \<Longrightarrow> 1 \<le> a \<Longrightarrow> 1 \<le> ceil_div a d"
  using zdiv_mono1 [of d "a + d - 1" d] by (simp add: ceil_div_def)

lemma profile_fields:
  "0 < pf_work_units_per_step (lab_admission_cost_profiles c)" "0 < pf_duration_ms_per_step (lab_admission_cost_profiles c)"
  "0 \<le> pf_memory_bytes_per_work_step (lab_admission_cost_profiles c)"
  "0 \<le> pf_memory_bytes_per_duration_step (lab_admission_cost_profiles c)"
  "0 \<le> pf_disk_bytes_per_work_step (lab_admission_cost_profiles c)"
  "0 \<le> pf_disk_bytes_per_duration_step (lab_admission_cost_profiles c)"
  "0 < pf_base_memory_bytes (lab_admission_cost_profiles c)" "0 < pf_base_disk_bytes (lab_admission_cost_profiles c)"
  "pf_base_memory_bytes (lab_admission_cost_profiles c) \<le> pf_max_memory_bytes (lab_admission_cost_profiles c)"
  "pf_base_disk_bytes (lab_admission_cost_profiles c) \<le> pf_max_disk_bytes (lab_admission_cost_profiles c)"
  "pf_max_memory_bytes (lab_admission_cost_profiles c) \<le> max_resource_count"
  "pf_max_disk_bytes (lab_admission_cost_profiles c) \<le> max_resource_count"
  by (cases c; simp add: lab_admission_cost_profiles_def mib_def gib_def max_resource_count_def)+

lemma derive_lab_admission_request_Inr:
  assumes "derive_lab_admission_request job_id c deadline (Some (w, t)) = Inr r"
  shows "1 \<le> w" "1 \<le> t" "rq_expected_quota_units r = 0" "rq_read_only r"
    "rq_preemptible r = pf_preemptible (lab_admission_cost_profiles c)"
    "rq_expected_memory_bytes r = expected_memory (lab_admission_cost_profiles c)
       (ceil_div w (pf_work_units_per_step (lab_admission_cost_profiles c)))
       (ceil_div t (pf_duration_ms_per_step (lab_admission_cost_profiles c)))"
    "rq_expected_disk_bytes r = expected_disk (lab_admission_cost_profiles c)
       (ceil_div w (pf_work_units_per_step (lab_admission_cost_profiles c)))
       (ceil_div t (pf_duration_ms_per_step (lab_admission_cost_profiles c)))"
  using assms by (auto simp: derive_lab_admission_request_def make_admission_request_def Let_def bounded_def)

lemma estimate_mono:
  assumes "w \<le> w'" "t \<le> t'"
  shows "expected_memory (lab_admission_cost_profiles c) w t \<le> expected_memory (lab_admission_cost_profiles c) w' t'"
    "expected_disk (lab_admission_cost_profiles c) w t \<le> expected_disk (lab_admission_cost_profiles c) w' t'"
  unfolding expected_memory_def expected_disk_def
  by (intro min.mono order_refl add_mono mult_right_mono assms profile_fields)+

lemma estimate_bounds:
  assumes "0 \<le> w" "0 \<le> t"
  shows "pf_base_memory_bytes (lab_admission_cost_profiles c) \<le> expected_memory (lab_admission_cost_profiles c) w t"
    "expected_memory (lab_admission_cost_profiles c) w t \<le> pf_max_memory_bytes (lab_admission_cost_profiles c)"
    "pf_base_disk_bytes (lab_admission_cost_profiles c) \<le> expected_disk (lab_admission_cost_profiles c) w t"
    "expected_disk (lab_admission_cost_profiles c) w t \<le> pf_max_disk_bytes (lab_admission_cost_profiles c)"
  using assms profile_fields [of c] by (simp_all add: expected_memory_def expected_disk_def)

section \<open>An example host\<close>

definition ex_policy :: admission_policy where
  "ex_policy = \<lparr>ap_allow_live_session = True, ap_max_live_shard_duration_ms = 5000,
     ap_max_snapshot_age_microseconds = 5000000, ap_max_live_backlog_age_microseconds = 1000000,
     ap_max_live_p95_latency_microseconds = 500000, ap_min_available_memory_bytes = 1000,
     ap_min_available_disk_bytes = 1000, ap_max_io_pressure_pct = 50, ap_max_cpu_load_pct = 80,
     ap_max_expected_memory_bytes = 9000, ap_max_expected_disk_bytes = 9000, ap_max_expected_quota_units = 10,
     ap_retry_delay_seconds = 30\<rparr>"

definition ex_host :: resource_snapshot where
  "ex_host = \<lparr>rs_observed_at = 1000, rs_session = MORNING, rs_live_slo_applicable = True,
     rs_live_backlog_age_microseconds = 0, rs_live_p95_latency_microseconds = 100, rs_available_memory_bytes = 5000,
     rs_available_disk_bytes = 5000, rs_io_pressure_pct = 10, rs_cpu_load_pct = 20, rs_source_quota_remaining = 10,
     rs_live_healthy = True\<rparr>"

definition ex_quota_lease :: source_quota_lease where
  "ex_quota_lease = \<lparr>sq_lease_id = [], sq_source = ''tushare'', sq_owner = ''job'', sq_units = 5, sq_granted_at = 500,
     sq_expires_at = 90000000, sq_quota_reset_at = 90000000, sq_released_at = None\<rparr>"

definition ex_request :: "int \<Rightarrow> admission_request" where
  "ex_request memory = \<lparr>rq_job_id = ''job'', rq_resource_class = INTERACTIVE, rq_expected_memory_bytes = memory,
     rq_expected_disk_bytes = 100, rq_expected_quota_units = 5, rq_expected_duration_ms = 1000,
     rq_source = Some ''tushare'', rq_preemptible = True, rq_read_only = True, rq_deadline = 80000000\<rparr>"

lemma ex_admission_policy_valid: "make_admission_policy ex_policy = Inr ex_policy"
  by (simp add: make_admission_policy_def ex_policy_def bounded_def max_resource_count_def
      max_admission_duration_ms_def
      max_admission_retry_seconds_def)

lemma ex_estimate:
  "\<exists>r. derive_lab_admission_request ''job'' STANDARD 80000000 (Some (1500, 3600000)) = Inr r
     \<and> rq_expected_memory_bytes r = 704 * mib \<and> rq_expected_disk_bytes r = 640 * mib"
  by (simp add: derive_lab_admission_request_def make_admission_request_def Let_def bounded_def max_resource_count_def
      max_admission_duration_ms_def lab_admission_cost_profiles_def ceil_div_def mib_def gib_def raise_first.simps
      expected_memory_def expected_disk_def
      py_strip_def is_space_def)

section \<open>Admission properties\<close>

text \<open>
  C39: Admission decisions are exact. Under a validated policy every request gets a decision. It is admitted
  exactly when it is read only; in a live session, live work is allowed and the request is preemptible and
  short enough; where live service levels apply, the live side is healthy and its backlog age and latency are
  within their caps; I/O pressure and CPU load are within their caps; the expected memory, disk and quota cost
  are within their caps; the policy's floors of memory and disk stay free; the source quota that remains
  covers the expected units; the deadline lies ahead and the request can finish by it; and, if it expects to
  spend quota, it holds a lease of its own for its source that is granted, unexpired, unreleased and large
  enough. It is rejected exactly when it is not read only; and a deferred request is given its reasons and a
  later time to try again.
\<close>

theorem admission_exact:
  assumes "make_admission_policy raw = Inr p"
  shows "\<exists>d. evaluate_admission r s p lease = Inr d
    \<and> (dc_outcome d = ADMITTED \<longleftrightarrow> rq_read_only r
        \<and> (rs_session s \<in> set live_sessions \<longrightarrow> ap_allow_live_session p \<and> rq_preemptible r
             \<and> rq_expected_duration_ms r \<le> ap_max_live_shard_duration_ms p)
        \<and> (rs_live_slo_applicable s \<longrightarrow> rs_live_healthy s
             \<and> rs_live_backlog_age_microseconds s \<le> ap_max_live_backlog_age_microseconds p
             \<and> rs_live_p95_latency_microseconds s \<le> ap_max_live_p95_latency_microseconds p)
        \<and> rs_io_pressure_pct s \<le> ap_max_io_pressure_pct p \<and> rs_cpu_load_pct s \<le> ap_max_cpu_load_pct p
        \<and> rq_expected_memory_bytes r \<le> ap_max_expected_memory_bytes p
        \<and> rq_expected_disk_bytes r \<le> ap_max_expected_disk_bytes p
        \<and> rq_expected_quota_units r \<le> ap_max_expected_quota_units p
        \<and> ap_min_available_memory_bytes p \<le> rs_available_memory_bytes s - rq_expected_memory_bytes r
        \<and> ap_min_available_disk_bytes p \<le> rs_available_disk_bytes s - rq_expected_disk_bytes r
        \<and> rq_expected_quota_units r \<le> rs_source_quota_remaining s
        \<and> rs_observed_at s < rq_deadline r \<and> rs_observed_at s + rq_expected_duration_ms r * 1000 \<le> rq_deadline r
        \<and> (0 < rq_expected_quota_units r \<longrightarrow> (\<exists>l. lease = Some l \<and> sq_owner l = rq_job_id r
             \<and> rq_source r = Some (sq_source l) \<and> sq_released_at l = None \<and> sq_granted_at l \<le> rs_observed_at s
             \<and> rs_observed_at s < sq_expires_at l \<and> rq_expected_quota_units r \<le> sq_units l)))
    \<and> (dc_outcome d = ADMISSION_REJECTED \<longleftrightarrow> \<not> rq_read_only r)
    \<and> (dc_outcome d = DEFERRED \<longrightarrow> dc_reason_codes d \<noteq> [] \<and> (\<exists>t. dc_retry_at d = Some t \<and> rs_observed_at s < t))"
proof -
  have "0 < ap_retry_delay_seconds p" using assms by (simp add: make_admission_policy_def bounded_def)
  then obtain d where "evaluate_admission r s p lease = Inr d"
    and d: "dc_outcome d = ADMITTED \<longleftrightarrow>
      rq_read_only r \<and> session_reasons r s p = [] \<and> machine_reasons r s p = [] \<and> lease_reasons r s lease = []"
    and "dc_outcome d = ADMISSION_REJECTED \<longleftrightarrow> \<not> rq_read_only r"
      "dc_outcome d = DEFERRED \<longrightarrow> dc_reason_codes d \<noteq> [] \<and> (\<exists>t. dc_retry_at d = Some t \<and> rs_observed_at s < t)"
    by (cases rule: evaluate_admission_cases [of p r s lease]) force+
  then show ?thesis
    unfolding session_reasons_Nil machine_reasons_Nil lease_reasons_Nil conj_assoc by (intro exI [of _ d]) simp
qed

theorem admission_exact_witness:
  "(\<exists>d. evaluate_admission (ex_request 4000) ex_host ex_policy (Some ex_quota_lease) = Inr d \<and> dc_outcome d = ADMITTED)
   \<and> (\<exists>d. evaluate_admission (ex_request 4001) ex_host ex_policy (Some ex_quota_lease) = Inr d \<and> dc_outcome d = DEFERRED)"
proof (rule conjI)
  obtain d where "evaluate_admission (ex_request 4000) ex_host ex_policy (Some ex_quota_lease) = Inr d" "dc_outcome d = ADMITTED"
    using admission_exact [OF ex_admission_policy_valid, of "ex_request 4000" ex_host "Some ex_quota_lease"]
    by (auto simp: ex_request_def ex_host_def ex_policy_def ex_quota_lease_def)
  then show "\<exists>d. evaluate_admission (ex_request 4000) ex_host ex_policy (Some ex_quota_lease) = Inr d \<and> dc_outcome d = ADMITTED"
    by blast
  obtain d where "evaluate_admission (ex_request 4001) ex_host ex_policy (Some ex_quota_lease) = Inr d"
    "dc_outcome d \<noteq> ADMITTED" "dc_outcome d \<noteq> ADMISSION_REJECTED"
    using admission_exact [OF ex_admission_policy_valid, of "ex_request 4001" ex_host "Some ex_quota_lease"]
    by (auto simp: ex_request_def ex_host_def ex_policy_def ex_quota_lease_def)
  then show "\<exists>d. evaluate_admission (ex_request 4001) ex_host ex_policy (Some ex_quota_lease) = Inr d \<and> dc_outcome d = DEFERRED"
    by (cases "dc_outcome d") auto
qed

text \<open>
  Shard estimates are bounded and monotone, and heavy shards wait. The estimated memory and disk of a
  shard lie between the base and the cap of its resource class and never shrink when the plan has more work or
  runs longer; the estimate asks for no source quota; and a shard of the heavy class is never admitted while
  a live session runs, whatever the policy and the machine.
\<close>

theorem lab_shard_estimates:
  assumes "derive_lab_admission_request job_id c deadline (Some (w, t)) = Inr r"
    and "derive_lab_admission_request job_id' c deadline' (Some (w', t')) = Inr r'" "w \<le> w'" "t \<le> t'"
  shows "pf_base_memory_bytes (lab_admission_cost_profiles c) \<le> rq_expected_memory_bytes r
    \<and> rq_expected_memory_bytes r \<le> rq_expected_memory_bytes r'
    \<and> rq_expected_memory_bytes r' \<le> pf_max_memory_bytes (lab_admission_cost_profiles c)
    \<and> pf_base_disk_bytes (lab_admission_cost_profiles c) \<le> rq_expected_disk_bytes r
    \<and> rq_expected_disk_bytes r \<le> rq_expected_disk_bytes r'
    \<and> rq_expected_disk_bytes r' \<le> pf_max_disk_bytes (lab_admission_cost_profiles c)
    \<and> rq_expected_quota_units r = 0
    \<and> (c = HEAVY \<and> rs_session s \<in> set live_sessions \<and> evaluate_admission r s p lease = Inr d \<longrightarrow> dc_outcome d = DEFERRED)"
proof -
  note r = derive_lab_admission_request_Inr [OF assms(1)] and r' = derive_lab_admission_request_Inr [OF assms(2)]
  note steps = ceil_div_mono [OF profile_fields(1) assms(3), of c] ceil_div_mono [OF profile_fields(2) assms(4), of c]
  have "0 \<le> ceil_div w (pf_work_units_per_step (lab_admission_cost_profiles c))"
    "0 \<le> ceil_div t (pf_duration_ms_per_step (lab_admission_cost_profiles c))"
    using ceil_div_bounds [OF profile_fields(1) r(1), of c] ceil_div_bounds [OF profile_fields(2) r(2), of c] by simp_all
  note low = estimate_bounds [OF this] and high = estimate_bounds [OF order_trans [OF this(1) steps(1)] order_trans [OF this(2) steps(2)]]
  have heavy: "dc_outcome d = DEFERRED"
    if "c = HEAVY" "rs_session s \<in> set live_sessions" "evaluate_admission r s p lease = Inr d"
  proof -
    from that(1) have "\<not> rq_preemptible r" using r(5) by (simp add: lab_admission_cost_profiles_def)
    then have "session_reasons r s p \<noteq> []" using that(2) by (simp add: session_reasons_Nil)
    then show ?thesis using that(3) r(4) by (auto simp: evaluate_admission_def make_admission_decision_def Let_def)
  qed
  show ?thesis using low(1,3) high(2,4) estimate_mono [OF steps, of c] heavy r(3) unfolding r(6,7) r'(6,7) by blast
qed

theorem lab_shard_estimates_witness:
  "\<exists>r. derive_lab_admission_request ''job'' STANDARD 80000000 (Some (1500, 3600000)) = Inr r
     \<and> 512 * mib \<le> rq_expected_memory_bytes r \<and> rq_expected_memory_bytes r \<le> 4 * gib"
proof -
  obtain r where r: "derive_lab_admission_request ''job'' STANDARD 80000000 (Some (1500, 3600000)) = Inr r"
    using ex_estimate by blast
  from lab_shard_estimates [OF r r] r show ?thesis by (simp add: lab_admission_cost_profiles_def)
qed

end
