(* ===== verification/Source_Quota.thy ===== *)
theory Source_Quota
  imports Resource_Admission "HOL-Library.Product_Lexorder"
begin

text \<open>
  The quota ledger of \<open>source_quota_store.py\<close>: windows of units per data source, leases reserved in
  them, usages booked on leases, and provider attempts with their own lease. The state is the six tables
  of the SQLite file. Each operation is one \<open>BEGIN IMMEDIATE\<close> transaction: \<open>Inl\<close> is an exception that
  rolled it back; after the commit an operation may still fail to build its answer, so it returns a
  result of its own next to the new store. The clock, the monotonic reading and the boot identity are
  arguments. Stored times have one fixed-width ISO form, which sorts as the numbers do. Messages leave out
  the values the code interpolates.
\<close>

section \<open>Tables\<close>

datatype attempt_outcome = OUTCOME_PENDING | OUTCOME_SUCCESS | OUTCOME_FAILURE | OUTCOME_UNKNOWN
datatype window_kind = DAY_WINDOW | MINUTE_WINDOW

record quota_window =
  qw_source :: string
  qw_window_id :: string
  qw_starts_at :: utc
  qw_resets_at :: utc
  qw_total_units :: int

record quota_lease =
  ql_lease_id :: string
  ql_source :: string
  ql_window_id :: string
  ql_owner :: string
  ql_units :: int
  ql_used_units :: int
  ql_granted_at :: utc
  ql_expires_at :: utc
  ql_quota_reset_at :: utc
  ql_released_at :: "utc option"

record quota_usage =
  qu_usage_id :: string
  qu_lease_id :: string
  qu_units :: int
  qu_consumed_at :: utc

record quota_attempt =
  qa_attempt_id :: string
  qa_source :: string
  qa_owner :: string
  qa_lease_id :: string
  qa_units :: int
  qa_prepared_at :: utc
  qa_dispatched_at :: "utc option"
  qa_outcome :: attempt_outcome
  qa_committed_at :: "utc option"
  qa_boot_id :: string
  qa_last_monotonic_ns :: int
  qa_lifecycle_sequence :: int
  qa_clock_rollback_count :: int

record transport_attempt =
  qt_attempt_id :: string
  qt_source :: string
  qt_logical_request_id :: string
  qt_api_name :: string
  qt_call_ordinal :: int

record source_clock =
  qc_source :: string
  qc_window_kind :: window_kind
  qc_trusted_at :: utc
  qc_rollback_count :: int

record quota_store =
  q_windows :: "quota_window list"
  q_leases :: "quota_lease list"
  q_usages :: "quota_usage list"
  q_attempts :: "quota_attempt list"
  q_transports :: "transport_attempt list"
  q_clocks :: "source_clock list"

definition empty_store :: quota_store where
  "empty_store = \<lparr>q_windows = [], q_leases = [], q_usages = [], q_attempts = [], q_transports = [], q_clocks = []\<rparr>"

section \<open>Statements\<close>

text \<open>A Python integer beyond 64 bits cannot be bound to a statement.\<close>

definition sql_int :: "int \<Rightarrow> bool" where
  "sql_int n \<longleftrightarrow> bounded (- (2 ^ 63)) (2 ^ 63 - 1) n"

definition insert_window :: "quota_window \<Rightarrow> quota_store \<Rightarrow> exn + quota_store" where
  "insert_window w S =
     raise_first
       [(\<not> sql_int (qw_total_units w), OverflowError ''Python int too large to convert to SQLite INTEGER''),
        (qw_total_units w \<le> 0, SqlIntegrityError ''CHECK quota_window''),
        (list_ex (\<lambda>x. qw_source x = qw_source w \<and> qw_window_id x = qw_window_id w) (q_windows S),
         SqlIntegrityError ''PRIMARY KEY quota_window'')]
       (S\<lparr>q_windows := q_windows S @ [w]\<rparr>)"

definition insert_lease :: "quota_lease \<Rightarrow> quota_store \<Rightarrow> exn + quota_store" where
  "insert_lease l S =
     raise_first
       [(ql_units l \<le> 0 \<or> ql_used_units l < 0, SqlIntegrityError ''CHECK quota_lease''),
        (list_ex (\<lambda>x. ql_lease_id x = ql_lease_id l) (q_leases S), SqlIntegrityError ''PRIMARY KEY quota_lease''),
        (list_ex (\<lambda>x. ql_source x = ql_source l \<and> ql_window_id x = ql_window_id l \<and> ql_owner x = ql_owner l) (q_leases S),
         SqlIntegrityError ''UNIQUE quota_lease''),
        (\<not> list_ex (\<lambda>w. qw_source w = ql_source l \<and> qw_window_id w = ql_window_id l) (q_windows S),
         SqlIntegrityError ''FOREIGN KEY quota_lease'')]
       (S\<lparr>q_leases := q_leases S @ [l]\<rparr>)"

definition insert_usage :: "quota_usage \<Rightarrow> quota_store \<Rightarrow> exn + quota_store" where
  "insert_usage u S =
     raise_first
       [(qu_units u \<le> 0, SqlIntegrityError ''CHECK quota_usage''),
        (list_ex (\<lambda>x. qu_usage_id x = qu_usage_id u) (q_usages S), SqlIntegrityError ''PRIMARY KEY quota_usage''),
        (\<not> list_ex (\<lambda>l. ql_lease_id l = qu_lease_id u) (q_leases S), SqlIntegrityError ''FOREIGN KEY quota_usage'')]
       (S\<lparr>q_usages := q_usages S @ [u]\<rparr>)"

definition insert_attempt :: "quota_attempt \<Rightarrow> quota_store \<Rightarrow> exn + quota_store" where
  "insert_attempt a S =
     raise_first
       [(\<not> sql_int (qa_last_monotonic_ns a), OverflowError ''Python int too large to convert to SQLite INTEGER''),
        (qa_units a \<le> 0, SqlIntegrityError ''CHECK quota_attempt''),
        (list_ex (\<lambda>x. qa_attempt_id x = qa_attempt_id a) (q_attempts S), SqlIntegrityError ''PRIMARY KEY quota_attempt''),
        (list_ex (\<lambda>x. qa_lease_id x = qa_lease_id a) (q_attempts S), SqlIntegrityError ''UNIQUE quota_attempt''),
        (\<not> list_ex (\<lambda>l. ql_lease_id l = qa_lease_id a) (q_leases S), SqlIntegrityError ''FOREIGN KEY quota_attempt'')]
       (S\<lparr>q_attempts := q_attempts S @ [a]\<rparr>)"

definition insert_transport :: "transport_attempt \<Rightarrow> quota_store \<Rightarrow> exn + quota_store" where
  "insert_transport t S =
     raise_first
       [(\<not> sql_int (qt_call_ordinal t), OverflowError ''Python int too large to convert to SQLite INTEGER''),
        (qt_call_ordinal t \<le> 0, SqlIntegrityError ''CHECK quota_transport_attempt''),
        (list_ex (\<lambda>x. qt_attempt_id x = qt_attempt_id t) (q_transports S),
         SqlIntegrityError ''PRIMARY KEY quota_transport_attempt''),
        (list_ex (\<lambda>x. qt_source x = qt_source t \<and> qt_logical_request_id x = qt_logical_request_id t
             \<and> qt_call_ordinal x = qt_call_ordinal t) (q_transports S),
         SqlIntegrityError ''UNIQUE quota_transport_attempt''),
        (\<not> list_ex (\<lambda>a. qa_attempt_id a = qt_attempt_id t) (q_attempts S),
         SqlIntegrityError ''FOREIGN KEY quota_transport_attempt'')]
       (S\<lparr>q_transports := q_transports S @ [t]\<rparr>)"

section \<open>Reading rows back\<close>

definition lease_from_row :: "digest \<Rightarrow> quota_lease \<Rightarrow> exn + source_quota_lease" where
  "lease_from_row digest l = make_source_quota_lease digest
     \<lparr>sq_lease_id = ql_lease_id l, sq_source = ql_source l, sq_owner = ql_owner l, sq_units = ql_units l,
      sq_granted_at = ql_granted_at l, sq_expires_at = ql_expires_at l, sq_quota_reset_at = ql_quota_reset_at l,
      sq_released_at = ql_released_at l\<rparr>"

text \<open>The model of an attempt: texts are stripped, then the lifecycle is validated.\<close>

definition make_attempt :: "quota_attempt \<Rightarrow> exn + quota_attempt" where
  "make_attempt raw =
     (let a = raw\<lparr>qa_attempt_id := py_strip (qa_attempt_id raw), qa_source := py_strip (qa_source raw),
                  qa_owner := py_strip (qa_owner raw), qa_lease_id := py_strip (qa_lease_id raw),
                  qa_boot_id := py_strip (qa_boot_id raw)\<rparr> in
      raise_first
        [(qa_attempt_id a = [] \<or> qa_source a = [] \<or> qa_owner a = [] \<or> qa_boot_id a = [],
          ValueError ''attempt texts must be nonempty''),
         (\<not> is_sha256 (qa_lease_id a), ValueError ''lease_id must be a digest''),
         (qa_units a \<le> 0 \<or> qa_last_monotonic_ns a < 0 \<or> qa_lifecycle_sequence a < 1 \<or> qa_clock_rollback_count a < 0,
          ValueError ''attempt number is out of range''),
         (\<not> opt_all (\<lambda>d. qa_prepared_at a \<le> d) (qa_dispatched_at a), ValueError ''attempt dispatch precedes preparation''),
         (qa_outcome a = OUTCOME_PENDING \<and> qa_committed_at a \<noteq> None, ValueError ''pending attempt cannot be committed''),
         (qa_outcome a \<noteq> OUTCOME_PENDING \<and> qa_committed_at a = None, ValueError ''completed attempt requires committed_at''),
         (qa_outcome a \<noteq> OUTCOME_PENDING \<and> \<not> opt_all (\<lambda>c. qa_prepared_at a \<le> c) (qa_committed_at a),
          ValueError ''attempt completion precedes preparation''),
         (qa_outcome a \<noteq> OUTCOME_PENDING
          \<and> \<not> opt_all (\<lambda>d. opt_all (\<lambda>c. d \<le> c) (qa_committed_at a)) (qa_dispatched_at a),
          ValueError ''attempt completion precedes dispatch'')] a)"

definition find_attempt :: "string \<Rightarrow> quota_store \<Rightarrow> quota_attempt option" where
  "find_attempt attempt_id S = select_one (\<lambda>a. qa_attempt_id a = attempt_id) (q_attempts S)"

definition find_lease :: "string \<Rightarrow> quota_store \<Rightarrow> quota_lease option" where
  "find_lease lease_id S = select_one (\<lambda>l. ql_lease_id l = lease_id) (q_leases S)"

definition owner_lease :: "string \<Rightarrow> string \<Rightarrow> string \<Rightarrow> quota_store \<Rightarrow> quota_lease option" where
  "owner_lease source window_id owner S =
     select_one (\<lambda>l. ql_source l = source \<and> ql_window_id l = window_id \<and> ql_owner l = owner) (q_leases S)"

definition get_attempt :: "string \<Rightarrow> quota_store \<Rightarrow> exn + quota_attempt option" where
  "get_attempt attempt_id S =
     (let identifier = py_strip attempt_id in
      if identifier = [] then Inl (ValueError ''attempt_id must be nonempty'')
      else case find_attempt identifier S of
        None \<Rightarrow> Inr None
      | Some a \<Rightarrow> rbind (make_attempt a) (\<lambda>a. Inr (Some a)))"

section \<open>Windows\<close>

definition overlapping_window :: "string \<Rightarrow> utc \<Rightarrow> utc \<Rightarrow> quota_store \<Rightarrow> quota_window option" where
  "overlapping_window source starts resets S =
     select_one (\<lambda>w. qw_source w = source \<and> qw_starts_at w < resets \<and> starts < qw_resets_at w) (q_windows S)"

definition find_window :: "string \<Rightarrow> string \<Rightarrow> quota_store \<Rightarrow> quota_window option" where
  "find_window source window_id S =
     select_one (\<lambda>w. qw_source w = source \<and> qw_window_id w = window_id) (q_windows S)"

definition ensure_window :: "quota_window \<Rightarrow> quota_store \<Rightarrow> exn + quota_store" where
  "ensure_window w S =
     (case find_window (qw_source w) (qw_window_id w) S of
        Some existing \<Rightarrow>
          if existing \<noteq> w then Inl (SourceQuotaConflictError ''quota window contract conflicts'') else Inr S
      | None \<Rightarrow>
          (case overlapping_window (qw_source w) (qw_starts_at w) (qw_resets_at w) S of
             Some other \<Rightarrow> Inl (SourceQuotaConflictError (''quota window overlaps '' @ qw_window_id other))
           | None \<Rightarrow> insert_window w S))"

definition declare_window :: "string \<Rightarrow> string \<Rightarrow> utc \<Rightarrow> utc \<Rightarrow> int \<Rightarrow> quota_store \<Rightarrow> exn + quota_store" where
  "declare_window source window_id starts resets total_units S =
     (let source = py_strip source; window_id = py_strip window_id in
      rbind (raise_first
        [(source = [] \<or> window_id = [], ValueError ''source and window_id must be nonempty''),
         (resets \<le> starts, ValueError ''resets_at must follow starts_at''),
         (total_units < 1, ValueError ''total_units must be positive'')] ()) (\<lambda>_.
      ensure_window \<lparr>qw_source = source, qw_window_id = window_id, qw_starts_at = starts, qw_resets_at = resets,
         qw_total_units = total_units\<rparr> S))"

text \<open>\<open>ORDER BY starts_at DESC LIMIT 1\<close>.\<close>

definition active_window :: "string \<Rightarrow> utc \<Rightarrow> quota_store \<Rightarrow> exn + quota_window" where
  "active_window source now S =
     (case sort_key (\<lambda>w. - qw_starts_at w)
        (filter (\<lambda>w. qw_source w = source \<and> qw_starts_at w \<le> now \<and> now < qw_resets_at w) (q_windows S)) of
        [] \<Rightarrow> Inl (SourceQuotaExhaustedError (''no active window for source '' @ source))
      | w # _ \<Rightarrow> Inr w)"

definition has_pending_attempt :: "quota_store \<Rightarrow> string \<Rightarrow> bool" where
  "has_pending_attempt S lease_id =
     list_ex (\<lambda>a. qa_lease_id a = lease_id \<and> qa_outcome a = OUTCOME_PENDING) (q_attempts S)"

definition window_leases :: "quota_window \<Rightarrow> quota_store \<Rightarrow> quota_lease list" where
  "window_leases w S = filter (\<lambda>l. ql_source l = qw_source w \<and> ql_window_id l = qw_window_id w) (q_leases S)"

definition reserved_units :: "quota_store \<Rightarrow> utc \<Rightarrow> quota_lease \<Rightarrow> int" where
  "reserved_units S now l =
     (if ql_released_at l = None \<and> (now < ql_expires_at l \<or> has_pending_attempt S (ql_lease_id l))
      then ql_units l - ql_used_units l else 0)"

definition remaining_in_window :: "quota_store \<Rightarrow> quota_window \<Rightarrow> utc \<Rightarrow> int" where
  "remaining_in_window S w now =
     qw_total_units w - sum_by ql_used_units (window_leases w S) - sum_by (reserved_units S now) (window_leases w S)"

definition remaining :: "string \<Rightarrow> utc \<Rightarrow> quota_store \<Rightarrow> exn + int" where
  "remaining source now S = rbind (active_window source now S) (\<lambda>w. Inr (remaining_in_window S w now))"

section \<open>Leases\<close>

text \<open>The reservation both \<open>acquire\<close> and the attempts make once the owner is known to be new.\<close>

definition reserve ::
  "digest \<Rightarrow> string \<Rightarrow> string \<Rightarrow> int \<Rightarrow> utc \<Rightarrow> utc \<Rightarrow> utc \<Rightarrow> quota_window \<Rightarrow> quota_store
   \<Rightarrow> exn + source_quota_lease \<times> quota_store" where
  "reserve digest source owner units granted expires reset w S =
     (if remaining_in_window S w granted < units then Inl (SourceQuotaExhaustedError ''quota exhausted'')
      else rbind (make_source_quota_lease digest
        \<lparr>sq_lease_id = [], sq_source = source, sq_owner = owner, sq_units = units, sq_granted_at = granted,
         sq_expires_at = expires, sq_quota_reset_at = reset, sq_released_at = None\<rparr>) (\<lambda>lease.
      rbind (insert_lease
        \<lparr>ql_lease_id = sq_lease_id lease, ql_source = sq_source lease, ql_window_id = qw_window_id w,
         ql_owner = sq_owner lease, ql_units = sq_units lease, ql_used_units = 0, ql_granted_at = sq_granted_at lease,
         ql_expires_at = sq_expires_at lease, ql_quota_reset_at = sq_quota_reset_at lease, ql_released_at = None\<rparr> S)
        (\<lambda>S'. Inr (lease, S'))))"

definition acquire ::
  "digest \<Rightarrow> string \<Rightarrow> string \<Rightarrow> int \<Rightarrow> utc \<Rightarrow> utc \<Rightarrow> quota_store \<Rightarrow> exn + source_quota_lease \<times> quota_store" where
  "acquire digest source owner units now expires S =
     (let source = py_strip source; owner = py_strip owner in
      rbind (raise_first
        [(source = [] \<or> owner = [], ValueError ''source and owner must be nonempty''),
         (units < 1, ValueError ''units must be positive'')] ()) (\<lambda>_.
      rbind (active_window source now S) (\<lambda>w.
      if expires \<le> now \<or> qw_resets_at w < expires
      then Inl (ValueError ''expires_at must be after now and no later than reset'')
      else case owner_lease source (qw_window_id w) owner S of
        Some existing \<Rightarrow>
          if ql_units existing \<noteq> units \<or> ql_expires_at existing \<noteq> expires
          then Inl (SourceQuotaConflictError ''quota owner retry conflicts'')
          else rbind (lease_from_row digest existing) (\<lambda>lease. Inr (lease, S))
      | None \<Rightarrow> reserve digest source owner units now expires (qw_resets_at w) w S)))"

definition set_lease :: "string \<Rightarrow> (quota_lease \<Rightarrow> quota_lease) \<Rightarrow> quota_store \<Rightarrow> quota_store" where
  "set_lease lease_id f S = S\<lparr>q_leases := update_where (\<lambda>l. ql_lease_id l = lease_id) f (q_leases S)\<rparr>"

definition consume :: "string \<Rightarrow> string \<Rightarrow> int \<Rightarrow> utc \<Rightarrow> quota_store \<Rightarrow> exn + quota_store" where
  "consume lease_id usage_id units now S =
     (let usage_id = py_strip usage_id in
      rbind (raise_first
        [(usage_id = [], ValueError ''usage_id must be nonempty''),
         (units < 1, ValueError ''units must be positive'')] ()) (\<lambda>_.
      case find_lease lease_id S of
        None \<Rightarrow> Inl (SourceQuotaConflictError ''quota lease does not exist'')
      | Some l \<Rightarrow>
          if list_ex (\<lambda>a. qa_lease_id a = lease_id) (q_attempts S)
          then Inl (SourceQuotaConflictError ''quota attempt lease requires explicit completion'')
          else case select_one (\<lambda>u. qu_usage_id u = usage_id) (q_usages S) of
            Some usage \<Rightarrow>
              if qu_lease_id usage \<noteq> lease_id \<or> qu_units usage \<noteq> units
              then Inl (SourceQuotaConflictError ''usage_id retry conflicts'') else Inr S
          | None \<Rightarrow>
              if ql_released_at l \<noteq> None \<or> ql_expires_at l \<le> now
              then Inl (SourceQuotaConflictError ''quota lease is not active'')
              else if ql_units l < ql_used_units l + units
              then Inl (SourceQuotaConflictError ''consumption exceeds reserved units'')
              else insert_usage \<lparr>qu_usage_id = usage_id, qu_lease_id = lease_id, qu_units = units, qu_consumed_at = now\<rparr>
                (set_lease lease_id (\<lambda>l. l\<lparr>ql_used_units := ql_used_units l + units\<rparr>) S)))"

definition release :: "digest \<Rightarrow> string \<Rightarrow> utc \<Rightarrow> quota_store \<Rightarrow> exn + (exn + source_quota_lease) \<times> quota_store" where
  "release digest lease_id now S =
     (case find_lease lease_id S of
        None \<Rightarrow> Inl (SourceQuotaConflictError ''quota lease does not exist'')
      | Some l \<Rightarrow>
          if has_pending_attempt S lease_id then Inl (SourceQuotaConflictError ''quota lease has pending attempt'')
          else if ql_released_at l \<noteq> None then Inr (lease_from_row digest l, S)
          else if now < ql_granted_at l then Inl (SourceQuotaConflictError ''release precedes grant'')
          else Inr (lease_from_row digest (l\<lparr>ql_released_at := Some now\<rparr>),
                    set_lease lease_id (\<lambda>l. l\<lparr>ql_released_at := Some now\<rparr>) S))"

section \<open>Attempts\<close>

definition begin_attempt ::
  "digest \<Rightarrow> string \<Rightarrow> string \<Rightarrow> string \<Rightarrow> string \<Rightarrow> int \<Rightarrow> utc \<Rightarrow> int \<Rightarrow> utc \<Rightarrow> quota_store
   \<Rightarrow> exn + (exn + quota_attempt) \<times> quota_store" where
  "begin_attempt digest boot_id source owner attempt_id units now monotonic_ns expires S =
     (let source = py_strip source; owner = py_strip owner; attempt_id = py_strip attempt_id in
      rbind (raise_first
        [(monotonic_ns < 0, ValueError ''monotonic_ns must be nonnegative''),
         (source = [] \<or> owner = [] \<or> attempt_id = [], ValueError ''source, owner, and attempt_id must be nonempty''),
         (units < 1, ValueError ''units must be positive'')] ()) (\<lambda>_.
      case find_attempt attempt_id S of
        Some row \<Rightarrow>
          rbind (make_attempt row) (\<lambda>a.
          if (qa_source a, qa_owner a, qa_units a) \<noteq> (source, owner, units)
          then Inl (SourceQuotaConflictError ''quota attempt retry conflicts'') else Inr (Inr a, S))
      | None \<Rightarrow>
          rbind (active_window source now S) (\<lambda>w.
          if expires \<le> now \<or> qw_resets_at w < expires
          then Inl (ValueError ''expires_at must be after now and no later than reset'')
          else if owner_lease source (qw_window_id w) owner S \<noteq> None
          then Inl (SourceQuotaConflictError ''quota owner already has an attempt'')
          else rbind (reserve digest source owner units now expires (qw_resets_at w) w S) (\<lambda>(lease, S1).
            let a = \<lparr>qa_attempt_id = attempt_id, qa_source = source, qa_owner = owner, qa_lease_id = sq_lease_id lease,
                     qa_units = units, qa_prepared_at = now, qa_dispatched_at = None, qa_outcome = OUTCOME_PENDING,
                     qa_committed_at = None, qa_boot_id = boot_id, qa_last_monotonic_ns = monotonic_ns,
                     qa_lifecycle_sequence = 1, qa_clock_rollback_count = 0\<rparr> in
            rbind (insert_attempt a S1) (\<lambda>S2. Inr (make_attempt a, S2))))))"

definition set_attempt :: "string \<Rightarrow> (quota_attempt \<Rightarrow> quota_attempt) \<Rightarrow> quota_store \<Rightarrow> quota_store" where
  "set_attempt attempt_id f S = S\<lparr>q_attempts := update_where (\<lambda>a. qa_attempt_id a = attempt_id) f (q_attempts S)\<rparr>"

definition mark_dispatched ::
  "string \<Rightarrow> utc \<Rightarrow> int \<Rightarrow> quota_store \<Rightarrow> exn + (exn + quota_attempt) \<times> quota_store" where
  "mark_dispatched attempt_id now monotonic_ns S =
     (if monotonic_ns < 0 then Inl (ValueError ''monotonic_ns must be nonnegative'')
      else case find_attempt attempt_id S of
        None \<Rightarrow> Inl (SourceQuotaConflictError ''quota attempt does not exist'')
      | Some row \<Rightarrow>
          rbind (make_attempt row) (\<lambda>a.
          if qa_outcome a \<noteq> OUTCOME_PENDING then Inl (SourceQuotaConflictError ''quota attempt is already completed'')
          else if qa_dispatched_at a \<noteq> None then Inr (make_attempt row, S)
          else if \<not> sql_int monotonic_ns then Inl (OverflowError ''Python int too large to convert to SQLite INTEGER'')
          else
            let f = (\<lambda>r. r\<lparr>qa_dispatched_at := Some (max now (qa_prepared_at a)), qa_last_monotonic_ns := monotonic_ns,
                         qa_lifecycle_sequence := qa_lifecycle_sequence r + 1,
                         qa_clock_rollback_count := qa_clock_rollback_count r + (if now < qa_prepared_at a then 1 else 0)\<rparr>) in
            Inr (make_attempt (f row), set_attempt attempt_id f S)))"

text \<open>The lease is consumed in full, booked once under a usage identity of its own, and released.\<close>

definition complete_attempt ::
  "string \<Rightarrow> attempt_outcome \<Rightarrow> utc \<Rightarrow> int \<Rightarrow> quota_store \<Rightarrow> exn + (exn + quota_attempt) \<times> quota_store" where
  "complete_attempt attempt_id outcome now monotonic_ns S =
     (if outcome = OUTCOME_PENDING then Inl (ValueError ''attempt outcome must be final'')
      else if monotonic_ns < 0 then Inl (ValueError ''monotonic_ns must be nonnegative'')
      else case find_attempt attempt_id S of
        None \<Rightarrow> Inl (SourceQuotaConflictError ''quota attempt does not exist'')
      | Some row \<Rightarrow>
          rbind (make_attempt row) (\<lambda>a.
          if qa_outcome a \<noteq> OUTCOME_PENDING
          then (if qa_outcome a \<noteq> outcome then Inl (SourceQuotaConflictError ''quota attempt completion conflicts'')
                else Inr (Inr a, S))
          else
            let floor = (case qa_dispatched_at a of None \<Rightarrow> qa_prepared_at a | Some d \<Rightarrow> d);
                effective = max now floor;
                rollback = (if now < floor then 1 else 0) in
            case find_lease (qa_lease_id a) S of
              None \<Rightarrow> Inl (SourceQuotaConflictError ''quota attempt lease is not active'')
            | Some l \<Rightarrow>
                if ql_released_at l \<noteq> None then Inl (SourceQuotaConflictError ''quota attempt lease is not active'')
                else if ql_units l < ql_used_units l + qa_units a
                then Inl (SourceQuotaConflictError ''attempt consumption exceeds reserved units'')
                else rbind (insert_usage
                    \<lparr>qu_usage_id = ''attempt:'' @ qa_attempt_id a, qu_lease_id = qa_lease_id a, qu_units = qa_units a,
                     qu_consumed_at = effective\<rparr>
                    (set_lease (qa_lease_id a) (\<lambda>l. l\<lparr>ql_used_units := ql_used_units l + qa_units a\<rparr>) S)) (\<lambda>S1.
                  if \<not> sql_int monotonic_ns then Inl (OverflowError ''Python int too large to convert to SQLite INTEGER'')
                  else
                    let f = (\<lambda>r. r\<lparr>qa_outcome := outcome, qa_committed_at := Some effective,
                                 qa_last_monotonic_ns := monotonic_ns,
                                 qa_lifecycle_sequence := qa_lifecycle_sequence r + 1,
                                 qa_clock_rollback_count := qa_clock_rollback_count r + rollback\<rparr>) in
                    Inr (make_attempt (f row),
                         set_attempt (qa_attempt_id a) f
                           (set_lease (qa_lease_id a) (\<lambda>l. l\<lparr>ql_released_at := Some effective\<rparr>) S1)))))"

definition commit_attempt ::
  "string \<Rightarrow> attempt_outcome \<Rightarrow> utc \<Rightarrow> int \<Rightarrow> quota_store \<Rightarrow> exn + (exn + quota_attempt) \<times> quota_store" where
  "commit_attempt attempt_id outcome now monotonic_ns S = complete_attempt attempt_id outcome now monotonic_ns S"

definition recover_attempt ::
  "string \<Rightarrow> utc \<Rightarrow> int \<Rightarrow> quota_store \<Rightarrow> exn + (exn + quota_attempt) \<times> quota_store" where
  "recover_attempt attempt_id now monotonic_ns S = complete_attempt attempt_id OUTCOME_UNKNOWN now monotonic_ns S"

section \<open>Transport\<close>

definition bind_transport_attempt ::
  "string \<Rightarrow> string \<Rightarrow> string \<Rightarrow> string \<Rightarrow> int \<Rightarrow> quota_store \<Rightarrow> exn + quota_store" where
  "bind_transport_attempt attempt_id source logical_request_id api_name call_ordinal S =
     (let t = \<lparr>qt_attempt_id = py_strip attempt_id, qt_source = py_strip source,
               qt_logical_request_id = py_strip logical_request_id, qt_api_name = py_strip api_name,
               qt_call_ordinal = call_ordinal\<rparr> in
      rbind (raise_first
        [(qt_attempt_id t = [] \<or> qt_source t = [] \<or> qt_logical_request_id t = [] \<or> qt_api_name t = [],
          ValueError ''attempt_id, source, logical_request_id, and api_name must be nonempty''),
         (call_ordinal < 1, ValueError ''call_ordinal must be a positive int'')] ()) (\<lambda>_.
      case find_attempt (qt_attempt_id t) S of
        None \<Rightarrow> Inl (SourceQuotaConflictError ''quota transport attempt does not exist'')
      | Some a \<Rightarrow>
          if qa_source a \<noteq> qt_source t then Inl (SourceQuotaConflictError ''quota transport attempt source conflicts'')
          else case select_one (\<lambda>x. qt_attempt_id x = qt_attempt_id t) (q_transports S) of
            Some existing \<Rightarrow>
              if existing \<noteq> t then Inl (SourceQuotaConflictError ''quota transport attempt binding conflicts'') else Inr S
          | None \<Rightarrow>
              if list_ex (\<lambda>x. qt_source x = qt_source t \<and> qt_logical_request_id x = qt_logical_request_id t
                   \<and> qt_call_ordinal x = call_ordinal) (q_transports S)
              then Inl (SourceQuotaConflictError ''quota transport call ordinal conflicts'')
              else insert_transport t S))"

text \<open>\<open>strftime\<close> of a four-digit year.\<close>

definition compact_date :: "day \<Rightarrow> string" where
  "compact_date z = (case civil_of_day z of (y, m, d) \<Rightarrow> zero_pad 4 (nat y) @ zero_pad 2 (nat m) @ zero_pad 2 (nat d))"

definition microseconds_per_minute :: int where
  "microseconds_per_minute = 60000000"

definition quota_window_at :: "window_kind \<Rightarrow> utc \<Rightarrow> string \<times> utc \<times> utc" where
  "quota_window_at kind observed =
     (case kind of
        DAY_WINDOW \<Rightarrow>
          let starts = observed div microseconds_per_day * microseconds_per_day in
          (compact_date (observed div microseconds_per_day), starts, starts + microseconds_per_day)
      | MINUTE_WINDOW \<Rightarrow>
          let starts = observed div microseconds_per_minute * microseconds_per_minute;
              minutes = observed mod microseconds_per_day div microseconds_per_minute in
          (compact_date (observed div microseconds_per_day) @ ''T'' @ zero_pad 2 (nat (minutes div 60))
             @ zero_pad 2 (nat (minutes mod 60)) @ ''Z'',
           starts, starts + microseconds_per_minute))"

text \<open>
  The clock of a source never runs back: an earlier reading is replaced by the trusted time and counted.
  Without a clock row the latest attempt of the source is the trusted time.
\<close>

definition latest_attempt_at :: "string \<Rightarrow> quota_store \<Rightarrow> utc option" where
  "latest_attempt_at source S =
     (case map (\<lambda>a. case qa_dispatched_at a of None \<Rightarrow> qa_prepared_at a | Some d \<Rightarrow> d)
        (filter (\<lambda>a. qa_source a = source) (q_attempts S)) of
        [] \<Rightarrow> None
      | t # ts \<Rightarrow> Some (fold max ts t))"

definition advance_clock ::
  "string \<Rightarrow> window_kind \<Rightarrow> utc \<Rightarrow> quota_store \<Rightarrow> exn + utc \<times> int \<times> quota_store" where
  "advance_clock source kind observed S =
     (case select_one (\<lambda>c. qc_source c = source) (q_clocks S) of
        None \<Rightarrow>
          let rolled = \<not> opt_all (\<lambda>trusted. trusted \<le> observed) (latest_attempt_at source S);
              effective = (case latest_attempt_at source S of None \<Rightarrow> observed | Some trusted \<Rightarrow> max observed trusted);
              rollback = (if rolled then 1 else 0) in
          Inr (effective, rollback, S\<lparr>q_clocks := q_clocks S @
            [\<lparr>qc_source = source, qc_window_kind = kind, qc_trusted_at = effective, qc_rollback_count = rollback\<rparr>]\<rparr>)
      | Some c \<Rightarrow>
          if qc_window_kind c \<noteq> kind then Inl (SourceQuotaConflictError ''source quota window kind conflicts'')
          else
            let effective = max observed (qc_trusted_at c);
                rollback = (if observed < qc_trusted_at c then 1 else 0) in
            Inr (effective, rollback, S\<lparr>q_clocks := update_where (\<lambda>c. qc_source c = source)
              (\<lambda>c. c\<lparr>qc_trusted_at := effective, qc_rollback_count := qc_rollback_count c + rollback\<rparr>) (q_clocks S)\<rparr>))"

text \<open>A new attempt: advance the clock, open the window of that time, reserve, and record the call.\<close>

definition new_transport_attempt ::
  "digest \<Rightarrow> string \<Rightarrow> string \<Rightarrow> string \<Rightarrow> string \<Rightarrow> transport_attempt \<Rightarrow> int \<Rightarrow> int \<Rightarrow> window_kind \<Rightarrow> utc \<Rightarrow> int
   \<Rightarrow> quota_store \<Rightarrow> exn + (exn + quota_attempt \<times> bool) \<times> quota_store" where
  "new_transport_attempt digest boot_id source owner attempt_id t units total_units kind observed monotonic_ns S =
     rbind (advance_clock source kind observed S) (\<lambda>(effective, rollback, S1).
     case quota_window_at kind effective of (window_id, starts, resets) \<Rightarrow>
     let w = \<lparr>qw_source = source, qw_window_id = window_id, qw_starts_at = starts, qw_resets_at = resets,
              qw_total_units = total_units\<rparr> in
     rbind (ensure_window w S1) (\<lambda>S2.
     if owner_lease source window_id owner S2 \<noteq> None
     then Inl (SourceQuotaConflictError ''quota owner already has an attempt'')
     else rbind (reserve digest source owner units effective resets resets w S2) (\<lambda>(lease, S3).
       let a = \<lparr>qa_attempt_id = attempt_id, qa_source = source, qa_owner = owner, qa_lease_id = sq_lease_id lease,
                qa_units = units, qa_prepared_at = effective, qa_dispatched_at = Some effective,
                qa_outcome = OUTCOME_PENDING, qa_committed_at = None, qa_boot_id = boot_id,
                qa_last_monotonic_ns = monotonic_ns, qa_lifecycle_sequence = 2, qa_clock_rollback_count = rollback\<rparr> in
       rbind (insert_attempt a S3) (\<lambda>S4.
       rbind (insert_transport t S4) (\<lambda>S5.
         Inr (rbind (make_attempt a) (\<lambda>a. Inr (a, True)), S5))))))"

text \<open>The flag of the answer tells whether this call made the attempt.\<close>

definition begin_transport_dispatch ::
  "digest \<Rightarrow> string \<Rightarrow> string \<Rightarrow> string \<Rightarrow> string \<Rightarrow> string \<Rightarrow> string \<Rightarrow> int \<Rightarrow> int \<Rightarrow> int \<Rightarrow> window_kind \<Rightarrow> utc \<Rightarrow> int
   \<Rightarrow> quota_store \<Rightarrow> exn + (exn + quota_attempt \<times> bool) \<times> quota_store" where
  "begin_transport_dispatch digest boot_id source owner attempt_id logical_request_id api_name call_ordinal units
     total_units kind observed monotonic_ns S =
     (let source = py_strip source; owner = py_strip owner; attempt_id = py_strip attempt_id;
          t = \<lparr>qt_attempt_id = attempt_id, qt_source = source, qt_logical_request_id = py_strip logical_request_id,
               qt_api_name = py_strip api_name, qt_call_ordinal = call_ordinal\<rparr> in
      rbind (raise_first
        [(source = [] \<or> owner = [] \<or> attempt_id = [] \<or> qt_logical_request_id t = [] \<or> qt_api_name t = [],
          ValueError ''transport attempt identifiers must be nonempty''),
         (call_ordinal < 1, ValueError ''call_ordinal must be a positive int''),
         (units < 1 \<or> total_units < 1, ValueError ''transport quota units must be positive''),
         (monotonic_ns < 0, ValueError ''monotonic_ns must be nonnegative'')] ()) (\<lambda>_.
      case find_attempt attempt_id S of
        Some row \<Rightarrow>
          rbind (make_attempt row) (\<lambda>a.
          if (qa_source a, qa_owner a, qa_units a) \<noteq> (source, owner, units)
          then Inl (SourceQuotaConflictError ''quota attempt retry conflicts'')
          else case select_one (\<lambda>x. qt_attempt_id x = attempt_id) (q_transports S) of
            None \<Rightarrow> rbind (insert_transport t S) (\<lambda>S'. Inr (Inr (a, False), S'))
          | Some existing \<Rightarrow>
              if existing \<noteq> t then Inl (SourceQuotaConflictError ''quota transport attempt binding conflicts'')
              else Inr (Inr (a, False), S))
      | None \<Rightarrow> new_transport_attempt digest boot_id source owner attempt_id t units total_units kind observed monotonic_ns S))"

section \<open>Recovery\<close>

text \<open>
  The attempts of a source that are pending since another boot or for the minimal age, oldest first, at
  most \<open>max_count\<close>. The age in nanoseconds is computed from the timedelta by the caller's float arithmetic
  and is an argument here.
\<close>

definition is_stale :: "string \<Rightarrow> int \<Rightarrow> int \<Rightarrow> quota_attempt \<Rightarrow> bool" where
  "is_stale boot_id current_ns minimum_age_ns a =
     (qa_boot_id a \<noteq> boot_id
      \<or> (qa_last_monotonic_ns a \<le> current_ns \<and> minimum_age_ns \<le> current_ns - qa_last_monotonic_ns a))"

definition stale_attempts :: "string \<Rightarrow> string \<Rightarrow> int \<Rightarrow> int \<Rightarrow> nat \<Rightarrow> quota_store \<Rightarrow> string list" where
  "stale_attempts source boot_id current_ns minimum_age_ns max_count S =
     take max_count (map qa_attempt_id (filter (is_stale boot_id current_ns minimum_age_ns)
       (sort_key (\<lambda>a. (qa_prepared_at a, qa_attempt_id a)) (filter (\<lambda>a. qa_source a = source \<and> qa_outcome a = OUTCOME_PENDING) (q_attempts S)))))"

text \<open>Each recovery reads the monotonic clock anew; \<open>monotonic\<close> is its reading for an attempt.\<close>

fun recover_each ::
  "utc \<Rightarrow> (string \<Rightarrow> int) \<Rightarrow> string list \<Rightarrow> quota_attempt list \<Rightarrow> quota_store \<Rightarrow> (exn + quota_attempt list) \<times> quota_store" where
  "recover_each now monotonic [] recovered S = (Inr recovered, S)"
| "recover_each now monotonic (attempt_id # ids) recovered S =
     (case get_attempt attempt_id S of
        Inl e \<Rightarrow> (Inl e, S)
      | Inr None \<Rightarrow> recover_each now monotonic ids recovered S
      | Inr (Some current) \<Rightarrow>
          if qa_outcome current \<noteq> OUTCOME_PENDING then recover_each now monotonic ids recovered S
          else case recover_attempt attempt_id now (monotonic attempt_id) S of
            Inl e \<Rightarrow> (Inl e, S)
          | Inr (Inl e, S') \<Rightarrow> (Inl e, S')
          | Inr (Inr a, S') \<Rightarrow> recover_each now monotonic ids (recovered @ [a]) S')"

definition recover_stale_attempts ::
  "string \<Rightarrow> string \<Rightarrow> utc \<Rightarrow> int \<Rightarrow> int \<Rightarrow> int \<Rightarrow> int \<Rightarrow> (string \<Rightarrow> int) \<Rightarrow> quota_store
   \<Rightarrow> (exn + quota_attempt list) \<times> quota_store" where
  "recover_stale_attempts boot_id source now min_age minimum_age_ns max_count current_ns monotonic S =
     (let source = py_strip source in
      case raise_first
        [(source = [], ValueError ''source must be nonempty''),
         (min_age < 0, ValueError ''min_age must be nonnegative''),
         (max_count < 1, ValueError ''max_count must be positive''),
         (current_ns < 0, ValueError ''monotonic_ns must be nonnegative'')] () of
        Inl e \<Rightarrow> (Inl e, S)
      | Inr _ \<Rightarrow> recover_each now monotonic (stale_attempts source boot_id current_ns minimum_age_ns (nat max_count) S) [] S)"

section \<open>Listings\<close>

definition list_attempts :: "string option \<Rightarrow> quota_store \<Rightarrow> exn + quota_attempt list" where
  "list_attempts source S =
     (case source of
        None \<Rightarrow> mapM make_attempt (sort_key (\<lambda>a. (qa_prepared_at a, qa_attempt_id a)) (q_attempts S))
      | Some raw \<Rightarrow>
          if py_strip raw = [] then Inl (ValueError ''source must be nonempty'')
          else mapM make_attempt (sort_key (\<lambda>a. (qa_prepared_at a, qa_attempt_id a))
            (filter (\<lambda>a. qa_source a = py_strip raw) (q_attempts S))))"

definition list_transport_attempts :: "string \<Rightarrow> string \<Rightarrow> quota_store \<Rightarrow> exn + quota_attempt list" where
  "list_transport_attempts source logical_request_id S =
     (if py_strip source = [] \<or> py_strip logical_request_id = []
      then Inl (ValueError ''source and logical_request_id must be nonempty'')
      else mapM make_attempt (concat (map (\<lambda>t. filter (\<lambda>a. qa_attempt_id a = qt_attempt_id t) (q_attempts S))
        (sort_key qt_call_ordinal (filter (\<lambda>t. qt_source t = py_strip source
           \<and> qt_logical_request_id t = py_strip logical_request_id) (q_transports S))))))"

end
