(* ===== verification/Quota_Effects.thy ===== *)
theory Quota_Effects
  imports Source_Quota
begin

text \<open>
  What the operations of the quota store do to its tables. Every operation is a sequence of a few
  effects at one time; the invariants are then proved once per effect.
\<close>

section \<open>Effects\<close>

definition final_attempt :: "attempt_outcome \<Rightarrow> utc \<Rightarrow> int \<Rightarrow> int \<Rightarrow> quota_attempt \<Rightarrow> quota_attempt" where
  "final_attempt outcome t ns rollback r = r\<lparr>qa_outcome := outcome, qa_committed_at := Some t, qa_last_monotonic_ns := ns,
     qa_lifecycle_sequence := qa_lifecycle_sequence r + 1, qa_clock_rollback_count := qa_clock_rollback_count r + rollback\<rparr>"

definition sent_attempt :: "utc \<Rightarrow> int \<Rightarrow> int \<Rightarrow> quota_attempt \<Rightarrow> quota_attempt" where
  "sent_attempt t ns rollback r = r\<lparr>qa_dispatched_at := Some t, qa_last_monotonic_ns := ns,
     qa_lifecycle_sequence := qa_lifecycle_sequence r + 1, qa_clock_rollback_count := qa_clock_rollback_count r + rollback\<rparr>"

definition started_at :: "quota_attempt \<Rightarrow> utc" where
  "started_at a = (case qa_dispatched_at a of None \<Rightarrow> qa_prepared_at a | Some d \<Rightarrow> d)"

definition new_lease :: "utc \<Rightarrow> quota_window \<Rightarrow> quota_lease \<Rightarrow> quota_store \<Rightarrow> bool" where
  "new_lease t w l S \<longleftrightarrow> w \<in> set (q_windows S) \<and> ql_source l = qw_source w \<and> ql_window_id l = qw_window_id w
     \<and> ql_lease_id l \<notin> ql_lease_id ` set (q_leases S) \<and> 1 \<le> ql_units l \<and> ql_used_units l = 0 \<and> ql_released_at l = None
     \<and> ql_granted_at l = t \<and> t < ql_expires_at l \<and> ql_units l \<le> remaining_in_window S w t"

inductive quota_effect :: "utc \<Rightarrow> quota_store \<Rightarrow> quota_store \<Rightarrow> bool" for t where
  eff_transport: "quota_effect t S (S\<lparr>q_transports := ts\<rparr>)"
| eff_clock: "\<forall>c \<in> set cs. qc_trusted_at c \<le> t \<or> c \<in> set (q_clocks S) \<Longrightarrow> quota_effect t S (S\<lparr>q_clocks := cs\<rparr>)"
| eff_window: "find_window (qw_source w) (qw_window_id w) S = None \<Longrightarrow>
    overlapping_window (qw_source w) (qw_starts_at w) (qw_resets_at w) S = None \<Longrightarrow>
    qw_starts_at w < qw_resets_at w \<Longrightarrow> 1 \<le> qw_total_units w \<Longrightarrow> quota_effect t S (S\<lparr>q_windows := q_windows S @ [w]\<rparr>)"
| eff_lease: "new_lease t w l S \<Longrightarrow> quota_effect t S (S\<lparr>q_leases := q_leases S @ [l]\<rparr>)"
| eff_attempt: "new_lease t w l S \<Longrightarrow> make_attempt a = Inr a \<Longrightarrow> qa_lease_id a = ql_lease_id l \<Longrightarrow> qa_units a = ql_units l \<Longrightarrow>
    qa_outcome a = OUTCOME_PENDING \<Longrightarrow> qa_attempt_id a \<notin> qa_attempt_id ` set (q_attempts S) \<Longrightarrow>
    qa_lease_id a \<notin> qa_lease_id ` set (q_attempts S) \<Longrightarrow> qa_prepared_at a = t \<Longrightarrow> started_at a = t \<Longrightarrow>
    quota_effect t S (S\<lparr>q_leases := q_leases S @ [l], q_attempts := q_attempts S @ [a]\<rparr>)"
| eff_consume: "find_lease i S = Some l \<Longrightarrow> i \<notin> qa_lease_id ` set (q_attempts S) \<Longrightarrow> ql_released_at l = None \<Longrightarrow>
    t < ql_expires_at l \<Longrightarrow> ql_used_units l + n \<le> ql_units l \<Longrightarrow> 1 \<le> n \<Longrightarrow> qu_lease_id u = i \<Longrightarrow> qu_units u = n \<Longrightarrow>
    qu_usage_id u \<notin> qu_usage_id ` set (q_usages S) \<Longrightarrow>
    quota_effect t S ((set_lease i (\<lambda>l. l\<lparr>ql_used_units := ql_used_units l + n\<rparr>) S)\<lparr>q_usages := q_usages S @ [u]\<rparr>)"
| eff_release: "find_lease i S = Some l \<Longrightarrow> \<not> has_pending_attempt S i \<Longrightarrow> ql_released_at l = None \<Longrightarrow>
    quota_effect t S (set_lease i (\<lambda>l. l\<lparr>ql_released_at := Some t\<rparr>) S)"
| eff_dispatch: "find_attempt i S = Some a \<Longrightarrow> qa_outcome a = OUTCOME_PENDING \<Longrightarrow> qa_dispatched_at a = None \<Longrightarrow> 0 \<le> ns \<Longrightarrow>
    rollback \<in> {0, 1} \<Longrightarrow> quota_effect t S (set_attempt i (sent_attempt (max t (qa_prepared_at a)) ns rollback) S)"
| eff_complete: "find_attempt i S = Some a \<Longrightarrow> qa_outcome a = OUTCOME_PENDING \<Longrightarrow> outcome \<noteq> OUTCOME_PENDING \<Longrightarrow>
    find_lease (qa_lease_id a) S = Some l \<Longrightarrow> ql_released_at l = None \<Longrightarrow> ql_used_units l + qa_units a \<le> ql_units l \<Longrightarrow>
    e = max t (started_at a) \<Longrightarrow> 0 \<le> ns \<Longrightarrow> rollback \<in> {0, 1} \<Longrightarrow> qu_lease_id u = qa_lease_id a \<Longrightarrow> qu_units u = qa_units a \<Longrightarrow>
    qu_usage_id u = ''attempt:'' @ i \<Longrightarrow> qu_usage_id u \<notin> qu_usage_id ` set (q_usages S) \<Longrightarrow>
    quota_effect t S (set_attempt i (final_attempt outcome e ns rollback)
      ((set_lease (qa_lease_id a) (\<lambda>l. l\<lparr>ql_used_units := ql_used_units l + qa_units a, ql_released_at := Some e\<rparr>) S)
         \<lparr>q_usages := q_usages S @ [u]\<rparr>))"

section \<open>Statements\<close>

lemma insert_lease_Inr:
  "insert_lease l S = Inr S' \<Longrightarrow> S' = S\<lparr>q_leases := q_leases S @ [l]\<rparr> \<and> ql_lease_id l \<notin> ql_lease_id ` set (q_leases S)"
  by (auto simp: insert_lease_def list_ex_iff)

lemma insert_attempt_Inr:
  "insert_attempt a S = Inr S' \<Longrightarrow> S' = S\<lparr>q_attempts := q_attempts S @ [a]\<rparr>
     \<and> qa_attempt_id a \<notin> qa_attempt_id ` set (q_attempts S) \<and> qa_lease_id a \<notin> qa_lease_id ` set (q_attempts S)"
  by (auto simp: insert_attempt_def list_ex_iff)

lemma insert_usage_Inr:
  "insert_usage u S = Inr S' \<Longrightarrow> S' = S\<lparr>q_usages := q_usages S @ [u]\<rparr> \<and> qu_usage_id u \<notin> qu_usage_id ` set (q_usages S)"
  by (auto simp: insert_usage_def list_ex_iff)

lemma insert_transport_Inr: "insert_transport x S = Inr S' \<Longrightarrow> S' = S\<lparr>q_transports := q_transports S @ [x]\<rparr>"
  by (simp add: insert_transport_def)

lemma ensure_window_effect:
  assumes "ensure_window w S = Inr S'" "qw_starts_at w < qw_resets_at w" "1 \<le> qw_total_units w"
  shows "(quota_effect t)\<^sup>*\<^sup>* S S'" "w \<in> set (q_windows S')"
    "q_leases S' = q_leases S" "q_attempts S' = q_attempts S" "q_clocks S' = q_clocks S" "q_usages S' = q_usages S"
proof -
  consider "find_window (qw_source w) (qw_window_id w) S = Some w" "S' = S"
    | "find_window (qw_source w) (qw_window_id w) S = None"
      "overlapping_window (qw_source w) (qw_starts_at w) (qw_resets_at w) S = None"
      "S' = S\<lparr>q_windows := q_windows S @ [w]\<rparr>"
    using assms(1) unfolding ensure_window_def insert_window_def
    by (auto simp del: select_one_None split: option.splits if_splits)
  then have "(quota_effect t)\<^sup>*\<^sup>* S S' \<and> w \<in> set (q_windows S') \<and> q_leases S' = q_leases S
      \<and> q_attempts S' = q_attempts S \<and> q_clocks S' = q_clocks S \<and> q_usages S' = q_usages S"
  proof cases
    case 1
    from select_one_SomeD [OF 1(1) [unfolded find_window_def]] 1(2) show ?thesis by simp
  next
    case 2
    from eff_window [OF 2(1,2) assms(2,3)] show ?thesis by (simp add: 2(3) r_into_rtranclp)
  qed
  then show "(quota_effect t)\<^sup>*\<^sup>* S S'" "w \<in> set (q_windows S')" "q_leases S' = q_leases S" "q_attempts S' = q_attempts S"
    "q_clocks S' = q_clocks S" "q_usages S' = q_usages S" by simp_all
qed

lemma active_window_Inr:
  "active_window source now S = Inr w \<Longrightarrow> w \<in> set (q_windows S) \<and> qw_source w = source \<and> qw_starts_at w \<le> now \<and> now < qw_resets_at w"
proof -
  assume a: "active_window source now S = Inr w"
  then obtain ws where "sort_key (\<lambda>w. - qw_starts_at w)
      (filter (\<lambda>w. qw_source w = source \<and> qw_starts_at w \<le> now \<and> now < qw_resets_at w) (q_windows S)) = w # ws"
    by (auto simp: active_window_def split: list.splits)
  then have "w \<in> set (sort_key (\<lambda>w. - qw_starts_at w)
      (filter (\<lambda>w. qw_source w = source \<and> qw_starts_at w \<le> now \<and> now < qw_resets_at w) (q_windows S)))" by simp
  then show ?thesis by simp
qed

lemma reserve_Inr:
  assumes "reserve digest source owner units granted expires reset w S = Inr (lease, S')"
    and "w \<in> set (q_windows S)" "qw_source w = source" "py_strip source = source"
  obtains l where "S' = S\<lparr>q_leases := q_leases S @ [l]\<rparr>" "new_lease granted w l S" "ql_lease_id l = sq_lease_id lease"
    "ql_units l = units" "ql_expires_at l = expires" "\<exists>j. sq_lease_id lease = canonical_sha256 digest j"
proof -
  from assms(1) obtain made where r: "units \<le> remaining_in_window S w granted"
    and made: "make_source_quota_lease digest
        \<lparr>sq_lease_id = [], sq_source = source, sq_owner = owner, sq_units = units, sq_granted_at = granted,
         sq_expires_at = expires, sq_quota_reset_at = reset, sq_released_at = None\<rparr> = Inr made"
    and ins: "insert_lease
        \<lparr>ql_lease_id = sq_lease_id made, ql_source = sq_source made, ql_window_id = qw_window_id w,
         ql_owner = sq_owner made, ql_units = sq_units made, ql_used_units = 0, ql_granted_at = sq_granted_at made,
         ql_expires_at = sq_expires_at made, ql_quota_reset_at = sq_quota_reset_at made, ql_released_at = None\<rparr> S = Inr S'"
    and "made = lease"
    unfolding reserve_def by (auto elim!: rbind_InrE split: if_splits simp: not_less)
  moreover from made have "sq_source made = source" "sq_units made = units" "sq_granted_at made = granted"
    "sq_expires_at made = expires" "granted < expires" "1 \<le> units" "\<exists>j. sq_lease_id made = canonical_sha256 digest j"
    using assms(4) by (auto simp: make_source_quota_lease_def Let_def bounded_def)
  ultimately show ?thesis using insert_lease_Inr [OF ins] assms(2,3) that by (auto simp: new_lease_def)
qed

section \<open>Operations\<close>

definition attempts_wf :: "quota_store \<Rightarrow> bool" where
  "attempts_wf S \<longleftrightarrow> (\<forall>a \<in> set (q_attempts S). make_attempt a = Inr a)"

lemma find_attempt_wf:
  "attempts_wf S \<Longrightarrow> find_attempt i S = Some row \<Longrightarrow> make_attempt row = Inr row \<and> row \<in> set (q_attempts S) \<and> qa_attempt_id row = i"
  by (auto simp: attempts_wf_def find_attempt_def dest!: select_one_SomeD)

lemma declare_window_effect:
  "declare_window source window_id starts resets total_units S = Inr S' \<Longrightarrow> (quota_effect t)\<^sup>*\<^sup>* S S'"
  unfolding declare_window_def Let_def
  by (elim rbind_InrE) (auto intro!: ensure_window_effect(1) simp: not_le not_less)

lemma acquire_effect:
  assumes "acquire digest source owner units now expires S = Inr (lease, S')"
  shows "(quota_effect now)\<^sup>*\<^sup>* S S'"
proof -
  from assms obtain w where w: "active_window (py_strip source) now S = Inr w"
    and c: "S' = S \<or> reserve digest (py_strip source) (py_strip owner) units now expires (qw_resets_at w) w S = Inr (lease, S')"
    unfolding acquire_def Let_def by (auto elim!: rbind_InrE simp del: select_one_None split: option.splits if_splits)
  from c show ?thesis
  proof
    assume "reserve digest (py_strip source) (py_strip owner) units now expires (qw_resets_at w) w S = Inr (lease, S')"
    then show ?thesis
      by (rule reserve_Inr) (use active_window_Inr [OF w] eff_lease in \<open>auto intro: r_into_rtranclp\<close>)
  qed simp
qed

lemma consume_effect:
  assumes "consume lease_id usage_id units now S = Inr S'"
  shows "(quota_effect now)\<^sup>*\<^sup>* S S'"
proof -
  let ?u = "\<lparr>qu_usage_id = py_strip usage_id, qu_lease_id = lease_id, qu_units = units, qu_consumed_at = now\<rparr>"
  let ?S = "set_lease lease_id (\<lambda>l. l\<lparr>ql_used_units := ql_used_units l + units\<rparr>) S"
  from assms consider "S' = S"
    | l where "find_lease lease_id S = Some l" "lease_id \<notin> qa_lease_id ` set (q_attempts S)" "ql_released_at l = None"
        "now < ql_expires_at l" "ql_used_units l + units \<le> ql_units l" "1 \<le> units" "insert_usage ?u ?S = Inr S'"
    unfolding consume_def Let_def
    by (auto elim!: rbind_InrE simp: list_ex_iff not_le not_less simp del: select_one_None split: option.splits if_splits)
  then show ?thesis
  proof cases
    case (2 l)
    from insert_usage_Inr [OF 2(7)] have "S' = ?S\<lparr>q_usages := q_usages S @ [?u]\<rparr>"
      "qu_usage_id ?u \<notin> qu_usage_id ` set (q_usages S)" by (simp_all add: set_lease_def)
    with eff_consume [OF 2(1-6), of ?u] show ?thesis by (simp add: r_into_rtranclp)
  qed simp
qed

lemma release_effect:
  "release digest lease_id now S = Inr (result, S') \<Longrightarrow> (quota_effect now)\<^sup>*\<^sup>* S S'"
  unfolding release_def
  by (auto simp: not_less intro!: r_into_rtranclp eff_release simp del: select_one_None split: option.splits if_splits)

lemma py_strip_hex: "is_hex_lower s \<Longrightarrow> py_strip s = s"
proof -
  have strip: "dropWhile is_space xs = xs" if "\<forall>c \<in> set xs. \<not> is_space c" for xs
    using that by (cases xs) auto
  assume "is_hex_lower s"
  moreover have "list_all (\<lambda>c. \<not> is_space c) ''0123456789abcdef''" by (simp add: is_space_def Let_def)
  ultimately have "\<forall>c \<in> set s. \<not> is_space c" unfolding is_hex_lower_def list_all_iff by blast
  then show ?thesis by (simp add: py_strip_def strip)
qed

text \<open>A new attempt with a digest for its lease is a valid model.\<close>

lemma make_new_attempt:
  assumes "is_sha256 (qa_lease_id a)" "py_strip (qa_boot_id a) = qa_boot_id a" "qa_boot_id a \<noteq> []"
    and "py_strip (qa_attempt_id a) = qa_attempt_id a" "qa_attempt_id a \<noteq> []" "py_strip (qa_source a) = qa_source a"
    and "qa_source a \<noteq> []" "py_strip (qa_owner a) = qa_owner a" "qa_owner a \<noteq> []" "1 \<le> qa_units a"
    and "0 \<le> qa_last_monotonic_ns a" "1 \<le> qa_lifecycle_sequence a" "0 \<le> qa_clock_rollback_count a"
    and "opt_all (\<lambda>d. qa_prepared_at a \<le> d) (qa_dispatched_at a)" "qa_outcome a = OUTCOME_PENDING" "qa_committed_at a = None"
  shows "make_attempt a = Inr a"
proof -
  have "py_strip (qa_lease_id a) = qa_lease_id a" using assms(1) by (simp add: py_strip_hex is_sha256_def)
  with assms show ?thesis by (simp add: make_attempt_def Let_def raise_first.simps)
qed

lemma begin_attempt_effect:
  assumes "begin_attempt digest boot_id source owner attempt_id units now ns expires S = Inr (result, S')"
    and sha: "\<And>j. is_sha256 (digest j)" and boot: "py_strip boot_id = boot_id" "boot_id \<noteq> []"
  shows "(quota_effect now)\<^sup>*\<^sup>* S S'"
proof -
  let ?s = "py_strip source" and ?o = "py_strip owner" and ?i = "py_strip attempt_id"
  from assms(1) consider "S' = S"
    | w lease S1 a where "0 \<le> ns" "?s \<noteq> []" "?o \<noteq> []" "?i \<noteq> []" "1 \<le> units" "active_window ?s now S = Inr w"
        "reserve digest ?s ?o units now expires (qw_resets_at w) w S = Inr (lease, S1)"
        "a = \<lparr>qa_attempt_id = ?i, qa_source = ?s, qa_owner = ?o, qa_lease_id = sq_lease_id lease,
              qa_units = units, qa_prepared_at = now, qa_dispatched_at = None, qa_outcome = OUTCOME_PENDING,
              qa_committed_at = None, qa_boot_id = boot_id, qa_last_monotonic_ns = ns,
              qa_lifecycle_sequence = 1, qa_clock_rollback_count = 0\<rparr>" "insert_attempt a S1 = Inr S'"
    unfolding begin_attempt_def Let_def
    by (auto elim!: rbind_InrE simp: not_less simp del: select_one_None split: option.splits if_splits)
  then show ?thesis
  proof cases
    case (2 w lease S1 a)
    note w = active_window_Inr [OF 2(6)]
    from 2(7) obtain l where S1: "S1 = S\<lparr>q_leases := q_leases S @ [l]\<rparr>" and l: "new_lease now w l S"
      "ql_lease_id l = sq_lease_id lease" "ql_units l = units" "\<exists>j. sq_lease_id lease = canonical_sha256 digest j"
      by (rule reserve_Inr) (use w in auto)
    have "make_attempt a = Inr a"
      by (rule make_new_attempt) (use 2(1-5) l(4) sha boot in \<open>auto simp: 2(8) canonical_sha256_def opt_all_def\<close>)
    then have "quota_effect now S (S\<lparr>q_leases := q_leases S @ [l], q_attempts := q_attempts S @ [a]\<rparr>)"
      using insert_attempt_Inr [OF 2(9)] l S1 by (intro eff_attempt) (auto simp: 2(8) started_at_def)
    then show ?thesis using insert_attempt_Inr [OF 2(9)] S1 by (simp add: r_into_rtranclp)
  qed simp
qed

lemma mark_dispatched_effect:
  assumes "mark_dispatched attempt_id now ns S = Inr (result, S')" "attempts_wf S"
  shows "(quota_effect now)\<^sup>*\<^sup>* S S'"
proof -
  from assms(1) obtain row a where row: "find_attempt attempt_id S = Some row" "make_attempt row = Inr a" and ns: "0 \<le> ns"
    by (auto simp: mark_dispatched_def not_less simp del: select_one_None split: option.splits if_splits)
  note wf = find_attempt_wf [OF assms(2) row(1)]
  from assms(1) wf row ns consider "S' = S" | "qa_outcome row = OUTCOME_PENDING" "qa_dispatched_at row = None"
      "S' = set_attempt attempt_id (sent_attempt (max now (qa_prepared_at row)) ns (if now < qa_prepared_at row then 1 else 0)) S"
    by (auto simp: mark_dispatched_def Let_def sent_attempt_def [abs_def] simp del: select_one_None split: if_splits)
  then show ?thesis
  proof cases
    case 2
    from eff_dispatch [OF row(1) 2(1,2) ns, of "if now < qa_prepared_at row then 1 else 0" now] show ?thesis
      by (auto simp: 2(3) split: if_splits)
  qed simp
qed

lemma set_lease_twice:
  "(\<And>l. ql_lease_id (f l) = ql_lease_id l) \<Longrightarrow>
   set_lease i g ((set_lease i f S)\<lparr>q_usages := us\<rparr>) = (set_lease i (\<lambda>l. g (f l)) S)\<lparr>q_usages := us\<rparr>"
  by (simp add: set_lease_def update_where_def)

lemma complete_attempt_cases:
  assumes "complete_attempt attempt_id outcome now ns S = Inr (result, S')" "attempts_wf S"
  obtains (known) row where "S' = S" "find_attempt attempt_id S = Some row" "qa_outcome row = outcome" "outcome \<noteq> OUTCOME_PENDING"
      "result = Inr row"
  | (completed) a l u rollback where "find_attempt attempt_id S = Some a" "qa_outcome a = OUTCOME_PENDING" "outcome \<noteq> OUTCOME_PENDING"
      "find_lease (qa_lease_id a) S = Some l" "ql_released_at l = None" "ql_used_units l + qa_units a \<le> ql_units l"
      "0 \<le> ns" "rollback \<in> {0, 1}" "qu_lease_id u = qa_lease_id a" "qu_units u = qa_units a"
      "qu_usage_id u = ''attempt:'' @ attempt_id" "qu_usage_id u \<notin> qu_usage_id ` set (q_usages S)"
      "result = make_attempt (final_attempt outcome (max now (started_at a)) ns rollback a)"
      "S' = set_attempt attempt_id (final_attempt outcome (max now (started_at a)) ns rollback)
        ((set_lease (qa_lease_id a) (\<lambda>l. l\<lparr>ql_used_units := ql_used_units l + qa_units a,
             ql_released_at := Some (max now (started_at a))\<rparr>) S)\<lparr>q_usages := q_usages S @ [u]\<rparr>)"
proof -
  from assms(1) obtain a where row: "find_attempt attempt_id S = Some a" and ns: "0 \<le> ns" and fin: "outcome \<noteq> OUTCOME_PENDING"
    by (auto simp: complete_attempt_def not_less simp del: select_one_None split: option.splits if_splits)
  note wf = find_attempt_wf [OF assms(2) row]
  show ?thesis
  proof (cases "qa_outcome a = OUTCOME_PENDING")
    case False
    with assms(1) row wf fin ns show ?thesis
      by (intro known [of a]) (auto simp: complete_attempt_def split: if_splits)
  next
    case True
    let ?rb = "if now < started_at a then 1 else 0"
    let ?u = "\<lparr>qu_usage_id = ''attempt:'' @ attempt_id, qu_lease_id = qa_lease_id a, qu_units = qa_units a,
        qu_consumed_at = max now (started_at a)\<rparr>"
    let ?S = "set_lease (qa_lease_id a) (\<lambda>l. l\<lparr>ql_used_units := ql_used_units l + qa_units a\<rparr>) S"
    from assms(1) True row wf fin ns obtain l S1 where l: "find_lease (qa_lease_id a) S = Some l" "ql_released_at l = None"
        "ql_used_units l + qa_units a \<le> ql_units l" and ins: "insert_usage ?u ?S = Inr S1"
      and res: "result = make_attempt (final_attempt outcome (max now (started_at a)) ns ?rb a)"
      and S': "S' = set_attempt attempt_id (final_attempt outcome (max now (started_at a)) ns ?rb)
        (set_lease (qa_lease_id a) (\<lambda>l. l\<lparr>ql_released_at := Some (max now (started_at a))\<rparr>) S1)"
      unfolding complete_attempt_def started_at_def [symmetric] Let_def final_attempt_def [abs_def]
      by (auto simp: not_less simp del: select_one_None split: option.splits if_splits)
    have S1: "S1 = ?S\<lparr>q_usages := q_usages S @ [?u]\<rparr>" "qu_usage_id ?u \<notin> qu_usage_id ` set (q_usages S)"
      using insert_usage_Inr [OF ins] by (simp_all add: set_lease_def)
    show ?thesis
      by (rule completed [OF row True fin l ns, of ?rb ?u]) (use S1(2) res in \<open>simp_all add: S' S1(1) set_lease_twice\<close>)
  qed
qed

lemma complete_attempt_effect:
  assumes "complete_attempt attempt_id outcome now ns S = Inr (result, S')" "attempts_wf S"
  shows "(quota_effect now)\<^sup>*\<^sup>* S S'"
  using assms
proof (cases rule: complete_attempt_cases)
  case (completed a l u rollback)
  from eff_complete [OF completed(1-6) refl completed(7-12)] show ?thesis by (simp add: completed(14) r_into_rtranclp)
qed simp

lemma bind_transport_attempt_effect:
  "bind_transport_attempt attempt_id source logical_request_id api_name call_ordinal S = Inr S' \<Longrightarrow> (quota_effect t)\<^sup>*\<^sup>* S S'"
  unfolding bind_transport_attempt_def Let_def
  by (auto elim!: rbind_InrE dest!: insert_transport_Inr intro!: r_into_rtranclp eff_transport simp del: select_one_None
      split: option.splits if_splits)

section \<open>Clocks\<close>

definition times_ok :: "utc \<Rightarrow> quota_store \<Rightarrow> bool" where
  "times_ok T S \<longleftrightarrow> (\<forall>c \<in> set (q_clocks S). qc_trusted_at c \<le> T)
     \<and> (\<forall>a \<in> set (q_attempts S). qa_prepared_at a \<le> T \<and> started_at a \<le> T)"

lemma fold_max_le: "fold max ts t \<le> (T :: 'a :: linorder) \<longleftrightarrow> t \<le> T \<and> (\<forall>x \<in> set ts. x \<le> T)"
  by (induction ts arbitrary: t) auto

lemma latest_attempt_at_le:
  assumes "times_ok T S" "latest_attempt_at source S = Some t" shows "t \<le> T"
proof -
  have "\<forall>x \<in> set (map started_at (filter (\<lambda>a. qa_source a = source) (q_attempts S))). x \<le> T"
    using assms(1) by (simp add: times_ok_def)
  with assms(2) show ?thesis
    by (cases "map started_at (filter (\<lambda>a. qa_source a = source) (q_attempts S))")
       (auto simp: latest_attempt_at_def started_at_def [symmetric] fold_max_le)
qed

lemma advance_clock_Inr:
  assumes "advance_clock source kind observed S = Inr (effective, rollback, S')"
  shows "quota_effect effective S S'" "observed \<le> effective" "0 \<le> rollback"
    "times_ok T S \<Longrightarrow> T \<le> observed \<Longrightarrow> effective = observed"
    "q_windows S' = q_windows S" "q_leases S' = q_leases S" "q_attempts S' = q_attempts S" "q_usages S' = q_usages S"
proof -
  have "\<exists>cs. S' = S\<lparr>q_clocks := cs\<rparr> \<and> (\<forall>c \<in> set cs. qc_trusted_at c \<le> effective \<or> c \<in> set (q_clocks S))
      \<and> observed \<le> effective \<and> 0 \<le> rollback"
    using assms unfolding advance_clock_def Let_def
    by (intro exI [of _ "q_clocks S'"])
       (auto simp: set_update_where simp del: select_one_None split: option.splits if_splits)
  then obtain cs where cs: "S' = S\<lparr>q_clocks := cs\<rparr>" "\<forall>c \<in> set cs. qc_trusted_at c \<le> effective \<or> c \<in> set (q_clocks S)"
    "observed \<le> effective" "0 \<le> rollback" by blast
  then show "quota_effect effective S S'" "observed \<le> effective" "0 \<le> rollback" "q_windows S' = q_windows S"
    "q_leases S' = q_leases S" "q_attempts S' = q_attempts S" "q_usages S' = q_usages S" by (auto intro: eff_clock)
  assume t: "times_ok T S" "T \<le> observed"
  have "\<forall>t. latest_attempt_at source S = Some t \<longrightarrow> t \<le> observed" using latest_attempt_at_le [OF t(1)] t(2) by force
  moreover have "\<forall>c. select_one (\<lambda>c. qc_source c = source) (q_clocks S) = Some c \<longrightarrow> qc_trusted_at c \<le> observed"
    using t by (fastforce simp: times_ok_def dest!: select_one_SomeD)
  ultimately show "effective = observed"
    using assms unfolding advance_clock_def Let_def
    by (auto simp: max_def simp del: select_one_None split: option.splits if_splits)
qed

lemma div_block: "0 < d \<Longrightarrow> t div d * d \<le> t \<and> t < t div d * d + (d :: int)"
  using div_mult_mod_eq [of t d] pos_mod_bound [of d t] pos_mod_sign [of d t] by linarith

lemma quota_window_at_bounds:
  "quota_window_at kind t = (i, starts, resets) \<Longrightarrow> starts \<le> t \<and> t < resets \<and> starts < resets"
  using div_block [of microseconds_per_day t] div_block [of microseconds_per_minute t]
  by (cases kind) (auto simp: quota_window_at_def Let_def microseconds_per_day_def microseconds_per_minute_def)

lemma new_transport_attempt_Inr:
  assumes "new_transport_attempt digest boot_id source owner attempt_id t units total_units kind observed ns S = Inr (result, S')"
  obtains e rollback S1 i starts resets S2 lease S3 S4
  where "advance_clock source kind observed S = Inr (e, rollback, S1)" "quota_window_at kind e = (i, starts, resets)"
    "ensure_window \<lparr>qw_source = source, qw_window_id = i, qw_starts_at = starts, qw_resets_at = resets,
        qw_total_units = total_units\<rparr> S1 = Inr S2"
    "reserve digest source owner units e resets resets \<lparr>qw_source = source, qw_window_id = i, qw_starts_at = starts,
        qw_resets_at = resets, qw_total_units = total_units\<rparr> S2 = Inr (lease, S3)"
    "insert_attempt \<lparr>qa_attempt_id = attempt_id, qa_source = source, qa_owner = owner, qa_lease_id = sq_lease_id lease,
        qa_units = units, qa_prepared_at = e, qa_dispatched_at = Some e, qa_outcome = OUTCOME_PENDING, qa_committed_at = None,
        qa_boot_id = boot_id, qa_last_monotonic_ns = ns, qa_lifecycle_sequence = 2, qa_clock_rollback_count = rollback\<rparr> S3 = Inr S4"
    "insert_transport t S4 = Inr S'"
  using assms unfolding new_transport_attempt_def Let_def
  by (elim rbind_InrE) (auto elim!: rbind_InrE intro: that simp del: rbind_eq_Inr select_one_None split: prod.splits if_splits)

lemma new_transport_attempt_effect:
  assumes op: "new_transport_attempt digest boot_id source owner attempt_id x units total_units kind observed ns S = Inr (result, S')"
    and sha: "\<And>j. is_sha256 (digest j)" and boot: "py_strip boot_id = boot_id" "boot_id \<noteq> []"
    and texts: "py_strip source = source" "source \<noteq> []" "py_strip owner = owner" "owner \<noteq> []"
      "py_strip attempt_id = attempt_id" "attempt_id \<noteq> []" and nums: "0 \<le> ns" "1 \<le> units" "1 \<le> total_units"
  obtains t where "(quota_effect t)\<^sup>*\<^sup>* S S'" "observed \<le> t" "\<And>T. times_ok T S \<Longrightarrow> T \<le> observed \<Longrightarrow> t = observed"
  using op
proof (rule new_transport_attempt_Inr)
  fix e rollback S1 i starts resets S2 and lease :: source_quota_lease and S3 S4
  let ?w = "\<lparr>qw_source = source, qw_window_id = i, qw_starts_at = starts, qw_resets_at = resets, qw_total_units = total_units\<rparr>"
  let ?a = "\<lparr>qa_attempt_id = attempt_id, qa_source = source, qa_owner = owner, qa_lease_id = sq_lease_id lease,
        qa_units = units, qa_prepared_at = e, qa_dispatched_at = Some e, qa_outcome = OUTCOME_PENDING, qa_committed_at = None,
        qa_boot_id = boot_id, qa_last_monotonic_ns = ns, qa_lifecycle_sequence = 2, qa_clock_rollback_count = rollback\<rparr>"
  assume clk: "advance_clock source kind observed S = Inr (e, rollback, S1)" and at: "quota_window_at kind e = (i, starts, resets)"
    and win: "ensure_window ?w S1 = Inr S2" and res: "reserve digest source owner units e resets resets ?w S2 = Inr (lease, S3)"
    and att: "insert_attempt ?a S3 = Inr S4" and tr: "insert_transport x S4 = Inr S'"
  note clock = advance_clock_Inr [OF clk]
  have w': "(quota_effect e)\<^sup>*\<^sup>* S1 S2" "?w \<in> set (q_windows S2)"
    by (rule ensure_window_effect [OF win]; use quota_window_at_bounds [OF at] nums(3) in simp)+
  from res obtain l where S3: "S3 = S2\<lparr>q_leases := q_leases S2 @ [l]\<rparr>" and l: "new_lease e ?w l S2"
    "ql_lease_id l = sq_lease_id lease" "ql_units l = units" "\<exists>j. sq_lease_id lease = canonical_sha256 digest j"
    by (rule reserve_Inr) (use w'(2) texts(1) in auto)
  have S4: "S4 = S2\<lparr>q_leases := q_leases S2 @ [l], q_attempts := q_attempts S2 @ [?a]\<rparr>"
    and new: "attempt_id \<notin> qa_attempt_id ` set (q_attempts S2)" "sq_lease_id lease \<notin> qa_lease_id ` set (q_attempts S2)"
    using insert_attempt_Inr [OF att] S3 by simp_all
  have made: "make_attempt ?a = Inr ?a"
    by (rule make_new_attempt) (use l(4) sha boot clock(3) texts nums in \<open>auto simp: canonical_sha256_def opt_all_def\<close>)
  have "quota_effect e S2 S4"
    unfolding S4 by (rule eff_attempt [OF l(1) made]) (use l new in \<open>simp_all add: started_at_def\<close>)
  moreover have "quota_effect e S4 S'" unfolding insert_transport_Inr [OF tr] by (rule eff_transport)
  ultimately have "(quota_effect e)\<^sup>*\<^sup>* S2 S'" by (rule converse_rtranclp_into_rtranclp [OF _ r_into_rtranclp])
  with w'(1) have "(quota_effect e)\<^sup>*\<^sup>* S1 S'" by (rule rtranclp_trans)
  with clock(1) have "(quota_effect e)\<^sup>*\<^sup>* S S'" by (rule converse_rtranclp_into_rtranclp)
  then show ?thesis using clock(2,4) by (rule that)
qed

lemma begin_transport_dispatch_effect:
  assumes op: "begin_transport_dispatch digest boot_id source owner attempt_id logical_request_id api_name call_ordinal units
      total_units kind observed ns S = Inr (result, S')"
    and sha: "\<And>j. is_sha256 (digest j)" and boot: "py_strip boot_id = boot_id" "boot_id \<noteq> []"
  obtains t where "(quota_effect t)\<^sup>*\<^sup>* S S'" "observed \<le> t" "\<And>T. times_ok T S \<Longrightarrow> T \<le> observed \<Longrightarrow> t = observed"
proof -
  let ?s = "py_strip source" and ?o = "py_strip owner" and ?i = "py_strip attempt_id"
  from op consider "S' = S" | x where "insert_transport x S = Inr S'"
    | x where "?s \<noteq> []" "?o \<noteq> []" "?i \<noteq> []" "0 \<le> ns" "1 \<le> units" "1 \<le> total_units"
        "new_transport_attempt digest boot_id ?s ?o ?i x units total_units kind observed ns S = Inr (result, S')"
    unfolding begin_transport_dispatch_def Let_def
    by (auto elim!: rbind_InrE simp: not_less simp del: select_one_None split: option.splits if_splits)
  then show ?thesis
  proof cases
    case 1
    then show ?thesis by (intro that [of observed]) simp_all
  next
    case (2 x)
    have "quota_effect observed S S'" unfolding insert_transport_Inr [OF 2] by (rule eff_transport)
    then show ?thesis by (intro that [of observed]) auto
  next
    case (3 x)
    from 3(7) sha boot show ?thesis by (rule new_transport_attempt_effect) (use 3 that in auto)
  qed
qed

lemma recover_each_effect:
  assumes safe: "\<And>S S'. quota_effect now S S' \<Longrightarrow> safe S \<Longrightarrow> safe S'" "\<And>S. safe S \<Longrightarrow> attempts_wf S"
  shows "recover_each now monotonic ids recovered S = (result, S') \<Longrightarrow> safe S \<Longrightarrow> (quota_effect now)\<^sup>*\<^sup>* S S'"
proof (induction ids arbitrary: recovered S)
  case (Cons i ids)
  have step: "(quota_effect now)\<^sup>*\<^sup>* S S1" if "recover_attempt i now (monotonic i) S = Inr (r, S1)" for r S1
    using that safe(2) [OF Cons.prems(2)] unfolding recover_attempt_def by (rule complete_attempt_effect)
  consider (stop) "S' = S" | (skip) "recover_each now monotonic ids recovered S = (result, S')"
    | (fail) e where "recover_attempt i now (monotonic i) S = Inr (Inl e, S')"
    | (go) a S1 where "recover_attempt i now (monotonic i) S = Inr (Inr a, S1)"
        "recover_each now monotonic ids (recovered @ [a]) S1 = (result, S')"
    using Cons.prems(1) by (auto split: sum.splits option.splits if_splits prod.splits)
  then show ?case
  proof cases
    case skip
    then show ?thesis using Cons.prems(2) by (rule Cons.IH)
  next
    case (go a S1)
    have "safe S1" using step [OF go(1)] Cons.prems(2) by (induction rule: rtranclp_induct) (auto intro: safe(1))
    with go(2) have "(quota_effect now)\<^sup>*\<^sup>* S1 S'" by (rule Cons.IH)
    with step [OF go(1)] show ?thesis by (rule rtranclp_trans)
  qed (auto dest: step)
qed simp

end
