(* ===== verification/Quota_Invariants.thy ===== *)
theory Quota_Invariants
  imports Quota_Effects Systems
begin

text \<open>
  The invariants of the quota store. The rows agree with each other (leases, usages, attempts), the
  attempts of a window fit its total under any clock, and under a clock that does not run back no
  window is ever overdrawn. Each is proved once per effect and lifted to the operations.
\<close>

section \<open>Rows\<close>

lemma image_update_where: "(\<And>x. g (f x) = g x) \<Longrightarrow> g ` set (update_where p f xs) = g ` set xs"
  by (induction xs) auto

lemma set_lease_fields [simp]:
  "q_leases (set_lease i f S) = update_where (\<lambda>l. ql_lease_id l = i) f (q_leases S)" "q_windows (set_lease i f S) = q_windows S"
  "q_usages (set_lease i f S) = q_usages S" "q_attempts (set_lease i f S) = q_attempts S" "q_clocks (set_lease i f S) = q_clocks S"
  by (simp_all add: set_lease_def)

lemma set_attempt_fields [simp]:
  "q_attempts (set_attempt i f S) = update_where (\<lambda>a. qa_attempt_id a = i) f (q_attempts S)"
  "q_windows (set_attempt i f S) = q_windows S" "q_leases (set_attempt i f S) = q_leases S"
  "q_usages (set_attempt i f S) = q_usages S" "q_clocks (set_attempt i f S) = q_clocks S"
  by (simp_all add: set_attempt_def)

lemma sent_attempt_fields [simp]:
  "qa_attempt_id (sent_attempt t ns r a) = qa_attempt_id a" "qa_lease_id (sent_attempt t ns r a) = qa_lease_id a"
  "qa_units (sent_attempt t ns r a) = qa_units a" "qa_outcome (sent_attempt t ns r a) = qa_outcome a"
  "qa_source (sent_attempt t ns r a) = qa_source a" "qa_prepared_at (sent_attempt t ns r a) = qa_prepared_at a"
  "started_at (sent_attempt t ns r a) = t"
  by (simp_all add: sent_attempt_def started_at_def)

lemma final_attempt_fields [simp]:
  "qa_attempt_id (final_attempt c t ns r a) = qa_attempt_id a" "qa_lease_id (final_attempt c t ns r a) = qa_lease_id a"
  "qa_units (final_attempt c t ns r a) = qa_units a" "qa_outcome (final_attempt c t ns r a) = c"
  "qa_source (final_attempt c t ns r a) = qa_source a" "qa_prepared_at (final_attempt c t ns r a) = qa_prepared_at a"
  "started_at (final_attempt c t ns r a) = started_at a"
  by (simp_all add: final_attempt_def started_at_def split: option.split)

definition window_key :: "quota_window \<Rightarrow> string \<times> string" where
  "window_key w = (qw_source w, qw_window_id w)"

definition lease_key :: "quota_lease \<Rightarrow> string \<times> string" where
  "lease_key l = (ql_source l, ql_window_id l)"

lemma window_leases_key: "window_leases w S = filter (\<lambda>l. lease_key l = window_key w) (q_leases S)"
  by (simp add: window_leases_def lease_key_def window_key_def)

definition charged :: "string \<Rightarrow> quota_usage list \<Rightarrow> int" where
  "charged i us = sum_by qu_units (filter (\<lambda>u. qu_lease_id u = i) us)"

lemma charged_simps [simp]: "charged i [] = 0" "charged i (us @ [u]) = charged i us + (if qu_lease_id u = i then qu_units u else 0)"
  by (simp_all add: charged_def)

lemma charged_none: "i \<notin> qu_lease_id ` set us \<Longrightarrow> charged i us = 0"
  by (induction us) (auto simp: charged_def)

definition leases_ok :: "quota_store \<Rightarrow> bool" where
  "leases_ok S \<longleftrightarrow> distinct (map window_key (q_windows S)) \<and> distinct (map ql_lease_id (q_leases S))
     \<and> (\<forall>l \<in> set (q_leases S). lease_key l \<in> window_key ` set (q_windows S) \<and> 1 \<le> ql_units l
          \<and> 0 \<le> ql_used_units l \<and> ql_used_units l \<le> ql_units l)"

definition books_ok :: "quota_store \<Rightarrow> bool" where
  "books_ok S \<longleftrightarrow> distinct (map qu_usage_id (q_usages S))
     \<and> (\<forall>u \<in> set (q_usages S). qu_lease_id u \<in> ql_lease_id ` set (q_leases S))
     \<and> (\<forall>l \<in> set (q_leases S). ql_used_units l = charged (ql_lease_id l) (q_usages S))"

definition attempt_lease :: "quota_attempt \<Rightarrow> quota_lease \<Rightarrow> bool" where
  "attempt_lease a l \<longleftrightarrow> ql_lease_id l = qa_lease_id a \<and> ql_units l = qa_units a
     \<and> (if qa_outcome a = OUTCOME_PENDING then ql_used_units l = 0 \<and> ql_released_at l = None
        else ql_used_units l = ql_units l \<and> ql_released_at l \<noteq> None)"

definition attempts_ok :: "quota_store \<Rightarrow> bool" where
  "attempts_ok S \<longleftrightarrow> attempts_wf S \<and> distinct (map qa_attempt_id (q_attempts S)) \<and> distinct (map qa_lease_id (q_attempts S))
     \<and> (\<forall>a \<in> set (q_attempts S). \<exists>l \<in> set (q_leases S). attempt_lease a l)"

lemma find_leaseD: "find_lease i S = Some l \<Longrightarrow> l \<in> set (q_leases S) \<and> ql_lease_id l = i"
  by (auto simp: find_lease_def dest: select_one_SomeD)

lemma find_attemptD: "find_attempt i S = Some a \<Longrightarrow> a \<in> set (q_attempts S) \<and> qa_attempt_id a = i"
  by (auto simp: find_attempt_def dest: select_one_SomeD)

lemma lease_unique:
  "leases_ok S \<Longrightarrow> l \<in> set (q_leases S) \<Longrightarrow> l' \<in> set (q_leases S) \<Longrightarrow> ql_lease_id l = ql_lease_id l' \<Longrightarrow> l = l'"
  by (auto simp: leases_ok_def distinct_map dest: inj_onD)

lemma attempt_unique:
  "attempts_ok S \<Longrightarrow> a \<in> set (q_attempts S) \<Longrightarrow> a' \<in> set (q_attempts S) \<Longrightarrow> qa_attempt_id a = qa_attempt_id a' \<Longrightarrow> a = a'"
  "attempts_ok S \<Longrightarrow> a \<in> set (q_attempts S) \<Longrightarrow> a' \<in> set (q_attempts S) \<Longrightarrow> qa_lease_id a = qa_lease_id a' \<Longrightarrow> a = a'"
  by (auto simp: attempts_ok_def distinct_map dest: inj_onD)

lemma window_unique:
  "leases_ok S \<Longrightarrow> w \<in> set (q_windows S) \<Longrightarrow> w' \<in> set (q_windows S) \<Longrightarrow> window_key w = window_key w' \<Longrightarrow> w = w'"
  by (auto simp: leases_ok_def distinct_map dest: inj_onD)

lemma no_window: "find_window (qw_source w) (qw_window_id w) S = None \<Longrightarrow> window_key w \<notin> window_key ` set (q_windows S)"
  by (auto simp: find_window_def window_key_def)

text \<open>A row is a valid model exactly when its texts are stripped and its lifecycle is consistent.\<close>

lemma make_attempt_fixed:
  "make_attempt a = Inr a \<longleftrightarrow> py_strip (qa_attempt_id a) = qa_attempt_id a \<and> py_strip (qa_source a) = qa_source a
     \<and> py_strip (qa_owner a) = qa_owner a \<and> py_strip (qa_lease_id a) = qa_lease_id a \<and> py_strip (qa_boot_id a) = qa_boot_id a
     \<and> qa_attempt_id a \<noteq> [] \<and> qa_source a \<noteq> [] \<and> qa_owner a \<noteq> [] \<and> qa_boot_id a \<noteq> [] \<and> is_sha256 (qa_lease_id a)
     \<and> 1 \<le> qa_units a \<and> 0 \<le> qa_last_monotonic_ns a \<and> 1 \<le> qa_lifecycle_sequence a \<and> 0 \<le> qa_clock_rollback_count a
     \<and> opt_all (\<lambda>d. qa_prepared_at a \<le> d) (qa_dispatched_at a)
     \<and> (case qa_committed_at a of None \<Rightarrow> qa_outcome a = OUTCOME_PENDING
        | Some c \<Rightarrow> qa_outcome a \<noteq> OUTCOME_PENDING \<and> qa_prepared_at a \<le> c \<and> opt_all (\<lambda>d. d \<le> c) (qa_dispatched_at a))"
  by (cases a; cases "qa_committed_at a"; cases "qa_dispatched_at a")
     (auto simp: make_attempt_def Let_def raise_first.simps opt_all_def)

lemma make_sent_attempt:
  "make_attempt a = Inr a \<Longrightarrow> qa_outcome a = OUTCOME_PENDING \<Longrightarrow> 0 \<le> ns \<Longrightarrow> 0 \<le> r \<Longrightarrow>
   make_attempt (sent_attempt (max t (qa_prepared_at a)) ns r a) = Inr (sent_attempt (max t (qa_prepared_at a)) ns r a)"
  unfolding make_attempt_fixed by (auto simp: sent_attempt_def opt_all_def split: option.splits)

lemma make_final_attempt:
  "make_attempt a = Inr a \<Longrightarrow> c \<noteq> OUTCOME_PENDING \<Longrightarrow> 0 \<le> ns \<Longrightarrow> 0 \<le> r \<Longrightarrow>
   make_attempt (final_attempt c (max t (started_at a)) ns r a) = Inr (final_attempt c (max t (started_at a)) ns r a)"
  unfolding make_attempt_fixed by (auto simp: final_attempt_def started_at_def opt_all_def split: option.splits)

lemma attempts_okD: "attempts_ok S \<Longrightarrow> a \<in> set (q_attempts S) \<Longrightarrow> make_attempt a = Inr a"
  by (simp add: attempts_ok_def attempts_wf_def)

lemma attempt_positive: "attempts_ok S \<Longrightarrow> find_attempt i S = Some a \<Longrightarrow> 1 \<le> qa_units a"
  using attempts_okD [of S a] find_attemptD [of i S a] by (simp add: make_attempt_fixed)

lemma find_lease_unique:
  "leases_ok S \<Longrightarrow> find_lease i S = Some l \<Longrightarrow> l' \<in> set (q_leases S) \<Longrightarrow> ql_lease_id l' = i \<Longrightarrow> l' = l"
  using find_leaseD [of i S l] lease_unique [of S l' l] by simp

lemma find_attempt_unique:
  "attempts_ok S \<Longrightarrow> find_attempt i S = Some a \<Longrightarrow> a' \<in> set (q_attempts S) \<Longrightarrow> qa_attempt_id a' = i \<Longrightarrow> a' = a"
  using find_attemptD [of i S a] attempt_unique(1) [of S a' a] by simp

section \<open>Every effect keeps the rows consistent\<close>

lemma leases_ok_set_lease:
  assumes "leases_ok S" and find: "find_lease i S = Some l" and l: "0 \<le> n" "ql_used_units l + n \<le> ql_units l"
    and f: "\<And>l. ql_lease_id (f l) = ql_lease_id l" "\<And>l. lease_key (f l) = lease_key l" "\<And>l. ql_units (f l) = ql_units l"
      "\<And>l. ql_used_units (f l) = ql_used_units l + n"
  shows "leases_ok (set_lease i f S)"
proof -
  have "ql_used_units l' + n \<le> ql_units l'" if "l' \<in> set (q_leases S)" "ql_lease_id l' = i" for l'
    using find_lease_unique [OF assms(1) find that] l by simp
  with assms(1) l(1) show ?thesis by (auto simp: leases_ok_def set_update_where map_update_where f)
qed

lemma leases_ok_other: "leases_ok (S\<lparr>q_usages := us\<rparr>) = leases_ok S" "leases_ok (S\<lparr>q_transports := ts\<rparr>) = leases_ok S"
    "leases_ok (S\<lparr>q_clocks := cs\<rparr>) = leases_ok S" "leases_ok (set_attempt i f S) = leases_ok S"
    "leases_ok (S\<lparr>q_attempts := attempts\<rparr>) = leases_ok S"
  by (simp_all add: leases_ok_def)

lemma leases_ok_new: "new_lease t w l S \<Longrightarrow> leases_ok S \<Longrightarrow> leases_ok (S\<lparr>q_leases := q_leases S @ [l]\<rparr>)"
  by (auto simp: leases_ok_def new_lease_def lease_key_def window_key_def)

lemma effect_leases_ok: "quota_effect t S S' \<Longrightarrow> attempts_ok S \<Longrightarrow> leases_ok S \<Longrightarrow> leases_ok S'"
proof (induction rule: quota_effect.induct)
  case (eff_window w S)
  then show ?case using no_window [OF eff_window(1)] by (auto simp: leases_ok_def)
next
  case (eff_lease w l S)
  then show ?case by (intro leases_ok_new)
next
  case (eff_attempt w l S a)
  from leases_ok_new [OF eff_attempt(1) eff_attempt.prems(2)] show ?case by (simp add: leases_ok_def)
next
  case (eff_consume i S l n u)
  from leases_ok_set_lease [OF eff_consume.prems(2) eff_consume(1), of n] eff_consume(5,6) show ?case
    by (simp add: leases_ok_other lease_key_def)
next
  case (eff_release i S l)
  have "ql_used_units l \<le> ql_units l" using eff_release.prems find_leaseD [OF eff_release(1)] by (simp add: leases_ok_def)
  with leases_ok_set_lease [OF eff_release.prems(2) eff_release(1), of 0] show ?case by (simp add: lease_key_def)
next
  case (eff_complete i S a outcome l e ns rollback u)
  from leases_ok_set_lease [OF eff_complete.prems(2) eff_complete(4), of "qa_units a"] eff_complete(6)
    attempt_positive [OF eff_complete.prems(1) eff_complete(1)] show ?case by (simp add: leases_ok_other lease_key_def)
qed (simp_all add: leases_ok_other)

lemma books_ok_set_lease:
  assumes "books_ok S" "find_lease i S = Some l" "qu_lease_id u = i" "qu_usage_id u \<notin> qu_usage_id ` set (q_usages S)"
    and f: "\<And>l. ql_lease_id (f l) = ql_lease_id l" "\<And>l. ql_used_units (f l) = ql_used_units l + qu_units u"
  shows "books_ok ((set_lease i f S)\<lparr>q_usages := q_usages S @ [u]\<rparr>)"
proof -
  have "i \<in> ql_lease_id ` set (q_leases S)" using find_leaseD [OF assms(2)] by blast
  moreover have "ql_used_units l' = charged (ql_lease_id l') (q_usages S @ [u])"
    if l': "l' \<in> set (update_where (\<lambda>l. ql_lease_id l = i) f (q_leases S))" for l'
  proof -
    from l' obtain l0 where "l0 \<in> set (q_leases S)" "l' = (if ql_lease_id l0 = i then f l0 else l0)"
      by (auto simp: set_update_where)
    with assms(1,3) f show ?thesis by (simp add: books_ok_def)
  qed
  ultimately show ?thesis using assms(1,3,4) by (simp add: books_ok_def image_update_where f)
qed

lemma effect_books_ok: "quota_effect t S S' \<Longrightarrow> books_ok S \<Longrightarrow> books_ok S'"
proof (induction rule: quota_effect.induct)
  case (eff_lease w l S)
  then have "charged (ql_lease_id l) (q_usages S) = 0" by (intro charged_none) (auto simp: books_ok_def new_lease_def)
  with eff_lease show ?case by (auto simp: books_ok_def new_lease_def)
next
  case (eff_attempt w l S a)
  then have "charged (ql_lease_id l) (q_usages S) = 0" by (intro charged_none) (auto simp: books_ok_def new_lease_def)
  with eff_attempt show ?case by (auto simp: books_ok_def new_lease_def)
next
  case (eff_consume i S l n u)
  then show ?case by (intro books_ok_set_lease) auto
next
  case (eff_release i S l)
  then have "\<forall>l \<in> set (update_where (\<lambda>l. ql_lease_id l = i) (\<lambda>l. l\<lparr>ql_released_at := Some t\<rparr>) (q_leases S)).
      ql_used_units l = charged (ql_lease_id l) (q_usages S)" by (auto simp: books_ok_def set_update_where)
  with eff_release show ?case by (simp add: books_ok_def image_update_where)
next
  case (eff_complete i S a outcome l e ns rollback u)
  then have "books_ok ((set_lease (qa_lease_id a) (\<lambda>l. l\<lparr>ql_used_units := ql_used_units l + qa_units a, ql_released_at := Some e\<rparr>) S)
      \<lparr>q_usages := q_usages S @ [u]\<rparr>)" by (intro books_ok_set_lease) auto
  then show ?case by (simp add: books_ok_def)
qed (simp_all add: books_ok_def)

lemma attempt_leaseE:
  assumes "attempts_ok S" "a \<in> set (q_attempts S)" obtains l where "l \<in> set (q_leases S)" "attempt_lease a l"
  using assms by (auto simp: attempts_ok_def)

lemma attempts_ok_set_lease:
  assumes "attempts_ok S" "i \<notin> qa_lease_id ` set (q_attempts S)"
  shows "attempts_ok (set_lease i f S)"
proof -
  have "\<exists>l \<in> set (update_where (\<lambda>l. ql_lease_id l = i) f (q_leases S)). attempt_lease a l" if a: "a \<in> set (q_attempts S)" for a
  proof -
    obtain l where l: "l \<in> set (q_leases S)" "attempt_lease a l" using assms(1) a by (rule attempt_leaseE)
    then have "ql_lease_id l \<noteq> i" using assms(2) a by (auto simp: attempt_lease_def)
    then have "l \<in> set (update_where (\<lambda>l. ql_lease_id l = i) f (q_leases S))" using l(1) by (auto simp: set_update_where image_iff)
    with l(2) show ?thesis by blast
  qed
  with assms(1) show ?thesis by (simp add: attempts_ok_def attempts_wf_def)
qed

lemma released_no_attempt:
  assumes "leases_ok S" "attempts_ok S" "find_lease i S = Some l" "\<not> has_pending_attempt S i" "ql_released_at l = None"
  shows "i \<notin> qa_lease_id ` set (q_attempts S)"
proof
  assume "i \<in> qa_lease_id ` set (q_attempts S)"
  then obtain a where a: "a \<in> set (q_attempts S)" "qa_lease_id a = i" by blast
  obtain l' where l': "l' \<in> set (q_leases S)" "attempt_lease a l'" using assms(2) a(1) by (rule attempt_leaseE)
  then have "l' = l" using find_lease_unique [OF assms(1,3)] a(2) by (simp add: attempt_lease_def)
  moreover have "qa_outcome a \<noteq> OUTCOME_PENDING" using assms(4) a by (auto simp: has_pending_attempt_def list_ex_iff)
  ultimately show False using l'(2) assms(5) by (simp add: attempt_lease_def)
qed

lemma attempts_ok_new:
  assumes "attempts_ok S" "leases' = q_leases S @ ls" "make_attempt a = Inr a" "qa_attempt_id a \<notin> qa_attempt_id ` set (q_attempts S)"
    "qa_lease_id a \<notin> qa_lease_id ` set (q_attempts S)" "l \<in> set leases'" "attempt_lease a l"
  shows "attempts_ok (S\<lparr>q_leases := leases', q_attempts := q_attempts S @ [a]\<rparr>)"
  using assms by (auto simp: attempts_ok_def attempts_wf_def)

lemma set_attempt_ids:
  assumes "\<And>a. qa_attempt_id (f a) = qa_attempt_id a" "\<And>a. qa_lease_id (f a) = qa_lease_id a"
  shows "map qa_attempt_id (update_where p f as) = map qa_attempt_id as" "map qa_lease_id (update_where p f as) = map qa_lease_id as"
  by (rule map_update_where; simp add: assms)+

text \<open>The attempts table after the row of one attempt is rewritten.\<close>

lemma attempts_ok_set_attempt:
  assumes ok: "attempts_ok S" and a: "find_attempt i S = Some a" and f: "make_attempt (f a) = Inr (f a)"
    and ids: "\<And>a. qa_attempt_id (f a) = qa_attempt_id a" "\<And>a. qa_lease_id (f a) = qa_lease_id a"
    and S': "q_attempts S' = update_where (\<lambda>a. qa_attempt_id a = i) f (q_attempts S)"
    and leases: "\<And>a'. a' \<in> set (q_attempts S) \<Longrightarrow> qa_attempt_id a' \<noteq> i \<Longrightarrow> \<exists>l \<in> set (q_leases S'). attempt_lease a' l"
      "\<exists>l \<in> set (q_leases S'). attempt_lease (f a) l"
  shows "attempts_ok S'"
proof -
  have "\<exists>a0 \<in> set (q_attempts S). a' = f a \<or> a' = a0 \<and> qa_attempt_id a0 \<noteq> i" if "a' \<in> set (q_attempts S')" for a'
    using that find_attempt_unique [OF ok a] by (auto simp: S' set_update_where)
  then have "make_attempt a' = Inr a' \<and> (\<exists>l \<in> set (q_leases S'). attempt_lease a' l)" if "a' \<in> set (q_attempts S')" for a'
    using that leases f attempts_okD [OF ok] by blast
  with ok show ?thesis by (simp add: attempts_ok_def attempts_wf_def S' set_attempt_ids ids)
qed

lemma complete_keeps_attempts:
  assumes ok: "attempts_ok S" "leases_ok S" and a: "find_attempt i S = Some a" "qa_outcome a = OUTCOME_PENDING" "c \<noteq> OUTCOME_PENDING"
    and l: "find_lease (qa_lease_id a) S = Some l" and num: "0 \<le> ns" "0 \<le> r" "e = max t (started_at a)"
    and S': "q_attempts S' = update_where (\<lambda>a. qa_attempt_id a = i) (final_attempt c e ns r) (q_attempts S)"
      "q_leases S' = update_where (\<lambda>l. ql_lease_id l = qa_lease_id a)
        (\<lambda>l. l\<lparr>ql_used_units := ql_used_units l + qa_units a, ql_released_at := Some e\<rparr>) (q_leases S)"
  shows "attempts_ok S'"
proof (rule attempts_ok_set_attempt [OF ok(1) a(1) _ _ _ S'(1)])
  have mem: "a \<in> set (q_attempts S)" "qa_attempt_id a = i" using find_attemptD [OF a(1)] by auto
  show "make_attempt (final_attempt c e ns r a) = Inr (final_attempt c e ns r a)"
    unfolding num(3) by (rule make_final_attempt) (use attempts_okD [OF ok(1) mem(1)] a num in auto)
  show "\<exists>l \<in> set (q_leases S'). attempt_lease a' l" if a': "a' \<in> set (q_attempts S)" "qa_attempt_id a' \<noteq> i" for a'
  proof -
    obtain l' where l': "l' \<in> set (q_leases S)" "attempt_lease a' l'" using ok(1) a'(1) by (rule attempt_leaseE)
    moreover have "qa_lease_id a' \<noteq> qa_lease_id a" using attempt_unique(2) [OF ok(1) a'(1) mem(1)] a'(2) mem(2) by auto
    ultimately have "l' \<in> set (q_leases S')" by (auto simp: S'(2) set_update_where attempt_lease_def image_iff)
    with l'(2) show ?thesis by blast
  qed
  obtain l' where l': "l' \<in> set (q_leases S)" "attempt_lease a l'" using ok(1) mem(1) by (rule attempt_leaseE)
  let ?l = "l'\<lparr>ql_used_units := ql_used_units l' + qa_units a, ql_released_at := Some e\<rparr>"
  have "?l \<in> set (q_leases S')" using l' unfolding S'(2) set_update_where attempt_lease_def
    by (intro image_eqI [of _ _ l']) simp_all
  moreover have "attempt_lease (final_attempt c e ns r a) ?l" using l'(2) a by (simp add: attempt_lease_def)
  ultimately show "\<exists>l \<in> set (q_leases S'). attempt_lease (final_attempt c e ns r a) l" by blast
qed simp_all

lemma effect_attempts_ok: "quota_effect t S S' \<Longrightarrow> leases_ok S \<Longrightarrow> attempts_ok S \<Longrightarrow> attempts_ok S'"
proof (induction rule: quota_effect.induct)
  case (eff_lease w l S)
  then show ?case by (auto simp: attempts_ok_def attempts_wf_def)
next
  case (eff_attempt w l S a)
  then show ?case by (intro attempts_ok_new [of _ _ "[l]" _ l]) (simp_all add: new_lease_def attempt_lease_def)
next
  case (eff_consume i S l n u)
  from attempts_ok_set_lease [OF eff_consume.prems(2) eff_consume(2)] show ?case by (simp add: attempts_ok_def attempts_wf_def)
next
  case (eff_release i S l)
  from attempts_ok_set_lease [OF eff_release.prems(2) released_no_attempt [OF eff_release.prems eff_release(1-3)]] show ?case .
next
  case (eff_dispatch i S a ns rollback)
  have mem: "a \<in> set (q_attempts S)" using find_attemptD [OF eff_dispatch(1)] by simp
  show ?case
  proof (rule attempts_ok_set_attempt [OF eff_dispatch.prems(2) eff_dispatch(1),
        where f = "sent_attempt (max t (qa_prepared_at a)) ns rollback"])
    show "make_attempt (sent_attempt (max t (qa_prepared_at a)) ns rollback a) = Inr (sent_attempt (max t (qa_prepared_at a)) ns rollback a)"
      by (rule make_sent_attempt) (use attempts_okD [OF eff_dispatch.prems(2) mem] eff_dispatch in auto)
    show "\<exists>l \<in> set (q_leases (set_attempt i (sent_attempt (max t (qa_prepared_at a)) ns rollback) S)).
        attempt_lease (sent_attempt (max t (qa_prepared_at a)) ns rollback a) l"
      using eff_dispatch.prems(2) mem by (simp add: attempts_ok_def attempt_lease_def)
  qed (use eff_dispatch.prems(2) in \<open>auto simp: attempts_ok_def\<close>)
next
  case (eff_complete i S a outcome l e ns rollback u)
  have "0 \<le> rollback" using eff_complete(9) by auto
  then show ?case
    by (rule complete_keeps_attempts [OF eff_complete.prems(2,1) eff_complete(1-4,8) _ eff_complete(7)]) simp_all
qed (simp_all add: attempts_ok_def attempts_wf_def)

definition store_ok :: "quota_store \<Rightarrow> bool" where
  "store_ok S \<longleftrightarrow> leases_ok S \<and> books_ok S \<and> attempts_ok S"

lemma effect_store_ok: "quota_effect t S S' \<Longrightarrow> store_ok S \<Longrightarrow> store_ok S'"
  by (simp add: store_ok_def effect_leases_ok effect_books_ok effect_attempts_ok)

section \<open>Charges\<close>

text \<open>What a lease takes from its window at a time: the units used and those it still holds.\<close>

definition charge :: "quota_store \<Rightarrow> utc \<Rightarrow> quota_lease \<Rightarrow> int" where
  "charge S t l = ql_used_units l + reserved_units S t l"

lemma remaining_charge: "remaining_in_window S w t = qw_total_units w - sum_by (charge S t) (window_leases w S)"
proof -
  have "sum_by (charge S t) ls = sum_by ql_used_units ls + sum_by (reserved_units S t) ls" for ls
    by (induction ls) (auto simp: charge_def)
  then show ?thesis by (simp add: remaining_in_window_def)
qed

lemma sum_by_mono: "(\<And>x. x \<in> set xs \<Longrightarrow> f x \<le> g x) \<Longrightarrow> sum_by f xs \<le> sum_by g xs"
  by (induction xs) (auto intro: add_mono)

definition windows_fit :: "utc \<Rightarrow> quota_store \<Rightarrow> bool" where
  "windows_fit t S \<longleftrightarrow> (\<forall>w \<in> set (q_windows S). 0 \<le> remaining_in_window S w t)"

lemma windows_fit_le:
  assumes "windows_fit t S" "q_windows S' = q_windows S"
    and le: "\<And>w. sum_by (charge S' t') (window_leases w S') \<le> sum_by (charge S t) (window_leases w S)"
  shows "windows_fit t' S'"
  unfolding windows_fit_def
proof
  fix w assume "w \<in> set (q_windows S')"
  then have "0 \<le> remaining_in_window S w t" using assms(1,2) by (simp add: windows_fit_def)
  with le [of w] show "0 \<le> remaining_in_window S' w t'" unfolding remaining_charge by linarith
qed

text \<open>Time only frees what expired leases hold.\<close>

lemma charge_antimono: "leases_ok S \<Longrightarrow> l \<in> set (q_leases S) \<Longrightarrow> t \<le> t' \<Longrightarrow> charge S t' l \<le> charge S t l"
  by (auto simp: charge_def reserved_units_def leases_ok_def)

lemma windows_fit_later: "leases_ok S \<Longrightarrow> windows_fit t S \<Longrightarrow> t \<le> t' \<Longrightarrow> windows_fit t' S"
  by (rule windows_fit_le [OF _ refl]) (auto intro!: sum_by_mono charge_antimono simp: window_leases_def)

text \<open>Rewriting leases in place: a window keeps fitting when no charge grows.\<close>

lemma sum_window_update:
  assumes "\<And>l. l \<in> set ls \<Longrightarrow> lease_key (f l) = lease_key l" "\<And>l. l \<in> set ls \<Longrightarrow> g (f l) \<le> h l"
  shows "sum_by g (filter (\<lambda>l. lease_key l = k) (map f ls)) \<le> sum_by h (filter (\<lambda>l. lease_key l = k) ls)"
  using assms by (induction ls) (auto intro: add_mono)

lemma windows_fit_map:
  assumes "windows_fit t S" "q_windows S' = q_windows S" "q_leases S' = map f (q_leases S)"
    and "\<And>l. l \<in> set (q_leases S) \<Longrightarrow> lease_key (f l) = lease_key l"
    and "\<And>l. l \<in> set (q_leases S) \<Longrightarrow> charge S' t (f l) \<le> charge S t l"
  shows "windows_fit t S'"
  using assms(1,2)
proof (rule windows_fit_le)
  fix w show "sum_by (charge S' t) (window_leases w S') \<le> sum_by (charge S t) (window_leases w S)"
    unfolding window_leases_key assms(3) by (rule sum_window_update) (use assms(4,5) in auto)
qed

lemma has_pending_attempt_cong: "q_attempts S' = q_attempts S \<Longrightarrow> has_pending_attempt S' i = has_pending_attempt S i"
  by (simp add: has_pending_attempt_def)

lemma charge_cong: "has_pending_attempt S' (ql_lease_id l) = has_pending_attempt S (ql_lease_id l) \<Longrightarrow> charge S' t l = charge S t l"
  by (simp add: charge_def reserved_units_def)

text \<open>A new lease was checked against what remains.\<close>

lemma windows_fit_new:
  assumes "leases_ok S" "windows_fit t S" and l: "new_lease t w l S"
    and S': "q_windows S' = q_windows S" "q_leases S' = q_leases S @ [l]"
    and old: "\<And>l. l \<in> set (q_leases S) \<Longrightarrow> has_pending_attempt S' (ql_lease_id l) = has_pending_attempt S (ql_lease_id l)"
  shows "windows_fit t S'"
  unfolding windows_fit_def
proof
  fix w' assume w': "w' \<in> set (q_windows S')"
  have old: "sum_by (charge S' t) (window_leases w' S) = sum_by (charge S t) (window_leases w' S)"
    by (rule sum_by_cong, rule charge_cong, rule old) (simp add: window_leases_def)
  have l': "charge S' t l = ql_units l" "ql_units l \<le> remaining_in_window S w t" "lease_key l = window_key w" "w \<in> set (q_windows S)"
    using l by (simp_all add: new_lease_def charge_def reserved_units_def lease_key_def window_key_def)
  show "0 \<le> remaining_in_window S' w' t"
  proof (cases "window_key w' = window_key w")
    case True
    then have "w' = w" using window_unique [OF assms(1)] w' l'(4) S'(1) by simp
    with old l' show ?thesis by (simp add: remaining_charge window_leases_key S'(2))
  next
    case False
    moreover have "0 \<le> remaining_in_window S w' t" using assms(2) w' S'(1) by (simp add: windows_fit_def)
    ultimately show ?thesis using old l'(3) by (simp add: remaining_charge window_leases_key S'(2))
  qed
qed

lemma attempt_not_pending:
  assumes "attempts_ok S" "a \<in> set (q_attempts S)"
  shows "has_pending_attempt S (qa_lease_id a) \<longleftrightarrow> qa_outcome a = OUTCOME_PENDING"
  using assms attempt_unique(2) [OF assms(1) _ assms(2)] by (auto simp: has_pending_attempt_def list_ex_iff)

lemma pending_set_attempt:
  assumes "\<And>a. qa_lease_id (f a) = qa_lease_id a"
    and "\<And>a. a \<in> set (q_attempts S) \<Longrightarrow> qa_attempt_id a = i \<Longrightarrow> qa_lease_id a = j \<Longrightarrow> qa_outcome (f a) = qa_outcome a"
  shows "has_pending_attempt (set_attempt i f S) j = has_pending_attempt S j"
  unfolding has_pending_attempt_def set_attempt_fields set_update_where list_ex_iff bex_simps
  using assms by (intro bex_cong refl) auto

lemma complete_windows_fit:
  assumes ok: "store_ok S" "windows_fit t S" and a: "find_attempt i S = Some a" "qa_outcome a = OUTCOME_PENDING"
    and S': "q_windows S' = q_windows S"
      "q_attempts S' = update_where (\<lambda>a. qa_attempt_id a = i) (final_attempt c e ns r) (q_attempts S)"
      "q_leases S' = update_where (\<lambda>l. ql_lease_id l = qa_lease_id a)
        (\<lambda>l. l\<lparr>ql_used_units := ql_used_units l + qa_units a, ql_released_at := Some e\<rparr>) (q_leases S)"
  shows "windows_fit t S'"
proof (rule windows_fit_map [OF ok(2) S'(1) S'(3) [unfolded update_where_def]])
  have ok': "leases_ok S" "attempts_ok S" using ok(1) by (simp_all add: store_ok_def)
  have mem: "a \<in> set (q_attempts S)" "qa_attempt_id a = i" using find_attemptD [OF a(1)] by auto
  obtain l' where l': "l' \<in> set (q_leases S)" "attempt_lease a l'" using ok'(2) mem(1) by (rule attempt_leaseE)
  fix l assume l: "l \<in> set (q_leases S)"
  show "charge S' t (if ql_lease_id l = qa_lease_id a then l\<lparr>ql_used_units := ql_used_units l + qa_units a, ql_released_at := Some e\<rparr> else l)
      \<le> charge S t l"
  proof (cases "ql_lease_id l = qa_lease_id a")
    case True
    then have "l = l'" using lease_unique [OF ok'(1) l l'(1)] l'(2) by (simp add: attempt_lease_def)
    then show ?thesis using True l'(2) a(2) attempt_not_pending [OF ok'(2) mem(1)]
      by (simp add: charge_def reserved_units_def attempt_lease_def)
  next
    case False
    have "has_pending_attempt (set_attempt i (final_attempt c e ns r) S) (ql_lease_id l) = has_pending_attempt S (ql_lease_id l)"
      by (rule pending_set_attempt) (use False find_attempt_unique [OF ok'(2) a(1)] in auto)
    then have "has_pending_attempt S' (ql_lease_id l) = has_pending_attempt S (ql_lease_id l)"
      by (simp add: has_pending_attempt_def S'(2))
    then have "charge S' t l = charge S t l" by (rule charge_cong)
    with False show ?thesis by simp
  qed
qed (simp add: lease_key_def)

lemma windows_fit_set_lease:
  assumes "windows_fit t S" "q_windows S' = q_windows S" "q_attempts S' = q_attempts S"
    "q_leases S' = update_where (\<lambda>l. ql_lease_id l = i) f (q_leases S)" "\<And>l. lease_key (f l) = lease_key l"
    "\<And>l. l \<in> set (q_leases S) \<Longrightarrow> ql_lease_id l = i \<Longrightarrow> charge S t (f l) \<le> charge S t l"
  shows "windows_fit t S'"
proof (rule windows_fit_map [OF assms(1,2) assms(4) [unfolded update_where_def]])
  fix l assume "l \<in> set (q_leases S)"
  moreover have "charge S' t x = charge S t x" for x by (rule charge_cong) (simp add: has_pending_attempt_def assms(3))
  ultimately show "charge S' t (if ql_lease_id l = i then f l else l) \<le> charge S t l" using assms(6) by simp
qed (simp add: assms(5))

lemma windows_fit_same:
  assumes "windows_fit t S" "q_windows S' = q_windows S" "q_leases S' = q_leases S"
    "\<And>i. has_pending_attempt S' i = has_pending_attempt S i"
  shows "windows_fit t S'"
  using assms(1,2)
proof (rule windows_fit_le)
  have "charge S' t = charge S t" by (rule ext, rule charge_cong) (rule assms(4))
  then show "sum_by (charge S' t) (window_leases w S') \<le> sum_by (charge S t) (window_leases w S)" for w
    by (simp add: window_leases_def assms(3))
qed

lemma effect_windows_fit: "quota_effect t S S' \<Longrightarrow> store_ok S \<Longrightarrow> windows_fit t S \<Longrightarrow> windows_fit t S'"
proof (induction rule: quota_effect.induct)
  case (eff_window w S)
  have "lease_key l \<in> window_key ` set (q_windows S)" if "l \<in> set (q_leases S)" for l
    using eff_window.prems(1) that by (simp add: store_ok_def leases_ok_def)
  then have "window_leases w S = []" 
    using no_window [OF eff_window(1)] unfolding window_leases_key filter_empty_conv by metis
  with eff_window show ?case
    by (auto simp: windows_fit_def remaining_in_window_def window_leases_def reserved_units_def [abs_def] has_pending_attempt_def)
next
  case (eff_lease w l S)
  then show ?case by (intro windows_fit_new [OF _ eff_lease.prems(2) eff_lease(1)]) (simp_all add: store_ok_def has_pending_attempt_def)
next
  case (eff_attempt w l S a)
  have "ql_lease_id l' \<noteq> qa_lease_id a" if "l' \<in> set (q_leases S)" for l'
    using eff_attempt(1,3) imageI [OF that, of ql_lease_id] by (auto simp: new_lease_def)
  then have "has_pending_attempt (S\<lparr>q_leases := q_leases S @ [l], q_attempts := q_attempts S @ [a]\<rparr>) (ql_lease_id l')
      = has_pending_attempt S (ql_lease_id l')" if "l' \<in> set (q_leases S)" for l'
    using that by (fastforce simp: has_pending_attempt_def)
  then show ?case using eff_attempt.prems(1)
    by (intro windows_fit_new [OF _ eff_attempt.prems(2) eff_attempt(1)]) (simp_all add: store_ok_def)
next
  case (eff_consume i S l n u)
  have "charge S t (l'\<lparr>ql_used_units := ql_used_units l' + n\<rparr>) \<le> charge S t l'" if l': "l' \<in> set (q_leases S)" "ql_lease_id l' = i" for l'
  proof -
    have "l' = l" by (rule find_lease_unique [OF _ eff_consume(1) l']) (use eff_consume.prems in \<open>simp add: store_ok_def\<close>)
    with eff_consume show ?thesis by (simp add: charge_def reserved_units_def)
  qed
  then show ?case by (intro windows_fit_set_lease [OF eff_consume.prems(2),
        where i = i and f = "\<lambda>l. l\<lparr>ql_used_units := ql_used_units l + n\<rparr>"]) (simp_all add: lease_key_def)
next
  case (eff_release i S l)
  have "charge S t (l'\<lparr>ql_released_at := Some t\<rparr>) \<le> charge S t l'" if "l' \<in> set (q_leases S)" for l'
    using eff_release.prems(1) that by (auto simp: charge_def reserved_units_def store_ok_def leases_ok_def)
  then show ?case by (intro windows_fit_set_lease [OF eff_release.prems(2),
        where i = i and f = "\<lambda>l. l\<lparr>ql_released_at := Some t\<rparr>"]) (simp_all add: lease_key_def)
next
  case (eff_dispatch i S a ns rollback)
  show ?case by (rule windows_fit_same [OF eff_dispatch.prems(2)]) (simp_all add: pending_set_attempt)
next
  case (eff_complete i S a outcome l e ns rollback u)
  show ?case by (rule complete_windows_fit [OF eff_complete.prems eff_complete(1,2)]) simp_all
qed (rule windows_fit_same; simp add: has_pending_attempt_def)+

end
