(* ===== verification/Quota_Machine.thy ===== *)
theory Quota_Machine
  imports Quota_Invariants "HOL-Library.Sublist"
begin

text \<open>
  The quota store as a transition system: one step per public operation of the store. The invariants
  hold in every reachable store; what was booked and completed stays.
\<close>

section \<open>Attempts against the window\<close>

definition has_attempt :: "quota_store \<Rightarrow> string \<Rightarrow> bool" where
  "has_attempt S i \<longleftrightarrow> i \<in> qa_lease_id ` set (q_attempts S)"

definition leased_units :: "quota_window \<Rightarrow> quota_store \<Rightarrow> int" where
  "leased_units w S = sum_by (\<lambda>l. if has_attempt S (ql_lease_id l) then ql_units l else 0) (window_leases w S)"

definition attempts_fit :: "quota_store \<Rightarrow> bool" where
  "attempts_fit S \<longleftrightarrow> (\<forall>w \<in> set (q_windows S). leased_units w S \<le> qw_total_units w)"

text \<open>The lease of an attempt is charged in full at any time.\<close>

lemma attempt_charge:
  assumes "store_ok S" "l \<in> set (q_leases S)"
  shows "(if has_attempt S (ql_lease_id l) then ql_units l else 0) \<le> charge S t l"
proof -
  have ok: "leases_ok S" "attempts_ok S" using assms(1) by (simp_all add: store_ok_def)
  have "0 \<le> charge S t l" using ok(1) assms(2) by (auto simp: charge_def reserved_units_def leases_ok_def)
  moreover have "charge S t l = ql_units l" if "has_attempt S (ql_lease_id l)"
  proof -
    from that obtain a where a: "a \<in> set (q_attempts S)" "qa_lease_id a = ql_lease_id l" unfolding has_attempt_def by (metis imageE)
    obtain l' where l': "l' \<in> set (q_leases S)" "attempt_lease a l'" using ok(2) a(1) by (rule attempt_leaseE)
    then have "l' = l" using lease_unique [OF ok(1) l'(1) assms(2)] a(2) by (simp add: attempt_lease_def)
    with l'(2) attempt_not_pending [OF ok(2) a(1)] a(2) show ?thesis
      by (auto simp: charge_def reserved_units_def attempt_lease_def split: if_splits)
  qed
  ultimately show ?thesis by simp
qed

lemma update_where_id: "update_where p id xs = xs"
  by (induction xs) auto

lemma attempts_fit_same:
  assumes "attempts_fit S" "q_windows S' = q_windows S" "qa_lease_id ` set (q_attempts S') = qa_lease_id ` set (q_attempts S)"
    and "q_leases S' = update_where p f (q_leases S)" "\<And>l. lease_key (f l) = lease_key l" "\<And>l. ql_units (f l) = ql_units l"
    "\<And>l. ql_lease_id (f l) = ql_lease_id l"
  shows "attempts_fit S'"
proof -
  have "leased_units w S' \<le> leased_units w S" for w
    unfolding leased_units_def window_leases_key assms(4) update_where_def has_attempt_def assms(3)
    by (rule sum_window_update) (simp_all add: assms(5-7))
  with assms(1,2) show ?thesis unfolding attempts_fit_def by (metis order_trans)
qed

lemma effect_attempts_fit: "quota_effect t S S' \<Longrightarrow> store_ok S \<Longrightarrow> attempts_fit S \<Longrightarrow> attempts_fit S'"
proof (induction rule: quota_effect.induct)
  case (eff_window w S)
  have "lease_key l \<in> window_key ` set (q_windows S)" if "l \<in> set (q_leases S)" for l
    using eff_window.prems(1) that by (simp add: store_ok_def leases_ok_def)
  then have "window_leases w S = []"
    using no_window [OF eff_window(1)] unfolding window_leases_key filter_empty_conv by metis
  with eff_window show ?case by (auto simp: attempts_fit_def leased_units_def window_leases_def has_attempt_def)
next
  case (eff_lease w l S)
  have "\<not> has_attempt S (ql_lease_id l)"
  proof
    assume "has_attempt S (ql_lease_id l)"
    then obtain a where a: "a \<in> set (q_attempts S)" "qa_lease_id a = ql_lease_id l" unfolding has_attempt_def by (metis imageE)
    have "attempts_ok S" using eff_lease.prems by (simp add: store_ok_def)
    from this a(1) obtain l' where "l' \<in> set (q_leases S)" "attempt_lease a l'" by (rule attempt_leaseE)
    with a(2) have "ql_lease_id l \<in> ql_lease_id ` set (q_leases S)" by (intro image_eqI [of _ _ l']) (simp_all add: attempt_lease_def)
    with eff_lease(1) show False by (simp add: new_lease_def)
  qed
  then have "leased_units w' (S\<lparr>q_leases := q_leases S @ [l]\<rparr>) = leased_units w' S" for w'
    by (simp add: leased_units_def window_leases_def has_attempt_def)
  with eff_lease.prems(2) show ?case by (simp add: attempts_fit_def)
next
  case (eff_attempt w l S a)
  let ?S = "S\<lparr>q_leases := q_leases S @ [l], q_attempts := q_attempts S @ [a]\<rparr>"
  have new: "ql_lease_id l' \<noteq> qa_lease_id a" if "l' \<in> set (q_leases S)" for l'
    using eff_attempt(1,3) imageI [OF that, of ql_lease_id] by (auto simp: new_lease_def)
  have "sum_by (\<lambda>l. if has_attempt ?S (ql_lease_id l) then ql_units l else 0) (window_leases w' S) = leased_units w' S" for w'
    unfolding leased_units_def by (rule sum_by_cong) (simp add: has_attempt_def window_leases_def new)
  then have units: "leased_units w' ?S = leased_units w' S + (if lease_key l = window_key w' then ql_units l else 0)" for w'
    using eff_attempt(3) by (simp add: leased_units_def [of _ ?S] window_leases_key has_attempt_def)
  have "sum_by (\<lambda>l. if has_attempt S (ql_lease_id l) then ql_units l else 0) (window_leases w S) \<le> sum_by (charge S t) (window_leases w S)"
    by (rule sum_by_mono, rule attempt_charge [OF eff_attempt.prems(1)]) (simp add: window_leases_def)
  then have w: "leased_units w S + ql_units l \<le> qw_total_units w" "lease_key l = window_key w" "w \<in> set (q_windows S)"
    using eff_attempt(1) by (simp_all add: new_lease_def leased_units_def remaining_charge lease_key_def window_key_def)
  show ?case unfolding attempts_fit_def
  proof
    fix w' assume "w' \<in> set (q_windows ?S)"
    moreover from this have "w' = w" if "lease_key l = window_key w'"
      using window_unique [of S w' w] eff_attempt.prems(1) w(2,3) that by (simp add: store_ok_def)
    ultimately show "leased_units w' ?S \<le> qw_total_units w'" using units w(1) eff_attempt.prems(2) by (auto simp: attempts_fit_def)
  qed
next
  case (eff_consume i S l n u)
  show ?case
    by (rule attempts_fit_same [OF eff_consume.prems(2), where p = "\<lambda>l. ql_lease_id l = i" and f = "\<lambda>l. l\<lparr>ql_used_units := ql_used_units l + n\<rparr>"])
       (simp_all add: lease_key_def)
next
  case (eff_release i S l)
  show ?case
    by (rule attempts_fit_same [OF eff_release.prems(2), where p = "\<lambda>l. ql_lease_id l = i" and f = "\<lambda>l. l\<lparr>ql_released_at := Some t\<rparr>"])
       (simp_all add: lease_key_def)
next
  case (eff_dispatch i S a ns rollback)
  show ?case by (rule attempts_fit_same [OF eff_dispatch.prems(2), where f = id and p = "\<lambda>_. True"])
    (simp_all add: image_update_where update_where_id)
next
  case (eff_complete i S a outcome l e ns rollback u)
  show ?case
    by (rule attempts_fit_same [OF eff_complete.prems(2), where p = "\<lambda>l. ql_lease_id l = qa_lease_id a"
          and f = "\<lambda>l. l\<lparr>ql_used_units := ql_used_units l + qa_units a, ql_released_at := Some e\<rparr>"])
       (simp_all add: lease_key_def image_update_where)
qed (simp_all add: attempts_fit_def leased_units_def window_leases_def has_attempt_def)

text \<open>
  The attempts of a window are those that hold one of its leases. Their units are the units of these leases,
  since every attempt has a lease of its own and of its size.
\<close>

definition window_attempts :: "quota_window \<Rightarrow> quota_store \<Rightarrow> quota_attempt list" where
  "window_attempts w S = filter (\<lambda>a. qa_lease_id a \<in> ql_lease_id ` set (window_leases w S)) (q_attempts S)"

lemma attempts_of_lease:
  assumes "store_ok S" "l \<in> set (q_leases S)"
  shows "sum_by qa_units (filter (\<lambda>a. qa_lease_id a = ql_lease_id l) (q_attempts S))
    = (if has_attempt S (ql_lease_id l) then ql_units l else 0)"
proof (cases "has_attempt S (ql_lease_id l)")
  case True
  have ok: "leases_ok S" "attempts_ok S" using assms(1) by (simp_all add: store_ok_def)
  then have "distinct (map qa_lease_id (q_attempts S))" by (simp add: attempts_ok_def)
  from filter_unique [OF this True [unfolded has_attempt_def]] obtain a where
    a: "filter (\<lambda>a. qa_lease_id a = ql_lease_id l) (q_attempts S) = [a]" "a \<in> set (q_attempts S)" "qa_lease_id a = ql_lease_id l" .
  obtain l' where l': "l' \<in> set (q_leases S)" "attempt_lease a l'" using ok(2) a(2) by (rule attempt_leaseE)
  then have "l' = l" using lease_unique [OF ok(1) l'(1) assms(2)] a(3) by (simp add: attempt_lease_def)
  with True a(1) l'(2) show ?thesis by (simp add: attempt_lease_def)
next
  case False
  then have "filter (\<lambda>a. qa_lease_id a = ql_lease_id l) (q_attempts S) = []"
    unfolding has_attempt_def filter_empty_conv by (metis image_eqI)
  with False show ?thesis by simp
qed

lemma sum_by_filter_disjoint:
  "(\<And>x. x \<in> set xs \<Longrightarrow> \<not> (p x \<and> q x)) \<Longrightarrow> sum_by f (filter (\<lambda>x. p x \<or> q x) xs) = sum_by f (filter p xs) + sum_by f (filter q xs)"
  by (induction xs) auto

lemma window_attempts_units:
  assumes "store_ok S"
  shows "sum_by qa_units (window_attempts w S) = leased_units w S"
proof -
  have each: "sum_by qa_units (filter (\<lambda>a. qa_lease_id a \<in> ql_lease_id ` set ls) (q_attempts S))
      = sum_by (\<lambda>l. if has_attempt S (ql_lease_id l) then ql_units l else 0) ls"
    if "set ls \<subseteq> set (q_leases S)" "distinct (map ql_lease_id ls)" for ls
    using that
  proof (induction ls)
    case (Cons l ls)
    have "sum_by qa_units (filter (\<lambda>a. qa_lease_id a = ql_lease_id l \<or> qa_lease_id a \<in> ql_lease_id ` set ls) (q_attempts S))
        = sum_by qa_units (filter (\<lambda>a. qa_lease_id a = ql_lease_id l) (q_attempts S))
          + sum_by qa_units (filter (\<lambda>a. qa_lease_id a \<in> ql_lease_id ` set ls) (q_attempts S))"
      by (rule sum_by_filter_disjoint) (use Cons.prems(2) in auto)
    with Cons attempts_of_lease [OF assms, of l] show ?case by simp
  qed (simp add: sum_by_def)
  have "set (window_leases w S) \<subseteq> set (q_leases S)" "distinct (map ql_lease_id (window_leases w S))"
    using assms by (auto simp: store_ok_def leases_ok_def window_leases_def distinct_map_filter)
  from each [OF this] show ?thesis unfolding window_attempts_def leased_units_def .
qed

lemma attempt_window:
  assumes "store_ok S" "a \<in> set (q_attempts S)"
  shows "\<exists>!w. w \<in> set (q_windows S) \<and> a \<in> set (window_attempts w S)"
proof -
  have ok: "leases_ok S" "attempts_ok S" using assms(1) by (simp_all add: store_ok_def)
  obtain l where l: "l \<in> set (q_leases S)" "attempt_lease a l" using ok(2) assms(2) by (rule attempt_leaseE)
  have own: "a \<in> set (window_attempts w S) \<longleftrightarrow> lease_key l = window_key w" for w
  proof -
    have "l \<in> set (window_leases w S)" if "qa_lease_id a \<in> ql_lease_id ` set (window_leases w S)"
    proof -
      from that obtain m where m: "m \<in> set (window_leases w S)" "qa_lease_id a = ql_lease_id m" by (rule imageE) simp
      then have "m \<in> set (q_leases S)" by (simp add: window_leases_def)
      with lease_unique [OF ok(1) l(1)] l(2) m show ?thesis by (simp add: attempt_lease_def)
    qed
    moreover have "qa_lease_id a \<in> ql_lease_id ` set (window_leases w S)" if "l \<in> set (window_leases w S)"
      using imageI [OF that, of ql_lease_id] l(2) by (simp add: attempt_lease_def)
    ultimately have "a \<in> set (window_attempts w S) \<longleftrightarrow> l \<in> set (window_leases w S)"
      unfolding window_attempts_def set_filter using assms(2) by blast
    then show ?thesis using l(1) by (simp add: window_leases_key)
  qed
  from ok(1) l(1) obtain w where w: "w \<in> set (q_windows S)" "lease_key l = window_key w"
    unfolding leases_ok_def by (metis imageE)
  show ?thesis
  proof (rule ex1I [of _ w])
    show "w \<in> set (q_windows S) \<and> a \<in> set (window_attempts w S)" using w(1) iffD2 [OF own w(2)] by (rule conjI)
    fix v assume "v \<in> set (q_windows S) \<and> a \<in> set (window_attempts v S)"
    then have "v \<in> set (q_windows S)" "window_key v = window_key w" using iffD1 [OF own, of v] w(2) by simp_all
    then show "v = w" using window_unique [OF ok(1)] w(1) by blast
  qed
qed

section \<open>Times\<close>

lemma times_ok_later: "times_ok t S \<Longrightarrow> t \<le> t' \<Longrightarrow> times_ok t' S"
  by (auto simp: times_ok_def intro: order_trans)

lemma effect_times_ok: "quota_effect t S S' \<Longrightarrow> times_ok t S \<Longrightarrow> times_ok t S'"
proof (induction rule: quota_effect.induct)
  case (eff_dispatch i S a ns rollback)
  moreover have "qa_prepared_at a \<le> t" using eff_dispatch.prems find_attemptD [OF eff_dispatch(1)] by (auto simp: times_ok_def)
  ultimately show ?case by (auto simp: times_ok_def set_update_where)
qed (auto simp: times_ok_def set_update_where)

section \<open>What stays\<close>

text \<open>
  Windows and usages are append-only, the terms of a lease and of an attempt are never rewritten, and
  a completed attempt is final.
\<close>

definition lease_terms :: "quota_lease \<Rightarrow> quota_lease" where
  "lease_terms l = l\<lparr>ql_used_units := 0, ql_released_at := None\<rparr>"

definition store_le :: "quota_store \<Rightarrow> quota_store \<Rightarrow> bool" where
  "store_le S S' \<longleftrightarrow> prefix (q_windows S) (q_windows S') \<and> prefix (q_usages S) (q_usages S')
     \<and> prefix (map lease_terms (q_leases S)) (map lease_terms (q_leases S'))
     \<and> prefix (map qa_attempt_id (q_attempts S)) (map qa_attempt_id (q_attempts S'))
     \<and> (\<forall>a \<in> set (q_attempts S). qa_outcome a \<noteq> OUTCOME_PENDING \<longrightarrow> a \<in> set (q_attempts S'))"

lemma store_le_refl: "store_le S S"
  by (simp add: store_le_def)

lemma store_le_trans: "store_le S T \<Longrightarrow> store_le T U \<Longrightarrow> store_le S U"
  unfolding store_le_def by (meson prefix_order.trans)

lemma completed_kept:
  assumes "attempts_ok S" "find_attempt i S = Some a" "qa_outcome a = OUTCOME_PENDING"
    "a' \<in> set (q_attempts S)" "qa_outcome a' \<noteq> OUTCOME_PENDING"
  shows "a' \<in> set (update_where (\<lambda>a. qa_attempt_id a = i) f (q_attempts S))"
  unfolding set_update_where
  by (rule image_eqI [of _ _ a']) (use find_attempt_unique [OF assms(1,2,4)] assms in auto)

lemma effect_store_le: "quota_effect t S S' \<Longrightarrow> store_ok S \<Longrightarrow> store_le S S'"
proof (induction rule: quota_effect.induct)
  case (eff_dispatch i S a ns rollback)
  then show ?case using completed_kept [of S i a] by (simp add: store_le_def store_ok_def map_update_where)
next
  case (eff_complete i S a outcome l e ns rollback u)
  then show ?case using completed_kept [of S i a] by (simp add: store_le_def store_ok_def map_update_where lease_terms_def)
qed (simp_all add: store_le_def map_update_where lease_terms_def)

section \<open>Steps\<close>

text \<open>
  One rule per public operation, called at the time \<open>now\<close>. A refused operation rolls back and is no
  step. The boot identity is the stripped text the store was opened with.
\<close>

inductive quota_step :: "digest \<Rightarrow> utc \<Rightarrow> quota_store \<Rightarrow> quota_store \<Rightarrow> bool" for digest now where
  step_declare: "declare_window source window_id starts resets total_units S = Inr S' \<Longrightarrow> quota_step digest now S S'"
| step_acquire: "acquire digest source owner units now expires S = Inr (lease, S') \<Longrightarrow> quota_step digest now S S'"
| step_consume: "consume lease_id usage_id units now S = Inr S' \<Longrightarrow> quota_step digest now S S'"
| step_release: "release digest lease_id now S = Inr (released, S') \<Longrightarrow> quota_step digest now S S'"
| step_begin: "begin_attempt digest boot_id source owner attempt_id units now ns expires S = Inr (a, S') \<Longrightarrow>
    py_strip boot_id = boot_id \<Longrightarrow> boot_id \<noteq> [] \<Longrightarrow> quota_step digest now S S'"
| step_dispatch: "mark_dispatched attempt_id now ns S = Inr (a, S') \<Longrightarrow> quota_step digest now S S'"
| step_commit: "commit_attempt attempt_id outcome now ns S = Inr (a, S') \<Longrightarrow> quota_step digest now S S'"
| step_recover: "recover_attempt attempt_id now ns S = Inr (a, S') \<Longrightarrow> quota_step digest now S S'"
| step_bind: "bind_transport_attempt attempt_id source request api_name ordinal S = Inr S' \<Longrightarrow> quota_step digest now S S'"
| step_transport: "begin_transport_dispatch digest boot_id source owner attempt_id request api_name ordinal units total_units
      kind now ns S = Inr (result, S') \<Longrightarrow> py_strip boot_id = boot_id \<Longrightarrow> boot_id \<noteq> [] \<Longrightarrow> quota_step digest now S S'"
| step_recover_stale: "recover_stale_attempts boot_id source now min_age minimum_age_ns max_count ns monotonic S = (recovered, S') \<Longrightarrow>
    quota_step digest now S S'"

lemma store_ok_wf: "store_ok S \<Longrightarrow> attempts_wf S"
  by (simp add: store_ok_def attempts_ok_def)

interpretation effects: monotone_system "quota_effect t" store_ok store_le for t
  by unfold_locales (auto intro: effect_store_ok effect_store_le store_le_refl store_le_trans)

interpretation fitting: invariant_system "quota_effect t" "\<lambda>S. store_ok S \<and> attempts_fit S" for t
  by unfold_locales (auto intro: effect_store_ok effect_attempts_fit)

interpretation timely: invariant_system "quota_effect t" "\<lambda>S. store_ok S \<and> times_ok t S \<and> windows_fit t S" for t
  by unfold_locales (auto intro: effect_store_ok effect_times_ok effect_windows_fit)

text \<open>Every step is a sequence of effects at one time, which is the caller's unless the stored clock is ahead.\<close>

lemma step_effects:
  assumes "quota_step digest now S S'" "\<forall>j. is_sha256 (digest j)" "store_ok S"
  obtains t where "(quota_effect t)\<^sup>*\<^sup>* S S'" "now \<le> t" "\<And>T. times_ok T S \<Longrightarrow> T \<le> now \<Longrightarrow> t = now"
proof -
  have sha: "\<And>j. is_sha256 (digest j)" using assms(2) by simp
  note wf = store_ok_wf [OF assms(3)]
  from assms(1) show ?thesis
  proof cases
    case (step_transport boot_id source owner attempt_id request api_name ordinal units total_units kind ns result)
    from begin_transport_dispatch_effect [OF step_transport(1) sha step_transport(2,3)] that show ?thesis .
  next
    case (step_recover_stale boot_id source min_age minimum_age_ns max_count ns monotonic recovered)
    then have "S' = S \<or> (\<exists>ids. recover_each now monotonic ids [] S = (recovered, S'))"
      by (auto simp: recover_stale_attempts_def Let_def split: sum.splits)
    then have "(quota_effect now)\<^sup>*\<^sup>* S S'"
      using recover_each_effect [of now store_ok monotonic _ "[]" S recovered S'] effect_store_ok store_ok_wf assms(3) by blast
    then show ?thesis by (rule that) simp_all
  next
    case (step_begin boot_id source owner attempt_id units ns expires a)
    then have "(quota_effect now)\<^sup>*\<^sup>* S S'" using sha by (intro begin_attempt_effect)
    then show ?thesis by (rule that) simp_all
  next
    case (step_commit attempt_id outcome ns a)
    then have "(quota_effect now)\<^sup>*\<^sup>* S S'" using complete_attempt_effect [OF _ wf] by (simp add: commit_attempt_def)
    then show ?thesis by (rule that) simp_all
  next
    case (step_recover attempt_id ns a)
    then have "(quota_effect now)\<^sup>*\<^sup>* S S'" using complete_attempt_effect [OF _ wf] by (simp add: recover_attempt_def)
    then show ?thesis by (rule that) simp_all
  next
    case (step_dispatch attempt_id ns a)
    from mark_dispatched_effect [OF step_dispatch wf] show ?thesis by (rule that) simp_all
  qed (rule that [of now]; auto intro: declare_window_effect acquire_effect consume_effect release_effect bind_transport_attempt_effect)+
qed

text \<open>Under any clock.\<close>

definition sound :: "digest \<Rightarrow> quota_store \<Rightarrow> bool" where
  "sound digest S \<longleftrightarrow> (\<forall>j. is_sha256 (digest j)) \<and> store_ok S \<and> attempts_fit S"

interpretation store: monotone_system "\<lambda>S S'. \<exists>now. quota_step digest now S S'" "sound digest" store_le for digest
proof unfold_locales
  fix S S' assume "\<exists>now. quota_step digest now S S'" and inv: "sound digest S"
  then obtain now where step: "quota_step digest now S S'" by blast
  obtain t where run: "(quota_effect t)\<^sup>*\<^sup>* S S'" using step inv by (auto simp: sound_def elim!: step_effects)
  from fitting.reachable_inv [OF run] inv show "sound digest S'" by (simp add: sound_def)
  from effects.reachable_le [OF run] inv show "store_le S S'" by (simp add: sound_def)
qed (auto intro: store_le_refl store_le_trans)

text \<open>Under a clock that does not run back: the state carries the time of the last call.\<close>

definition timed_step :: "digest \<Rightarrow> utc \<times> quota_store \<Rightarrow> utc \<times> quota_store \<Rightarrow> bool" where
  "timed_step digest x y \<longleftrightarrow> fst x \<le> fst y \<and> quota_step digest (fst y) (snd x) (snd y)"

definition timely_sound :: "digest \<Rightarrow> utc \<times> quota_store \<Rightarrow> bool" where
  "timely_sound digest x \<longleftrightarrow> (\<forall>j. is_sha256 (digest j)) \<and> store_ok (snd x) \<and> times_ok (fst x) (snd x) \<and> windows_fit (fst x) (snd x)"

interpretation clocked: invariant_system "timed_step digest" "timely_sound digest" for digest
proof
  fix x y assume step: "timed_step digest x y" and inv: "timely_sound digest x"
  obtain t where run: "(quota_effect t)\<^sup>*\<^sup>* (snd x) (snd y)" and t: "\<And>T. times_ok T (snd x) \<Longrightarrow> T \<le> fst y \<Longrightarrow> t = fst y"
    using step inv by (auto simp: timed_step_def timely_sound_def elim!: step_effects)
  have "t = fst y" by (rule t [of "fst x"]) (use step inv in \<open>simp_all add: timed_step_def timely_sound_def\<close>)
  moreover have "times_ok (fst y) (snd x)" "windows_fit (fst y) (snd x)"
    using step inv times_ok_later windows_fit_later by (auto simp: timed_step_def timely_sound_def store_ok_def)
  ultimately show "timely_sound digest y" using timely.reachable_inv [OF run] inv by (simp add: timely_sound_def)
qed

lemma empty_store_sound: "store_ok empty_store" "attempts_fit empty_store" "times_ok t empty_store" "windows_fit t empty_store"
  by (simp_all add: empty_store_def store_ok_def leases_ok_def books_ok_def attempts_ok_def attempts_wf_def attempts_fit_def
      times_ok_def windows_fit_def)

end
