(* ===== verification/Quota_Properties.thy ===== *)
theory Quota_Properties
  imports Quota_Machine
begin

text \<open>What the quota store promises, and a small store that shows the promises are not empty.\<close>

section \<open>Example\<close>

definition ex_quota_digest :: digest where
  "ex_quota_digest j = (case j of
     JObj xs \<Rightarrow> replicate 64 (if map_of xs ''owner'' = Some (JStr ''OWN1'') then CHR ''a'' else CHR ''b'')
   | _ \<Rightarrow> replicate 64 (CHR ''c''))"

lemma ex_quota_digest_sha256: "is_sha256 (ex_quota_digest j)"
proof -
  have "is_sha256 (replicate 64 (CHR ''a''))" "is_sha256 (replicate 64 (CHR ''b''))" "is_sha256 (replicate 64 (CHR ''c''))" by code_simp+
  then show ?thesis by (cases j) (simp_all add: ex_quota_digest_def)
qed

lemma ex_lease_id [simp]:
  "canonical_sha256 ex_quota_digest (lease_identity_payload l) = replicate 64 (if sq_owner l = ''OWN1'' then CHR ''a'' else CHR ''b'')"
  by (simp add: canonical_sha256_def lease_identity_payload_def ex_quota_digest_def map_of_canonical map_of_sort_key)

definition ex_window :: quota_window where
  "ex_window = \<lparr>qw_source = ''SRC'', qw_window_id = ''W1'', qw_starts_at = 0, qw_resets_at = 1000, qw_total_units = 5\<rparr>"

definition ex_lease1 :: quota_lease where
  "ex_lease1 = \<lparr>ql_lease_id = replicate 64 (CHR ''a''), ql_source = ''SRC'', ql_window_id = ''W1'', ql_owner = ''OWN1'', ql_units = 3,
     ql_used_units = 0, ql_granted_at = 10, ql_expires_at = 500, ql_quota_reset_at = 1000, ql_released_at = None\<rparr>"

definition ex_lease2 :: quota_lease where
  "ex_lease2 = \<lparr>ql_lease_id = replicate 64 (CHR ''b''), ql_source = ''SRC'', ql_window_id = ''W1'', ql_owner = ''OWN2'', ql_units = 2,
     ql_used_units = 0, ql_granted_at = 20, ql_expires_at = 30, ql_quota_reset_at = 1000, ql_released_at = None\<rparr>"

definition ex_attempt :: quota_attempt where
  "ex_attempt = \<lparr>qa_attempt_id = ''A1'', qa_source = ''SRC'', qa_owner = ''OWN1'', qa_lease_id = replicate 64 (CHR ''a''), qa_units = 3,
     qa_prepared_at = 10, qa_dispatched_at = None, qa_outcome = OUTCOME_PENDING, qa_committed_at = None, qa_boot_id = ''BOOT'',
     qa_last_monotonic_ns = 7, qa_lifecycle_sequence = 1, qa_clock_rollback_count = 0\<rparr>"

definition ex_windows :: quota_store where
  "ex_windows = empty_store\<lparr>q_windows := [ex_window]\<rparr>"

definition ex_begun :: quota_store where
  "ex_begun = ex_windows\<lparr>q_leases := [ex_lease1], q_attempts := [ex_attempt]\<rparr>"

definition ex_leased :: quota_store where
  "ex_leased = ex_begun\<lparr>q_leases := [ex_lease1, ex_lease2]\<rparr>"

definition ex_final :: quota_attempt where
  "ex_final = ex_attempt\<lparr>qa_outcome := OUTCOME_SUCCESS, qa_committed_at := Some 40, qa_last_monotonic_ns := 9, qa_lifecycle_sequence := 2\<rparr>"

definition ex_done :: quota_store where
  "ex_done = ex_leased\<lparr>q_leases := [ex_lease1\<lparr>ql_used_units := 3, ql_released_at := Some 40\<rparr>, ex_lease2], q_attempts := [ex_final],
     q_usages := [\<lparr>qu_usage_id = ''attempt:A1'', qu_lease_id = replicate 64 (CHR ''a''), qu_units = 3, qu_consumed_at = 40\<rparr>]\<rparr>"

lemmas ex_quota_defs = ex_window_def ex_lease1_def ex_lease2_def ex_attempt_def ex_windows_def ex_begun_def ex_leased_def
  ex_final_def ex_done_def empty_store_def

lemma ex_declared: "declare_window ''SRC'' ''W1'' 0 1000 5 empty_store = Inr ex_windows"
  by code_simp

lemma ex_valid_attempt: "make_attempt ex_attempt = Inr ex_attempt" by code_simp

lemma ex_valid_final: "make_attempt ex_final = Inr ex_final" by code_simp

lemma ex_texts: "py_strip ''SRC'' = ''SRC''" "py_strip ''A1'' = ''A1''" "py_strip ''OWN1'' = ''OWN1''" "py_strip ''OWN2'' = ''OWN2''" "py_strip [] = []"
  by code_simp+

lemmas ex_quota_eval = begin_attempt_def acquire_def Let_def ex_texts find_attempt_def active_window_def owner_lease_def reserve_def
  remaining_in_window_def window_leases_def reserved_units_def make_source_quota_lease_def bounded_def max_resource_count_def opt_all_def
  insert_lease_def insert_attempt_def sql_int_def raise_first.simps has_pending_attempt_def

lemma ex_begin: "begin_attempt ex_quota_digest ''BOOT'' ''SRC'' ''OWN1'' ''A1'' 3 10 7 500 ex_windows = Inr (Inr ex_attempt, ex_begun)"
  using ex_valid_attempt by (simp add: ex_quota_eval ex_quota_defs)

lemma ex_acquire: "\<exists>lease. acquire ex_quota_digest ''SRC'' ''OWN2'' 2 20 30 ex_begun = Inr (lease, ex_leased)"
  by (simp add: ex_quota_eval ex_quota_defs)

lemma ex_commit: "commit_attempt ''A1'' OUTCOME_SUCCESS 40 9 ex_leased = Inr (Inr ex_final, ex_done)"
  using ex_valid_attempt ex_valid_final
  by (simp add: ex_quota_eval ex_quota_defs commit_attempt_def complete_attempt_def find_lease_def insert_usage_def set_lease_def set_attempt_def)

lemma ex_steps:
  "quota_step ex_quota_digest 0 empty_store ex_windows" "quota_step ex_quota_digest 10 ex_windows ex_begun"
  "quota_step ex_quota_digest 20 ex_begun ex_leased" "quota_step ex_quota_digest 40 ex_leased ex_done"
proof -
  show "quota_step ex_quota_digest 0 empty_store ex_windows" by (rule step_declare [OF ex_declared])
  show "quota_step ex_quota_digest 10 ex_windows ex_begun" by (rule step_begin [OF ex_begin]) code_simp+
  from ex_acquire show "quota_step ex_quota_digest 20 ex_begun ex_leased" by (blast intro: step_acquire)
  show "quota_step ex_quota_digest 40 ex_leased ex_done" by (rule step_commit [OF ex_commit])
qed

lemma chain3: "r a b \<Longrightarrow> r b c \<Longrightarrow> r c d \<Longrightarrow> r\<^sup>*\<^sup>* a d"
  by (rule rtranclp.rtrancl_into_rtrancl [OF rtranclp.rtrancl_into_rtrancl [OF r_into_rtranclp]])

lemma ex_leased_reachable: "(\<lambda>S S'. \<exists>now. quota_step ex_quota_digest now S S')\<^sup>*\<^sup>* empty_store ex_leased"
proof -
  let ?R = "\<lambda>S S'. \<exists>now. quota_step ex_quota_digest now S S'"
  have "?R empty_store ex_windows" "?R ex_windows ex_begun" "?R ex_begun ex_leased" using ex_steps(1-3) by blast+
  then show ?thesis by (rule chain3)
qed

lemma ex_done_run: "(timed_step ex_quota_digest)\<^sup>*\<^sup>* (0, empty_store) (40, ex_done)"
proof -
  have "timed_step ex_quota_digest (0, empty_store) (0, ex_windows)" "timed_step ex_quota_digest (0, ex_windows) (10, ex_begun)"
    "timed_step ex_quota_digest (10, ex_begun) (20, ex_leased)" "timed_step ex_quota_digest (20, ex_leased) (40, ex_done)"
    using ex_steps by (simp_all add: timed_step_def)
  from chain3 [of "timed_step ex_quota_digest", OF this(1-3)] this(4) show ?thesis by (rule rtranclp.rtrancl_into_rtrancl)
qed

section \<open>Quotas hold\<close>

lemma reachable_sound:
  assumes "\<forall>j. is_sha256 (digest j)" "(\<lambda>S S'. \<exists>now. quota_step digest now S S')\<^sup>*\<^sup>* empty_store S"
  shows "sound digest S"
  by (rule store.reachable_inv [OF assms(2)]) (simp add: sound_def assms(1) empty_store_sound)

text \<open>
  C32: the units of all provider attempts ever begun in a quota window stay within the total of the
  window, whatever times the callers pass, even when their clocks run back; and every attempt holds a lease
  of exactly one window, so none escapes the count.
\<close>

theorem attempts_within_quota:
  assumes "\<forall>j. is_sha256 (digest j)" "(\<lambda>S S'. \<exists>now. quota_step digest now S S')\<^sup>*\<^sup>* empty_store S"
  shows "(\<forall>w \<in> set (q_windows S). sum_list (map qa_units (window_attempts w S)) \<le> qw_total_units w)
    \<and> (\<forall>a \<in> set (q_attempts S). \<exists>!w. w \<in> set (q_windows S) \<and> a \<in> set (window_attempts w S))"
proof -
  have ok: "store_ok S" "attempts_fit S" using reachable_sound [OF assms] by (simp_all add: sound_def)
  then show ?thesis
    using window_attempts_units [OF ok(1)] attempt_window [OF ok(1)] by (simp add: attempts_fit_def flip: sum_by_def)
qed

theorem attempts_within_quota_witness:
  "sum_list (map qa_units (window_attempts ex_window ex_leased)) \<le> 5
    \<and> map qa_units (window_attempts ex_window ex_leased) = [3]"
proof
  have "ex_window \<in> set (q_windows ex_leased)" by (simp add: ex_leased_def ex_begun_def ex_windows_def)
  with attempts_within_quota [OF _ ex_leased_reachable] ex_quota_digest_sha256
  show "sum_list (map qa_units (window_attempts ex_window ex_leased)) \<le> 5"
    by (fastforce simp: ex_window_def)
  show "map qa_units (window_attempts ex_window ex_leased) = [3]"
    by (simp add: window_attempts_def window_leases_def ex_quota_defs)
qed

text \<open>
  C33: when the times passed never run back, a quota window is never overdrawn: at any later time what
  remains is not negative, and the usages booked on its leases stay within its total.
\<close>

theorem quota_never_overdrawn:
  assumes "\<forall>j. is_sha256 (digest j)" "(timed_step digest)\<^sup>*\<^sup>* (t0, empty_store) (T, S)" "w \<in> set (q_windows S)" "T \<le> t"
  shows "0 \<le> remaining_in_window S w t
    \<and> sum_by (\<lambda>l. charged (ql_lease_id l) (q_usages S)) (window_leases w S) \<le> qw_total_units w"
proof -
  have "timely_sound digest (T, S)"
    by (rule clocked.reachable_inv [OF assms(2)]) (simp add: timely_sound_def assms(1) empty_store_sound)
  then have ok: "store_ok S" "windows_fit t S" using windows_fit_later assms(4) by (auto simp: timely_sound_def store_ok_def)
  then have rest: "0 \<le> remaining_in_window S w t" using assms(3) by (simp add: windows_fit_def)
  have "sum_by (\<lambda>l. charged (ql_lease_id l) (q_usages S)) (window_leases w S) \<le> sum_by (charge S t) (window_leases w S)"
    by (rule sum_by_mono) (use ok(1) in \<open>auto simp: window_leases_def charge_def reserved_units_def store_ok_def leases_ok_def books_ok_def\<close>)
  with rest show ?thesis by (simp add: remaining_charge)
qed

theorem quota_never_overdrawn_witness:
  "0 \<le> remaining_in_window ex_done ex_window 50 \<and> remaining_in_window ex_done ex_window 50 = 2"
proof
  have "ex_window \<in> set (q_windows ex_done)" by (simp add: ex_done_def ex_leased_def ex_begun_def ex_windows_def)
  with quota_never_overdrawn [OF _ ex_done_run, of ex_window 50] ex_quota_digest_sha256
  show "0 \<le> remaining_in_window ex_done ex_window 50" by simp
  show "remaining_in_window ex_done ex_window 50 = 2"
    by (simp add: remaining_in_window_def window_leases_def reserved_units_def has_pending_attempt_def ex_quota_defs)
qed

lemma find_attempt_row: "attempts_ok S \<Longrightarrow> a \<in> set (q_attempts S) \<Longrightarrow> find_attempt (qa_attempt_id a) S = Some a"
  using find_attempt_unique [of S "qa_attempt_id a" _ a]
  by (cases "find_attempt (qa_attempt_id a) S") (auto simp: find_attempt_def)

lemma find_lease_row: "leases_ok S \<Longrightarrow> l \<in> set (q_leases S) \<Longrightarrow> find_lease (ql_lease_id l) S = Some l"
  using find_lease_unique [of S "ql_lease_id l" _ l] by (cases "find_lease (ql_lease_id l) S") (auto simp: find_lease_def)

text \<open>
  C34: a completed attempt is final. In every later store its row is unchanged, exactly its units are
  booked on its lease, and completing it again books nothing: the same outcome returns the row, another
  one is refused.
\<close>

theorem completed_attempt_final:
  assumes "\<forall>j. is_sha256 (digest j)" "(\<lambda>S S'. \<exists>now. quota_step digest now S S')\<^sup>*\<^sup>* empty_store S"
    and "(\<lambda>S S'. \<exists>now. quota_step digest now S S')\<^sup>*\<^sup>* S S'" "a \<in> set (q_attempts S)" "qa_outcome a \<noteq> OUTCOME_PENDING"
    and "outcome \<noteq> OUTCOME_PENDING" "0 \<le> ns"
  shows "a \<in> set (q_attempts S') \<and> charged (qa_lease_id a) (q_usages S') = qa_units a
    \<and> complete_attempt (qa_attempt_id a) outcome now ns S' =
        (if qa_outcome a = outcome then Inr (Inr a, S') else Inl (SourceQuotaConflictError ''quota attempt completion conflicts''))"
proof -
  note sound = reachable_sound [OF assms(1,2)]
  have ok: "leases_ok S'" "books_ok S'" "attempts_ok S'"
    using store.reachable_inv [OF assms(3) sound] by (simp_all add: sound_def store_ok_def)
  have a: "a \<in> set (q_attempts S')" using store.reachable_le [OF assms(3) sound] assms(4,5) by (simp add: store_le_def)
  obtain l where l: "l \<in> set (q_leases S')" "attempt_lease a l" using ok(3) a by (rule attempt_leaseE)
  have "charged (qa_lease_id a) (q_usages S') = qa_units a"
    using ok(2) l assms(5) by (auto simp: books_ok_def attempt_lease_def)
  with find_attempt_row [OF ok(3) a] attempts_okD [OF ok(3) a] a assms(5-7) show ?thesis by (simp add: complete_attempt_def)
qed

theorem completed_attempt_final_witness:
  "charged (replicate 64 (CHR ''a'')) (q_usages ex_done) = 3 \<and> complete_attempt ''A1'' OUTCOME_SUCCESS 60 11 ex_done = Inr (Inr ex_final, ex_done)"
proof -
  have "(\<lambda>S S'. \<exists>now. quota_step ex_quota_digest now S S')\<^sup>*\<^sup>* empty_store ex_done"
    by (rule rtranclp.rtrancl_into_rtrancl [OF ex_leased_reachable]) (use ex_steps(4) in blast)
  from completed_attempt_final [OF _ this rtranclp.rtrancl_refl, of ex_final OUTCOME_SUCCESS 11 60] ex_quota_digest_sha256
  show ?thesis by (simp add: ex_done_def ex_final_def ex_attempt_def)
qed

text \<open>
  C35: a pending attempt of a reachable store can be completed with any final outcome at any time, as
  long as no client took the usage identity kept for it: its lease is active and holds its units, and the
  completed row carries the outcome.
\<close>

theorem pending_attempt_completes:
  assumes "\<forall>j. is_sha256 (digest j)" "(\<lambda>S S'. \<exists>now. quota_step digest now S S')\<^sup>*\<^sup>* empty_store S"
    and a: "a \<in> set (q_attempts S)" "qa_outcome a = OUTCOME_PENDING" "''attempt:'' @ qa_attempt_id a \<notin> qu_usage_id ` set (q_usages S)"
    and "outcome \<noteq> OUTCOME_PENDING" "0 \<le> ns" "sql_int ns"
  shows "\<exists>a' S'. complete_attempt (qa_attempt_id a) outcome now ns S = Inr (Inr a', S') \<and> a' \<in> set (q_attempts S')
    \<and> qa_attempt_id a' = qa_attempt_id a \<and> qa_outcome a' = outcome \<and> charged (qa_lease_id a) (q_usages S') = qa_units a"
proof -
  have ok: "leases_ok S" "books_ok S" "attempts_ok S" using reachable_sound [OF assms(1,2)] by (simp_all add: sound_def store_ok_def)
  obtain l where l: "l \<in> set (q_leases S)" "attempt_lease a l" using ok(3) a(1) by (rule attempt_leaseE)
  have row: "find_attempt (qa_attempt_id a) S = Some a" using ok(3) a(1) by (rule find_attempt_row)
  have lease: "find_lease (qa_lease_id a) S = Some l" using find_lease_row [OF ok(1) l(1)] l(2) by (simp add: attempt_lease_def)
  note valid = attempts_okD [OF ok(3) a(1)]
  have "qa_lease_id a \<in> ql_lease_id ` set (q_leases S)" by (rule image_eqI [OF _ l(1)]) (use l(2) in \<open>simp add: attempt_lease_def\<close>)
  then have "qa_lease_id a \<in> ql_lease_id ` set (update_where (\<lambda>l. ql_lease_id l = qa_lease_id a)
      (\<lambda>l. l\<lparr>ql_used_units := ql_used_units l + qa_units a\<rparr>) (q_leases S))" by (simp add: image_update_where)
  moreover have "1 \<le> qa_units a" using valid by (simp add: make_attempt_fixed)
  ultimately have "\<exists>S1. insert_usage \<lparr>qu_usage_id = ''attempt:'' @ qa_attempt_id a, qu_lease_id = qa_lease_id a, qu_units = qa_units a,
      qu_consumed_at = e\<rparr> (set_lease (qa_lease_id a) (\<lambda>l. l\<lparr>ql_used_units := ql_used_units l + qa_units a\<rparr>) S) = Inr S1" for e
    using a(3) by (auto simp: insert_usage_def raise_first.simps list_ex_iff image_iff)
  then have "\<exists>r S'. complete_attempt (qa_attempt_id a) outcome now ns S = Inr (r, S')"
    using row lease valid a(2) l(2) assms(6-8) by (auto simp: complete_attempt_def Let_def attempt_lease_def)
  then obtain r S' where run: "complete_attempt (qa_attempt_id a) outcome now ns S = Inr (r, S')" by blast
  have "attempts_wf S" using ok(3) by (simp add: attempts_ok_def)
  from run this show ?thesis
  proof (cases rule: complete_attempt_cases)
    case (known row')
    with row a(2) show ?thesis by simp
  next
    case (completed a0 l0 u rollback)
    let ?a = "final_attempt outcome (max now (started_at a)) ns rollback a"
    have [simp]: "a0 = a" using completed(1) row by simp
    have "r = Inr ?a" using completed(8,13) make_final_attempt [OF valid assms(6,7), of rollback now] by auto
    moreover have "?a \<in> set (q_attempts S')" using a(1) by (auto simp: completed(14) set_update_where)
    moreover have "charged (qa_lease_id a) (q_usages S') = qa_units a"
      using completed(9,10) ok(2) l a(2) by (auto simp: completed(14) books_ok_def attempt_lease_def)
    ultimately show ?thesis using run by (intro exI [of _ ?a] exI [of _ S']) simp
  qed
qed

theorem pending_attempt_completes_witness:
  "\<exists>a' S'. complete_attempt ''A1'' OUTCOME_UNKNOWN 5 0 ex_leased = Inr (Inr a', S') \<and> qa_outcome a' = OUTCOME_UNKNOWN"
  using pending_attempt_completes [OF _ ex_leased_reachable, of ex_attempt OUTCOME_UNKNOWN 0 5] ex_quota_digest_sha256
  by (auto simp: ex_quota_defs sql_int_def bounded_def)

section \<open>A clock that runs back\<close>

definition ex_expiring :: quota_store where
  "ex_expiring = ex_windows\<lparr>q_leases := [ex_lease2]\<rparr>"

definition ex_lease3 :: quota_lease where
  "ex_lease3 = ex_lease1\<lparr>ql_units := 5, ql_granted_at := 40\<rparr>"

definition ex_full :: quota_store where
  "ex_full = ex_windows\<lparr>q_leases := [ex_lease2, ex_lease3]\<rparr>"

definition ex_overdrawn :: quota_store where
  "ex_overdrawn = ex_full\<lparr>q_leases := [ex_lease2\<lparr>ql_used_units := 2\<rparr>, ex_lease3],
     q_usages := [\<lparr>qu_usage_id = ''U1'', qu_lease_id = replicate 64 (CHR ''b''), qu_units = 2, qu_consumed_at = 25\<rparr>]\<rparr>"

lemmas ex_overdrawn_defs = ex_quota_defs ex_expiring_def ex_lease3_def ex_full_def ex_overdrawn_def

lemma ex_overdraw:
  "\<exists>lease. acquire ex_quota_digest ''SRC'' ''OWN2'' 2 20 30 ex_windows = Inr (lease, ex_expiring)"
  "\<exists>lease. acquire ex_quota_digest ''SRC'' ''OWN1'' 5 40 500 ex_expiring = Inr (lease, ex_full)"
  "consume (replicate 64 (CHR ''b'')) ''U1'' 2 25 ex_full = Inr ex_overdrawn"
proof -
  show "\<exists>lease. acquire ex_quota_digest ''SRC'' ''OWN2'' 2 20 30 ex_windows = Inr (lease, ex_expiring)"
    by (simp add: ex_quota_eval ex_overdrawn_defs)
  show "\<exists>lease. acquire ex_quota_digest ''SRC'' ''OWN1'' 5 40 500 ex_expiring = Inr (lease, ex_full)"
    by (simp add: ex_quota_eval ex_overdrawn_defs)
  have "py_strip ''U1'' = ''U1''" by code_simp
  then show "consume (replicate 64 (CHR ''b'')) ''U1'' 2 25 ex_full = Inr ex_overdrawn"
    by (simp add: ex_quota_eval ex_overdrawn_defs consume_def find_lease_def insert_usage_def set_lease_def)
qed

text \<open>
  Without that, a window can be overdrawn: a lease that expired unused is given to another owner,
  the clock runs back before its expiry, and its holder still consumes it. The leases of the window then
  hold and use more units than the window has.
\<close>

theorem clock_rollback_overdraws:
  "\<exists>digest S. (\<forall>j. is_sha256 (digest j)) \<and> (\<lambda>S S'. \<exists>now. quota_step digest now S S')\<^sup>*\<^sup>* empty_store S
     \<and> (\<exists>w \<in> set (q_windows S). \<forall>t < 500. remaining_in_window S w t < 0)"
proof (intro exI conjI allI)
  let ?R = "\<lambda>S S'. \<exists>now. quota_step ex_quota_digest now S S'"
  have "?R empty_store ex_windows" "?R ex_windows ex_expiring" "?R ex_expiring ex_full" "?R ex_full ex_overdrawn"
    using ex_steps(1) ex_overdraw by (blast intro: step_acquire step_consume)+
  from chain3 [of ?R, OF this(1-3)] this(4) show "?R\<^sup>*\<^sup>* empty_store ex_overdrawn" by (rule rtranclp.rtrancl_into_rtrancl)
  show "is_sha256 (ex_quota_digest j)" for j by (rule ex_quota_digest_sha256)
  show "\<exists>w \<in> set (q_windows ex_overdrawn). \<forall>t < 500. remaining_in_window ex_overdrawn w t < 0"
    by (auto simp: remaining_in_window_def window_leases_def reserved_units_def has_pending_attempt_def ex_overdrawn_defs)
qed

end
