(* ===== verification/Trade_Calendar.thy ===== *)
theory Trade_Calendar
  imports Cost_Spec "HOL-Library.Product_Lexorder"
begin

text \<open>
  The authoritative trade calendar of \<open>trade_calendar.py\<close>: provider rows are normalised, deduplicated
  and validated as one unbroken chain of previous trading days, then written and verified. A data frame
  is its columns and its records; the table \<open>trade_calendar\<close> is a list of rows with the primary key
  (exchange, date).
\<close>

section \<open>Calendar days\<close>

record calendar_day =
  cd_exchange :: string
  cd_cal_date :: day
  cd_is_open :: bool
  cd_pretrade_date :: "day option"
  cd_source :: string
  cd_updated_at :: utc

definition make_calendar_day :: "calendar_day \<Rightarrow> exn + calendar_day" where
  "make_calendar_day raw =
     (let r = raw\<lparr>cd_exchange := py_strip (cd_exchange raw), cd_source := py_strip (cd_source raw)\<rparr> in
      raise_first
        [(cd_exchange r = [] \<or> cd_source r = [], ValueError ''exchange and source must be nonempty''),
         (\<not> opt_all (\<lambda>p. p < cd_cal_date r) (cd_pretrade_date r),
          ValueError ''pretrade_date must be strictly before cal_date'')] r)"

definition trade_calendar_business_facts :: "calendar_day \<Rightarrow> bool \<times> day option" where
  "trade_calendar_business_facts r = (cd_is_open r, cd_pretrade_date r)"

section \<open>Deduplication\<close>

definition observation_key :: "calendar_day \<Rightarrow> string \<times> day \<times> utc" where
  "observation_key r = (cd_exchange r, cd_cal_date r, cd_updated_at r)"

definition day_key :: "calendar_day \<Rightarrow> string \<times> day" where
  "day_key r = (cd_exchange r, cd_cal_date r)"

text \<open>
  The two dictionaries of the loop hold rows under their own keys, so each is the list of its values in
  insertion order; an assignment to a present key keeps its place.
\<close>

fun observe :: "calendar_day list \<Rightarrow> calendar_day list \<Rightarrow> exn + calendar_day list" where
  "observe observations [] = Inr observations"
| "observe observations (row # rows) =
     (case select_one (\<lambda>r. observation_key r = observation_key row) observations of
        None \<Rightarrow> observe (observations @ [row]) rows
      | Some current \<Rightarrow>
          if trade_calendar_business_facts row \<noteq> trade_calendar_business_facts current
          then Inl (TradeCalendarConflictError (cd_exchange row) (cd_cal_date row) (cd_updated_at row))
          else observe
            (update_where (\<lambda>r. observation_key r = observation_key row)
               (\<lambda>r. if cd_source row < cd_source current then row else current) observations) rows)"

fun select_newest :: "calendar_day list \<Rightarrow> calendar_day list \<Rightarrow> calendar_day list" where
  "select_newest selected [] = selected"
| "select_newest selected (row # rows) =
     (case select_one (\<lambda>r. day_key r = day_key row) selected of
        None \<Rightarrow> select_newest (selected @ [row]) rows
      | Some current \<Rightarrow>
          if cd_updated_at current < cd_updated_at row
          then select_newest (update_where (\<lambda>r. day_key r = day_key row) (\<lambda>r. row) selected) rows
          else select_newest selected rows)"

definition deduplicate_trade_calendar_rows :: "calendar_day list \<Rightarrow> exn + calendar_day list" where
  "deduplicate_trade_calendar_rows rows =
     rbind (observe [] rows) (\<lambda>observations. Inr (sort_key day_key (select_newest [] observations)))"

section \<open>Provider rows\<close>

text \<open>
  A cell of the provider's frame: missing (\<open>None\<close>, NaN, NaT), a bool, an integer, a text, a date (a
  timestamp or datetime counts as its date), or anything else.
\<close>

datatype cell = Missing | CBool bool | CInt int | CText string | CDate day | COther

definition is_digit :: "char \<Rightarrow> bool" where
  "is_digit c = (let n = (of_char c :: nat) in 48 \<le> n \<and> n \<le> 57)"

definition digits_value :: "string \<Rightarrow> int" where
  "digits_value s = foldl (\<lambda>n c. 10 * n + (of_char c - 48)) 0 s"

definition is_leap :: "int \<Rightarrow> bool" where
  "is_leap y = (y mod 4 = 0 \<and> (y mod 100 \<noteq> 0 \<or> y mod 400 = 0))"

definition days_in_month :: "int \<Rightarrow> int \<Rightarrow> int" where
  "days_in_month y m =
     (if m = 2 then (if is_leap y then 29 else 28) else if m \<in> {4, 6, 9, 11} then 30 else 31)"

text \<open>Days since 1970-01-01 of a civil date.\<close>

definition day_of_civil :: "int \<Rightarrow> int \<Rightarrow> int \<Rightarrow> day" where
  "day_of_civil y m d =
     (let y' = (if m \<le> 2 then y - 1 else y); era = y' div 400; yoe = y' mod 400;
          doy = (153 * (if 2 < m then m - 3 else m + 9) + 2) div 5 + d - 1;
          doe = yoe * 365 + yoe div 4 - yoe div 100 + doy
      in era * 146097 + doe - 719468)"

text \<open>\<open>datetime.strptime(text, "%Y%m%d").date()\<close> of eight digits.\<close>

definition strptime_ymd :: "string \<Rightarrow> exn + day" where
  "strptime_ymd s =
     (let y = digits_value (take 4 s); m = digits_value (take 2 (drop 4 s)); d = digits_value (drop 6 s) in
      if y < 1 \<or> m < 1 \<or> 12 < m \<or> d < 1 \<or> days_in_month y m < d
      then Inl (ValueError ''time data does not match format '') else Inr (day_of_civil y m d))"

definition parse_civil_date :: "string \<Rightarrow> cell \<Rightarrow> exn + day" where
  "parse_civil_date field_name value =
     (case value of
        CDate d \<Rightarrow> Inr d
      | CText s \<Rightarrow>
          let stripped = py_strip s in
          if length stripped = 8 \<and> list_all is_digit stripped then strptime_ymd stripped
          else Inl (ValueError (field_name @ '' must be YYYYMMDD, date, or pandas Timestamp''))
      | _ \<Rightarrow> Inl (ValueError (field_name @ '' must be YYYYMMDD, date, or pandas Timestamp'')))"

definition parse_optional_civil_date :: "cell \<Rightarrow> exn + day option" where
  "parse_optional_civil_date value =
     (if (case value of Missing \<Rightarrow> True | CText s \<Rightarrow> py_strip s = [] | _ \<Rightarrow> False) then Inr None
      else rbind (parse_civil_date ''pretrade_date'' value) (\<lambda>d. Inr (Some d)))"

definition parse_is_open :: "cell \<Rightarrow> exn + bool" where
  "parse_is_open value =
     (case value of
        CBool b \<Rightarrow> Inr b
      | CInt n \<Rightarrow> if n = 0 \<or> n = 1 then Inr (n = 1) else Inl (ValueError ''is_open must be bool, 0 or 1'')
      | CText s \<Rightarrow>
          if py_strip s = ''0'' \<or> py_strip s = ''1'' then Inr (py_strip s = ''1'')
          else Inl (ValueError ''is_open must be bool, 0 or 1'')
      | _ \<Rightarrow> Inl (ValueError ''is_open must be bool, 0 or 1''))"

record frame =
  fr_columns :: "string list"
  fr_records :: "(string \<times> cell) list list"

definition cell_of :: "(string \<times> cell) list \<Rightarrow> string \<Rightarrow> cell" where
  "cell_of r column = (case map_of r column of None \<Rightarrow> Missing | Some c \<Rightarrow> c)"

definition normalize_row :: "string \<Rightarrow> utc \<Rightarrow> (string \<times> cell) list \<Rightarrow> exn + calendar_day" where
  "normalize_row source normalized_at r =
     rbind (parse_civil_date ''cal_date'' (cell_of r ''cal_date'')) (\<lambda>cal_date.
     rbind (parse_is_open (cell_of r ''is_open'')) (\<lambda>is_open.
     rbind (parse_optional_civil_date (cell_of r ''pretrade_date'')) (\<lambda>pretrade_date.
     case cell_of r ''exchange'' of
       CText exchange \<Rightarrow> make_calendar_day
         \<lparr>cd_exchange = exchange, cd_cal_date = cal_date, cd_is_open = is_open, cd_pretrade_date = pretrade_date,
          cd_source = source, cd_updated_at = normalized_at\<rparr>
     | _ \<Rightarrow> Inl (ValueError ''exchange must be a string''))))"

definition missing_columns :: "string list \<Rightarrow> frame \<Rightarrow> bool" where
  "missing_columns required f = (\<not> list_all (\<lambda>c. c \<in> set (fr_columns f)) required)"

definition normalize_trade_calendar :: "frame \<Rightarrow> string \<Rightarrow> utc \<Rightarrow> exn + calendar_day list" where
  "normalize_trade_calendar f source updated_at =
     (if fr_records f = [] then Inr []
      else if missing_columns [''exchange'', ''cal_date'', ''is_open''] f
      then Inl (ValueError ''trade calendar provider data missing columns'')
      else rbind (mapM (normalize_row source updated_at) (fr_records f)) deduplicate_trade_calendar_rows)"

section \<open>Validation\<close>

definition civil_dates :: "day \<Rightarrow> day \<Rightarrow> day list" where
  "civil_dates start end_date = [start..end_date]"

fun check_chain :: "day \<Rightarrow> calendar_day list \<Rightarrow> exn + unit" where
  "check_chain last_open [] = Inr ()"
| "check_chain last_open (row # rows) =
     (case cd_pretrade_date row of
        None \<Rightarrow> Inl (ValueError ''trade calendar pretrade_date is required'')
      | Some p \<Rightarrow>
          if p \<noteq> last_open then Inl (ValueError ''trade calendar pretrade_date chain mismatch'')
          else check_chain (if cd_is_open row then cd_cal_date row else last_open) rows)"

definition validate_authoritative_rows ::
  "calendar_day list \<Rightarrow> string \<Rightarrow> day \<Rightarrow> day \<Rightarrow> exn + calendar_day list" where
  "validate_authoritative_rows rows exchange start end_date =
     (if end_date < start then Inl (ValueError ''trade calendar refresh start must not be after end'')
      else rbind (deduplicate_trade_calendar_rows rows) (\<lambda>selected.
        let missing_dates = filter (\<lambda>d. d \<notin> cd_cal_date ` set selected) (civil_dates start end_date) in
        if list_ex (\<lambda>r. cd_exchange r \<noteq> exchange) selected
        then Inl (ValueError ''trade calendar provider returned unexpected exchanges'')
        else if list_ex (\<lambda>r. cd_cal_date r < start \<or> end_date < cd_cal_date r) selected
        then Inl (ValueError ''trade calendar provider returned dates outside requested range'')
        else if missing_dates \<noteq> [] then Inl (TradeCalendarGapError exchange missing_dates)
        else case cd_pretrade_date (hd selected) of
          None \<Rightarrow> Inl (ValueError ''trade calendar pretrade_date is required'')
        | Some first_pretrade_date \<Rightarrow>
            if start \<le> first_pretrade_date
            then Inl (ValueError ''trade calendar first pretrade_date must be before requested range'')
            else rbind (check_chain first_pretrade_date selected) (\<lambda>_. Inr selected)))"

text \<open>The adapter is the caller's; what it returns for the range is an argument.\<close>

definition fetch_trade_calendar_rows ::
  "(day \<Rightarrow> day \<Rightarrow> string \<Rightarrow> frame) \<Rightarrow> string \<Rightarrow> day \<Rightarrow> day \<Rightarrow> utc \<Rightarrow> exn + calendar_day list" where
  "fetch_trade_calendar_rows trade_cal_raw exchange start end_date updated_at =
     (if end_date < start then Inl (ValueError ''trade calendar refresh start must not be after end'')
      else let f = trade_cal_raw start end_date exchange in
        if fr_records f = [] then Inl (TradeCalendarGapError exchange (civil_dates start end_date))
        else if missing_columns [''exchange'', ''cal_date'', ''is_open'', ''pretrade_date''] f
        then Inl (ValueError ''trade calendar provider data missing columns'')
        else rbind (normalize_trade_calendar f ''tushare'' updated_at) (\<lambda>rows.
          validate_authoritative_rows rows exchange start end_date))"

section \<open>The table\<close>

record refresh_result =
  rf_exchange :: string
  rf_start :: day
  rf_end :: day
  rf_requested_days :: int
  rf_fetched_days :: int
  rf_upserted_days :: int

definition conflicts_with :: "calendar_day list \<Rightarrow> calendar_day \<Rightarrow> bool" where
  "conflicts_with table incoming =
     (case select_one (\<lambda>r. observation_key r = observation_key incoming) table of
        None \<Rightarrow> False
      | Some existing \<Rightarrow> trade_calendar_business_facts existing \<noteq> trade_calendar_business_facts incoming)"

definition upsert_day :: "calendar_day \<Rightarrow> calendar_day list \<Rightarrow> calendar_day list" where
  "upsert_day row table =
     (case select_one (\<lambda>r. day_key r = day_key row) table of
        None \<Rightarrow> table @ [row]
      | Some _ \<Rightarrow>
          update_where (\<lambda>r. day_key r = day_key row \<and> cd_updated_at r < cd_updated_at row) (\<lambda>r. row) table)"

definition stored_facts :: "string \<Rightarrow> day \<Rightarrow> calendar_day list \<Rightarrow> (bool \<times> day option) option" where
  "stored_facts exchange d table =
     map_option trade_calendar_business_facts (select_one (\<lambda>r. day_key r = (exchange, d)) table)"

definition persist_verified_trade_calendar ::
  "calendar_day list \<Rightarrow> calendar_day list \<Rightarrow> string \<Rightarrow> day \<Rightarrow> day \<Rightarrow> exn + refresh_result \<times> calendar_day list" where
  "persist_verified_trade_calendar table rows exchange start end_date =
     rbind (validate_authoritative_rows rows exchange start end_date) (\<lambda>authoritative.
     case select_one (conflicts_with table) authoritative of
       Some incoming \<Rightarrow>
         Inl (TradeCalendarConflictError (cd_exchange incoming) (cd_cal_date incoming) (cd_updated_at incoming))
     | None \<Rightarrow>
         let table' = fold upsert_day authoritative table;
             missing_dates = map cd_cal_date (filter (\<lambda>r. stored_facts exchange (cd_cal_date r) table' = None) authoritative) in
         if missing_dates \<noteq> [] then Inl (TradeCalendarGapError exchange missing_dates)
         else if list_ex (\<lambda>r. stored_facts exchange (cd_cal_date r) table' \<noteq> Some (trade_calendar_business_facts r)) authoritative
         then Inl (ValueError ''trade calendar post-write verification mismatch'')
         else Inr (\<lparr>rf_exchange = exchange, rf_start = start, rf_end = end_date,
                    rf_requested_days = int (length (civil_dates start end_date)),
                    rf_fetched_days = int (length authoritative), rf_upserted_days = int (length authoritative)\<rparr>, table'))"

definition refresh_trade_calendar ::
  "(day \<Rightarrow> day \<Rightarrow> string \<Rightarrow> frame) \<Rightarrow> calendar_day list \<Rightarrow> string \<Rightarrow> day \<Rightarrow> day \<Rightarrow> utc
   \<Rightarrow> exn + refresh_result \<times> calendar_day list" where
  "refresh_trade_calendar trade_cal_raw table exchange start end_date updated_at =
     rbind (fetch_trade_calendar_rows trade_cal_raw exchange start end_date updated_at) (\<lambda>rows.
       persist_verified_trade_calendar table rows exchange start end_date)"

section \<open>Keeping the best row of every key\<close>

text \<open>Both loops of the deduplication keep, for every key, the first row of least rank.\<close>

fun keep_best :: "('a \<Rightarrow> 'k) \<Rightarrow> ('a \<Rightarrow> 'r::linorder) \<Rightarrow> 'a list \<Rightarrow> 'a list \<Rightarrow> 'a list" where
  "keep_best key rank selected [] = selected"
| "keep_best key rank selected (row # rows) =
     (case select_one (\<lambda>r. key r = key row) selected of
        None \<Rightarrow> keep_best key rank (selected @ [row]) rows
      | Some current \<Rightarrow>
          keep_best key rank (if rank row < rank current then update_where (\<lambda>r. key r = key row) (\<lambda>r. row) selected else selected) rows)"

lemma set_update_key:
  assumes "distinct (map key xs)" "select_one (\<lambda>r. key r = key row) xs = Some current"
  shows "set (update_where (\<lambda>r. key r = key row) (\<lambda>r. row) xs) = insert row (set xs - {current})"
    "map key (update_where (\<lambda>r. key r = key row) (\<lambda>r. row) xs) = map key xs"
proof -
  from select_one_SomeD [OF assms(2)] have cur: "key current = key row" "current \<in> set xs" by auto
  have only: "key r = key row \<longleftrightarrow> r = current" if "r \<in> set xs" for r
    using assms(1) that cur unfolding distinct_map by (metis inj_onD)
  have "(\<lambda>x. if key x = key row then row else x) ` set xs = (\<lambda>x. if x = current then row else x) ` set xs"
    by (rule image_cong) (simp_all add: only)
  with cur(2) show "set (update_where (\<lambda>r. key r = key row) (\<lambda>r. row) xs) = insert row (set xs - {current})"
    by (auto simp: set_update_where)
  show "map key (update_where (\<lambda>r. key r = key row) (\<lambda>r. row) xs) = map key xs" by (rule map_update_where) simp
qed

definition best_of :: "('a \<Rightarrow> 'k) \<Rightarrow> ('a \<Rightarrow> 'r::linorder) \<Rightarrow> 'a set \<Rightarrow> 'a list \<Rightarrow> bool" where
  "best_of key rank R out \<longleftrightarrow> distinct (map key out) \<and> key ` set out = key ` R \<and> set out \<subseteq> R
     \<and> (\<forall>e \<in> set out. \<forall>r \<in> R. key r = key e \<longrightarrow> rank e \<le> rank r)"

lemma best_ofD:
  "best_of key rank R out \<Longrightarrow> e \<in> set out \<Longrightarrow> r \<in> R \<Longrightarrow> key r = key e \<Longrightarrow> rank e \<le> rank r"
  unfolding best_of_def by blast

lemma best_of_key:
  assumes "best_of key rank R out" "r \<in> R" obtains e where "e \<in> set out" "key e = key r"
proof -
  have "key r \<in> key ` set out" using assms by (simp add: best_of_def)
  then show ?thesis using that by (metis imageE)
qed

lemma best_of_dominated:
  assumes "best_of key rank R out" "k \<in> R" "key d = key k" "rank k \<le> rank d"
  shows "best_of key rank (insert d R) out"
proof -
  have "rank e \<le> rank d" if "e \<in> set out" "key d = key e" for e
    using assms that order_trans unfolding best_of_def by metis
  with assms show ?thesis by (auto simp: best_of_def image_iff)
qed

lemma keep_best_best: "distinct (map key selected) \<Longrightarrow> best_of key rank (set (selected @ rows)) (keep_best key rank selected rows)"
proof (induction key rank selected rows rule: keep_best.induct)
  case (1 key rank selected)
  then show ?case by (auto simp: best_of_def distinct_map inj_on_def)
next
  case (2 key rank selected row rows)
  show ?case
  proof (cases "select_one (\<lambda>r. key r = key row) selected")
    case None
    with 2 have "distinct (map key (selected @ [row]))" by auto
    from 2(1) [OF None this] None show ?thesis by (simp del: select_one_None)
  next
    case (Some current)
    let ?s = "if rank row < rank current then update_where (\<lambda>r. key r = key row) (\<lambda>r. row) selected else selected"
    note upd = set_update_key [OF 2(3) Some]
    from select_one_SomeD [OF Some] have cur: "key current = key row" "current \<in> set selected" by auto
    have IH: "best_of key rank (set (?s @ rows)) (keep_best key rank ?s rows)"
      using 2(2) [OF Some] 2(3) upd(2) by (simp split: if_splits)
    have "best_of key rank (insert (if rank row < rank current then current else row) (set (?s @ rows))) (keep_best key rank ?s rows)"
      by (rule best_of_dominated [OF IH, of "if rank row < rank current then row else current"]) (use cur upd in auto)
    moreover have "insert (if rank row < rank current then current else row) (set (?s @ rows)) = set (selected @ row # rows)"
      using cur upd(1) by auto
    ultimately show ?thesis using Some by (simp del: set_append)
  qed
qed

section \<open>Deduplication selects the newest observation\<close>

lemma calendar_day_eqI:
  "observation_key r = observation_key s \<Longrightarrow> trade_calendar_business_facts r = trade_calendar_business_facts s \<Longrightarrow>
   cd_source r = cd_source s \<Longrightarrow> r = (s :: calendar_day)"
  by (simp add: observation_key_def trade_calendar_business_facts_def)

lemma select_newest_eq: "select_newest selected rows = keep_best day_key (\<lambda>r. - cd_updated_at r) selected rows"
  by (induction selected rows rule: select_newest.induct) (simp_all del: select_one_None split: option.split)

definition consistent :: "calendar_day set \<Rightarrow> bool" where
  "consistent R \<longleftrightarrow> (\<forall>r \<in> R. \<forall>s \<in> R. observation_key r = observation_key s \<longrightarrow>
     trade_calendar_business_facts r = trade_calendar_business_facts s)"

lemma consistentD:
  "consistent R \<Longrightarrow> r \<in> R \<Longrightarrow> s \<in> R \<Longrightarrow> observation_key r = observation_key s \<Longrightarrow>
   trade_calendar_business_facts r = trade_calendar_business_facts s"
  unfolding consistent_def by blast

lemma consistent_insert:
  assumes "k \<in> R" "observation_key d = observation_key k"
  shows "consistent (insert d R) \<longleftrightarrow> consistent R \<and> trade_calendar_business_facts d = trade_calendar_business_facts k"
  using assms unfolding consistent_def by (metis insert_iff)

lemma update_key_same:
  assumes "distinct (map key xs)" "select_one (\<lambda>r. key r = key row) xs = Some current"
  shows "update_where (\<lambda>r. key r = key row) (\<lambda>r. current) xs = xs"
  using select_one_SomeD [OF assms(2)] assms(1)
  by (auto simp: update_where_def distinct_map inj_on_def intro!: map_idI)

lemma observe_eq:
  "distinct (map observation_key obs) \<Longrightarrow>
   observe obs rows = Inr out \<longleftrightarrow> consistent (set (obs @ rows)) \<and> out = keep_best observation_key cd_source obs rows"
proof (induction obs rows rule: observe.induct)
  case (1 obs)
  then have "consistent (set obs)" by (auto simp: consistent_def distinct_map inj_on_def)
  then show ?case by auto
next
  case (2 obs row rows)
  show ?case
  proof (cases "select_one (\<lambda>r. observation_key r = observation_key row) obs")
    case None
    with 2(3) have "distinct (map observation_key (obs @ [row]))" by auto
    from 2(1) [OF None this] None show ?thesis by (simp del: select_one_None)
  next
    case (Some current)
    define u where "u = (if cd_source row < cd_source current
      then update_where (\<lambda>r. observation_key r = observation_key row) (\<lambda>r. row) obs else obs)"
    let ?kept = "if cd_source row < cd_source current then row else current"
    let ?other = "if cd_source row < cd_source current then current else row"
    note upd = set_update_key [OF 2(3) Some]
    from select_one_SomeD [OF Some] have cur: "observation_key current = observation_key row" "current \<in> set obs" by auto
    have u: "update_where (\<lambda>r. observation_key r = observation_key row) (\<lambda>r. ?kept) obs = u"
      using update_key_same [OF 2(3) Some] by (simp add: u_def)
    have best: "keep_best observation_key cd_source obs (row # rows) = keep_best observation_key cd_source u rows"
      by (simp add: Some u_def)
    have all: "set (obs @ row # rows) = insert ?other (set (u @ rows))" and kept: "?kept \<in> set (u @ rows)"
      using cur upd(1) by (auto simp: u_def)
    have con: "consistent (set (obs @ row # rows)) \<longleftrightarrow>
        consistent (set (u @ rows)) \<and> trade_calendar_business_facts row = trade_calendar_business_facts current"
      unfolding all using consistent_insert [OF kept, of ?other] cur(1) by (auto simp: eq_commute)
    show ?thesis
    proof (cases "trade_calendar_business_facts row = trade_calendar_business_facts current")
      case False
      then show ?thesis unfolding con by (simp add: Some)
    next
      case True
      have "distinct (map observation_key u)" using 2(3) upd(2) by (simp add: u_def)
      with 2(2) [OF Some] True show ?thesis unfolding con best u by (simp add: Some u)
    qed
  qed
qed

definition selected_of :: "calendar_day set \<Rightarrow> calendar_day set" where
  "selected_of R = {r \<in> R. \<forall>s \<in> R. day_key s = day_key r \<longrightarrow> cd_updated_at s < cd_updated_at r
     \<or> (cd_updated_at s = cd_updated_at r \<and> trade_calendar_business_facts s = trade_calendar_business_facts r
        \<and> cd_source r \<le> cd_source s)}"

lemma selected_ofD:
  "r \<in> selected_of R \<Longrightarrow> s \<in> R \<Longrightarrow> day_key s = day_key r \<Longrightarrow> cd_updated_at s < cd_updated_at r
   \<or> (cd_updated_at s = cd_updated_at r \<and> trade_calendar_business_facts s = trade_calendar_business_facts r
      \<and> cd_source r \<le> cd_source s)"
  unfolding selected_of_def by blast

lemma observation_key_iff:
  "observation_key s = observation_key r \<longleftrightarrow> day_key s = day_key r \<and> cd_updated_at s = cd_updated_at r"
  by (auto simp: observation_key_def day_key_def)

lemma selected_set:
  assumes con: "consistent R" and obs: "best_of observation_key cd_source R obs"
    and sel: "best_of day_key (\<lambda>r. - cd_updated_at r) (set obs) out"
  shows "set out = selected_of R"
proof (intro set_eqI iffI)
  have sub: "set out \<subseteq> set obs" "set obs \<subseteq> R" using obs sel by (simp_all add: best_of_def)
  show in_sel: "r \<in> selected_of R" if r: "r \<in> set out" for r
  proof -
    have "cd_updated_at s < cd_updated_at r \<or> (cd_updated_at s = cd_updated_at r
        \<and> trade_calendar_business_facts s = trade_calendar_business_facts r \<and> cd_source r \<le> cd_source s)"
      if s: "s \<in> R" "day_key s = day_key r" for s
    proof -
      from best_of_key [OF obs s(1)] obtain o' where o': "o' \<in> set obs" "observation_key o' = observation_key s" .
      then have "cd_updated_at s \<le> cd_updated_at r"
        using best_ofD [OF sel r o'(1)] s(2) by (simp add: observation_key_iff)
      then consider "cd_updated_at s < cd_updated_at r" | "observation_key s = observation_key r"
        using s(2) by (auto simp: observation_key_iff le_less)
      then show ?thesis
      proof cases
        case 2
        have rR: "r \<in> set obs" "r \<in> R" using r sub by auto
        with consistentD [OF con s(1) rR(2) 2] best_ofD [OF obs rR(1) s(1) 2] 2
        show ?thesis by (simp add: observation_key_iff)
      qed simp
    qed
    then show ?thesis using r sub by (auto simp: selected_of_def)
  qed
  show "r \<in> set out" if r: "r \<in> selected_of R" for r
  proof -
    have rR: "r \<in> R" using r by (simp add: selected_of_def)
    from best_of_key [OF obs rR] obtain o' where o': "o' \<in> set obs" "observation_key o' = observation_key r" .
    from best_of_key [OF sel o'(1)] o'(2) obtain e where e: "e \<in> set out" "day_key e = day_key r"
      by (auto simp: observation_key_iff)
    then have eR: "e \<in> selected_of R" "e \<in> R" using in_sel sub by auto
    note re = selected_ofD [OF r eR(2) e(2)] and er = selected_ofD [OF eR(1) rR e(2) [symmetric]]
    then have "cd_updated_at e = cd_updated_at r" "cd_source e = cd_source r"
        "trade_calendar_business_facts e = trade_calendar_business_facts r" by auto
    then have "e = r" using e(2) by (intro calendar_day_eqI) (simp_all add: observation_key_iff)
    with e(1) show ?thesis by simp
  qed
qed

lemma deduplicate_iff:
  "deduplicate_trade_calendar_rows rows = Inr out \<longleftrightarrow>
   consistent (set rows) \<and> set out = selected_of (set rows) \<and> sorted (map day_key out) \<and> distinct (map day_key out)"
proof -
  define obs where "obs = keep_best observation_key cd_source [] rows"
  define sel where "sel = keep_best day_key (\<lambda>r. - cd_updated_at r) [] obs"
  have obs: "best_of observation_key cd_source (set rows) obs" and sel: "best_of day_key (\<lambda>r. - cd_updated_at r) (set obs) sel"
    using keep_best_best [of observation_key "[]" cd_source rows] keep_best_best [of day_key "[]" "\<lambda>r. - cd_updated_at r" obs]
    by (simp_all add: obs_def sel_def)
  have eq: "deduplicate_trade_calendar_rows rows = Inr out \<longleftrightarrow> consistent (set rows) \<and> out = sort_key day_key sel"
    using observe_eq [of "[]" rows]
    by (auto simp: deduplicate_trade_calendar_rows_def select_newest_eq obs_def [symmetric] sel_def [symmetric])
  have d: "distinct (map day_key sel)" using sel by (simp add: best_of_def)
  have "out = sort_key day_key sel \<longleftrightarrow> set out = set sel \<and> sorted (map day_key out) \<and> distinct (map day_key out)"
  proof
    assume "set out = set sel \<and> sorted (map day_key out) \<and> distinct (map day_key out)"
    moreover have "distinct (map day_key (sort_key day_key sel))" "inj_on day_key (set sel)"
      using d by (simp_all add: distinct_map)
    ultimately show "out = sort_key day_key sel"
      by (intro map_sorted_distinct_set_unique [of day_key]) simp_all
  qed (use d in \<open>simp_all add: distinct_map\<close>)
  with eq selected_set [OF _ obs sel] show ?thesis by auto
qed

section \<open>A validated calendar is one chain\<close>

fun pretrade_chain :: "day \<Rightarrow> calendar_day list \<Rightarrow> bool" where
  "pretrade_chain last_open [] = True"
| "pretrade_chain last_open (row # rows) = (cd_pretrade_date row = Some last_open
     \<and> pretrade_chain (if cd_is_open row then cd_cal_date row else last_open) rows)"

lemma check_chain_iff: "check_chain last_open rows = Inr () \<longleftrightarrow> pretrade_chain last_open rows"
  by (induction last_open rows rule: check_chain.induct) (auto split: option.splits)

text \<open>The last open day before position \<open>i\<close>, or the day before the range.\<close>

definition last_open_before :: "day \<Rightarrow> calendar_day list \<Rightarrow> nat \<Rightarrow> day" where
  "last_open_before first rows i = last (first # map cd_cal_date (filter cd_is_open (take i rows)))"

lemma pretrade_chain_nth:
  "pretrade_chain first rows \<Longrightarrow> i < length rows \<Longrightarrow> cd_pretrade_date (rows ! i) = Some (last_open_before first rows i)"
proof (induction first rows arbitrary: i rule: pretrade_chain.induct)
  case (2 last_open row rows)
  then show ?case by (cases i) (auto simp: last_open_before_def split: if_splits)
qed simp

lemma validate_Inr:
  assumes "validate_authoritative_rows rows exchange start end_date = Inr out"
  obtains first where "deduplicate_trade_calendar_rows rows = Inr out" "start \<le> end_date"
    "map cd_cal_date out = [start..end_date]" "\<forall>r \<in> set out. cd_exchange r = exchange" "first < start" "pretrade_chain first out"
proof -
  from assms obtain first where dd: "deduplicate_trade_calendar_rows rows = Inr out" and le: "start \<le> end_date"
    and ex: "\<forall>r \<in> set out. cd_exchange r = exchange" and range: "\<forall>r \<in> set out. start \<le> cd_cal_date r \<and> cd_cal_date r \<le> end_date"
    and all: "\<forall>d \<in> set [start..end_date]. d \<in> cd_cal_date ` set out" and "first < start" "pretrade_chain first out"
    unfolding validate_authoritative_rows_def Let_def
    by (auto simp: civil_dates_def list_ex_iff filter_empty_conv check_chain_iff not_less not_le split: option.splits if_splits)
  have "map day_key out = map (\<lambda>d. (exchange, d)) (map cd_cal_date out)" using ex by (simp add: day_key_def)
  moreover have "sorted (map day_key out)" "distinct (map day_key out)" using dd by (simp_all add: deduplicate_iff)
  ultimately have "sorted (map cd_cal_date out)" "distinct (map cd_cal_date out)"
    by (simp_all add: sorted_map distinct_map comp_def less_eq_prod_def inj_on_def del: map_map)
  moreover have "set (map cd_cal_date out) = set [start..end_date]" using range all by auto
  ultimately have "map cd_cal_date out = [start..end_date]" by (intro sorted_distinct_set_unique) simp_all
  with dd le ex show ?thesis using that \<open>first < start\<close> \<open>pretrade_chain first out\<close> by blast
qed

section \<open>The table after a refresh\<close>

definition lookup_day :: "string \<times> day \<Rightarrow> calendar_day list \<Rightarrow> calendar_day option" where
  "lookup_day k table = select_one (\<lambda>r. day_key r = k) table"

definition merge_day :: "calendar_day \<Rightarrow> calendar_day option \<Rightarrow> calendar_day" where
  "merge_day row old =
     (case old of None \<Rightarrow> row | Some current \<Rightarrow> if cd_updated_at current < cd_updated_at row then row else current)"

lemma lookup_day_simps [simp]:
  "lookup_day k [] = None" "lookup_day k (r # table) = (if day_key r = k then Some r else lookup_day k table)"
  by (simp_all add: lookup_day_def)

lemma lookup_day_SomeD: "lookup_day k table = Some r \<Longrightarrow> r \<in> set table \<and> day_key r = k"
  unfolding lookup_day_def by (blast dest: select_one_SomeD)

lemma lookup_day_None: "lookup_day k table = None \<longleftrightarrow> k \<notin> day_key ` set table"
  by (auto simp: lookup_day_def)

lemma lookup_day_append: "lookup_day k (xs @ ys) = (case lookup_day k xs of None \<Rightarrow> lookup_day k ys | Some r \<Rightarrow> Some r)"
  by (induction xs) simp_all

lemma lookup_update_day:
  "lookup_day k (update_where (\<lambda>r. day_key r = day_key row \<and> cd_updated_at r < cd_updated_at row) (\<lambda>r. row) table) =
   (if k = day_key row then map_option (\<lambda>c. merge_day row (Some c)) (lookup_day k table) else lookup_day k table)"
  by (induction table) (auto simp: merge_day_def)

lemma upsert_day_alt:
  "upsert_day row table = (case lookup_day (day_key row) table of
     None \<Rightarrow> table @ [row]
   | Some _ \<Rightarrow> update_where (\<lambda>r. day_key r = day_key row \<and> cd_updated_at r < cd_updated_at row) (\<lambda>r. row) table)"
  by (simp add: upsert_day_def lookup_day_def)

lemma lookup_upsert_day:
  "lookup_day k (upsert_day row table) = (if k = day_key row then Some (merge_day row (lookup_day k table)) else lookup_day k table)"
  by (cases "lookup_day (day_key row) table"; cases "lookup_day k table")
     (auto simp: upsert_day_alt lookup_day_append lookup_update_day merge_day_def)

lemma upsert_day_distinct: "distinct (map day_key table) \<Longrightarrow> distinct (map day_key (upsert_day row table))"
proof (cases "lookup_day (day_key row) table")
  case None
  then show "distinct (map day_key table) \<Longrightarrow> ?thesis" by (simp add: upsert_day_alt) (simp add: lookup_day_None)
next
  case (Some r)
  have "map day_key (update_where (\<lambda>r. day_key r = day_key row \<and> cd_updated_at r < cd_updated_at row) (\<lambda>r. row) table)
      = map day_key table" by (rule map_update_where) simp
  then show "distinct (map day_key table) \<Longrightarrow> ?thesis" by (simp add: upsert_day_alt Some)
qed

lemma lookup_upserts:
  "distinct (map day_key rows) \<Longrightarrow> lookup_day k (fold upsert_day rows table) =
   (case lookup_day k rows of None \<Rightarrow> lookup_day k table | Some row \<Rightarrow> Some (merge_day row (lookup_day k table)))"
proof (induction rows arbitrary: table)
  case (Cons row rows)
  have "lookup_day (day_key row) rows = None" using Cons.prems by (simp add: lookup_day_None)
  with Cons show ?case by (cases "k = day_key row") (simp_all add: lookup_upsert_day cong: option.case_cong)
qed simp

lemma upserts_distinct: "distinct (map day_key table) \<Longrightarrow> distinct (map day_key (fold upsert_day rows table))"
  by (induction rows arbitrary: table) (auto intro: upsert_day_distinct)

lemma upserts_known:
  assumes "\<And>row. row \<in> set rows \<Longrightarrow> \<exists>c. lookup_day (day_key row) table = Some c \<and> cd_updated_at row \<le> cd_updated_at c"
    and "distinct (map day_key table)"
  shows "fold upsert_day rows table = table"
  using assms
proof (induction rows)
  case (Cons row rows)
  from Cons.prems(1) [of row] obtain c where c: "lookup_day (day_key row) table = Some c" "cd_updated_at row \<le> cd_updated_at c"
    by auto
  have "upsert_day row table = table"
    unfolding upsert_day_alt c(1) option.case update_where_def
  proof (rule map_idI, rule if_not_P, rule notI)
    fix r assume r: "r \<in> set table" "day_key r = day_key row \<and> cd_updated_at r < cd_updated_at row"
    then have "r = c" using lookup_day_SomeD [OF c(1)] Cons.prems(2) unfolding distinct_map by (metis inj_onD)
    with r c(2) show False by simp
  qed
  with Cons show ?case by simp
qed simp

lemma persist_Inr:
  assumes "persist_verified_trade_calendar table rows exchange start end_date = Inr (result, table')"
  obtains out where "validate_authoritative_rows rows exchange start end_date = Inr out" "table' = fold upsert_day out table"
    "\<And>r. r \<in> set out \<Longrightarrow> \<exists>c. lookup_day (exchange, cd_cal_date r) table' = Some c
        \<and> trade_calendar_business_facts c = trade_calendar_business_facts r"
    "result = \<lparr>rf_exchange = exchange, rf_start = start, rf_end = end_date,
        rf_requested_days = int (length (civil_dates start end_date)),
        rf_fetched_days = int (length out), rf_upserted_days = int (length out)\<rparr>"
proof -
  from assms obtain out where out: "validate_authoritative_rows rows exchange start end_date = Inr out"
    and t: "table' = fold upsert_day out table" and v: "list_all (\<lambda>r. stored_facts exchange (cd_cal_date r) table' =
        Some (trade_calendar_business_facts r)) out"
    and "result = \<lparr>rf_exchange = exchange, rf_start = start, rf_end = end_date,
        rf_requested_days = int (length (civil_dates start end_date)),
        rf_fetched_days = int (length out), rf_upserted_days = int (length out)\<rparr>"
    unfolding persist_verified_trade_calendar_def Let_def
    by (elim rbind_InrE) (auto simp: list_all_iff list_ex_iff simp del: select_one_None split: option.splits if_splits)
  moreover have "\<exists>c. lookup_day (exchange, cd_cal_date r) table' = Some c
      \<and> trade_calendar_business_facts c = trade_calendar_business_facts r" if "r \<in> set out" for r
    using v that by (auto simp: list_all_iff stored_facts_def lookup_day_def)
  ultimately show ?thesis using that by blast
qed

lemma lookup_day_iff: "distinct (map day_key table) \<Longrightarrow> lookup_day (day_key c) table = Some c \<longleftrightarrow> c \<in> set table"
  by (induction table) (auto simp: image_iff dest: lookup_day_SomeD)

lemma validated_keys:
  assumes "validate_authoritative_rows rows exchange start end_date = Inr out"
  shows "distinct (map day_key out)" "\<And>r. r \<in> set out \<Longrightarrow> day_key r = (exchange, cd_cal_date r)"
    "\<And>r. r \<in> set out \<Longrightarrow> start \<le> cd_cal_date r \<and> cd_cal_date r \<le> end_date"
proof -
  from assms obtain first where dd: "deduplicate_trade_calendar_rows rows = Inr out"
    and dates: "map cd_cal_date out = [start..end_date]" and ex: "\<forall>r \<in> set out. cd_exchange r = exchange"
    by (rule validate_Inr)
  show "distinct (map day_key out)" using dd by (simp add: deduplicate_iff)
  show "day_key r = (exchange, cd_cal_date r)" if "r \<in> set out" for r using ex that by (simp add: day_key_def)
  show "start \<le> cd_cal_date r \<and> cd_cal_date r \<le> end_date" if "r \<in> set out" for r
  proof -
    have "cd_cal_date r \<in> set [start..end_date]" unfolding dates [symmetric] using that by simp
    then show ?thesis by simp
  qed
qed

lemma persist_again:
  assumes persist: "persist_verified_trade_calendar table rows exchange start end_date = Inr (result, table')"
    and d: "distinct (map day_key table)"
  shows "persist_verified_trade_calendar table' rows exchange start end_date = Inr (result, table')"
  using persist
proof (rule persist_Inr)
  fix out
  assume out: "validate_authoritative_rows rows exchange start end_date = Inr out" and t: "table' = fold upsert_day out table"
    and facts: "\<And>r. r \<in> set out \<Longrightarrow> \<exists>c. lookup_day (exchange, cd_cal_date r) table' = Some c
        \<and> trade_calendar_business_facts c = trade_calendar_business_facts r"
    and result: "result = \<lparr>rf_exchange = exchange, rf_start = start, rf_end = end_date,
        rf_requested_days = int (length (civil_dates start end_date)),
        rf_fetched_days = int (length out), rf_upserted_days = int (length out)\<rparr>"
  note keys = validated_keys [OF out]
  have d': "distinct (map day_key table')" unfolding t by (rule upserts_distinct [OF d])
  have newer: "\<exists>c. lookup_day (day_key r) table' = Some c \<and> cd_updated_at r \<le> cd_updated_at c" if "r \<in> set out" for r
    using lookup_upserts [OF keys(1), of "day_key r" table] lookup_day_iff [OF keys(1), of r] that
    by (auto simp: t merge_day_def split: option.split)
  have same: "fold upsert_day out table' = table'" using newer d' by (rule upserts_known)
  have "\<not> conflicts_with table' r" if r: "r \<in> set out" for r
  proof -
    from facts [OF r] obtain c where c: "lookup_day (day_key r) table' = Some c"
      "trade_calendar_business_facts c = trade_calendar_business_facts r" unfolding keys(2) [OF r] by blast
    have "x = c" if "x \<in> set table'" "observation_key x = observation_key r" for x
    proof -
      have "day_key x = day_key r" using that(2) by (simp add: observation_key_iff)
      with lookup_day_iff [OF d', of x] that(1) c(1) show ?thesis by simp
    qed
    with c(2) show ?thesis
      unfolding conflicts_with_def by (auto split: option.split dest!: select_one_SomeD)
  qed
  then have none: "select_one (conflicts_with table') out = None" by simp
  have "stored_facts exchange (cd_cal_date r) table' = Some (trade_calendar_business_facts r)" if "r \<in> set out" for r
    using facts [OF that] by (auto simp: stored_facts_def lookup_day_def)
  then show ?thesis
    unfolding persist_verified_trade_calendar_def out rbind_simps none option.case Let_def same result
    by (auto simp: list_ex_iff)
qed

section \<open>An example week\<close>

definition ex_day :: "day \<Rightarrow> bool \<Rightarrow> day \<Rightarrow> utc \<Rightarrow> calendar_day" where
  "ex_day d is_open pretrade t = \<lparr>cd_exchange = ''SSE'', cd_cal_date = d, cd_is_open = is_open,
     cd_pretrade_date = Some pretrade, cd_source = ''tushare'', cd_updated_at = t\<rparr>"

definition ex_days :: "calendar_day list" where
  "ex_days = [ex_day 5 True 3 7, ex_day 4 False 3 7, ex_day 3 True 2 7, ex_day 4 True 3 6, ex_day 6 True 5 7]"

definition ex_week :: "calendar_day list" where
  "ex_week = [ex_day 3 True 2 7, ex_day 4 False 3 7, ex_day 5 True 3 7, ex_day 6 True 5 7]"

lemmas ex_day_simps = ex_day_def day_key_def observation_key_def trade_calendar_business_facts_def

lemma ex_dedupe: "deduplicate_trade_calendar_rows ex_days = Inr ex_week"
  by (simp add: deduplicate_trade_calendar_rows_def ex_days_def ex_week_def ex_day_simps insort_key_def)

lemma ex_validated: "validate_authoritative_rows ex_days ''SSE'' 3 6 = Inr ex_week"
proof -
  have "[3..6] = [3, 4, 5, 6 :: int]" by (simp add: upto.simps)
  then show ?thesis
    by (simp add: validate_authoritative_rows_def ex_dedupe Let_def civil_dates_def) (simp add: ex_week_def ex_day_def)
qed

definition ex_calendar_table :: "calendar_day list" where
  "ex_calendar_table = [ex_day 2 True 1 5, ex_day 4 False 3 9]"

definition ex_calendar_stored :: "calendar_day list" where
  "ex_calendar_stored = [ex_day 2 True 1 5, ex_day 4 False 3 9, ex_day 3 True 2 7, ex_day 5 True 3 7, ex_day 6 True 5 7]"

lemma ex_persisted: "\<exists>result. persist_verified_trade_calendar ex_calendar_table ex_days ''SSE'' 3 6 = Inr (result, ex_calendar_stored)"
proof -
  have c: "select_one (conflicts_with ex_calendar_table) ex_week = None"
    by (simp add: conflicts_with_def ex_week_def ex_calendar_table_def ex_day_simps)
  have f: "fold upsert_day ex_week ex_calendar_table = ex_calendar_stored"
    by (simp add: upsert_day_def ex_week_def ex_calendar_table_def ex_calendar_stored_def ex_day_simps)
  show ?thesis
    unfolding persist_verified_trade_calendar_def ex_validated rbind_simps c option.case Let_def f
    by (simp add: stored_facts_def ex_week_def ex_calendar_stored_def ex_day_simps)
qed

section \<open>Calendar properties\<close>

text \<open>
  C38: Deduplication selects the newest observation, whatever the order. The rows it returns are exactly those that
  are newer than every other observation of the same exchange and date, or as new, with the same facts and
  the least source; they come in strictly increasing order of exchange and date; and any other sequence
  of the same observations gives the same result.
\<close>

theorem calendar_dedupe_newest:
  assumes "deduplicate_trade_calendar_rows rows = Inr out" "set rows' = set rows"
  shows "set out = {r \<in> set rows. \<forall>s \<in> set rows. cd_exchange s = cd_exchange r \<and> cd_cal_date s = cd_cal_date r \<longrightarrow>
      cd_updated_at s < cd_updated_at r \<or> (cd_updated_at s = cd_updated_at r
        \<and> cd_is_open s = cd_is_open r \<and> cd_pretrade_date s = cd_pretrade_date r \<and> cd_source r \<le> cd_source s)}
    \<and> sorted_wrt (<) (map day_key out) \<and> deduplicate_trade_calendar_rows rows' = Inr out"
proof -
  have "deduplicate_trade_calendar_rows rows' = Inr out" using assms by (simp add: deduplicate_iff)
  moreover have "set out = selected_of (set rows)" "sorted_wrt (<) (map day_key out)"
    using assms(1) by (simp_all add: deduplicate_iff strict_sorted_iff)
  ultimately show ?thesis by (simp add: selected_of_def day_key_def trade_calendar_business_facts_def conj_assoc)
qed

theorem calendar_dedupe_newest_witness:
  "deduplicate_trade_calendar_rows (rev ex_days) = Inr ex_week"
  using calendar_dedupe_newest [OF ex_dedupe, of "rev ex_days"] by simp

text \<open>
  C37: A validated calendar has no gap and no false predecessor. The rows accepted for a range are one row for
  every date of it, in order, of the requested exchange; and the previous trading date of each row is the
  last open date before it within the range, or one fixed date before the range when there is none.
\<close>

theorem calendar_validated_chain:
  assumes "validate_authoritative_rows rows exchange start end_date = Inr out"
  shows "map cd_cal_date out = [start..end_date] \<and> (\<forall>r \<in> set out. cd_exchange r = exchange)
    \<and> (\<exists>first < start. \<forall>i < length out. cd_pretrade_date (out ! i) =
         Some (last (first # map cd_cal_date (filter cd_is_open (take i out)))))"
  using assms
proof (rule validate_Inr)
  fix first
  assume "map cd_cal_date out = [start..end_date]" "\<forall>r \<in> set out. cd_exchange r = exchange" "first < start"
    and chain: "pretrade_chain first out"
  moreover have "\<forall>i < length out. cd_pretrade_date (out ! i) =
      Some (last (first # map cd_cal_date (filter cd_is_open (take i out))))"
    using pretrade_chain_nth [OF chain] by (simp only: last_open_before_def) blast
  ultimately show ?thesis by blast
qed

theorem calendar_validated_chain_witness:
  "map cd_cal_date ex_week = [3..6]"
  using calendar_validated_chain [OF ex_validated] by simp

text \<open>
  C36: A refresh is verified, monotone and repeatable. After a successful refresh the table holds, for every date of the
  range, the facts of the validated rows; every row of other dates or exchanges is as it was; no stored day is replaced
  by an older observation; and running the same refresh again succeeds and changes nothing.
\<close>

theorem calendar_refresh_verified:
  assumes "persist_verified_trade_calendar table rows exchange start end_date = Inr (result, table')"
    and "distinct (map day_key table)"
  shows "(\<exists>out. validate_authoritative_rows rows exchange start end_date = Inr out
      \<and> (\<forall>r \<in> set out. \<exists>c \<in> set table'. day_key c = day_key r \<and> cd_is_open c = cd_is_open r
           \<and> cd_pretrade_date c = cd_pretrade_date r))
    \<and> (\<forall>c. (cd_exchange c \<noteq> exchange \<or> cd_cal_date c < start \<or> end_date < cd_cal_date c) \<longrightarrow>
         (c \<in> set table' \<longleftrightarrow> c \<in> set table))
    \<and> (\<forall>c \<in> set table. \<exists>c' \<in> set table'. day_key c' = day_key c \<and> cd_updated_at c \<le> cd_updated_at c')
    \<and> distinct (map day_key table')
    \<and> persist_verified_trade_calendar table' rows exchange start end_date = Inr (result, table')"
  using assms(1)
proof (rule persist_Inr)
  fix out
  assume out: "validate_authoritative_rows rows exchange start end_date = Inr out" and t: "table' = fold upsert_day out table"
    and facts: "\<And>r. r \<in> set out \<Longrightarrow> \<exists>c. lookup_day (exchange, cd_cal_date r) table' = Some c
        \<and> trade_calendar_business_facts c = trade_calendar_business_facts r"
  note keys = validated_keys [OF out]
  have d': "distinct (map day_key table')" unfolding t by (rule upserts_distinct [OF assms(2)])
  have "\<exists>c \<in> set table'. day_key c = day_key r \<and> cd_is_open c = cd_is_open r \<and> cd_pretrade_date c = cd_pretrade_date r"
    if "r \<in> set out" for r
    using facts [OF that] keys(2) [OF that] by (auto simp: trade_calendar_business_facts_def dest!: lookup_day_SomeD)
  moreover have "c \<in> set table' \<longleftrightarrow> c \<in> set table"
    if "cd_exchange c \<noteq> exchange \<or> cd_cal_date c < start \<or> end_date < cd_cal_date c" for c
  proof -
    have "day_key c \<notin> day_key ` set out"
    proof
      assume "day_key c \<in> day_key ` set out"
      then obtain r where r: "r \<in> set out" "day_key c = day_key r" by (metis imageE)
      with keys(2) [OF r(1)] keys(3) [OF r(1)] that show False by (simp add: day_key_def)
    qed
    then have "lookup_day (day_key c) table' = lookup_day (day_key c) table"
      using lookup_upserts [OF keys(1), of "day_key c" table] by (simp add: t lookup_day_None [symmetric])
    then show ?thesis by (simp add: lookup_day_iff [OF d', symmetric] lookup_day_iff [OF assms(2), symmetric])
  qed
  moreover have "\<exists>c' \<in> set table'. day_key c' = day_key c \<and> cd_updated_at c \<le> cd_updated_at c'" if "c \<in> set table" for c
  proof -
    have "lookup_day (day_key c) table = Some c" using that assms(2) by (simp add: lookup_day_iff)
    then obtain c' where "lookup_day (day_key c) table' = Some c'" "cd_updated_at c \<le> cd_updated_at c'"
      using lookup_upserts [OF keys(1), of "day_key c" table]
      by (cases "lookup_day (day_key c) out") (auto simp: t merge_day_def split: if_splits)
    then show ?thesis using lookup_day_SomeD by blast
  qed
  ultimately show ?thesis using out d' persist_again [OF assms] by blast
qed

theorem calendar_refresh_verified_witness:
  "\<exists>result. persist_verified_trade_calendar ex_calendar_stored ex_days ''SSE'' 3 6 = Inr (result, ex_calendar_stored)"
proof -
  have "distinct (map day_key ex_calendar_table)" by (simp add: ex_calendar_table_def ex_day_simps)
  with ex_persisted calendar_refresh_verified [of ex_calendar_table ex_days "''SSE''" 3 6] show ?thesis by blast
qed

end
