(* ===== verification/Limit_Rules.thy ===== *)
theory Limit_Rules
  imports Cost_Spec "HOL-Library.Sublist"
begin

text \<open>
  The exchange price limits of \<open>limit_rules.py\<close>: the board of a code, its daily limit on a date, the
  vectorised form over a data frame column, and the abnormal-move threshold. The float literals of the
  source are the rationals they are written as; the code only selects among them. The default date of
  today is an explicit argument.
\<close>

section \<open>Dates and boards\<close>

text \<open>24 August 2020 and 6 July 2026, in days since the epoch.\<close>

definition chinext_20_percent_start :: day where
  "chinext_20_percent_start = 18498"

definition main_st_10_percent_start :: day where
  "main_st_10_percent_start = 20640"

datatype board = BJ | STAR | GEM | MAIN

definition starts_with_any :: "string list \<Rightarrow> string \<Rightarrow> bool" where
  "starts_with_any ps s = list_ex (\<lambda>p. prefix p s) ps"

definition board_of :: "string \<Rightarrow> board" where
  "board_of c =
     (if suffix ''.BJ'' c then BJ
      else if starts_with_any [''688'', ''689''] c then STAR
      else if starts_with_any [''300'', ''301'', ''302''] c then GEM
      else MAIN)"

section \<open>Limits\<close>

definition limit_pct :: "bool \<Rightarrow> board \<Rightarrow> day \<Rightarrow> rat" where
  "limit_pct is_st board_type d =
     (case board_type of
        BJ \<Rightarrow> 30 / 100
      | STAR \<Rightarrow> 20 / 100
      | GEM \<Rightarrow> if chinext_20_percent_start \<le> d then 20 / 100 else if is_st then 5 / 100 else 10 / 100
      | MAIN \<Rightarrow> if is_st \<and> d < main_st_10_percent_start then 5 / 100 else 10 / 100)"

text \<open>A missing name is the empty text.\<close>

definition is_st_name :: "string option list \<Rightarrow> bool list" where
  "is_st_name names = map (\<lambda>n. sublist ''ST'' (py_upper (case n of None \<Rightarrow> [] | Some s \<Rightarrow> s))) names"

datatype st_column = Names "string option list" | Flags "bool list"

definition np_where :: "bool list \<Rightarrow> 'a list \<Rightarrow> 'a list \<Rightarrow> 'a list" where
  "np_where cond xs ys = map (\<lambda>(c, x, y). if c then x else y) (zip cond (zip xs ys))"

text \<open>A scalar operand of \<open>np.where\<close> is repeated to the length of the column.\<close>

definition limit_pct_vec :: "string list \<Rightarrow> st_column \<Rightarrow> day \<Rightarrow> rat list" where
  "limit_pct_vec codes v d =
     (let n = length codes;
          st = (case v of Flags bs \<Rightarrow> bs | Names names \<Rightarrow> is_st_name names);
          gem = map (starts_with_any [''300'', ''301'', ''302'']) codes;
          star = map (starts_with_any [''688'', ''689'']) codes;
          bj = map (suffix ''.BJ'') codes;
          main_st = (if d < main_st_10_percent_start then 5 / 100 else 10 / 100);
          gem_pct = (if d < chinext_20_percent_start
                     then np_where st (replicate n (5 / 100)) (replicate n (10 / 100))
                     else replicate n (20 / 100));
          out = np_where st (replicate n main_st) (replicate n (10 / 100));
          out = np_where gem gem_pct out;
          out = np_where star (replicate n (20 / 100)) out
      in np_where bj (replicate n (30 / 100)) out)"

definition abnormal_threshold_3d :: "board \<Rightarrow> bool \<Rightarrow> day \<Rightarrow> rat" where
  "abnormal_threshold_3d board_type is_st d =
     (if board_type = GEM \<or> board_type = STAR then 30
      else if is_st \<and> d < main_st_10_percent_start then 12 else 20)"

section \<open>The vectorised form\<close>

lemma np_where_simps [simp]:
  "length (np_where cond xs ys) = min (length cond) (min (length xs) (length ys))"
  "i < length cond \<Longrightarrow> i < length xs \<Longrightarrow> i < length ys \<Longrightarrow> np_where cond xs ys ! i = (if cond ! i then xs ! i else ys ! i)"
  by (simp_all add: np_where_def)

text \<open>
  C40: The vectorised limits are the scalar ones. On columns of one length, every entry of the vectorised limit is
  the limit that the scalar rule gives for the board of the code and the risk warning of that row, whether the
  warning is given as a flag or read off the name; the warning of a row never raises its limit, and no
  limit is outside 5 to 30 percent.
\<close>

theorem limit_vector_agrees:
  assumes "st = (case v of Flags bs \<Rightarrow> bs | Names names \<Rightarrow> is_st_name names)" "length st = length codes"
  shows "limit_pct_vec codes v d = map2 (\<lambda>c is_st. limit_pct is_st (board_of c) d) codes st
    \<and> limit_pct True b d \<le> limit_pct False b d \<and> 5 / 100 \<le> limit_pct is_st b d \<and> limit_pct is_st b d \<le> 30 / 100"
proof -
  have "limit_pct_vec codes v d = map2 (\<lambda>c is_st. limit_pct is_st (board_of c) d) codes st"
    using assms(2) unfolding limit_pct_vec_def Let_def assms(1) [symmetric]
    by (intro nth_equalityI) (auto simp: limit_pct_def board_of_def)
  then show ?thesis by (cases b) (auto simp: limit_pct_def)
qed

theorem limit_vector_agrees_witness:
  "limit_pct_vec [''600000.SH'', ''300750.SZ'', ''688001.SH'', ''830799.BJ''] (Names [Some ''*ST 9'', None, Some ''X'', Some ''Y'']) 20000
     = [5 / 100, 20 / 100, 20 / 100, 30 / 100]"
proof -
  have "is_st_name [Some ''*ST 9'', None, Some ''X'', Some ''Y''] = [True, False, False, False]"
    by (simp add: is_st_name_def py_upper_def upper_char_def Let_def sublist_code)
  with limit_vector_agrees [of "[True, False, False, False]" "Names [Some ''*ST 9'', None, Some ''X'', Some ''Y'']"
      "[''600000.SH'', ''300750.SZ'', ''688001.SH'', ''830799.BJ'']" 20000]
  show ?thesis
    by (simp add: limit_pct_def board_of_def starts_with_any_def suffix_def chinext_20_percent_start_def
        main_st_10_percent_start_def)
qed

end
