(* ===== verification/Spec2Isabelle.thy ===== *)
theory Spec2Isabelle
  imports Account_Example Execute_Example Chain_Example Reconciliation_Audit Quota_Properties Trade_Calendar Limit_Rules
begin

text \<open>
  \<^bold>\<open>The paper trading broker of rquant, its execution costs, and the stores around it.\<close>

  The repository is a quantitative research platform. Its money path is the paper broker: strategies
  submit order intents, the broker prices them with a versioned cost specification, decides on a fill,
  moves cash and lots in a SQLite ledger, and seals every write with a row of a hash chain. This
  development models that path as it is written in \<open>src/src/rquant/\<close>: \<open>paper_broker.py\<close>,
  \<open>paper_contracts.py\<close>, \<open>order_execution_costs.py\<close>, the cost models of \<open>research_run_spec.py\<close>,
  the canonical encoding of \<open>runtime_contracts.py\<close> and the key check of \<open>strict_json.py\<close>. Beside it
  stand the quota ledger that provider calls are charged to (\<open>source_quota_store.py\<close>), the admission of research
  work (\<open>resource_admission.py\<close>, whose leases the quota ledger issues), the stored trading calendar
  (\<open>trade_calendar.py\<close>) and the price limits (\<open>limit_rules.py\<close>).

  \<^bold>\<open>Theories.\<close>

  \<^item> \<open>Prelude\<close>: exceptions as values (\<open>exn + 'a\<close>, \<open>rbind\<close>, \<open>raise_first\<close> for a run of guards, \<open>mapM\<close>),
    times in microseconds and days, hexadecimal digests, keyed lists (\<open>select_one\<close>, \<open>update_where\<close>, \<open>sum_by\<close>).
  \<^item> \<open>Py_Decimal\<close>: Python's \<open>Decimal\<close> in the default context (28 digits, round half even): sign,
    coefficient and exponent, the four operations, \<open>quantize\<close>, comparison; exactness when the result fits,
    rounding error and monotonicity otherwise.
  \<^item> \<open>Canonical\<close>: contract values, their canonical JSON tree (\<open>_canonical_value\<close>, \<open>_canonical_decimal\<close>),
    \<open>canonical_sha256\<close> and \<open>_unique_object\<close>.
  \<^item> \<open>Cost_Spec\<close>: the cost specification with its validators, its two schemas and its content identity.
  \<^item> \<open>Execution_Costs\<close>: both cost engines, version 3 and scalar rates, with every rejection.
  \<^item> \<open>Paper_Contracts\<close>: sell authority, intent, order, fill, receipt, holding and snapshot models.
  \<^item> \<open>Paper_Ledger\<close>: the tables of the version 5 schema as lists of row records; an insert checks the
    table's CHECK, PRIMARY KEY, UNIQUE and FOREIGN KEY constraints and its triggers.
  \<^item> \<open>Ledger_Attestation\<close>: attestation and head marker rows, their validation, \<open>_append_ledger_attestation\<close>,
    the trust status, the broker's construction and readiness, and the account bootstrap.
  \<^item> \<open>Paper_Broker\<close>: \<open>submit_intent\<close>, \<open>apply_execution\<close>, \<open>close_open_order\<close>, the sell quantity authority and
    what they call: cost evaluation, gates, FIFO allocation, receipts, replay.
  \<^item> \<open>Paper_Accounts\<close>: \<open>fills\<close>, \<open>account_snapshot\<close>, \<open>latest_execution_prices\<close>, \<open>account_authority_snapshot\<close>.
  \<^item> \<open>Ledger_Chain\<close>, \<open>Broker_Effects\<close>, \<open>Broker_Invariants\<close>: the locales \<open>sealed_chain\<close> and \<open>keyed_table\<close>
    with their interpretations on the tables, what each operation changes, and the ledger invariant \<open>ledger_ok\<close>.
  \<^item> \<open>Broker_Machine\<close>: \<open>broker_step\<close>, one rule for every public operation that writes, and the invariants lifted
    to all reachable ledgers.
  \<^item> \<open>Broker_Replay\<close>, \<open>Broker_Trading\<close>, \<open>Account_Views\<close>, \<open>Chain_Binding\<close>, \<open>Position_Refinement\<close>: retries and
    at-most-once execution; FIFO, cash and gates; sell authority and views; collision-free chains; the
    position book that the lots implement.
  \<^item> \<open>Paper_Reconciliation\<close>: the audit \<open>reconcile\<close> of the ledger, every check in the order of the code;
    \<open>Reconciliation_Audit\<close>: the invariant that makes its checks on quantities, times, states and lots succeed.
  \<^item> \<open>Systems\<close>: the locales \<open>invariant_system\<close> and \<open>monotone_system\<close>, which lift a one-step lemma to all
    reachable states; the broker, the quota store and its effects interpret them.
  \<^item> \<open>Source_Quota\<close>: the quota ledger of the data sources, its tables and every operation (\<open>source_quota_store.py\<close>).
    \<open>Quota_Effects\<close> reduces each operation to a few effects at one time, \<open>Quota_Invariants\<close> proves the row
    invariants once per effect, \<open>Quota_Machine\<close> has one step per operation, \<open>Quota_Properties\<close> the results.
  \<^item> \<open>Resource_Admission\<close>: leases, policies, requests, the shard estimate and the decision of
    \<open>resource_admission.py\<close>.
  \<^item> \<open>Trade_Calendar\<close>: normalisation, range check and verified upsert of \<open>trade_calendar.py\<close>.
  \<^item> \<open>Limit_Rules\<close>: the price limits of \<open>limit_rules.py\<close>, scalar and vectorised.
  \<^item> \<open>Market_Example\<close>, \<open>Ledger_Example\<close>, \<open>Trade_Example\<close>, \<open>Buy_Example\<close>, \<open>Sell_Example\<close>, \<open>Execute_Example\<close>,
    \<open>Fifo_Example\<close>, \<open>Account_Example\<close>, \<open>Chain_Example\<close>: one concrete market and ledger, evaluated step by step,
    on which the witnesses run.

  \<^bold>\<open>State and operations.\<close> A ledger is the record \<^typ>\<open>ledger\<close>, one field per table, rows in insertion order.
  An operation of \<open>PaperBrokerStore\<close> takes the store's configuration (\<^typ>\<open>broker\<close>), the clock and the ledger and
  returns an exception or a result with the new ledger; a raised exception rolls the transaction back, so
  the old ledger stays. SQLite serialises the writers (\<open>BEGIN IMMEDIATE\<close>), so a run of the system is a sequence of
  steps; steps of different brokers and accounts interleave freely in \<open>broker_step\<close>. \<open>account_authority_snapshot\<close>
  reads its candidate before its write transaction and gets that earlier view as an argument.

  \<^bold>\<open>Parameters.\<close> \<open>digest\<close> stands for SHA-256 of the text that \<open>json.dumps\<close> prints of a canonical tree. No theorem
  assumes it injective, except where a hypothesis says that the rows compared do not collide; some assume
  that it prints 64 lowercase hexadecimal digits. What only files can tell (whether the archive
  database verifies, which schema objects exist, the digest of the migrated state) is part of the ledger record.

  \<^bold>\<open>What the theorems show.\<close> C1 to C17: in every ledger the operations can reach from a migrated one without business rows, shares
  are conserved and equal net trades, sales respect T+1 and FIFO, orders equal their fills, retries and repeated
  executions write nothing, buys never overdraw, rows are append-only, final orders stay final, the chain
  states the exact table sizes, binds the history and can be extended, and an untrusted ledger, reachable or not, is not written.
  C18 to C22: what must hold for a fill, a sale and a close. C23 to C26: the account views
  and the audit, whose checks on intents, quantities, sequences, times, states and lots find nothing wrong; its
  checks on receipts, provenance of entries, average prices, costs and cash are modelled without such a claim. C27 to C31: prices,
  fees, rule selection and encodings. C32 to C35: in every quota store the operations can
  reach, the units of attempts fit their window under any clock, no window is overdrawn under a clock that does not run back,
  completed attempts are charged once and stay, and pending ones can be completed. C36 to C38: the calendar that
  is stored is the one that was validated, a gapless chain of trading days from the newest observations. C39: a
  request is admitted exactly when every rule and limit of its policy holds. C40: the vectorised price limits are the scalar ones.

  \<^bold>\<open>Bounds.\<close> Integers are unbounded as in Python. Loops are recursions over the rows they scan, so every operation
  is total. Decimals have Python's 28 digits; exponents are unbounded (Python's limits of \<open>Emin\<close>, \<open>Emax\<close> are
  never near), NaN and infinities are excluded, since every model field demands finite values. SQLite's 64-bit
  bound on integers is modelled in the quota store, where callers choose the numbers, and left out of the paper
  ledger, whose counts and revisions grow by one. Characters are code points below 256, upper-casing is ASCII.

  \<^bold>\<open>Not modelled.\<close> The text of caught exceptions in the audit's messages, the schema migration and the
  archive of \<open>paper_ledger_migration.py\<close> and \<open>paper_ledger_v4.py\<close> (they rewrite database files), the signal consumer
  and worker (clients that read spools from disk), and the rest of the platform: lab jobs, source
  brokers, runtime services, data pipelines over data frames, and the user interfaces. Those parts are processes,
  sockets, files and library calls around little logic that the kernel could check without them.
\<close>

section \<open>Every reachable ledger\<close>

text \<open>
  C1: Shares are conserved. In every ledger the broker's operations can reach from a migrated
  one without business rows, for any accounts and in any order of calls, a lot's remaining quantity plus the
  consumptions recorded against it is the quantity it was bought with; the remaining quantity is a
  non-negative multiple of 100, and every consumption is a positive multiple of 100 of a lot that exists.
\<close>

theorem shares_conserved:
  assumes "fresh_ledger L0" "(broker_step digest)\<^sup>*\<^sup>* L0 L"
  shows "(\<forall>l \<in> set (lg_lots L). 0 \<le> l_remaining_quantity l \<and> 100 dvd l_remaining_quantity l
            \<and> l_remaining_quantity l + sum_list (map c_quantity (filter (\<lambda>c. c_lot_id c = l_lot_id l) (lg_consumptions L)))
              = l_original_quantity l)
    \<and> (\<forall>c \<in> set (lg_consumptions L). 0 < c_quantity c \<and> 100 dvd c_quantity c
         \<and> (\<exists>!l. l \<in> set (lg_lots L) \<and> l_lot_id l = c_lot_id c))"
proof -
  have ok: "lots_ok L" using reachable_ok [OF assms(2,1)] by (simp add: ledger_ok_def)
  then have inj: "inj_on l_lot_id (set (lg_lots L))" by (simp add: lots_ok_def distinct_map)
  have "\<exists>!l. l \<in> set (lg_lots L) \<and> l_lot_id l = c_lot_id c" if c: "c \<in> set (lg_consumptions L)" for c
  proof -
    from ok c obtain l where "l \<in> set (lg_lots L)" "l_lot_id l = c_lot_id c" unfolding lots_ok_def by force
    then show ?thesis by (intro ex1I [of _ l]) (simp_all add: inj_on_eq_iff [OF inj, symmetric])
  qed
  moreover note ok
  ultimately show ?thesis
    by (simp add: lots_ok_def non_negative_lot_def positive_lot_def taken_from_def sum_by_def mod_0_imp_dvd)
qed

theorem shares_conserved_witness:
  "ex_lot 100 \<in> set (lg_lots ex_sold) \<and> ex_consumption \<in> set (lg_consumptions ex_sold)
    \<and> l_remaining_quantity (ex_lot 100)
        + sum_list (map c_quantity (filter (\<lambda>c. c_lot_id c = l_lot_id (ex_lot 100)) (lg_consumptions ex_sold)))
      = l_original_quantity (ex_lot 100) \<and> 100 dvd c_quantity ex_consumption"
  using shares_conserved [OF ex_fresh ex_trace(3)] by simp

text \<open>
  C3: T+1. In every reachable ledger, each share sold came from a lot that had settled: the lot's
  acquisition date is strictly before its available date, which is at most the Shanghai date of the
  sale's execution.
\<close>

theorem no_sale_before_settlement:
  assumes "fresh_ledger L0" "(broker_step digest)\<^sup>*\<^sup>* L0 L" "c \<in> set (lg_consumptions L)"
  shows "\<exists>l \<in> set (lg_lots L). \<exists>f \<in> set (lg_fills L).
    l_lot_id l = c_lot_id c \<and> f_fill_id (fl_fill f) = c_fill_id c
    \<and> l_acquisition_trade_date l < l_available_date l
    \<and> l_available_date l \<le> shanghai_date (f_executed_at (fl_fill f))"
proof -
  have "lots_ok L" "settled L" using reachable_ok [OF assms(2,1)] by (simp_all add: ledger_ok_def)
  with assms(3) show ?thesis unfolding lots_ok_def settled_def by fast
qed

theorem no_sale_before_settlement_witness:
  "l_lot_id (ex_lot 100) = c_lot_id ex_consumption \<and> f_fill_id ex_sell_fill = c_fill_id ex_consumption
    \<and> l_acquisition_trade_date (ex_lot 100) < l_available_date (ex_lot 100)
    \<and> l_available_date (ex_lot 100) \<le> shanghai_date (f_executed_at ex_sell_fill)"
  using no_sale_before_settlement [OF ex_fresh ex_trace(3), of ex_consumption]
  by (simp add: ex_consumption_def ex_sell_fill_def)

text \<open>
  C4: Orders and fills agree. In every reachable ledger each order is filled by exactly the sum of
  its fills, never beyond its quantity; the fills carry the sequence numbers 1, 2, 3, ...; the fill timeline of
  every order is accepted, so that reading it never raises a reconciliation error and returns the next
  sequence number; and every fill of the ledger belongs to exactly one order of the ledger.
\<close>

theorem orders_match_fills:
  assumes "fresh_ledger L0" "(broker_step digest)\<^sup>*\<^sup>* L0 L"
  shows "(\<forall>row \<in> set (lg_orders L).
      let r = or_order row; rows = filter (\<lambda>x. f_order_id (fl_fill x) = o_order_id r) (lg_fills L) in
      sum_list (map (\<lambda>x. f_quantity (fl_fill x)) rows) = o_filled_quantity r \<and> o_filled_quantity r \<le> o_quantity r
      \<and> map (\<lambda>x. f_sequence (fl_fill x)) rows = map int [1..<Suc (length rows)]
      \<and> (\<exists>previous. incremental_fill_timeline L r = Inr (int (length rows) + 1, previous)))
    \<and> (\<forall>f \<in> set (lg_fills L). \<exists>!row. row \<in> set (lg_orders L) \<and> o_order_id (or_order row) = f_order_id (fl_fill f))"
proof -
  have ok: "orders_ok digest (lg_orders L) (lg_fills L)"
    using reachable_ok [OF assms(2,1)] by (simp add: ledger_ok_def)
  have order: "timeline_ok (fill_rows (lg_fills L) (o_order_id (or_order row))) (or_order row)" "order_ok digest (or_order row)"
    if "row \<in> set (lg_orders L)" for row
    using ok that by (simp_all add: orders_ok_def)
  have timeline: "\<exists>previous. incremental_fill_timeline L (or_order row) =
      Inr (int (length (fill_rows (lg_fills L) (o_order_id (or_order row)))) + 1, previous)" if "row \<in> set (lg_orders L)" for row
    using order(1) [OF that] by (rule timeline_value) simp_all
  have owner: "\<exists>!row. row \<in> set (lg_orders L) \<and> o_order_id (or_order row) = f_order_id (fl_fill f)" if "f \<in> set (lg_fills L)" for f
  proof -
    have inj: "inj_on (\<lambda>r. o_order_id (or_order r)) (set (lg_orders L))" using ok by (simp add: orders_ok_def distinct_map)
    have "f_order_id (fl_fill f) \<in> (\<lambda>r. o_order_id (or_order r)) ` set (lg_orders L)" using ok that by (simp add: orders_ok_def)
    then obtain row where row: "f_order_id (fl_fill f) = o_order_id (or_order row)" "row \<in> set (lg_orders L)" by (rule imageE)
    show ?thesis
    proof (rule ex1I [of _ row])
      fix x assume "x \<in> set (lg_orders L) \<and> o_order_id (or_order x) = f_order_id (fl_fill f)"
      with row show "x = row" by (intro inj_onD [OF inj]) simp_all
    qed (use row in simp)
  qed
  show ?thesis
    using order timeline owner by (auto simp: Let_def timeline_ok_def order_ok_def sum_by_def fill_rows_def)
qed

theorem orders_match_fills_witness:
  "(\<exists>previous. incremental_fill_timeline ex_sold ex_buy_order = Inr (2, previous))
    \<and> (\<exists>!row. row \<in> set (lg_orders ex_sold) \<and> o_order_id (or_order row) = f_order_id (fl_fill ex_sell_fill_row))"
proof
  note match = orders_match_fills [OF ex_fresh ex_trace(3)]
  have "ex_buy_order_row \<in> set (lg_orders ex_sold)" "ex_sell_fill_row \<in> set (lg_fills ex_sold)" by simp_all
  note order = bspec [OF conjunct1 [OF match] this(1)] and owner = bspec [OF conjunct2 [OF match] this(2)]
  from order show "\<exists>previous. incremental_fill_timeline ex_sold ex_buy_order = Inr (2, previous)"
    by (simp add: Let_def ex_buy_order_def ex_sell_fill_def)
  show "\<exists>!row. row \<in> set (lg_orders ex_sold) \<and> o_order_id (or_order row) = f_order_id (fl_fill ex_sell_fill_row)" by (rule owner)
qed

text \<open>
  C14: The attested counts are the sizes of the tables. In every reachable ledger the latest
  attestation of the chain states exactly how many accounts, intents, orders, fills, lots,
  consumptions, receipts and account authorities the ledger holds, and the two chains are linked:
  revisions are distinct and every row names the fingerprint of its predecessor.
\<close>

theorem attested_counts_exact:
  assumes "fresh_ledger L0" "(broker_step digest)\<^sup>*\<^sup>* L0 L"
  shows "(\<exists>a \<in> set (lg_attestations L). (\<forall>x \<in> set (lg_attestations L). at_revision x \<le> at_revision a) \<and>
      at_counts a = \<lparr>n_broker_account = int (length (lg_accounts L)), n_intent = int (length (lg_intents L)),
        n_order = int (length (lg_orders L)), n_fill = int (length (lg_fills L)),
        n_lot = int (length (lg_lots L)), n_consumption = int (length (lg_consumptions L)),
        n_receipt = int (length (lg_receipts L)), n_authority = int (length (lg_authorities L))\<rparr>)
    \<and> linked at_revision at_attestation_fingerprint at_previous_attestation_fingerprint (lg_attestations L)
    \<and> linked hd_revision hd_head_marker_fingerprint hd_previous_head_marker_fingerprint (lg_heads L)"
proof -
  have ok: "chain_ok L" "attested_counts L = Some (table_counts L)"
    using reachable_ok [OF assms(2,1)] by (simp_all add: ledger_ok_def)
  then show ?thesis
    by (auto simp: chain_ok_def attested_counts_def table_counts_def dest!: latest_by_SomeD)
qed

theorem attested_counts_exact_witness:
  "\<exists>a. a \<in> set (lg_attestations ex_sold) \<and>
      at_counts a = \<lparr>n_broker_account = 1, n_intent = 2, n_order = 2, n_fill = 2, n_lot = 1, n_consumption = 1,
        n_receipt = 2, n_authority = int (length (lg_authorities ex_sold))\<rparr>"
  using attested_counts_exact [OF ex_fresh ex_trace(3)] by auto

text \<open>
  C12: The ledger is append-only. From any reachable ledger, later operations never change or remove a
  row of the intents, fills, consumptions, receipts, cost specifications, attestations or head markers,
  never change a lot but for its remaining quantity, and keep every order's identity, side, quantity
  and creation time, its filled quantity never decreasing.
\<close>

theorem ledger_append_only:
  assumes "fresh_ledger L0" "(broker_step digest)\<^sup>*\<^sup>* L0 L" "(broker_step digest)\<^sup>*\<^sup>* L L'"
  shows "prefix (lg_intents L) (lg_intents L') \<and> prefix (lg_fills L) (lg_fills L')
    \<and> prefix (lg_consumptions L) (lg_consumptions L') \<and> prefix (lg_receipts L) (lg_receipts L')
    \<and> prefix (lg_cost_specs L) (lg_cost_specs L') \<and> prefix (lg_attestations L) (lg_attestations L')
    \<and> prefix (lg_heads L) (lg_heads L')
    \<and> prefix (map (\<lambda>l. l\<lparr>l_remaining_quantity := 0\<rparr>) (lg_lots L))
         (map (\<lambda>l. l\<lparr>l_remaining_quantity := 0\<rparr>) (lg_lots L'))
    \<and> (\<forall>row \<in> set (lg_orders L). \<exists>row' \<in> set (lg_orders L').
         o_order_id (or_order row') = o_order_id (or_order row) \<and> o_intent_id (or_order row') = o_intent_id (or_order row)
         \<and> o_account_id (or_order row') = o_account_id (or_order row) \<and> o_side (or_order row') = o_side (or_order row)
         \<and> o_quantity (or_order row') = o_quantity (or_order row)
         \<and> o_created_at (or_order row') = o_created_at (or_order row)
         \<and> o_filled_quantity (or_order row) \<le> o_filled_quantity (or_order row'))"
proof -
  have le: "history_le L L'" using assms(3) reachable_ok [OF assms(2,1)] by (rule broker_history.reachable_le)
  have orders: "\<exists>row' \<in> set (lg_orders L').
         o_order_id (or_order row') = o_order_id (or_order row) \<and> o_intent_id (or_order row') = o_intent_id (or_order row)
         \<and> o_account_id (or_order row') = o_account_id (or_order row) \<and> o_side (or_order row') = o_side (or_order row)
         \<and> o_quantity (or_order row') = o_quantity (or_order row)
         \<and> o_created_at (or_order row') = o_created_at (or_order row)
         \<and> o_filled_quantity (or_order row) \<le> o_filled_quantity (or_order row')"
    if "row \<in> set (lg_orders L)" for row
    using history_order [OF le that] by (rule bexE) (rule bexI, auto simp: order_le_def)
  from le show ?thesis unfolding history_le_def by (intro conjI ballI orders) simp_all
qed

theorem ledger_append_only_witness:
  "prefix (lg_intents ex_bought) (lg_intents ex_sold) \<and> prefix (lg_attestations ex_bought) (lg_attestations ex_sold)"
  using ledger_append_only [OF ex_fresh ex_trace(1,2)] by simp

text \<open>
  C13: A final order is final. Once an order of a reachable ledger is filled, cancelled, expired or
  rejected, no sequence of operations changes any column of it: the very same row is in every later ledger.
\<close>

theorem final_orders_frozen:
  assumes "fresh_ledger L0" "(broker_step digest)\<^sup>*\<^sup>* L0 L" "(broker_step digest)\<^sup>*\<^sup>* L L'"
    and "row \<in> set (lg_orders L)" "o_status (or_order row) \<in> {FILLED, CANCELLED, EXPIRED, REJECTED}"
  shows "row \<in> set (lg_orders L')"
proof -
  have le: "history_le L L'" using assms(3) reachable_ok [OF assms(2,1)] by (rule broker_history.reachable_le)
  have "\<not> is_open (o_status (or_order row))" using assms(5) by (auto simp: is_open_def)
  with history_order [OF le assms(4)] obtain row' where "row' \<in> set (lg_orders L')" "or_order row' = or_order row"
    "or_entry_signal_id row' = or_entry_signal_id row" by (auto simp: order_le_def)
  moreover from this have "row' = row" by simp
  ultimately show ?thesis by simp
qed

theorem final_orders_frozen_witness: "o_status ex_buy_order = FILLED \<and> ex_buy_order_row \<in> set (lg_orders ex_sold)"
proof
  show filled: "o_status ex_buy_order = FILLED" by (simp add: ex_buy_order_def)
  show "ex_buy_order_row \<in> set (lg_orders ex_sold)"
    using filled by (intro final_orders_frozen [OF ex_fresh ex_trace(1,2)]) simp_all
qed



section \<open>Exactly once\<close>

text \<open>
  C8: A retry is a read. If \<open>submit_intent\<close> returned an order on a reachable ledger, then the same
  call on any later ledger, whatever operations ran in between and whatever the clock says, returns the
  same order and writes nothing.
\<close>

theorem submit_intent_retry:
  assumes "fresh_ledger L0" "(broker_step digest)\<^sup>*\<^sup>* L0 L" "(broker_step digest)\<^sup>*\<^sup>* L1 L2"
    and "submit_intent digest now b intent supplied t persisted trade_date quote L = Inr (r, L1)"
  shows "submit_intent digest now' b intent supplied t persisted trade_date quote L2 = Inr (r, L2)"
  using assms(4) reachable_ok [OF assms(2,1)] assms(3) by (rule submit_intent_retry_lemma)

theorem submit_intent_retry_witness:
  "submit_intent ex_digest 7 ex_broker ex_buy_intent (Some (ex_sha (CHR ''1''))) ex_buy_time None 10 ex_buy_quote ex_sold
   = Inr (ex_buy_order, ex_sold)"
  by (rule submit_intent_retry [OF ex_fresh ex_opened_trace ex_trace(2) ex_buy])

text \<open>
  C7: An intent is executed once. After \<open>submit_intent\<close> succeeded for an intent, every later
  successful submission under the same intent identity is of that very intent, returns the very same
  order and writes nothing; with other content it can only fail.
\<close>

theorem intent_executed_once:
  assumes "fresh_ledger L0" "(broker_step digest)\<^sup>*\<^sup>* L0 L" "(broker_step digest)\<^sup>*\<^sup>* L1 L2"
    and "submit_intent digest now b intent supplied t persisted trade_date quote L = Inr (r, L1)"
    and "submit_intent digest now' b intent' supplied' t' persisted' trade_date' quote' L2 = Inr (r', L3)"
    and "i_intent_id intent' = i_intent_id intent"
  shows "intent' = intent \<and> r' = r \<and> L3 = L2"
  using assms(4) reachable_ok [OF assms(2,1)] assms(3,5,6) by (rule submit_intent_once)

theorem intent_executed_once_witness:
  "\<exists>r L. submit_intent ex_digest 7 ex_broker ex_buy_intent (Some (ex_sha (CHR ''1''))) ex_buy_time None 10 ex_buy_quote ex_sold
     = Inr (r, L) \<and> r = ex_buy_order \<and> L = ex_sold"
proof -
  have again: "submit_intent ex_digest 7 ex_broker ex_buy_intent (Some (ex_sha (CHR ''1''))) ex_buy_time None 10 ex_buy_quote ex_sold
     = Inr (ex_buy_order, ex_sold)"
    using ex_buy reachable_ok [OF ex_opened_trace ex_fresh] ex_trace(2) by (rule submit_intent_retry_lemma)
  from intent_executed_once [OF ex_fresh ex_opened_trace ex_trace(2) ex_buy again refl] again show ?thesis by blast
qed

text \<open>
  C9: An execution that commits is reported and can be retried. When \<open>apply_execution\<close> commits on a
  reachable ledger, reading its receipt back never fails: the call returns the receipt, which names the
  order; and the same call on any later ledger returns that receipt and writes nothing.
\<close>

theorem execution_retry:
  assumes "fresh_ledger L0" "(broker_step digest)\<^sup>*\<^sup>* L0 L" "(broker_step digest)\<^sup>*\<^sup>* L1 L2"
    and "apply_execution digest now b order_id execution_id t trade_date quantity quote snapshot persisted L
      = Inr (result, L1)"
  shows "\<exists>receipt. result = Inr receipt \<and> o_order_id (r_order receipt) = order_id
    \<and> execution digest b L1 execution_id = Inr (Some receipt)
    \<and> apply_execution digest now' b order_id execution_id t trade_date quantity quote snapshot persisted L2
      = Inr (Inr receipt, L2)"
  using assms(4) reachable_ok [OF assms(2,1)]
proof (cases rule: apply_execution_retry_lemma)
  case (1 receipt)
  have "is_sha256 execution_id" using assms(4) by (rule apply_execution_cases)
  with 1 assms(3) show ?thesis
    by (intro exI [of _ receipt]) (simp add: execution_def check_execution_id_def recorded_receipt_def)
qed

theorem execution_retry_witness:
  "\<exists>receipt. o_order_id (r_order receipt) = ex_sha (CHR ''b'')
     \<and> apply_execution ex_digest 7 ex_broker (ex_sha (CHR ''b'')) (ex_sha (CHR ''1'')) ex_buy_time 10 200 ex_buy_quote
     (ex_sha (CHR ''1'')) None ex_executed = Inr (Inr receipt, ex_executed)"
  using ex_execute execution_retry [OF ex_fresh ex_waiting_trace rtranclp.rtrancl_refl] by blast

text \<open>
  C6: An execution is applied once. After \<open>apply_execution\<close> committed under an execution identity,
  every later successful call under that identity is for the same order, returns the same receipt and
  writes nothing, whatever its other arguments are.
\<close>

theorem execution_applied_once:
  assumes "fresh_ledger L0" "(broker_step digest)\<^sup>*\<^sup>* L0 L" "(broker_step digest)\<^sup>*\<^sup>* L1 L2"
    and "apply_execution digest now b order_id execution_id t trade_date quantity quote snapshot persisted L
      = Inr (result, L1)"
    and "apply_execution digest now' b order_id' execution_id t' trade_date' quantity' quote' snapshot' persisted' L2
      = Inr (result', L3)"
  shows "result' = result \<and> order_id' = order_id \<and> L3 = L2"
  using assms(4) reachable_ok [OF assms(2,1)] assms(3,5) by (rule apply_execution_once)

theorem execution_applied_once_witness:
  "\<exists>result. apply_execution ex_digest 0 ex_broker (ex_sha (CHR ''b'')) (ex_sha (CHR ''1'')) ex_buy_time 10 200 ex_buy_quote
      (ex_sha (CHR ''1'')) None ex_waiting = Inr (result, ex_executed)
    \<and> apply_execution ex_digest 7 ex_broker (ex_sha (CHR ''b'')) (ex_sha (CHR ''1'')) ex_buy_time 10 200 ex_buy_quote
      (ex_sha (CHR ''1'')) None ex_executed = Inr (result, ex_executed)"
proof -
  from ex_execute obtain result where first: "apply_execution ex_digest 0 ex_broker (ex_sha (CHR ''b'')) (ex_sha (CHR ''1''))
      ex_buy_time 10 200 ex_buy_quote (ex_sha (CHR ''1'')) None ex_waiting = Inr (result, ex_executed)" by blast
  from first reachable_ok [OF ex_waiting_trace ex_fresh] obtain receipt where
    again: "apply_execution ex_digest 7 ex_broker (ex_sha (CHR ''b'')) (ex_sha (CHR ''1'')) ex_buy_time 10 200 ex_buy_quote
      (ex_sha (CHR ''1'')) None ex_executed = Inr (Inr receipt, ex_executed)"
    by (rule apply_execution_retry_lemma) blast
  from execution_applied_once [OF ex_fresh ex_waiting_trace rtranclp.rtrancl_refl first again] first again
  show ?thesis by blast
qed

section \<open>Trading\<close>

text \<open>
  C11: Buying never overdraws. No operation that records no sale can make the cash of any account
  negative: opening an account, a buy order, an incremental buy execution, closing an order and
  publishing an account all keep every cash balance non-negative.
\<close>

theorem buys_never_overdraw:
  assumes "fresh_ledger L0" "(broker_step digest)\<^sup>*\<^sup>* L0 L" "broker_step digest L L'"
    and "lg_consumptions L' = lg_consumptions L" "\<forall>a \<in> set (lg_accounts L). 0 \<le> dval (ac_cash a)"
  shows "\<forall>a \<in> set (lg_accounts L'). 0 \<le> dval (ac_cash a)"
  using broker_step_funded [OF assms(3) reachable_ok [OF assms(2,1)] _ assms(4)] assms(5) by (simp add: funded_def)

theorem buys_never_overdraw_witness:
  "lg_accounts ex_bought = [ex_account (Dec False 9799300 (- 2)) dzero] \<and> 0 \<le> dval (Dec False 9799300 (- 2))"
  using buys_never_overdraw [OF ex_fresh ex_opened_trace broker_step.submit [OF ex_buy]] by (simp add: dval_def signed_def)

text \<open>
  C10: Shares are sold first in, first out. When a sale touches an eligible lot, every eligible lot that
  comes before it in the order of the FIFO index is left empty.
\<close>

theorem sells_are_fifo:
  assumes "apply_sell b intent fill trade_date p cash realized L = Inr (d, L')" "lots_ok L"
    and "i_entry_signal_id intent = Some entry" "lots = eligible_lots b L (i_ts_code intent) entry trade_date"
    and "l \<in> set lots" "m \<in> set lots" "fifo_key l < fifo_key m"
    and "l' \<in> set (lg_lots L')" "l_lot_id l' = l_lot_id l"
    and "m' \<in> set (lg_lots L')" "l_lot_id m' = l_lot_id m" "l_remaining_quantity m' < l_remaining_quantity m"
  shows "l_remaining_quantity l' = 0"
  using assms by (rule sell_fifo)

theorem sells_are_fifo_witness:
  "\<exists>d L'. apply_sell ex_broker ex_sell_intent ex_large_fill 11 ex_sell_time dzero dzero ex_two_lots = Inr (d, L')
     \<and> lg_lots L' = [ex_later_lot 100, ex_lot 0] \<and> l_remaining_quantity (ex_lot 0) = 0"
proof -
  obtain d L' where sale: "apply_sell ex_broker ex_sell_intent ex_large_fill 11 ex_sell_time dzero dzero ex_two_lots = Inr (d, L')"
    "lg_lots L' = [ex_later_lot 100, ex_lot 0]" using ex_large_sale by blast
  have "l_remaining_quantity (ex_lot 0) = 0"
    by (rule sells_are_fifo [OF sale(1) ex_two_lots_ok, where entry = "ex_sha (CHR ''e'')"
        and lots = "[ex_lot 200, ex_later_lot 200]" and l = "ex_lot 200" and m = "ex_later_lot 200" and m' = "ex_later_lot 100"])
       (simp_all add: ex_two_eligible sale(2), simp add: fifo_key_def less_prod_def less_eq_prod_def)
  with sale show ?thesis by blast
qed

text \<open>
  C18: Nothing is filled through a closed gate. If submitting an intent on a reachable ledger records a
  fill, the quote was neither suspended nor limit-locked nor refused by risk, the decision came at or
  after the earliest execution time and before the expiry, the quantity is within the intent, and the
  price is no worse than the limit of a limit order.
\<close>

theorem submission_gated:
  assumes "fresh_ledger L0" "(broker_step digest)\<^sup>*\<^sup>* L0 L" "lg_fills L' \<noteq> lg_fills L"
    and "submit_intent digest now b intent supplied t persisted trade_date quote L = Inr (r, L')"
  shows "\<exists>x. lg_fills L' = lg_fills L @ [x] \<and> executable intent quote t (fl_fill x)
    \<and> i_earliest_execution_at intent \<le> t \<and> f_quantity (fl_fill x) \<le> i_quantity intent"
proof -
  have "chain_ok L" using reachable_ok [OF assms(2,1)] by (simp add: ledger_ok_def)
  from assms(4) this assms(3) show ?thesis by (rule submit_intent_executable) blast
qed

theorem submission_gated_witness:
  "\<exists>x. lg_fills ex_bought = lg_fills ex_opened @ [x] \<and> executable ex_buy_intent ex_buy_quote ex_buy_time (fl_fill x)"
  using submission_gated [OF ex_fresh ex_opened_trace _ ex_buy] by auto

text \<open>
  C19: The same for an open order: if \<open>apply_execution\<close> on a reachable ledger records a fill, it is for
  exactly the requested quantity and the quote was executable for the stored intent of that order, before
  its expiry and within its limit price.
\<close>

theorem execution_gated:
  assumes "fresh_ledger L0" "(broker_step digest)\<^sup>*\<^sup>* L0 L" "lg_fills L' \<noteq> lg_fills L"
    and "apply_execution digest now b order_id execution_id t trade_date quantity quote snapshot persisted L
      = Inr (result, L')"
  shows "\<exists>intent x. preflight_intent digest b L order_id = Inr intent \<and> lg_fills L' = lg_fills L @ [x]
    \<and> executable intent quote t (fl_fill x) \<and> f_quantity (fl_fill x) = quantity"
proof -
  have "chain_ok L" using reachable_ok [OF assms(2,1)] by (simp add: ledger_ok_def)
  from assms(4) this assms(3) show ?thesis by (rule apply_execution_executable) blast
qed

theorem execution_gated_witness:
  "\<exists>intent x. preflight_intent ex_digest ex_broker ex_waiting (ex_sha (CHR ''b'')) = Inr intent
    \<and> lg_fills ex_executed = [x] \<and> executable intent ex_buy_quote ex_buy_time (fl_fill x)"
proof -
  have "lg_fills ex_executed = [ex_filled_row]" by (simp add: ex_executed_def ex_executed_tables_def)
  with ex_execute execution_gated [OF ex_fresh ex_waiting_trace, of ex_executed] show ?thesis by fastforce
qed

text \<open>
  C22: Closing an order. \<open>close_open_order\<close> succeeds only on an open order, with status CANCELLED or
  EXPIRED, the latter only at or after the intent's expiry; it changes that order's status and update time
  and no other row of the accounts, intents, orders, fills, lots, consumptions or receipts.
\<close>

theorem close_changes_only_status:
  assumes "fresh_ledger L0" "(broker_step digest)\<^sup>*\<^sup>* L0 L"
    and "close_open_order digest now b order_id status t persisted L = Inr (result, L')"
  shows "\<exists>row intent. find_order b L order_id = Some row \<and> is_open (o_status (or_order row))
    \<and> preflight_intent digest b L order_id = Inr intent
    \<and> (status = CANCELLED \<or> status = EXPIRED \<and> i_expires_at intent \<le> t)
    \<and> lg_orders L' = map (\<lambda>x. if o_order_id (or_order x) = order_id
          then x\<lparr>or_order := (or_order x)\<lparr>o_status := status,
            o_updated_at := max (o_updated_at (or_order row)) (case persisted of None \<Rightarrow> t | Some p \<Rightarrow> p)\<rparr>\<rparr>
          else x) (lg_orders L)
    \<and> lg_accounts L' = lg_accounts L \<and> lg_intents L' = lg_intents L \<and> lg_fills L' = lg_fills L
    \<and> lg_lots L' = lg_lots L \<and> lg_consumptions L' = lg_consumptions L \<and> lg_receipts L' = lg_receipts L"
  using assms(3)
proof (cases rule: close_open_order_cases)
  case (1 p row r i intent previous n L1 e)
  note rr = order_from_row_Inr(1) [OF 1(6)]
  have "chain_ok L1" using reachable_ok [OF assms(2,1)] chain_state_chain_ok [of L1 L]
    by (simp add: ledger_ok_def 1(12) chain_state_writes)
  note fr = append_frame [OF 1(13) this]
  have "preflight_intent digest b L order_id = Inr intent" using 1(5,9,10) rr by (simp add: preflight_intent_def)
  with 1(1,3,5,7,11) show ?thesis
    by (intro exI [of _ row] exI [of _ intent]) (auto simp: fr 1(12) update_order_row_def update_where_def rr)
qed

theorem close_changes_only_status_witness:
  "\<exists>L'. close_open_order ex_digest 0 ex_broker (ex_sha (CHR ''b'')) CANCELLED ex_buy_time None ex_waiting
     = Inr (Inr ex_cancelled_order, L') \<and> lg_accounts L' = lg_accounts ex_waiting \<and> lg_fills L' = []"
proof -
  from ex_cancel obtain L' where c: "close_open_order ex_digest 0 ex_broker (ex_sha (CHR ''b'')) CANCELLED ex_buy_time None ex_waiting
     = Inr (Inr ex_cancelled_order, L')" by blast
  from close_changes_only_status [OF ex_fresh ex_waiting_trace c] c show ?thesis by auto
qed

text \<open>
  C21: The authority to sell. A granted authority states the entry position of the ledger at the decision
  cutoff; the requested quantity is a positive multiple of 100 within it, all of it for an exit and, for a
  reduction, the largest multiple of 100 within the fraction of the position, leaving some shares.
\<close>

theorem sell_authority_bounds:
  assumes "sell_quantity_authority digest b L exit_id entry ts_code action fraction cutoff trade_date = Inr a"
  shows "entry_position_at digest b L entry ts_code cutoff trade_date
      = Inr (a_remaining_quantity a, a_available_quantity a, a_source_lot_fingerprint a)
    \<and> 0 < a_requested_quantity a \<and> a_requested_quantity a mod 100 = 0
    \<and> a_requested_quantity a \<le> a_remaining_quantity a \<and> a_available_quantity a \<le> a_remaining_quantity a
    \<and> (case action of
         S_INTENT \<Rightarrow> a_requested_quantity a = a_remaining_quantity a
       | REDUCE \<Rightarrow> a_requested_quantity a < a_remaining_quantity a
           \<and> of_int (a_requested_quantity a) \<le> dval (dmul (dof_int (a_remaining_quantity a)) fraction)
           \<and> dval (dmul (dof_int (a_remaining_quantity a)) fraction) < of_int (a_requested_quantity a) + 100)"
proof -
  note s = sell_quantity_authority_Inr [OF assms]
  from s(4) obtain x where "make_sell_authority digest None x = Inr a" by blast
  note m = make_sell_authority_Inr [OF this]
  note e = expected_sell_bounds [OF m(6,2)]
  show ?thesis
    using s(1,2) m(4,5) e s(3) by (auto simp: positive_lot_def split: sell_action.splits)
qed

theorem sell_authority_bounds_witness:
  "entry_position_at ex_digest ex_broker ex_bought (ex_sha (CHR ''e'')) ''600000.SH'' ex_sell_time 11
     = Inr (200, 200, ex_sha (CHR ''d'')) \<and> a_requested_quantity ex_authority = 100
   \<and> a_requested_quantity ex_authority < a_remaining_quantity ex_authority"
  using sell_authority_bounds [OF ex_sell_authority] by (simp add: ex_authority_def)

text \<open>
  C20: A sale needs a current authority. When a SELL submission writes anything, the position of its entry
  was recomputed from the ledger at the decision time, the intent's quantity is a positive multiple of 100
  within that position, and it is the quantity its authority granted for exactly that position and time.
\<close>

theorem sell_submission_authorised:
  assumes "submit_intent digest now b intent supplied t persisted trade_date quote L = Inr (r, L')"
    and "i_side intent = SELL" "L' \<noteq> L"
  shows "\<exists>entry authority remaining available fingerprint. i_entry_signal_id intent = Some entry
    \<and> i_sell_quantity_authority intent = Some authority
    \<and> entry_position_at digest b L entry (i_ts_code intent) t trade_date = Inr (remaining, available, fingerprint)
    \<and> 0 < i_quantity intent \<and> i_quantity intent mod 100 = 0 \<and> i_quantity intent \<le> remaining
    \<and> a_requested_quantity authority = i_quantity intent \<and> a_remaining_quantity authority = remaining
    \<and> a_decision_cutoff authority = t"
  using submit_sell_authorised [OF assms]
  by (rule validate_sell_quantity_authority_Inr) (simp add: positive_lot_def)

theorem sell_submission_authorised_witness:
  "\<exists>remaining available fingerprint.
     entry_position_at ex_digest ex_broker ex_bought (ex_sha (CHR ''e'')) ''600000.SH'' ex_sell_time 11
       = Inr (remaining, available, fingerprint) \<and> i_quantity ex_sell_intent \<le> remaining"
proof -
  have "lg_fills ex_sold \<noteq> lg_fills ex_bought" by simp
  then have "ex_sold \<noteq> ex_bought" by metis
  from sell_submission_authorised [OF ex_sell _ this] show ?thesis by auto
qed

section \<open>Views of the account\<close>

text \<open>
  C23: The account snapshot is the ledger. A snapshot reports the account's cash and realized profit, one
  holding for every code the account holds, in order, and each holding's quantity is the sum of the
  remaining quantities of the account's lots of that code, split into what has settled by the snapshot's
  Shanghai date and the rest; no share is left out, and the net asset value is the cash plus the market value.
\<close>

theorem snapshot_reconciles:
  assumes "take_account_snapshot digest b L as_of prices = Inr s"
  shows "account_values b L = Inr (s_cash s, s_realized_pnl s) \<and> 0 \<le> dval (s_cash s)
    \<and> map h_code (s_holdings s) = sort (remdups (map l_ts_code (held_lots b L)))
    \<and> list_all (\<lambda>h. h_quantity h = sum_by l_remaining_quantity (filter (\<lambda>l. l_ts_code l = h_code h) (held_lots b L))
         \<and> h_available_quantity h = sum_by (\<lambda>l. if l_available_date l \<le> shanghai_date as_of then l_remaining_quantity l else 0)
             (filter (\<lambda>l. l_ts_code l = h_code h) (held_lots b L))
         \<and> h_frozen_quantity h = h_quantity h - h_available_quantity h
         \<and> map_of prices (h_code h) = Some (h_market_price h)) (s_holdings s)
    \<and> sum_by h_quantity (s_holdings s) = sum_by l_remaining_quantity (held_lots b L)
    \<and> s_nav s = dadd (s_cash s) (holdings_value (s_holdings s))"
  using assms
proof (cases rule: take_account_snapshot_Inr)
  case (1 cash realized)
  let ?codes = "sort (remdups (map l_ts_code (held_lots b L)))"
  have each: "list_all (\<lambda>h. holding_of_code b L (shanghai_date as_of) prices (h_code h) = Inr h) (s_holdings s)"
    using 1(8) holding_of_code_Inr(1) unfolding list_all2_conv_all_nth list_all_length by force
  have "sum_by h_quantity (s_holdings s) =
      (\<Sum>c \<leftarrow> map h_code (s_holdings s). sum_by l_remaining_quantity (filter (\<lambda>l. l_ts_code l = c) (held_lots b L)))"
    using each unfolding sum_by_def [of h_quantity] map_map comp_def list_all_iff
    by (intro arg_cong [where f = sum_list] map_cong refl) (drule bspec, assumption, erule holding_of_code_Inr(3))
  also have "\<dots> = sum_by l_remaining_quantity (held_lots b L)"
    unfolding 1(7) by (rule sum_by_codes) simp_all
  finally have total: "sum_by h_quantity (s_holdings s) = sum_by l_remaining_quantity (held_lots b L)" .
  have "list_all (\<lambda>h. h_quantity h = sum_by l_remaining_quantity (filter (\<lambda>l. l_ts_code l = h_code h) (held_lots b L))
         \<and> h_available_quantity h = sum_by (\<lambda>l. if l_available_date l \<le> shanghai_date as_of then l_remaining_quantity l else 0)
             (filter (\<lambda>l. l_ts_code l = h_code h) (held_lots b L))
         \<and> h_frozen_quantity h = h_quantity h - h_available_quantity h
         \<and> map_of prices (h_code h) = Some (h_market_price h)) (s_holdings s)"
    using each by (rule list.pred_mono_strong) (blast intro: holding_of_code_Inr)
  with 1 total show ?thesis by simp
qed

theorem snapshot_reconciles_witness:
  "\<exists>s. take_account_snapshot ex_digest ex_broker ex_bought ex_sell_time ex_prices = Inr s
    \<and> sum_by h_quantity (s_holdings s) = 200"
  using ex_snapshot snapshot_reconciles [of ex_digest ex_broker ex_bought ex_sell_time ex_prices]
  by (fastforce simp: held_lots_def)

text \<open>
  C25: Latest prices are point in time. The price reported for a code is that of the last execution of the
  code, by execution time, sequence and fill identity, among the account's fills both executed and persisted
  at or before the given time; a code is left out exactly when the account has no such fill of it.
\<close>

theorem latest_prices_point_in_time:
  assumes "latest_execution_prices digest b L as_of = Inr prices"
  shows "case map_of prices code of
      None \<Rightarrow> \<forall>x \<in> set (account_fills b L). \<not> price_visible as_of code x
    | Some p \<Rightarrow> \<exists>x \<in> set (account_fills b L). price_visible as_of code x \<and> p = f_price (fl_fill (fst x))
        \<and> (\<forall>y \<in> set (account_fills b L). price_visible as_of code y \<longrightarrow> execution_key y \<le> execution_key x)"
  using assms by (rule latest_execution_prices_Inr)

theorem latest_prices_point_in_time_witness:
  "\<exists>x. x \<in> set (account_fills ex_broker ex_sold) \<and> price_visible ex_sell_time ''600000.SH'' x
     \<and> f_price (fl_fill (fst x)) = Dec False 1049 (- 2)"
proof -
  obtain x where "x \<in> set (account_fills ex_broker ex_sold)" "price_visible ex_sell_time ''600000.SH'' x"
    "Dec False 1049 (- 2) = f_price (fl_fill (fst x))"
    using latest_prices_point_in_time [OF ex_latest_prices, of "''600000.SH''"] by (auto simp del: split_paired_Ex)
  then show ?thesis by (intro exI [of _ x]) simp
qed

text \<open>
  C26: Published revisions advance by one. After publishing, the account's row in the ledger that is returned
  loads back as exactly the returned authority, and the rows of other accounts are as before. The authority carries the given commit and the fingerprint of the account's snapshot.
  Either nothing was written, since the stored authority already said so, or the snapshot itself is stored under the
  revision after the stored one, starting at 1.
\<close>

theorem authority_revision_advances:
  assumes "account_authority_snapshot digest now b as_of prices commit view L = Inr (state, L')"
  shows "(\<exists>row. select_one (\<lambda>r. au_account_id r = b_account_id b) (lg_authorities L') = Some row
        \<and> load_account_authority digest row = Inr state)
    \<and> filter (\<lambda>r. au_account_id r \<noteq> b_account_id b) (lg_authorities L') = filter (\<lambda>r. au_account_id r \<noteq> b_account_id b) (lg_authorities L)
    \<and> aa_producer_commit state = commit
    \<and> (\<exists>candidate. take_account_snapshot digest b view as_of prices = Inr candidate
         \<and> aa_state_fingerprint state = account_state_fingerprint digest candidate
         \<and> (L' = L \<or> aa_snapshot state = candidate
              \<and> aa_revision state = (case select_one (\<lambda>r. au_account_id r = b_account_id b) (lg_authorities L) of
                  None \<Rightarrow> 1 | Some row \<Rightarrow> au_revision row + 1)))"
proof -
  obtain row where "select_one (\<lambda>r. au_account_id r = b_account_id b) (lg_authorities L') = Some row"
    "load_account_authority digest row = Inr state"
    "filter (\<lambda>r. au_account_id r \<noteq> b_account_id b) (lg_authorities L') = filter (\<lambda>r. au_account_id r \<noteq> b_account_id b) (lg_authorities L)"
    using assms by (rule account_authority_stored)
  moreover from assms have "aa_producer_commit state = commit
    \<and> (\<exists>candidate. take_account_snapshot digest b view as_of prices = Inr candidate
         \<and> aa_state_fingerprint state = account_state_fingerprint digest candidate
         \<and> (L' = L \<or> aa_snapshot state = candidate
              \<and> aa_revision state = (case select_one (\<lambda>r. au_account_id r = b_account_id b) (lg_authorities L) of
                  None \<Rightarrow> 1 | Some row \<Rightarrow> au_revision row + 1)))"
  proof (cases rule: account_authority_snapshot_cases)
    case (published candidate L1 d)
    with make_account_authority_Inr [OF published(8)] show ?thesis by blast
  qed blast
  ultimately show ?thesis by blast
qed

theorem authority_revision_advances_witness:
  "\<exists>state L' row. account_authority_snapshot ex_digest 0 ex_broker ex_sell_time ex_prices (replicate 40 (CHR ''a'')) ex_bought ex_bought
     = Inr (state, L') \<and> aa_revision state = 1
     \<and> select_one (\<lambda>r. au_account_id r = ''paper'') (lg_authorities L') = Some row
     \<and> load_account_authority ex_digest row = Inr state"
proof -
  from ex_publish obtain state L' where p: "account_authority_snapshot ex_digest 0 ex_broker ex_sell_time ex_prices
      (replicate 40 (CHR ''a'')) ex_bought ex_bought = Inr (state, L')" "aa_revision state = 1" by blast
  have "b_account_id ex_broker = ''paper''" by simp
  with authority_revision_advances [OF p(1)] p show ?thesis by metis
qed

section \<open>The attestation chain\<close>

text \<open>
  Every attestation of a reachable ledger is sealed. If the rows of the ledger a run starts from carry the
  payload and fingerprint of their own columns, so do all rows of every reachable ledger, and the chain is linked.
\<close>

theorem reachable_rows_sealed:
  assumes "fresh_ledger L0" "sealed_rows digest L0" "(broker_step digest)\<^sup>*\<^sup>* L0 L"
  shows "sealed_rows digest L \<and> chain_ok L"
  using broker_sealed.reachable_inv [OF assms(3)] fresh_ledger_ok [OF assms(1)] assms(2) by (simp add: ledger_ok_def)

theorem reachable_rows_sealed_witness: "sealed_rows ex_digest ex_sold \<and> chain_ok ex_sold"
  by (rule reachable_rows_sealed [OF ex_fresh ex_sealed ex_trace(3)])

text \<open>
  C15: The chain is tamper evident. Take two ledgers with sealed, linked chains, and a digest without
  collisions among their attestations. If an attestation of one has the fingerprint of an attestation of
  the other, then everything the first ledger attested up to there, the other attested too: at every earlier
  revision the same event, the same event fingerprint and the same counts.
\<close>

theorem attestation_history_bound:
  assumes "sealed_rows digest L" "chain_ok L" "sealed_rows digest L'" "chain_ok L'"
    and "\<forall>x \<in> set (lg_attestations L). \<forall>y \<in> set (lg_attestations L').
      digest (canonical_value (attestation_payload x)) = digest (canonical_value (attestation_payload y)) \<longrightarrow>
      canonical_value (attestation_payload x) = canonical_value (attestation_payload y)"
    and "a \<in> set (lg_attestations L)" "a' \<in> set (lg_attestations L')"
    and "at_attestation_fingerprint a = at_attestation_fingerprint a'"
    and "z \<in> set (lg_attestations L)" "at_revision z \<le> at_revision a"
  shows "\<exists>w \<in> set (lg_attestations L'). at_revision w = at_revision z \<and> at_event_kind w = at_event_kind z
    \<and> at_event_fingerprint w = at_event_fingerprint z \<and> at_counts w = at_counts z"
proof -
  from assms(1,3) have rows: "\<forall>a \<in> set (lg_attestations L) \<union> set (lg_attestations L'). validate_attestation_row digest a = Inr ()"
    by (auto simp: sealed_rows_def)
  obtain w where "w \<in> set (lg_attestations L')" "canonical_value (attestation_payload w) = canonical_value (attestation_payload z)"
    using assms(2,4) by (rule_tac attestation_history [OF rows _ _ assms(5-10)]) (auto simp: chain_ok_def)
  with attestation_payload_inject [of w z] show ?thesis by blast
qed

theorem attestation_history_bound_witness:
  "\<exists>w. w \<in> set (lg_attestations ex_sold) \<and> at_revision w = 1 \<and> at_event_kind w = ''migration_audit''"
proof -
  have z: "seal_attestation ex_digest ex_genesis \<in> set (lg_attestations ex_bought)"
    using set_mono_prefix [OF ex_prefix(1)] by (auto simp: ex_ledger_def)
  have sub: "set (lg_attestations ex_bought) \<subseteq> set (lg_attestations ex_sold)" using ex_prefix(2) by (rule set_mono_prefix)
  have "\<exists>w \<in> set (lg_attestations ex_sold). at_revision w = at_revision (seal_attestation ex_digest ex_genesis)
    \<and> at_event_kind w = at_event_kind (seal_attestation ex_digest ex_genesis)
    \<and> at_event_fingerprint w = at_event_fingerprint (seal_attestation ex_digest ex_genesis)
    \<and> at_counts w = at_counts (seal_attestation ex_digest ex_genesis)"
    by (rule attestation_history_bound [OF ex_sealed_trace(1,2,3,4) _ z _ refl z])
       (use sub z ex_no_collision in auto)
  then show ?thesis by (auto simp: ex_genesis_def)
qed

text \<open>
  C16: The chain can always be extended. On a reachable ledger whose integrity verifies, appending an
  attestation with non-negative counts succeeds and adds one row to each chain, unless one of the two new
  fingerprints is already in use.
\<close>

theorem append_never_stuck:
  assumes "fresh_ledger L0" "(broker_step digest)\<^sup>*\<^sup>* L0 L" "require_schema_integrity digest L = Inr ()" "counts_nonneg d"
  shows "\<exists>m l lm. attestation_head digest L = Inr (m, l) \<and> latest_by hd_revision (lg_heads L) = Some lm \<and>
    (let a = seal_attestation digest (next_attestation now kind event d m l);
         h = seal_head digest (marker_for a (Some (hd_head_marker_fingerprint lm))) in
     append_ledger_attestation digest now kind event d L
       = Inr (L\<lparr>lg_attestations := lg_attestations L @ [a], lg_heads := lg_heads L @ [h]\<rparr>)
     \<or> list_ex (\<lambda>x. at_attestation_fingerprint x = at_attestation_fingerprint a) (lg_attestations L)
     \<or> list_ex (\<lambda>x. hd_attestation_fingerprint x = at_attestation_fingerprint a
         \<or> hd_head_marker_fingerprint x = hd_head_marker_fingerprint h) (lg_heads L))"
proof -
  from assms(3) obtain m l where head: "attestation_head digest L = Inr (m, l)" by (rule require_schema_integrityD)
  obtain lm where lm: "latest_by hd_revision (lg_heads L) = Some lm"
    using attestation_headD(9) [OF head] by (rule validate_canonical_headD)
  have ok: "chain_ok L" "attested_counts L = Some (table_counts L)"
    using reachable_ok [OF assms(2,1)] by (simp_all add: ledger_ok_def)
  then have "at_counts l = table_counts L" using attestation_headD(2) [OF head] by (simp add: attested_counts_def)
  then have "counts_nonneg (at_counts l)" by (simp add: counts_nonneg_def counts_le_def table_counts_def no_counts_def)
  note app = append_succeeds [OF head ok(1) assms(4) this lm refl refl, of now kind event]
  show ?thesis
    unfolding Let_def list_ex_iff
    by (intro exI [of _ m] exI [of _ l] exI [of _ lm] conjI head lm) (use app in blast)
qed

theorem append_never_stuck_witness:
  "(\<exists>m l lm. attestation_head ex_digest ex_sold = Inr (m, l) \<and> latest_by hd_revision (lg_heads ex_sold) = Some lm)
    \<and> append_ledger_attestation ex_digest 0 ''order_close'' [] no_counts ex_sold = Inr (ex_append 0 ''order_close'' [] no_counts ex_sold)"
proof
  have counts: "counts_nonneg no_counts" by (simp add: counts_nonneg_def counts_le_def no_counts_def)
  have "require_schema_integrity ex_digest ex_sold = Inr ()" using ex_sold_chain by (simp add: ex_chain_def)
  from append_never_stuck [OF ex_fresh ex_trace(3) this counts]
  show "\<exists>m l lm. attestation_head ex_digest ex_sold = Inr (m, l) \<and> latest_by hd_revision (lg_heads ex_sold) = Some lm" by blast
  show "append_ledger_attestation ex_digest 0 ''order_close'' [] no_counts ex_sold = Inr (ex_append 0 ''order_close'' [] no_counts ex_sold)"
    by (rule ex_append_works(1) [OF ex_sold_chain _ counts]) simp
qed

section \<open>The position book\<close>

text \<open>
  C5: Applying a fill implements the abstract book. Whatever lots a fill writes or consumes, the position
  that the ledger's lots give for every account and code after it is the position before it with the
  fill's quantity added for a buy, taken away for a sale, and nothing else changed.
\<close>

theorem fill_refines_book:
  assumes "apply_fill b intent fill trade_date available_date p L = Inr ((ld, cd), L')"
    and "distinct (map l_lot_id (lg_lots L))"
  shows "position L' = book_trade (i_side intent) (b_account_id b) (i_ts_code intent) (f_quantity fill) (position L)"
  using assms by (rule apply_fill_position)

theorem fill_refines_book_witness:
  "\<exists>L'. apply_fill ex_broker ex_buy_intent ex_buy_fill 10 (Some 11) ex_buy_time (ex_opened\<lparr>lg_orders := [ex_buy_order_row]\<rparr>)
       = Inr ((1, 0), L')
     \<and> position L' = book_trade BUY ''paper'' ''600000.SH'' 200 (position ex_opened) \<and> position L' ''paper'' ''600000.SH'' = 200"
proof -
  let ?L = "ex_opened\<lparr>lg_orders := [ex_buy_order_row]\<rparr>"
  obtain L' where fill: "apply_fill ex_broker ex_buy_intent ex_buy_fill 10 (Some 11) ex_buy_time ?L = Inr ((1, 0), L')"
    using ex_buy_applied [of ?L] by (simp add: ex_buy_order_def)
  have "position L' = book_trade BUY ''paper'' ''600000.SH'' 200 (position ?L)"
    using fill_refines_book [OF fill] by simp
  moreover have "position ?L = position ex_opened" "position ex_opened ''paper'' ''600000.SH'' = 0"
    by (simp_all add: position_def)
  ultimately show ?thesis using fill by (intro exI [of _ L']) (simp add: book_trade_def)
qed

text \<open>
  C2: Holdings are net trades. In every reachable ledger the position of each account in each code, as the
  lots give it, is what the recorded fills bought less what they sold, and it is never negative: the broker
  cannot sell short.
\<close>

theorem holdings_are_net_trades:
  assumes "fresh_ledger L0" "(broker_step digest)\<^sup>*\<^sup>* L0 L"
  shows "position L = traded L \<and> 0 \<le> position L account code"
proof -
  have "ledger_ok digest L \<and> book_ok L"
    using broker_book.reachable_inv [OF assms(2)] fresh_ledger_ok [OF assms(1)] fresh_book_ok [OF assms(1)] by simp
  then have "position L = traded L" and ok: "lots_ok L" by (simp_all add: book_ok_def ledger_ok_def)
  moreover have "0 \<le> position L account code"
    unfolding position_def sum_by_def
    by (rule sum_list_nonneg) (use ok in \<open>auto simp: lots_ok_def non_negative_lot_def\<close>)
  ultimately show ?thesis by blast
qed

theorem holdings_are_net_trades_witness:
  "traded ex_sold ''paper'' ''600000.SH'' = 100"
proof -
  have "position ex_sold ''paper'' ''600000.SH'' = 100" by (simp add: position_def)
  with holdings_are_net_trades [OF ex_fresh ex_trace(3), of "''paper''" "''600000.SH''"] show ?thesis by simp
qed

text \<open>
  A snapshot reports net trades: in every reachable ledger the quantity an account snapshot shows for
  a code is what the account's recorded fills of that code bought less what they sold, and a code the
  snapshot leaves out has a net traded quantity of zero.
\<close>

theorem snapshot_shows_net_trades:
  assumes "fresh_ledger L0" "(broker_step digest)\<^sup>*\<^sup>* L0 L"
    and "take_account_snapshot digest b L as_of prices = Inr s"
  shows "traded L (b_account_id b) code =
    (case map_of (map (\<lambda>h. (h_code h, h_quantity h)) (s_holdings s)) code of None \<Rightarrow> 0 | Some n \<Rightarrow> n)"
proof -
  have ok: "ledger_ok digest L \<and> book_ok L"
    using broker_book.reachable_inv [OF assms(2)] fresh_ledger_ok [OF assms(1)] fresh_book_ok [OF assms(1)] by simp
  then have "lots_ok L" and eq: "traded L = position L" by (simp_all add: book_ok_def ledger_ok_def)
  from position_held [OF this(1)] have "traded L (b_account_id b) code = held_quantity b L code" by (simp add: eq)
  also have "\<dots> = (case map_of (map (\<lambda>h. (h_code h, h_quantity h)) (s_holdings s)) code of None \<Rightarrow> 0 | Some n \<Rightarrow> n)"
    using snapshot_quantities [OF assms(3)] by simp
  finally show ?thesis .
qed

text \<open>
  C24: The audit confirms what the operations wrote. In every reachable ledger the audit of an account visits
  all its orders, and it has nothing to report on their agreement with the stored intents, on the quantities,
  sequences and times of their fills, on their states, on the lot written by each purchase (quantity, origin
  and times), on the lots each sale consumed (quantity, origin and time), and on what remains of every lot.
\<close>

theorem audit_confirms_trades:
  assumes "fresh_ledger L0" "(broker_step digest)\<^sup>*\<^sup>* L0 L"
  shows "(\<forall>r \<in> set (lg_orders L). o_account_id (or_order r) = b_account_id b \<longrightarrow> (\<exists>i. (r, i) \<in> set (audit_orders b L)))
    \<and> (\<forall>(r, i) \<in> set (audit_orders b L). let rows = rows_of_order (audit_fills b L) (o_order_id (or_order r)) in
         (\<exists>x. ir_payload_json i = Some x \<and> intent_errors (or_order r) i x = [])
         \<and> fill_quantity_errors (or_order r) rows = [] \<and> fill_time_errors (or_order r) None rows = []
         \<and> status_errors (or_order r) (sum_by (\<lambda>x. f_quantity (fl_fill x)) rows) = [])
    \<and> (\<forall>(f, r, i) \<in> set (audit_fills b L). \<exists>x. ir_payload_json i = Some x \<and>
         (if o_side (or_order r) = BUY then buy_lot_errors L x (fl_fill f) (fl_persisted_at f) = []
          else allocation_errors L (fl_fill f) = [] \<and> consumption_errors L x (fl_fill f) (fl_persisted_at f) = []))
    \<and> lot_errors b L = []"
proof -
  have ok: "ledger_ok digest L" "book_ok L" "audit_ok L"
    using broker_audit.reachable_inv [OF assms(2)] fresh_ledger_ok [OF assms(1)] fresh_book_ok [OF assms(1)]
      fresh_audit_ok [OF assms(1)] by simp_all
  then have lots: "lots_ok L" by (simp add: ledger_ok_def)
  have order: "let rows = rows_of_order (audit_fills b L) (o_order_id (or_order r)) in
         (\<exists>x. ir_payload_json i = Some x \<and> intent_errors (or_order r) i x = [])
         \<and> fill_quantity_errors (or_order r) rows = [] \<and> fill_time_errors (or_order r) None rows = []
         \<and> status_errors (or_order r) (sum_by (\<lambda>x. f_quantity (fl_fill x)) rows) = []"
    if "(r, i) \<in> set (audit_orders b L)" for r i
    using audited_order [OF ok(3) that] order_rows_no_errors [OF ok(1,2) that refl] by (simp add: Let_def)
  show ?thesis
    by (intro conjI lots_no_errors [OF lots]) (use audit_covers_orders [OF ok(2)] order audited_fill [OF lots ok(3)] in fast)+
qed

theorem audit_confirms_trades_witness:
  "(ex_sell_fill_row, ex_sell_order_row, ex_sell_intent_row) \<in> set (audit_fills ex_broker ex_sold)
    \<and> buy_lot_errors ex_sold ex_buy_intent (fl_fill ex_buy_fill_row) (fl_persisted_at ex_buy_fill_row) = []
    \<and> allocation_errors ex_sold (fl_fill ex_sell_fill_row) = []
    \<and> consumption_errors ex_sold ex_sell_intent (fl_fill ex_sell_fill_row) (fl_persisted_at ex_sell_fill_row) = []
    \<and> lot_errors ex_broker ex_sold = []"
proof -
  have rows: "(ex_buy_fill_row, ex_buy_order_row, ex_buy_intent_row) \<in> set (audit_fills ex_broker ex_sold)"
    "(ex_sell_fill_row, ex_sell_order_row, ex_sell_intent_row) \<in> set (audit_fills ex_broker ex_sold)"
    by (simp_all add: set_audit_fills set_audit_orders ex_buy_intent_row_def ex_sell_intent_row_def ex_buy_order_def
        ex_sell_order_def ex_sell_fill_def)
  have "ir_payload_json ex_buy_intent_row = Some ex_buy_intent" "ir_payload_json ex_sell_intent_row = Some ex_sell_intent"
    "o_side (or_order ex_buy_order_row) = BUY" "o_side (or_order ex_sell_order_row) = SELL"
    by (simp_all add: ex_buy_intent_row_def ex_sell_intent_row_def ex_buy_order_def ex_sell_order_def)
  with rows audit_confirms_trades [OF ex_fresh ex_trace(3), of ex_broker] show ?thesis by fastforce
qed

section \<open>Canonical encodings\<close>

text \<open>
  C31: Equal values are encoded equally. Two decimals that Python compares equal, such as 1.50 and 1.5 or 0
  and -0.00, have one canonical encoding when both fit the 28 digits of the context, and so do two
  dictionaries with the same items in a different order: a fingerprint depends on neither.
\<close>

theorem equal_values_encode_equally:
  assumes "fits x" "fits y" "deq x y"
    and "set items = set items'" "distinct (map fst items)" "distinct (map fst items')"
  shows "canonical_sha256 digest (PDict ((key, PDecimal x) # items)) =
         canonical_sha256 digest (PDict ((key, PDecimal y) # items))
    \<and> canonical_sha256 digest (PDict items) = canonical_sha256 digest (PDict items')"
  using canonical_decimal_cong [OF assms(1-3)] canonical_value_dict_order [OF assms(4-6)]
  by (simp add: canonical_sha256_def)

theorem equal_values_encode_equally_witness:
  "canonical_sha256 ex_digest (PDict [(''price'', PDecimal (Dec False 150 (- 2))), (''a'', PInt 1), (''b'', PInt 2)]) =
   canonical_sha256 ex_digest (PDict [(''price'', PDecimal (Dec False 15 (- 1))), (''a'', PInt 1), (''b'', PInt 2)])"
  using equal_values_encode_equally [of "Dec False 150 (- 2)" "Dec False 15 (- 1)"
      "[(''a'', PInt 1), (''b'', PInt 2)]" "[(''b'', PInt 2), (''a'', PInt 1)]" ex_digest "''price''"]
  by (simp add: fits_def dec_eval insert_commute)

text \<open>
  Validation is a normal form. A cost specification that validation accepts is returned in a form that
  validation accepts again and leaves as it is, its fingerprint included.
\<close>

theorem cost_spec_validation_idempotent:
  assumes "\<And>j. is_sha256 (digest j)" "validate_cost_spec digest raw = Inr spec"
  shows "validate_cost_spec digest spec = Inr spec"
  using assms by (rule validate_cost_spec_idem)

theorem cost_spec_validation_idempotent_witness:
  "validate_cost_spec ex_digest ex_spec = Inr ex_spec"
  using cost_spec_validation_idempotent [of ex_digest, OF ex_digest_sha256 ex_spec_valid] .

end
